(* ===== verification/Go_Prelude.thy ===== *)
theory Go_Prelude
  imports Main "HOL-Library.Sublist"
begin

text \<open>
  Shared vocabulary of the development: the outcome of a Go call (a value, a returned error or a
  panic), actions that thread the state of the world through calls, the two loop shapes the code
  uses (visit every element and stop at the first error; visit every element, append what it
  yields and stop at the first error), bounded channels, and the string functions of the Go
  standard library that the sources call.
\<close>

section \<open>Outcomes of calls\<close>

datatype ('e, 'a) result = Ok 'a | Err 'e | Panic string

text \<open>An action reads and changes a world of type \<open>'w\<close> and ends in a result.\<close>

type_synonym ('w, 'e, 'a) act = "'w \<Rightarrow> ('e, 'a) result \<times> 'w"

definition areturn :: "'a \<Rightarrow> ('w, 'e, 'a) act" where
  "areturn a w = (Ok a, w)"

definition afail :: "'e \<Rightarrow> ('w, 'e, 'a) act" where
  "afail e w = (Err e, w)"

definition apanic :: "string \<Rightarrow> ('w, 'e, 'a) act" where
  "apanic p w = (Panic p, w)"

text \<open>Go's \<open>if err != nil { return err }\<close>: errors and panics skip what follows.\<close>

definition abind :: "('w, 'e, 'a) act \<Rightarrow> ('a \<Rightarrow> ('w, 'e, 'b) act) \<Rightarrow> ('w, 'e, 'b) act" where
  "abind m f w = (case m w of
     (Ok a, w') \<Rightarrow> f a w'
   | (Err e, w') \<Rightarrow> (Err e, w')
   | (Panic p, w') \<Rightarrow> (Panic p, w'))"

text \<open>A call whose error is translated before it is returned.\<close>

definition amap_err :: "('e \<Rightarrow> 'f) \<Rightarrow> ('w, 'e, 'a) act \<Rightarrow> ('w, 'f, 'a) act" where
  "amap_err g m w = (case m w of
     (Ok a, w') \<Rightarrow> (Ok a, w')
   | (Err e, w') \<Rightarrow> (Err (g e), w')
   | (Panic p, w') \<Rightarrow> (Panic p, w'))"

text \<open>\<open>if err != nil { log.Error(err, ...); return }\<close>: the error is logged and the caller sees none.\<close>

definition alogged :: "('w, 'e, unit) act \<Rightarrow> ('w, 'f, unit) act" where
  "alogged m w = (case m w of
     (Ok a, w') \<Rightarrow> (Ok a, w')
   | (Err e, w') \<Rightarrow> (Ok (), w')
   | (Panic p, w') \<Rightarrow> (Panic p, w'))"

text \<open>An action on the first part of a state, run beside a second part that it does not touch.\<close>

definition on_fst :: "('w, 'e, 'a) act \<Rightarrow> ('w \<times> 's, 'e, 'a) act" where
  "on_fst m ws = (case m (fst ws) of (r, w') \<Rightarrow> (r, (w', snd ws)))"

text \<open>An action on the second part alone.\<close>

definition on_snd :: "('s, 'e, 'a) act \<Rightarrow> ('w \<times> 's, 'e, 'a) act" where
  "on_snd m ws = (case m (snd ws) of (r, s') \<Rightarrow> (r, (fst ws, s')))"

section \<open>Loops over slices\<close>

text \<open>\<open>for _, x := range xs { if err := f(x); err != nil { return err } }\<close>\<close>

fun for_each :: "('x \<Rightarrow> ('w, 'e, unit) act) \<Rightarrow> 'x list \<Rightarrow> ('w, 'e, unit) act" where
  "for_each f [] = areturn ()"
| "for_each f (x # xs) = abind (f x) (\<lambda>_. for_each f xs)"

text \<open>
  \<open>for _, x := range xs { ys, err := f(x); if err != nil { return err }; acc = append(acc, ys...) }\<close>
\<close>

fun for_append :: "('x \<Rightarrow> ('w, 'e, 'y list) act) \<Rightarrow> 'x list \<Rightarrow> 'y list \<Rightarrow> ('w, 'e, 'y list) act" where
  "for_append f [] acc = areturn acc"
| "for_append f (x # xs) acc = abind (f x) (\<lambda>ys. for_append f xs (acc @ ys))"

section \<open>Bounded channels\<close>

text \<open>
  A buffered Go channel of capacity \<open>cap\<close> holds its queued values in order.  A send on a full
  channel blocks, here the value \<open>None\<close>; a send under \<open>select\<close> with a \<open>default\<close> branch gives up
  instead and leaves the channel as it is.
\<close>

definition chan_send :: "nat \<Rightarrow> 'm list \<Rightarrow> 'm \<Rightarrow> 'm list option" where
  "chan_send cap q m = (if length q < cap then Some (q @ [m]) else None)"

definition chan_try_send :: "nat \<Rightarrow> 'm list \<Rightarrow> 'm \<Rightarrow> 'm list" where
  "chan_try_send cap q m = (case chan_send cap q m of Some q' \<Rightarrow> q' | None \<Rightarrow> q)"

definition chan_recv :: "'m list \<Rightarrow> ('m \<times> 'm list) option" where
  "chan_recv q = (case q of [] \<Rightarrow> None | m # q' \<Rightarrow> Some (m, q'))"

section \<open>Strings\<close>

text \<open>
  Go strings are byte sequences, here \<open>string\<close>.  \<open>strings.ToLower\<close> maps the letters of an
  all-ASCII string; on other strings it applies the Unicode tables of the Go runtime, which are
  the parameter \<open>ul\<close>.
\<close>

definition is_ascii :: "char \<Rightarrow> bool" where
  "is_ascii c \<longleftrightarrow> of_char c < (128::nat)"

definition ascii_lower :: "char \<Rightarrow> char" where
  "ascii_lower c = (let n = (of_char c :: nat) in if 65 \<le> n \<and> n \<le> 90 then char_of (n + 32) else c)"

definition to_lower :: "(string \<Rightarrow> string) \<Rightarrow> string \<Rightarrow> string" where
  "to_lower ul s = (if list_all is_ascii s then map ascii_lower s else ul s)"

text \<open>\<open>strings.HasSuffix(s, t)\<close>\<close>

definition has_suffix :: "string \<Rightarrow> string \<Rightarrow> bool" where
  "has_suffix s t \<longleftrightarrow> length t \<le> length s \<and> drop (length s - length t) s = t"

section \<open>Facts about actions and loops\<close>

lemma areturn_apply [simp]: "areturn a w = (Ok a, w)"
  by (simp add: areturn_def)

lemma afail_apply [simp]: "afail e w = (Err e, w)"
  by (simp add: afail_def)

lemma apanic_apply [simp]: "apanic p w = (Panic p, w)"
  by (simp add: apanic_def)

lemma abind_Ok [simp]: "m w = (Ok a, w') \<Longrightarrow> abind m f w = f a w'"
  by (simp add: abind_def)

lemma abind_Err [simp]: "m w = (Err e, w') \<Longrightarrow> abind m f w = (Err e, w')"
  by (simp add: abind_def)

lemma abind_Panic [simp]: "m w = (Panic p, w') \<Longrightarrow> abind m f w = (Panic p, w')"
  by (simp add: abind_def)

lemma abind_eq_Ok_iff:
  "abind m f w = (Ok b, w2) \<longleftrightarrow> (\<exists>a w1. m w = (Ok a, w1) \<and> f a w1 = (Ok b, w2))"
  by (auto simp: abind_def split: prod.splits result.splits)

lemma abind_eq_Err_iff:
  "abind m f w = (Err e, w2) \<longleftrightarrow>
     m w = (Err e, w2) \<or> (\<exists>a w1. m w = (Ok a, w1) \<and> f a w1 = (Err e, w2))"
  by (auto simp: abind_def split: prod.splits result.splits)

lemma abind_areturn [simp]: "abind (areturn a) f = f a"
  by (rule ext) (simp add: abind_def)

lemma abind_assoc: "abind (abind m f) g = abind m (\<lambda>a. abind (f a) g)"
  by (rule ext) (auto simp: abind_def split: prod.splits result.splits)

lemma amap_err_eq_Ok_iff [simp]: "amap_err g m w = (Ok a, w') \<longleftrightarrow> m w = (Ok a, w')"
  by (auto simp: amap_err_def split: prod.splits result.splits)

lemma amap_err_eq_Err_iff:
  "amap_err g m w = (Err f, w') \<longleftrightarrow> (\<exists>e. m w = (Err e, w') \<and> f = g e)"
  by (auto simp: amap_err_def split: prod.splits result.splits)

lemmas act_elims = abind_eq_Ok_iff abind_eq_Err_iff amap_err_eq_Err_iff

lemma on_fst_eq_Ok [simp]:
  "on_fst m ws = (Ok a, ws') \<longleftrightarrow> (\<exists>w'. m (fst ws) = (Ok a, w') \<and> ws' = (w', snd ws))"
  by (auto simp: on_fst_def split: prod.splits)

lemma on_fst_eq_Err [simp]:
  "on_fst m ws = (Err e, ws') \<longleftrightarrow> (\<exists>w'. m (fst ws) = (Err e, w') \<and> ws' = (w', snd ws))"
  by (auto simp: on_fst_def split: prod.splits)

lemma on_snd_apply [simp]:
  "on_snd m (w, s) = (case m s of (r, s') \<Rightarrow> (r, (w, s')))"
  by (simp add: on_snd_def)

lemma for_each_append: "for_each f (xs @ ys) = abind (for_each f xs) (\<lambda>_. for_each f ys)"
  by (induction xs) (simp_all add: abind_assoc)

text \<open>What every iteration keeps, the loop keeps, wherever it stops.\<close>

lemma for_each_inv:
  assumes "\<And>x w. x \<in> set xs \<Longrightarrow> Q w \<Longrightarrow> Q (snd (f x w))" and "Q w"
  shows "Q (snd (for_each f xs w))"
  using assms
proof (induction xs arbitrary: w)
  case (Cons x xs)
  obtain r w1 where step: "f x w = (r, w1)" by fastforce
  then have "Q w1" using Cons.prems(1) [of x w] Cons.prems(2) by simp
  then have "Q (snd (for_each f xs w1))" by (intro Cons.IH) (simp_all add: Cons.prems(1))
  with step \<open>Q w1\<close> show ?case by (cases r) simp_all
qed simp

text \<open>The accumulator of the appending loop is a prefix of its result.\<close>

lemma for_append_acc:
  "for_append f xs acc w =
     (case for_append f xs [] w of
        (Ok ys, w') \<Rightarrow> (Ok (acc @ ys), w')
      | (Err e, w') \<Rightarrow> (Err e, w')
      | (Panic p, w') \<Rightarrow> (Panic p, w'))"
proof (induction xs arbitrary: acc w)
  case Nil
  then show ?case by simp
next
  case (Cons x xs)
  show ?case
  proof (cases "f x w")
    case (Pair r w1)
    show ?thesis
    proof (cases r)
      case (Ok ys)
      then show ?thesis
        using Pair Cons.IH [of "acc @ ys" w1] Cons.IH [of ys w1]
        by (auto split: prod.splits result.splits)
    qed (simp_all add: Pair)
  qed
qed

text \<open>
  When every iteration succeeds and leaves what it observes of the world alone, the appending loop
  yields the concatenation of the iterations' results, in the order of the slice.
\<close>

lemma for_append_pure:
  assumes "\<And>x w. x \<in> set xs \<Longrightarrow> obs w = v \<Longrightarrow> fst (f x w) = Ok (g x) \<and> obs (snd (f x w)) = v"
    and "obs w = v"
  shows "fst (for_append f xs acc w) = Ok (acc @ concat (map g xs))
       \<and> obs (snd (for_append f xs acc w)) = v"
  using assms
proof (induction xs arbitrary: acc w)
  case Nil
  then show ?case by simp
next
  case (Cons x xs)
  obtain w1 where step: "f x w = (Ok (g x), w1)" and obs1: "obs w1 = v"
    using Cons.prems by (metis list.set_intros(1) prod.collapse)
  have "fst (for_append f xs (acc @ g x) w1) = Ok ((acc @ g x) @ concat (map g xs))
      \<and> obs (snd (for_append f xs (acc @ g x) w1)) = v"
    by (rule Cons.IH) (use Cons.prems(1) obs1 in auto)
  then show ?case by (simp add: step)
qed

text \<open>
  A loop whose every iteration records its element, whether it succeeds or not, records a prefix of
  the slice, and all of it when the loop succeeds.
\<close>

lemma for_each_log:
  assumes "\<And>x w. log (snd (f x w)) = log w @ [k x]"
  shows "\<exists>n \<le> length xs. log (snd (for_each f xs w)) = log w @ map k (take n xs)
       \<and> (fst (for_each f xs w) = Ok () \<longrightarrow> n = length xs)"
proof (induction xs arbitrary: w)
  case Nil
  then show ?case by simp
next
  case (Cons x xs)
  obtain r w1 where step: "f x w = (r, w1)" by fastforce
  with assms [of x w] have log1: "log w1 = log w @ [k x]" by simp
  show ?case
  proof (cases r)
    case (Ok u)
    obtain n where n: "n \<le> length xs" "log (snd (for_each f xs w1)) = log w1 @ map k (take n xs)"
        "fst (for_each f xs w1) = Ok () \<longrightarrow> n = length xs"
      using Cons.IH by blast
    with step Ok log1 show ?thesis by (intro exI [of _ "Suc n"]) simp
  qed (use step log1 in \<open>auto intro!: exI [of _ 1]\<close>)
qed

section \<open>Actions that cannot be told apart\<close>

text \<open>
  Two actions are similar under an observation of the world when, from worlds that look the same,
  they end in the same result and in worlds that look the same.
\<close>

definition act_sim :: "('w \<Rightarrow> 'v) \<Rightarrow> ('w, 'e, 'a) act \<Rightarrow> ('w, 'e, 'a) act \<Rightarrow> bool" where
  "act_sim obs m m' \<longleftrightarrow> (\<forall>w w'. obs w = obs w' \<longrightarrow>
     fst (m w) = fst (m' w') \<and> obs (snd (m w)) = obs (snd (m' w')))"

named_theorems sim_intros \<open>similarity of composed actions\<close>

lemma act_simI:
  "(\<And>w w'. obs w = obs w' \<Longrightarrow> fst (m w) = fst (m' w') \<and> obs (snd (m w)) = obs (snd (m' w')))
     \<Longrightarrow> act_sim obs m m'"
  by (simp add: act_sim_def)

lemma act_simD:
  "act_sim obs m m' \<Longrightarrow> obs w = obs w' \<Longrightarrow>
     fst (m w) = fst (m' w') \<and> obs (snd (m w)) = obs (snd (m' w'))"
  by (simp add: act_sim_def)

lemma sim_areturn [sim_intros]: "act_sim obs (areturn a) (areturn a)"
  by (simp add: act_sim_def)

lemma sim_afail [sim_intros]: "act_sim obs (afail e) (afail e)"
  by (simp add: act_sim_def)

lemma sim_amap_err [sim_intros]:
  "act_sim obs m m' \<Longrightarrow> act_sim obs (amap_err g m) (amap_err g m')"
  unfolding act_sim_def amap_err_def
  by (fastforce split: prod.splits result.splits)

lemma sim_abind [sim_intros]:
  assumes m: "act_sim obs m m'" and f: "\<And>a. act_sim obs (f a) (f' a)"
  shows "act_sim obs (abind m f) (abind m' f')"
proof (rule act_simI)
  fix w w' assume obs: "obs w = obs w'"
  obtain r w1 r' w1' where steps: "m w = (r, w1)" "m' w' = (r', w1')" by fastforce
  with act_simD [OF m obs] have same: "r' = r" and obs1: "obs w1 = obs w1'" by auto
  show "fst (abind m f w) = fst (abind m' f' w')
      \<and> obs (snd (abind m f w)) = obs (snd (abind m' f' w'))"
    using act_simD [OF f obs1] steps same obs1 by (cases r) simp_all
qed

lemma sim_if [sim_intros]:
  "(b \<Longrightarrow> act_sim obs m m') \<Longrightarrow> (\<not> b \<Longrightarrow> act_sim obs n n') \<Longrightarrow>
     act_sim obs (if b then m else n) (if b then m' else n')"
  by simp

lemma sim_for_append [sim_intros]:
  assumes "\<And>x. act_sim obs (f x) (f' x)"
  shows "act_sim obs (for_append f xs acc) (for_append f' xs acc)"
  by (induction xs arbitrary: acc) (auto intro!: sim_intros assms)

section \<open>Actions that keep a part of the world\<close>

definition act_keeps :: "('w \<Rightarrow> 'v) \<Rightarrow> ('w, 'e, 'a) act \<Rightarrow> bool" where
  "act_keeps obs m \<longleftrightarrow> (\<forall>w. obs (snd (m w)) = obs w)"

named_theorems keep_intros \<open>what composed actions keep\<close>

lemma act_keepsD: "act_keeps obs m \<Longrightarrow> obs (snd (m w)) = obs w"
  by (simp add: act_keeps_def)

lemma keeps_areturn [keep_intros]: "act_keeps obs (areturn a)"
  by (simp add: act_keeps_def)

lemma keeps_afail [keep_intros]: "act_keeps obs (afail e)"
  by (simp add: act_keeps_def)

lemma snd_amap_err [simp]: "snd (amap_err g m w) = snd (m w)"
  by (simp add: amap_err_def split: prod.splits result.splits)

lemma keeps_amap_err [keep_intros]: "act_keeps obs m \<Longrightarrow> act_keeps obs (amap_err g m)"
  by (simp add: act_keeps_def)

lemma keeps_abind [keep_intros]:
  assumes "act_keeps obs m" and "\<And>a. act_keeps obs (f a)"
  shows "act_keeps obs (abind m f)"
  using assms unfolding act_keeps_def abind_def
  by (auto split: prod.splits result.splits) (metis snd_conv)+

lemma keeps_if [keep_intros]:
  "(b \<Longrightarrow> act_keeps obs m) \<Longrightarrow> (\<not> b \<Longrightarrow> act_keeps obs n) \<Longrightarrow> act_keeps obs (if b then m else n)"
  by simp

section \<open>Facts about strings\<close>

lemma has_suffix_iff: "has_suffix s t \<longleftrightarrow> (\<exists>p. s = p @ t)"
proof
  assume "has_suffix s t"
  then have "s = take (length s - length t) s @ t"
    by (metis append_take_drop_id has_suffix_def)
  then show "\<exists>p. s = p @ t" ..
qed (auto simp: has_suffix_def)

lemma is_ascii_ascii_lower [simp]: "is_ascii (ascii_lower c) = is_ascii c"
  by (auto simp: is_ascii_def ascii_lower_def Let_def)

lemma ascii_lower_idem [simp]: "ascii_lower (ascii_lower c) = ascii_lower c"
  by (auto simp: ascii_lower_def Let_def)

lemma to_lower_Nil [simp]: "to_lower ul [] = []"
  by (simp add: to_lower_def)

lemma to_lower_ascii_idem [simp]:
  "list_all is_ascii s \<Longrightarrow> to_lower ul (to_lower ul s) = to_lower ul s"
  by (simp add: to_lower_def list_all_iff)

lemma to_lower_ascii_Nil_iff [simp]: "list_all is_ascii s \<Longrightarrow> to_lower ul s = [] \<longleftrightarrow> s = []"
  by (simp add: to_lower_def)

text \<open>
  Splitting at the first separator is unambiguous: two strings that agree after appending a
  separator their heads do not contain have the same head and the same tail.
\<close>

lemma append_sep_inject:
  assumes "c \<notin> set xs" and "c \<notin> set ys" and "xs @ c # us = ys @ c # vs"
  shows "xs = ys \<and> us = vs"
  using assms
proof (induction xs arbitrary: ys)
  case Nil
  then show ?case by (cases ys) auto
next
  case (Cons x xs)
  then show ?case by (cases ys) auto
qed

section \<open>The channel interface\<close>

text \<open>
  What the broker relies on when it uses a channel of a fixed capacity: sends keep the bound and
  the order, a blocking send gets through exactly when there is room, and a non-blocking send
  equals a blocking one that has room and is otherwise the identity.
\<close>

locale bounded_chan =
  fixes cap :: nat
    and send :: "'m list \<Rightarrow> 'm \<Rightarrow> 'm list option"
    and try_send :: "'m list \<Rightarrow> 'm \<Rightarrow> 'm list"
    and recv :: "'m list \<Rightarrow> ('m \<times> 'm list) option"
  assumes cap_pos: "0 < cap"
    and send_room: "length q < cap \<Longrightarrow> send q m = Some (q @ [m])"
    and send_full: "cap \<le> length q \<Longrightarrow> send q m = None"
    and try_send_eq: "try_send q m = (case send q m of Some q' \<Rightarrow> q' | None \<Rightarrow> q)"
    and recv_eq: "recv q = (case q of [] \<Rightarrow> None | m # q' \<Rightarrow> Some (m, q'))"
begin

lemma send_bound: "send q m = Some q' \<Longrightarrow> length q' \<le> cap"
  using send_room [of q m] send_full [of q m] by (cases "length q < cap") auto

lemma send_Some_iff: "send q m = Some q' \<longleftrightarrow> length q < cap \<and> q' = q @ [m]"
  using send_room [of q m] send_full [of q m] by (cases "length q < cap") auto

lemma send_None_iff: "send q m = None \<longleftrightarrow> cap \<le> length q"
  using send_room [of q m] send_full [of q m] by (cases "length q < cap") auto

lemma try_send_bound: "length q \<le> cap \<Longrightarrow> length (try_send q m) \<le> cap"
  by (auto simp: try_send_eq send_Some_iff split: option.splits)

lemma try_send_cases:
  "try_send q m = (if length q < cap then q @ [m] else q)"
  by (auto simp: try_send_eq send_Some_iff send_None_iff split: option.splits)

lemma try_send_subseq:
  assumes "subseq q h"
  shows "subseq (try_send q m) (h @ [m])"
  using assms
  by (auto simp: try_send_cases intro: list_emb_append_mono subseq_order.trans)

lemma recv_Some_iff: "recv q = Some (m, q') \<longleftrightarrow> q = m # q'"
  by (auto simp: recv_eq split: list.splits)

lemma recv_unblocks_send:
  assumes "length q \<le> cap" and "recv q = Some (m, q')"
  shows "\<exists>q''. send q' n = Some q''"
  using assms by (auto simp: recv_Some_iff send_Some_iff)

end

interpretation ch1: bounded_chan 1 "chan_send 1" "chan_try_send 1" chan_recv
  by unfold_locales (auto simp: chan_send_def chan_try_send_def chan_recv_def)

interpretation ch5: bounded_chan 5 "chan_send 5" "chan_try_send 5" chan_recv
  by unfold_locales (auto simp: chan_send_def chan_try_send_def chan_recv_def)

section \<open>Transition systems\<close>

text \<open>
  States reachable from the initial ones, and the contract under which a predicate is an invariant
  of a transition system: it holds initially and every step keeps it.
\<close>

inductive reach :: "('s \<Rightarrow> bool) \<Rightarrow> ('s \<Rightarrow> 's \<Rightarrow> bool) \<Rightarrow> 's \<Rightarrow> bool" for init step where
  reach_init: "init s \<Longrightarrow> reach init step s"
| reach_step: "reach init step s \<Longrightarrow> step s s' \<Longrightarrow> reach init step s'"

locale invariant_system =
  fixes init :: "'s \<Rightarrow> bool"
    and step :: "'s \<Rightarrow> 's \<Rightarrow> bool"
    and inv :: "'s \<Rightarrow> bool"
  assumes inv_init: "init s \<Longrightarrow> inv s"
    and inv_step: "inv s \<Longrightarrow> step s s' \<Longrightarrow> inv s'"
begin

lemma reach_inv: "reach init step s \<Longrightarrow> inv s"
  by (induction rule: reach.induct) (auto intro: inv_init inv_step)

lemma inv_steps: "step\<^sup>*\<^sup>* s s' \<Longrightarrow> inv s \<Longrightarrow> inv s'"
  by (induction rule: rtranclp_induct) (auto intro: inv_step)

text \<open>A predicate that steps keep, given the invariant, lasts from any reachable state on.\<close>

lemma reach_stable:
  assumes "step\<^sup>*\<^sup>* s s'" and "reach init step s" and "P s"
    and keep: "\<And>t t'. inv t \<Longrightarrow> P t \<Longrightarrow> step t t' \<Longrightarrow> P t'"
  shows "P s'"
  using assms(1-3)
proof (induction rule: rtranclp_induct)
  case base
  then show ?case by simp
next
  case (step t t')
  have "inv t" using reach_inv [OF step.prems(1)] step.hyps(1) by (rule inv_steps [rotated])
  with step show ?case by (blast intro: keep)
qed

end

lemma reach_steps: "step\<^sup>*\<^sup>* s s' \<Longrightarrow> reach init step s \<Longrightarrow> reach init step s'"
  by (induction rule: rtranclp_induct) (auto intro: reach_step)

end
