(* ===== verification/Api_Types.thy ===== *)
theory Api_Types
  imports Go_Prelude
begin

text \<open>
  The API types of \<open>api/v1\<close> as records, with the metadata types of the Kubernetes libraries they
  embed reduced to the fields this repository reads or writes, and the lifecycle methods of
  \<open>duck_lifecycle.go\<close> and \<open>ducktype_lifecycle.go\<close>.

  Library code is a parameter: \<open>schema_ops\<close> stands for the parsing and printing functions of
  \<open>k8s.io/apimachinery/pkg/runtime/schema\<close>, \<open>cond_ops\<close> for the condition manager of
  \<open>reconciler.io/runtime/apis\<close> in the context of one call.  What the code relies on is stated as
  the predicates \<open>schema_laws\<close> and \<open>condition_laws\<close>, the documented behaviour of those functions.
\<close>

section \<open>Group, version, kind and resource\<close>

record GroupKind =
  gk_Group :: string
  gk_Kind :: string

record GroupVersion =
  gv_Group :: string
  gv_Version :: string

record GroupResource =
  gr_Group :: string
  gr_Resource :: string

record GroupVersionKind =
  gvk_Group :: string
  gvk_Version :: string
  gvk_Kind :: string

record GroupVersionResource =
  gvr_Group :: string
  gvr_Version :: string
  gvr_Resource :: string

text \<open>The struct projections of the library types.\<close>

definition GVK_GroupKind :: "GroupVersionKind \<Rightarrow> GroupKind" where
  "GVK_GroupKind g = \<lparr>gk_Group = gvk_Group g, gk_Kind = gvk_Kind g\<rparr>"

definition GVR_GroupResource :: "GroupVersionResource \<Rightarrow> GroupResource" where
  "GVR_GroupResource g = \<lparr>gr_Group = gvr_Group g, gr_Resource = gvr_Resource g\<rparr>"

definition GVR_GroupVersion :: "GroupVersionResource \<Rightarrow> GroupVersion" where
  "GVR_GroupVersion g = \<lparr>gv_Group = gvr_Group g, gv_Version = gvr_Version g\<rparr>"

definition GR_WithVersion :: "GroupResource \<Rightarrow> string \<Rightarrow> GroupVersionResource" where
  "GR_WithVersion g v = \<lparr>gvr_Group = gr_Group g, gvr_Version = v, gvr_Resource = gr_Resource g\<rparr>"

record schema_ops =
  ParseGroupResource :: "string \<Rightarrow> GroupResource"
  GroupResource_String :: "GroupResource \<Rightarrow> string"
  GroupVersion_String :: "GroupVersion \<Rightarrow> string"
  GroupKind_Empty :: "GroupKind \<Rightarrow> bool"

text \<open>
  \<open>ParseGroupResource\<close> turns \<open>resource.group\<close> into its two fields at the first dot, a string with
  no dot is a resource of the core group; printing joins the fields with a dot and omits the dot
  for the core group; a \<open>GroupVersion\<close> prints as \<open>group/version\<close>, or as the version alone for the
  core group; a \<open>GroupKind\<close> is empty when both fields are.
\<close>

definition schema_laws :: "schema_ops \<Rightarrow> bool" where
  "schema_laws L \<longleftrightarrow>
     (\<forall>r g. CHR ''.'' \<notin> set r \<longrightarrow>
        ParseGroupResource L (r @ ''.'' @ g) = \<lparr>gr_Group = g, gr_Resource = r\<rparr>)
   \<and> (\<forall>r. CHR ''.'' \<notin> set r \<longrightarrow> ParseGroupResource L r = \<lparr>gr_Group = [], gr_Resource = r\<rparr>)
   \<and> (\<forall>gr. GroupResource_String L gr =
        (if gr_Group gr = [] then gr_Resource gr else gr_Resource gr @ ''.'' @ gr_Group gr))
   \<and> (\<forall>gv. GroupVersion_String L gv =
        (if gv_Group gv = [] then gv_Version gv else gv_Group gv @ ''/'' @ gv_Version gv))
   \<and> (\<forall>gk. GroupKind_Empty L gk \<longleftrightarrow> gk_Group gk = [] \<and> gk_Kind gk = [])"

section \<open>Metadata\<close>

record TypeMeta =
  tm_APIVersion :: string
  tm_Kind :: string

record OwnerReference =
  or_APIVersion :: string
  or_Kind :: string
  or_Name :: string
  or_UID :: string

record ObjectMeta =
  om_Name :: string
  om_Namespace :: string
  om_UID :: string
  om_Generation :: int
  om_Labels :: "string \<rightharpoonup> string"
  om_Finalizers :: "string list"
  om_DeletionTimestamp :: "nat option"
  om_OwnerReferences :: "OwnerReference list"

definition ObjectMeta_named :: "string \<Rightarrow> ObjectMeta" where
  "ObjectMeta_named n = \<lparr>om_Name = n, om_Namespace = [], om_UID = [], om_Generation = 0,
     om_Labels = Map.empty, om_Finalizers = [], om_DeletionTimestamp = None,
     om_OwnerReferences = []\<rparr>"

record Condition =
  c_Type :: string
  c_Status :: string
  c_Reason :: string
  c_Message :: string

record Status =
  st_ObservedGeneration :: int
  st_Conditions :: "Condition list"

section \<open>Duck and DuckType\<close>

record DuckSpec =
  ds_Group :: string
  ds_Version :: string
  ds_Kind :: string

record DuckStatus =
  dst_Status :: Status

record Duck =
  d_TypeMeta :: TypeMeta
  d_ObjectMeta :: ObjectMeta
  d_Spec :: DuckSpec
  d_Status :: DuckStatus

record DuckList =
  dl_TypeMeta :: TypeMeta
  dl_Items :: "Duck list"

record DuckTypeSpec =
  dts_Group :: string
  dts_Plural :: string
  dts_Singular :: string
  dts_Kind :: string
  dts_ListKind :: string

record DuckTypeStatus =
  dtst_Status :: Status

record DuckType =
  dt_TypeMeta :: TypeMeta
  dt_ObjectMeta :: ObjectMeta
  dt_Spec :: DuckTypeSpec
  dt_Status :: DuckTypeStatus

record DuckTypeList =
  dtl_TypeMeta :: TypeMeta
  dtl_Items :: "DuckType list"

text \<open>Zero values of the structs, as Go's composite literals leave omitted fields.\<close>

definition TypeMeta_zero :: TypeMeta where
  "TypeMeta_zero = \<lparr>tm_APIVersion = [], tm_Kind = []\<rparr>"

definition Status_zero :: Status where
  "Status_zero = \<lparr>st_ObservedGeneration = 0, st_Conditions = []\<rparr>"

definition DuckTypeSpec_zero :: DuckTypeSpec where
  "DuckTypeSpec_zero =
     \<lparr>dts_Group = [], dts_Plural = [], dts_Singular = [], dts_Kind = [], dts_ListKind = []\<rparr>"

definition GroupVersion_Group :: string where
  "GroupVersion_Group = ''duck.reconciler.io''"

definition GroupVersion_Version :: string where
  "GroupVersion_Version = ''v1''"

definition Duck_Name :: "Duck \<Rightarrow> string" where
  "Duck_Name d = om_Name (d_ObjectMeta d)"

definition DuckType_Name :: "DuckType \<Rightarrow> string" where
  "DuckType_Name d = om_Name (dt_ObjectMeta d)"

section \<open>Derived identifiers of a duck\<close>

definition Duck_GroupVersionResource :: "schema_ops \<Rightarrow> Duck \<Rightarrow> GroupVersionResource" where
  "Duck_GroupVersionResource L r =
     GR_WithVersion (ParseGroupResource L (Duck_Name r)) (ds_Version (d_Spec r))"

definition DuckSpec_GroupVersionKind :: "DuckSpec \<Rightarrow> GroupVersionKind" where
  "DuckSpec_GroupVersionKind r =
     \<lparr>gvk_Group = ds_Group r, gvk_Version = ds_Version r, gvk_Kind = ds_Kind r\<rparr>"

definition DuckSpec_TypeMeta :: "schema_ops \<Rightarrow> DuckSpec \<Rightarrow> TypeMeta" where
  "DuckSpec_TypeMeta L r =
     \<lparr>tm_APIVersion = GroupVersion_String L \<lparr>gv_Group = ds_Group r, gv_Version = ds_Version r\<rparr>,
      tm_Kind = ds_Kind r\<rparr>"

section \<open>Facts about the schema functions\<close>

lemma schema_parse_dot:
  "schema_laws L \<Longrightarrow> CHR ''.'' \<notin> set r \<Longrightarrow>
     ParseGroupResource L (r @ CHR ''.'' # g) = \<lparr>gr_Group = g, gr_Resource = r\<rparr>"
  by (simp add: schema_laws_def)

lemma schema_parse_nodot:
  "schema_laws L \<Longrightarrow> CHR ''.'' \<notin> set r \<Longrightarrow>
     ParseGroupResource L r = \<lparr>gr_Group = [], gr_Resource = r\<rparr>"
  by (simp add: schema_laws_def)

lemma schema_print_gr:
  "schema_laws L \<Longrightarrow> GroupResource_String L gr =
     (if gr_Group gr = [] then gr_Resource gr else gr_Resource gr @ ''.'' @ gr_Group gr)"
  by (simp add: schema_laws_def)

lemma schema_print_gv:
  "schema_laws L \<Longrightarrow> GroupVersion_String L gv =
     (if gv_Group gv = [] then gv_Version gv else gv_Group gv @ ''/'' @ gv_Version gv)"
  by (simp add: schema_laws_def)

lemma schema_empty_gk:
  "schema_laws L \<Longrightarrow> GroupKind_Empty L gk \<longleftrightarrow> gk_Group gk = [] \<and> gk_Kind gk = []"
  by (simp add: schema_laws_def)

lemmas schema_simps = schema_parse_dot schema_parse_nodot schema_print_gr schema_print_gv
  schema_empty_gk

text \<open>
  Every string parses to a resource without dots, and printing the parse gives the string back
  unless it ends in its only dot (an explicit empty group).
\<close>

lemma schema_parse_cases:
  assumes "schema_laws L"
  obtains (dot) r g where "n = r @ ''.'' @ g" and "CHR ''.'' \<notin> set r"
      and "ParseGroupResource L n = \<lparr>gr_Group = g, gr_Resource = r\<rparr>"
  | (nodot) "CHR ''.'' \<notin> set n" and "ParseGroupResource L n = \<lparr>gr_Group = [], gr_Resource = n\<rparr>"
proof (cases "CHR ''.'' \<in> set n")
  case True
  then obtain r g where "n = r @ CHR ''.'' # g" and "CHR ''.'' \<notin> set r"
    by (metis split_list_first)
  with assms show thesis by (intro dot) (auto simp: schema_parse_dot)
next
  case False
  with assms show thesis by (intro nodot) (auto simp: schema_parse_nodot)
qed

lemma schema_parse_resource_nodot:
  assumes "schema_laws L"
  shows "CHR ''.'' \<notin> set (gr_Resource (ParseGroupResource L n))"
  using assms by (rule schema_parse_cases [of L n]) auto

lemma schema_print_parse:
  assumes "schema_laws L" and "gr_Group (ParseGroupResource L n) \<noteq> []"
  shows "GroupResource_String L (ParseGroupResource L n) = n"
  using assms(1)
  by (rule schema_parse_cases [of L n]) (use assms in \<open>auto simp: schema_print_gr\<close>)

section \<open>Reference schema functions\<close>

text \<open>
  Concrete functions that satisfy the laws, used where a statement about every implementation is
  evaluated on one.
\<close>

definition parse_gr_ref :: "string \<Rightarrow> GroupResource" where
  "parse_gr_ref s =
     \<lparr>gr_Group = tl (dropWhile (\<lambda>c. c \<noteq> CHR ''.'') s),
      gr_Resource = takeWhile (\<lambda>c. c \<noteq> CHR ''.'') s\<rparr>"

definition schema_ref :: schema_ops where
  "schema_ref =
     \<lparr>ParseGroupResource = parse_gr_ref,
      GroupResource_String = (\<lambda>gr. if gr_Group gr = [] then gr_Resource gr
         else gr_Resource gr @ ''.'' @ gr_Group gr),
      GroupVersion_String = (\<lambda>gv. if gv_Group gv = [] then gv_Version gv
         else gv_Group gv @ ''/'' @ gv_Version gv),
      GroupKind_Empty = (\<lambda>gk. gk_Group gk = [] \<and> gk_Kind gk = [])\<rparr>"

lemma parse_gr_ref_dot:
  "CHR ''.'' \<notin> set r \<Longrightarrow> parse_gr_ref (r @ ''.'' @ g) = \<lparr>gr_Group = g, gr_Resource = r\<rparr>"
  by (induction r) (auto simp: parse_gr_ref_def)

lemma parse_gr_ref_nodot:
  "CHR ''.'' \<notin> set r \<Longrightarrow> parse_gr_ref r = \<lparr>gr_Group = [], gr_Resource = r\<rparr>"
  by (induction r) (auto simp: parse_gr_ref_def)

lemma schema_ref_laws: "schema_laws schema_ref"
  using parse_gr_ref_dot parse_gr_ref_nodot by (simp add: schema_laws_def schema_ref_def)

end
