(* ===== verification/Api_Webhooks.thy ===== *)
theory Api_Webhooks
  imports Api_Types
begin

text \<open>
  The admission handlers of \<open>duck_webhook.go\<close> and \<open>ducktype_webhook.go\<close>: defaulting of a resource
  and the list of field errors validation collects.  Handlers mutate the object they are given, so
  a handler returns its error and the object as it leaves it.  \<open>field.ErrorList.ToAggregate\<close> is
  library code, the parameter \<open>agg\<close>; the code relies on it returning nil exactly for an empty list.
  The parameter \<open>ul\<close> is the lower-casing of strings outside ASCII.
\<close>

section \<open>Field errors\<close>

type_synonym field_path = "string list"

datatype field_error =
    FieldRequired field_path string
  | FieldInvalid field_path string string

definition NewPath :: "string \<Rightarrow> field_path" where
  "NewPath n = [n]"

definition PathChild :: "field_path \<Rightarrow> string list \<Rightarrow> field_path" where
  "PathChild p names = p @ names"

definition aggregate_laws :: "(field_error list \<Rightarrow> 'err option) \<Rightarrow> bool" where
  "aggregate_laws agg \<longleftrightarrow> (\<forall>es. agg es = None \<longleftrightarrow> es = [])"

text \<open>A handler's error, and the object it was called on as the call leaves it.\<close>

type_synonym ('err, 'o) admission = "'err option \<times> 'o"

section \<open>DuckType\<close>

definition DuckTypeSpec_Default :: "(string \<Rightarrow> string) \<Rightarrow> DuckTypeSpec \<Rightarrow> ('err, DuckTypeSpec) admission" where
  "DuckTypeSpec_Default ul r =
     (let r1 = (if dts_Singular r = [] then r\<lparr>dts_Singular := to_lower ul (dts_Kind r)\<rparr> else r);
          r2 = (if dts_ListKind r1 = [] then r1\<lparr>dts_ListKind := dts_Kind r1 @ ''List''\<rparr> else r1)
      in (None, r2))"

definition DuckType_Default :: "(string \<Rightarrow> string) \<Rightarrow> DuckType \<Rightarrow> ('err, DuckType) admission" where
  "DuckType_Default ul obj =
     (case DuckTypeSpec_Default ul (dt_Spec obj) of
        (Some err, spec) \<Rightarrow> (Some err, obj\<lparr>dt_Spec := spec\<rparr>)
      | (None, spec) \<Rightarrow> (None, obj\<lparr>dt_Spec := spec\<rparr>))"

definition DuckTypeSpec_Validate ::
  "(string \<Rightarrow> string) \<Rightarrow> DuckTypeSpec \<Rightarrow> field_path \<Rightarrow> field_error list" where
  "DuckTypeSpec_Validate ul r fldPath =
     (if dts_Group r = [] then [FieldRequired (PathChild fldPath [''group'']) '''']
      else if to_lower ul (dts_Group r) \<noteq> dts_Group r
      then [FieldInvalid (PathChild fldPath [''group'']) (dts_Group r) ''must be all lowercase'']
      else [])
   @ (if dts_Plural r = [] then [FieldRequired (PathChild fldPath [''plural'']) '''']
      else if to_lower ul (dts_Plural r) \<noteq> dts_Plural r
      then [FieldInvalid (PathChild fldPath [''plural'']) (dts_Plural r) ''must be all lowercase'']
      else [])
   @ (if dts_Singular r = [] then [FieldRequired (PathChild fldPath [''singular'']) '''']
      else if to_lower ul (dts_Singular r) \<noteq> dts_Singular r
      then [FieldInvalid (PathChild fldPath [''singular'']) (dts_Singular r) ''must be all lowercase'']
      else [])
   @ (if dts_Kind r = [] then [FieldRequired (PathChild fldPath [''kind'']) ''''] else [])
   @ (if dts_ListKind r = [] then [FieldRequired (PathChild fldPath [''listKind'']) ''''] else [])"

definition DuckType_Validate ::
  "(string \<Rightarrow> string) \<Rightarrow> DuckType \<Rightarrow> field_path \<Rightarrow> field_error list" where
  "DuckType_Validate ul r fldPath =
     (if DuckType_Name r \<noteq> dts_Plural (dt_Spec r) @ ''.'' @ dts_Group (dt_Spec r)
      then [FieldInvalid (PathChild fldPath [''metadata'', ''name'']) (DuckType_Name r)
              ''name must take the form `<plural>.<group>`'']
      else [])
   @ DuckTypeSpec_Validate ul (dt_Spec r) (PathChild fldPath [''spec''])"

definition DuckType_ValidateCreate ::
  "(string \<Rightarrow> string) \<Rightarrow> (field_error list \<Rightarrow> 'err option) \<Rightarrow> DuckType \<Rightarrow> ('err, DuckType) admission" where
  "DuckType_ValidateCreate ul agg obj =
     (case DuckType_Default ul obj of
        (Some err, obj') \<Rightarrow> (Some err, obj')
      | (None, obj') \<Rightarrow> (agg (DuckType_Validate ul obj' (NewPath '''')), obj'))"

definition DuckType_ValidateUpdate ::
  "(string \<Rightarrow> string) \<Rightarrow> (field_error list \<Rightarrow> 'err option) \<Rightarrow> DuckType \<Rightarrow> DuckType
     \<Rightarrow> ('err, DuckType) admission" where
  "DuckType_ValidateUpdate ul agg oldObj newObj =
     (case DuckType_Default ul newObj of
        (Some err, obj') \<Rightarrow> (Some err, obj')
      | (None, obj') \<Rightarrow> (agg (DuckType_Validate ul obj' (NewPath '''')), obj'))"

definition DuckType_ValidateDelete :: "DuckType \<Rightarrow> ('err, DuckType) admission" where
  "DuckType_ValidateDelete obj = (None, obj)"

section \<open>Duck\<close>

definition DuckSpec_Default :: "DuckSpec \<Rightarrow> ('err, DuckSpec) admission" where
  "DuckSpec_Default r = (None, r)"

definition Duck_Default :: "Duck \<Rightarrow> ('err, Duck) admission" where
  "Duck_Default obj =
     (case DuckSpec_Default (d_Spec obj) of
        (Some err, spec) \<Rightarrow> (Some err, obj\<lparr>d_Spec := spec\<rparr>)
      | (None, spec) \<Rightarrow> (None, obj\<lparr>d_Spec := spec\<rparr>))"

definition DuckSpec_Validate :: "DuckSpec \<Rightarrow> field_path \<Rightarrow> field_error list" where
  "DuckSpec_Validate r fldPath =
     (if ds_Group r = [] then [FieldRequired (PathChild fldPath [''group'']) ''''] else [])
   @ (if ds_Version r = [] then [FieldRequired (PathChild fldPath [''version'']) ''''] else [])
   @ (if ds_Kind r = [] then [FieldRequired (PathChild fldPath [''kind'']) ''''] else [])"

definition Duck_Validate :: "Duck \<Rightarrow> field_path \<Rightarrow> field_error list" where
  "Duck_Validate r fldPath =
     DuckSpec_Validate (d_Spec r) (PathChild fldPath [''spec''])
   @ (if \<not> has_suffix (Duck_Name r) (''.'' @ ds_Group (d_Spec r))
      then [FieldInvalid (PathChild fldPath [''spec'', ''group'']) (ds_Group (d_Spec r))
              ''resource name must end with group'']
      else [])"

definition Duck_ValidateCreate ::
  "(field_error list \<Rightarrow> 'err option) \<Rightarrow> Duck \<Rightarrow> ('err, Duck) admission" where
  "Duck_ValidateCreate agg obj =
     (case Duck_Default obj of
        (Some err, obj') \<Rightarrow> (Some err, obj')
      | (None, obj') \<Rightarrow> (agg (Duck_Validate obj' (NewPath '''')), obj'))"

definition Duck_ValidateUpdate ::
  "(field_error list \<Rightarrow> 'err option) \<Rightarrow> Duck \<Rightarrow> Duck \<Rightarrow> ('err, Duck) admission" where
  "Duck_ValidateUpdate agg oldObj newObj =
     (case Duck_Default newObj of
        (Some err, obj') \<Rightarrow> (Some err, obj')
      | (None, obj') \<Rightarrow> (agg (Duck_Validate obj' (NewPath '''')), obj'))"

definition Duck_ValidateDelete :: "Duck \<Rightarrow> ('err, Duck) admission" where
  "Duck_ValidateDelete obj = (None, obj)"

section \<open>The admission contract\<close>

text \<open>
  What the webhook server relies on for every resource it serves
  (\<open>admission.Defaulter\<close> and \<open>admission.Validator\<close>): defaulting does not fail and is a projection,
  creating and updating report exactly the field errors of the defaulted object, and deleting is
  always allowed.
\<close>

locale admission_handler =
  fixes defaulted :: "'o \<Rightarrow> 'o"
    and violations :: "'o \<Rightarrow> field_error list"
    and agg :: "field_error list \<Rightarrow> 'err option"
    and create :: "'o \<Rightarrow> ('err, 'o) admission"
    and update :: "'o \<Rightarrow> 'o \<Rightarrow> ('err, 'o) admission"
    and remove :: "'o \<Rightarrow> ('err, 'o) admission"
  assumes defaulted_idem: "defaulted (defaulted obj) = defaulted obj"
    and create_eq: "create obj = (agg (violations (defaulted obj)), defaulted obj)"
    and update_eq: "update old obj = (agg (violations (defaulted obj)), defaulted obj)"
    and remove_eq: "remove obj = (None, obj)"
begin

lemma create_accepts_iff:
  "aggregate_laws agg \<Longrightarrow>
     create obj = (None, obj') \<longleftrightarrow> obj' = defaulted obj \<and> violations obj' = []"
  by (auto simp: create_eq aggregate_laws_def)

lemma update_ignores_old: "update old obj = create obj"
  by (simp add: create_eq update_eq)

lemma accepted_is_stable:
  assumes "create obj = (None, obj')"
  shows "create obj' = (None, obj')" and "update old obj' = (None, obj')"
    and "defaulted obj' = obj'"
  using assms by (auto simp: create_eq update_eq defaulted_idem)

end

section \<open>Facts about defaulting and validation\<close>

definition DuckTypeSpec_defaulted :: "(string \<Rightarrow> string) \<Rightarrow> DuckTypeSpec \<Rightarrow> DuckTypeSpec" where
  "DuckTypeSpec_defaulted ul r =
     r\<lparr>dts_Singular := (if dts_Singular r = [] then to_lower ul (dts_Kind r) else dts_Singular r),
       dts_ListKind := (if dts_ListKind r = [] then dts_Kind r @ ''List'' else dts_ListKind r)\<rparr>"

definition DuckType_defaulted :: "(string \<Rightarrow> string) \<Rightarrow> DuckType \<Rightarrow> DuckType" where
  "DuckType_defaulted ul obj = obj\<lparr>dt_Spec := DuckTypeSpec_defaulted ul (dt_Spec obj)\<rparr>"

lemma DuckTypeSpec_Default_eq: "DuckTypeSpec_Default ul r = (None, DuckTypeSpec_defaulted ul r)"
  by (auto simp: DuckTypeSpec_Default_def DuckTypeSpec_defaulted_def Let_def)

lemma DuckType_Default_eq: "DuckType_Default ul obj = (None, DuckType_defaulted ul obj)"
  by (simp add: DuckType_Default_def DuckTypeSpec_Default_eq DuckType_defaulted_def)

lemma Duck_Default_eq: "Duck_Default obj = (None, obj)"
  by (simp add: Duck_Default_def DuckSpec_Default_def)

lemma DuckTypeSpec_defaulted_idem:
  "DuckTypeSpec_defaulted ul (DuckTypeSpec_defaulted ul r) = DuckTypeSpec_defaulted ul r"
  by (auto simp: DuckTypeSpec_defaulted_def)

lemma DuckType_Name_defaulted [simp]: "DuckType_Name (DuckType_defaulted ul obj) = DuckType_Name obj"
  by (simp add: DuckType_Name_def DuckType_defaulted_def)

interpretation dtw: admission_handler "DuckType_defaulted ul"
    "\<lambda>obj. DuckType_Validate ul obj (NewPath '''')" agg
    "DuckType_ValidateCreate ul agg" "DuckType_ValidateUpdate ul agg" DuckType_ValidateDelete
  for ul and agg
  by unfold_locales
    (simp_all add: DuckType_defaulted_def DuckTypeSpec_defaulted_idem DuckType_ValidateCreate_def
      DuckType_ValidateUpdate_def DuckType_ValidateDelete_def DuckType_Default_def
      DuckTypeSpec_Default_eq)

interpretation dw: admission_handler "\<lambda>obj. obj" "\<lambda>obj. Duck_Validate obj (NewPath '''')" agg
    "Duck_ValidateCreate agg" "Duck_ValidateUpdate agg" Duck_ValidateDelete
  for agg
  by unfold_locales
    (simp_all add: Duck_ValidateCreate_def Duck_ValidateUpdate_def Duck_ValidateDelete_def
      Duck_Default_eq)

lemma DuckTypeSpec_Validate_Nil:
  "DuckTypeSpec_Validate ul r p = [] \<longleftrightarrow>
     dts_Group r \<noteq> [] \<and> to_lower ul (dts_Group r) = dts_Group r
   \<and> dts_Plural r \<noteq> [] \<and> to_lower ul (dts_Plural r) = dts_Plural r
   \<and> dts_Singular r \<noteq> [] \<and> to_lower ul (dts_Singular r) = dts_Singular r
   \<and> dts_Kind r \<noteq> [] \<and> dts_ListKind r \<noteq> []"
  by (auto simp: DuckTypeSpec_Validate_def)

lemma DuckType_Validate_Nil:
  "DuckType_Validate ul r p = [] \<longleftrightarrow>
     DuckType_Name r = dts_Plural (dt_Spec r) @ ''.'' @ dts_Group (dt_Spec r)
   \<and> DuckTypeSpec_Validate ul (dt_Spec r) (PathChild p [''spec'']) = []"
  by (auto simp: DuckType_Validate_def)

lemma Duck_Validate_Nil:
  "Duck_Validate r p = [] \<longleftrightarrow>
     ds_Group (d_Spec r) \<noteq> [] \<and> ds_Version (d_Spec r) \<noteq> [] \<and> ds_Kind (d_Spec r) \<noteq> []
   \<and> (\<exists>q. Duck_Name r = q @ ''.'' @ ds_Group (d_Spec r))"
  by (auto simp: Duck_Validate_def DuckSpec_Validate_def has_suffix_iff)

section \<open>Properties\<close>

definition err_path :: "field_error \<Rightarrow> field_path" where
  "err_path e = (case e of FieldRequired p _ \<Rightarrow> p | FieldInvalid p _ _ \<Rightarrow> p)"

text \<open>The fields a duck type violates, each with its path, in the order they are checked.\<close>

definition DuckType_bad_fields :: "(string \<Rightarrow> string) \<Rightarrow> DuckType \<Rightarrow> field_path list" where
  "DuckType_bad_fields ul r = map fst (filter snd
     [([[], ''metadata'', ''name''],
        DuckType_Name r \<noteq> dts_Plural (dt_Spec r) @ ''.'' @ dts_Group (dt_Spec r)),
      ([[], ''spec'', ''group''], dts_Group (dt_Spec r) = [] \<or>
        to_lower ul (dts_Group (dt_Spec r)) \<noteq> dts_Group (dt_Spec r)),
      ([[], ''spec'', ''plural''], dts_Plural (dt_Spec r) = [] \<or>
        to_lower ul (dts_Plural (dt_Spec r)) \<noteq> dts_Plural (dt_Spec r)),
      ([[], ''spec'', ''singular''], dts_Singular (dt_Spec r) = [] \<or>
        to_lower ul (dts_Singular (dt_Spec r)) \<noteq> dts_Singular (dt_Spec r)),
      ([[], ''spec'', ''kind''], dts_Kind (dt_Spec r) = []),
      ([[], ''spec'', ''listKind''], dts_ListKind (dt_Spec r) = [])])"

text \<open>
  Property C6.  A duck type with an ASCII kind is admitted on creation exactly when its name is
  \<open><plural>.<group>\<close>, group and plural are non-empty and lower case, the kind is non-empty and an
  explicit singular is lower case; an omitted singular or list kind never causes a rejection.
\<close>

theorem ducktype_create_admits_iff:
  assumes "aggregate_laws agg" and "list_all is_ascii (dts_Kind (dt_Spec obj))"
  shows "fst (DuckType_ValidateCreate ul agg obj) = None \<longleftrightarrow>
     DuckType_Name obj = dts_Plural (dt_Spec obj) @ ''.'' @ dts_Group (dt_Spec obj)
   \<and> dts_Group (dt_Spec obj) \<noteq> [] \<and> to_lower ul (dts_Group (dt_Spec obj)) = dts_Group (dt_Spec obj)
   \<and> dts_Plural (dt_Spec obj) \<noteq> [] \<and> to_lower ul (dts_Plural (dt_Spec obj)) = dts_Plural (dt_Spec obj)
   \<and> dts_Kind (dt_Spec obj) \<noteq> []
   \<and> to_lower ul (dts_Singular (dt_Spec obj)) = dts_Singular (dt_Spec obj)"
proof -
  have "fst (DuckType_ValidateCreate ul agg obj) = None \<longleftrightarrow>
      DuckType_Validate ul (DuckType_defaulted ul obj) (NewPath '''') = []"
    using assms(1) by (simp add: dtw.create_eq aggregate_laws_def)
  then show ?thesis
    using assms(2)
    by (auto simp: DuckType_Validate_Nil DuckTypeSpec_Validate_Nil DuckType_defaulted_def
        DuckTypeSpec_defaulted_def DuckType_Name_def)
qed

definition example_ducktype :: DuckType where
  "example_ducktype =
     \<lparr>dt_TypeMeta = TypeMeta_zero, dt_ObjectMeta = ObjectMeta_named ''ducks.example.com'',
      dt_Spec = \<lparr>dts_Group = ''example.com'', dts_Plural = ''ducks'', dts_Singular = [],
        dts_Kind = ''Duck'', dts_ListKind = []\<rparr>,
      dt_Status = \<lparr>dtst_Status = Status_zero\<rparr>\<rparr>"

definition agg_ref :: "field_error list \<Rightarrow> field_error list option" where
  "agg_ref es = (if es = [] then None else Some es)"

lemma agg_ref_laws: "aggregate_laws agg_ref"
  by (simp add: aggregate_laws_def agg_ref_def)

lemmas example_ducktype_simps = example_ducktype_def DuckType_Name_def ObjectMeta_named_def

theorem ducktype_create_admits_iff_witness:
  "fst (DuckType_ValidateCreate id agg_ref example_ducktype) = None"
proof -
  have ascii: "list_all is_ascii (dts_Kind (dt_Spec example_ducktype))" by code_simp
  have low: "to_lower id ''example.com'' = ''example.com''" "to_lower id ''ducks'' = ''ducks''"
    by code_simp+
  show ?thesis
    using ducktype_create_admits_iff [OF agg_ref_laws ascii, of id] low
    by (simp add: example_ducktype_simps)
qed

text \<open>
  Property C31.  Validation of a duck type reports one error per violated field and nothing else:
  the paths of the errors are the violated fields in checking order, so no field is reported twice.
\<close>

theorem ducktype_errors_are_violations:
  "map err_path (DuckType_Validate ul r (NewPath '''')) = DuckType_bad_fields ul r
   \<and> distinct (map err_path (DuckType_Validate ul r (NewPath '''')))"
proof -
  have "map err_path (DuckType_Validate ul r (NewPath '''')) = DuckType_bad_fields ul r"
    by (auto simp: DuckType_Validate_def DuckTypeSpec_Validate_def DuckType_bad_fields_def
        err_path_def PathChild_def NewPath_def)
  moreover have "distinct (DuckType_bad_fields ul r)"
    unfolding DuckType_bad_fields_def by (rule distinct_map_filter) simp
  ultimately show ?thesis by simp
qed

text \<open>
  Property C25.  Admission is stable: a duck type that was admitted, with the defaults the handler
  filled in, is admitted unchanged by every later create or update, whatever the stored object was.
\<close>

theorem ducktype_admission_stable:
  assumes "DuckType_ValidateCreate ul agg obj = (None, obj')"
  shows "DuckType_ValidateCreate ul agg obj' = (None, obj')
       \<and> DuckType_ValidateUpdate ul agg old obj' = (None, obj')
       \<and> DuckType_Default ul obj' = (None, obj')"
  using dtw.accepted_is_stable [OF assms] by (simp add: DuckType_Default_eq)

theorem ducktype_admission_stable_witness:
  "\<exists>obj'. DuckType_ValidateCreate id agg_ref example_ducktype = (None, obj')
     \<and> DuckType_ValidateUpdate id agg_ref example_ducktype obj' = (None, obj')
     \<and> dts_Singular (dt_Spec obj') = ''duck'' \<and> dts_ListKind (dt_Spec obj') = ''DuckList''"
proof -
  let ?obj' = "DuckType_defaulted id example_ducktype"
  have low: "to_lower id ''example.com'' = ''example.com''" "to_lower id ''ducks'' = ''ducks''"
    "to_lower id ''Duck'' = ''duck''" "to_lower id ''duck'' = ''duck''"
    by code_simp+
  have created: "DuckType_ValidateCreate id agg_ref example_ducktype = (None, ?obj')"
    using low by (simp add: dtw.create_eq agg_ref_def DuckType_Validate_Nil DuckTypeSpec_Validate_Nil
        DuckType_defaulted_def DuckTypeSpec_defaulted_def example_ducktype_simps)
  moreover have "dts_Singular (dt_Spec ?obj') = ''duck''" "dts_ListKind (dt_Spec ?obj') = ''DuckList''"
    using low by (simp_all add: DuckType_defaulted_def DuckTypeSpec_defaulted_def example_ducktype_def)
  ultimately show ?thesis
    using ducktype_admission_stable [OF created, of example_ducktype] by blast
qed

text \<open>
  Property C24.  A duck is admitted exactly when group, version and kind are present and its name is
  some prefix, a dot and the group.  If that prefix is a plain resource name, the group, version
  and resource the controller derives from the name agree with the spec.
\<close>

theorem duck_create_admits_iff:
  assumes "aggregate_laws agg" and "schema_laws L"
  shows "(fst (Duck_ValidateCreate agg d) = None \<longleftrightarrow>
       ds_Group (d_Spec d) \<noteq> [] \<and> ds_Version (d_Spec d) \<noteq> [] \<and> ds_Kind (d_Spec d) \<noteq> []
     \<and> (\<exists>q. Duck_Name d = q @ ''.'' @ ds_Group (d_Spec d)))
   \<and> (\<forall>q. Duck_Name d = q @ ''.'' @ ds_Group (d_Spec d) \<and> CHR ''.'' \<notin> set q \<longrightarrow>
       Duck_GroupVersionResource L d =
         \<lparr>gvr_Group = ds_Group (d_Spec d), gvr_Version = ds_Version (d_Spec d), gvr_Resource = q\<rparr>)"
proof -
  have "fst (Duck_ValidateCreate agg d) = None \<longleftrightarrow> Duck_Validate d (NewPath '''') = []"
    using assms(1) by (simp add: dw.create_eq aggregate_laws_def)
  then show ?thesis
    using assms(2)
    by (simp add: Duck_Validate_Nil Duck_GroupVersionResource_def GR_WithVersion_def schema_parse_dot)
qed

definition example_duck :: Duck where
  "example_duck =
     \<lparr>d_TypeMeta = \<lparr>tm_APIVersion = ''example.com/v1'', tm_Kind = ''Duck''\<rparr>,
      d_ObjectMeta = ObjectMeta_named ''deployments.apps'',
      d_Spec = \<lparr>ds_Group = ''apps'', ds_Version = ''v1'', ds_Kind = ''Deployment''\<rparr>,
      d_Status = \<lparr>dst_Status = Status_zero\<rparr>\<rparr>"

lemmas example_duck_simps = example_duck_def Duck_Name_def ObjectMeta_named_def

theorem duck_create_admits_iff_witness:
  "fst (Duck_ValidateCreate agg_ref example_duck) = None
   \<and> Duck_GroupVersionResource schema_ref example_duck =
       \<lparr>gvr_Group = ''apps'', gvr_Version = ''v1'', gvr_Resource = ''deployments''\<rparr>"
proof -
  have name: "Duck_Name example_duck = ''deployments'' @ ''.'' @ ds_Group (d_Spec example_duck)"
    by (simp add: example_duck_simps)
  show ?thesis
    using duck_create_admits_iff [OF agg_ref_laws schema_ref_laws, of example_duck] name
    by (force simp: example_duck_def)
qed

end
