(* ===== verification/Api_Lifecycle.thy ===== *)
theory Api_Lifecycle
  imports Api_Types
begin

text \<open>
  The lifecycle of a duck's and a duck type's status: \<open>duck_lifecycle.go\<close> and
  \<open>ducktype_lifecycle.go\<close>.  The condition manager is library code, the parameter \<open>cond_ops\<close>; the
  condition sets it manages and the way the API types reach it are this repository's.  The main
  result is that a status which the controllers have only changed through the manager is Ready
  only when every dependent condition is true.
\<close>

section \<open>The condition manager\<close>

text \<open>\<open>apis.NewLivingConditionSetWithHappyReason(happyReason, dependents...)\<close>\<close>

record ConditionSet =
  cs_happyReason :: string
  cs_dependents :: "string list"

text \<open>
  The operations of \<open>apis.ConditionManager\<close>, with the condition set and the status the manager was
  made from as arguments; the message is given after formatting.
\<close>

record cond_ops =
  co_ConditionReady :: string
  co_GetCondition :: "ConditionSet \<Rightarrow> Status \<Rightarrow> string \<Rightarrow> Condition option"
  co_MarkTrue :: "ConditionSet \<Rightarrow> string \<Rightarrow> string \<Rightarrow> string \<Rightarrow> Status \<Rightarrow> Status"
  co_MarkFalse :: "ConditionSet \<Rightarrow> string \<Rightarrow> string \<Rightarrow> string \<Rightarrow> Status \<Rightarrow> Status"
  co_MarkUnknown :: "ConditionSet \<Rightarrow> string \<Rightarrow> string \<Rightarrow> string \<Rightarrow> Status \<Rightarrow> Status"
  co_InitializeConditions :: "ConditionSet \<Rightarrow> Status \<Rightarrow> Status"
  co_ConditionIsTrue :: "Condition option \<Rightarrow> bool"

definition cond_true :: "cond_ops \<Rightarrow> ConditionSet \<Rightarrow> Status \<Rightarrow> string \<Rightarrow> bool" where
  "cond_true C S st t \<longleftrightarrow> co_ConditionIsTrue C (co_GetCondition C S st t)"

text \<open>
  A well-formed set keeps the happy condition out of its dependents, as the library requires.
\<close>

definition cset_ok :: "cond_ops \<Rightarrow> ConditionSet \<Rightarrow> bool" where
  "cset_ok C S \<longleftrightarrow> co_ConditionReady C \<notin> set (cs_dependents S)"

text \<open>
  The documented effect of one mark of a dependent condition \<open>t\<close>: it stores status, reason and
  message of \<open>t\<close>, and leaves the other dependents alone.
\<close>

definition marks_as ::
  "cond_ops \<Rightarrow> string \<Rightarrow> (ConditionSet \<Rightarrow> string \<Rightarrow> string \<Rightarrow> string \<Rightarrow> Status \<Rightarrow> Status) \<Rightarrow> bool" where
  "marks_as C v mark \<longleftrightarrow>
     (\<forall>S t r m st. cset_ok C S \<longrightarrow> t \<in> set (cs_dependents S) \<longrightarrow>
        (\<exists>c. co_GetCondition C S (mark S t r m st) t = Some c
           \<and> c_Type c = t \<and> c_Status c = v \<and> c_Reason c = r \<and> c_Message c = m)
      \<and> (\<forall>u \<in> set (cs_dependents S). u \<noteq> t \<longrightarrow>
           co_GetCondition C S (mark S t r m st) u = co_GetCondition C S st u))"

text \<open>
  And on the happy condition: \<open>MarkTrue\<close> makes it true if all dependents now are, and never makes
  it true otherwise; \<open>MarkFalse\<close> makes it false; \<open>MarkUnknown\<close> makes it unknown unless another
  dependent is in an error state, in which case it stays in that error state.  A fresh set of
  conditions is initialised to unknown.
\<close>

definition condition_laws :: "cond_ops \<Rightarrow> bool" where
  "condition_laws C \<longleftrightarrow>
     co_ConditionReady C = ''Ready''
   \<and> (\<forall>co. co_ConditionIsTrue C co \<longleftrightarrow> (\<exists>c. co = Some c \<and> c_Status c = ''True''))
   \<and> marks_as C ''True'' (co_MarkTrue C)
   \<and> marks_as C ''False'' (co_MarkFalse C)
   \<and> marks_as C ''Unknown'' (co_MarkUnknown C)
   \<and> (\<forall>S t r m st. cset_ok C S \<longrightarrow> t \<in> set (cs_dependents S) \<longrightarrow>
        cond_true C S (co_MarkTrue C S t r m st) (co_ConditionReady C) =
          (\<forall>u \<in> set (cs_dependents S). u \<noteq> t \<longrightarrow> cond_true C S st u))
   \<and> (\<forall>S t r m st. cset_ok C S \<longrightarrow> t \<in> set (cs_dependents S) \<longrightarrow>
        \<not> cond_true C S (co_MarkFalse C S t r m st) (co_ConditionReady C))
   \<and> (\<forall>S t r m st. cset_ok C S \<longrightarrow> t \<in> set (cs_dependents S) \<longrightarrow>
        \<not> cond_true C S (co_MarkUnknown C S t r m st) (co_ConditionReady C))
   \<and> (\<forall>S st. cset_ok C S \<longrightarrow> st_Conditions st = [] \<longrightarrow>
        \<not> cond_true C S (co_InitializeConditions C S st) (co_ConditionReady C))"

section \<open>Conditions of a duck\<close>

definition DuckConditionReady :: "cond_ops \<Rightarrow> string" where
  "DuckConditionReady C = co_ConditionReady C"

definition DuckConditionRBAC :: string where
  "DuckConditionRBAC = ''RBAC''"

definition DuckConditionAvailable :: string where
  "DuckConditionAvailable = ''Available''"

definition DuckStatus_GetConditionSet :: ConditionSet where
  "DuckStatus_GetConditionSet =
     \<lparr>cs_happyReason = ''Ready'', cs_dependents = [DuckConditionRBAC, DuckConditionAvailable]\<rparr>"

text \<open>
  \<open>GetConditionManager\<close> binds the set to the status of the resource, so an operation of the manager
  is an operation on that status.  \<open>Duck_Manage\<close> runs a state-changing operation of the manager,
  \<open>Duck_GetCondition\<close> the reading one.
\<close>

definition DuckStatus_Manage ::
  "(ConditionSet \<Rightarrow> Status \<Rightarrow> Status) \<Rightarrow> DuckStatus \<Rightarrow> DuckStatus" where
  "DuckStatus_Manage f r = r\<lparr>dst_Status := f DuckStatus_GetConditionSet (dst_Status r)\<rparr>"

definition Duck_Manage :: "(ConditionSet \<Rightarrow> Status \<Rightarrow> Status) \<Rightarrow> Duck \<Rightarrow> Duck" where
  "Duck_Manage f r = r\<lparr>d_Status := DuckStatus_Manage f (d_Status r)\<rparr>"

definition Duck_GetCondition :: "cond_ops \<Rightarrow> Duck \<Rightarrow> string \<Rightarrow> Condition option" where
  "Duck_GetCondition C r t =
     co_GetCondition C DuckStatus_GetConditionSet (dst_Status (d_Status r)) t"

definition DuckStatus_InitializeConditions :: "cond_ops \<Rightarrow> DuckStatus \<Rightarrow> DuckStatus" where
  "DuckStatus_InitializeConditions C r = DuckStatus_Manage (co_InitializeConditions C) r"

definition Duck_MarkTrue :: "cond_ops \<Rightarrow> string \<Rightarrow> string \<Rightarrow> string \<Rightarrow> Duck \<Rightarrow> Duck" where
  "Duck_MarkTrue C t r m d = Duck_Manage (\<lambda>S. co_MarkTrue C S t r m) d"

definition Duck_MarkFalse :: "cond_ops \<Rightarrow> string \<Rightarrow> string \<Rightarrow> string \<Rightarrow> Duck \<Rightarrow> Duck" where
  "Duck_MarkFalse C t r m d = Duck_Manage (\<lambda>S. co_MarkFalse C S t r m) d"

definition Duck_MarkUnknown :: "cond_ops \<Rightarrow> string \<Rightarrow> string \<Rightarrow> string \<Rightarrow> Duck \<Rightarrow> Duck" where
  "Duck_MarkUnknown C t r m d = Duck_Manage (\<lambda>S. co_MarkUnknown C S t r m) d"

definition Duck_is_ready :: "cond_ops \<Rightarrow> Duck \<Rightarrow> bool" where
  "Duck_is_ready C d \<longleftrightarrow> co_ConditionIsTrue C (Duck_GetCondition C d (DuckConditionReady C))"

section \<open>Conditions of a duck type\<close>

definition DuckTypeConditionReady :: "cond_ops \<Rightarrow> string" where
  "DuckTypeConditionReady C = co_ConditionReady C"

definition DuckTypeConditionRBAC :: string where
  "DuckTypeConditionRBAC = ''RBAC''"

definition DuckTypeConditionCustomResourceDefinitionEstablished :: string where
  "DuckTypeConditionCustomResourceDefinitionEstablished = ''CustomResourceDefinitionEstablished''"

definition DuckTypeStatus_GetConditionSet :: ConditionSet where
  "DuckTypeStatus_GetConditionSet =
     \<lparr>cs_happyReason = ''Ready'',
      cs_dependents = [DuckTypeConditionRBAC, DuckTypeConditionCustomResourceDefinitionEstablished]\<rparr>"

definition DuckTypeStatus_Manage ::
  "(ConditionSet \<Rightarrow> Status \<Rightarrow> Status) \<Rightarrow> DuckTypeStatus \<Rightarrow> DuckTypeStatus" where
  "DuckTypeStatus_Manage f r = r\<lparr>dtst_Status := f DuckTypeStatus_GetConditionSet (dtst_Status r)\<rparr>"

definition DuckType_Manage :: "(ConditionSet \<Rightarrow> Status \<Rightarrow> Status) \<Rightarrow> DuckType \<Rightarrow> DuckType" where
  "DuckType_Manage f r = r\<lparr>dt_Status := DuckTypeStatus_Manage f (dt_Status r)\<rparr>"

definition DuckType_GetCondition :: "cond_ops \<Rightarrow> DuckType \<Rightarrow> string \<Rightarrow> Condition option" where
  "DuckType_GetCondition C r t =
     co_GetCondition C DuckTypeStatus_GetConditionSet (dtst_Status (dt_Status r)) t"

definition DuckTypeStatus_InitializeConditions :: "cond_ops \<Rightarrow> DuckTypeStatus \<Rightarrow> DuckTypeStatus" where
  "DuckTypeStatus_InitializeConditions C r = DuckTypeStatus_Manage (co_InitializeConditions C) r"

definition DuckType_MarkTrue :: "cond_ops \<Rightarrow> string \<Rightarrow> string \<Rightarrow> string \<Rightarrow> DuckType \<Rightarrow> DuckType" where
  "DuckType_MarkTrue C t r m d = DuckType_Manage (\<lambda>S. co_MarkTrue C S t r m) d"

definition DuckType_MarkFalse :: "cond_ops \<Rightarrow> string \<Rightarrow> string \<Rightarrow> string \<Rightarrow> DuckType \<Rightarrow> DuckType" where
  "DuckType_MarkFalse C t r m d = DuckType_Manage (\<lambda>S. co_MarkFalse C S t r m) d"

definition DuckType_MarkUnknown :: "cond_ops \<Rightarrow> string \<Rightarrow> string \<Rightarrow> string \<Rightarrow> DuckType \<Rightarrow> DuckType" where
  "DuckType_MarkUnknown C t r m d = DuckType_Manage (\<lambda>S. co_MarkUnknown C S t r m) d"

definition DuckType_is_ready :: "cond_ops \<Rightarrow> DuckType \<Rightarrow> bool" where
  "DuckType_is_ready C d \<longleftrightarrow> co_ConditionIsTrue C (DuckType_GetCondition C d (DuckTypeConditionReady C))"

section \<open>Facts about the marks\<close>

lemmas duck_cond_defs = DuckConditionReady_def DuckConditionRBAC_def DuckConditionAvailable_def
  DuckStatus_GetConditionSet_def

lemmas ducktype_cond_defs = DuckTypeConditionReady_def DuckTypeConditionRBAC_def
  DuckTypeConditionCustomResourceDefinitionEstablished_def DuckTypeStatus_GetConditionSet_def

lemma condition_is_true:
  "condition_laws C \<Longrightarrow> co_ConditionIsTrue C co \<longleftrightarrow> (\<exists>c. co = Some c \<and> c_Status c = ''True'')"
  by (simp add: condition_laws_def)

lemma duck_cset_ok [simp]: "condition_laws C \<Longrightarrow> cset_ok C DuckStatus_GetConditionSet"
  by (simp add: condition_laws_def cset_ok_def duck_cond_defs)

lemma ducktype_cset_ok [simp]: "condition_laws C \<Longrightarrow> cset_ok C DuckTypeStatus_GetConditionSet"
  by (simp add: condition_laws_def cset_ok_def ducktype_cond_defs)

lemma marks_as_get:
  "marks_as C v mark \<Longrightarrow> cset_ok C S \<Longrightarrow> t \<in> set (cs_dependents S) \<Longrightarrow>
     \<exists>c. co_GetCondition C S (mark S t r m st) t = Some c
       \<and> c_Type c = t \<and> c_Status c = v \<and> c_Reason c = r \<and> c_Message c = m"
  by (simp add: marks_as_def)

lemma marks_as_other:
  "marks_as C v mark \<Longrightarrow> cset_ok C S \<Longrightarrow> t \<in> set (cs_dependents S) \<Longrightarrow>
     u \<in> set (cs_dependents S) \<Longrightarrow> u \<noteq> t \<Longrightarrow>
     co_GetCondition C S (mark S t r m st) u = co_GetCondition C S st u"
  by (simp add: marks_as_def)

lemma marks_of_laws:
  assumes "condition_laws C"
  shows "marks_as C ''True'' (co_MarkTrue C)"
    and "marks_as C ''False'' (co_MarkFalse C)"
    and "marks_as C ''Unknown'' (co_MarkUnknown C)"
  using assms by (simp_all add: condition_laws_def)

lemma MarkTrue_ready:
  "condition_laws C \<Longrightarrow> cset_ok C S \<Longrightarrow> t \<in> set (cs_dependents S) \<Longrightarrow>
     cond_true C S (co_MarkTrue C S t r m st) (co_ConditionReady C) \<longleftrightarrow>
       (\<forall>u \<in> set (cs_dependents S). u \<noteq> t \<longrightarrow> cond_true C S st u)"
  unfolding condition_laws_def by blast

lemma MarkFalse_not_ready:
  "condition_laws C \<Longrightarrow> cset_ok C S \<Longrightarrow> t \<in> set (cs_dependents S) \<Longrightarrow>
     \<not> cond_true C S (co_MarkFalse C S t r m st) (co_ConditionReady C)"
  unfolding condition_laws_def by blast

lemma MarkUnknown_not_ready:
  "condition_laws C \<Longrightarrow> cset_ok C S \<Longrightarrow> t \<in> set (cs_dependents S) \<Longrightarrow>
     \<not> cond_true C S (co_MarkUnknown C S t r m st) (co_ConditionReady C)"
  unfolding condition_laws_def by blast

lemma cond_true_mark_same:
  assumes "condition_laws C" and "marks_as C v mark" and "cset_ok C S"
    and "t \<in> set (cs_dependents S)"
  shows "cond_true C S (mark S t r m st) t \<longleftrightarrow> v = ''True''"
  using marks_as_get [OF assms(2-4), of r m st] condition_is_true [OF assms(1)]
  by (auto simp: cond_true_def)

lemma cond_true_mark_other:
  "marks_as C v mark \<Longrightarrow> cset_ok C S \<Longrightarrow> t \<in> set (cs_dependents S) \<Longrightarrow>
     u \<in> set (cs_dependents S) \<Longrightarrow> u \<noteq> t \<Longrightarrow>
     cond_true C S (mark S t r m st) u = cond_true C S st u"
  by (simp add: cond_true_def marks_as_other)

text \<open>The same for the conditions of a duck and of a duck type.\<close>

definition Duck_cond :: "cond_ops \<Rightarrow> Duck \<Rightarrow> string \<Rightarrow> bool" where
  "Duck_cond C d t = cond_true C DuckStatus_GetConditionSet (dst_Status (d_Status d)) t"

definition DuckType_cond :: "cond_ops \<Rightarrow> DuckType \<Rightarrow> string \<Rightarrow> bool" where
  "DuckType_cond C d t = cond_true C DuckTypeStatus_GetConditionSet (dtst_Status (dt_Status d)) t"

lemma Duck_is_ready_iff: "Duck_is_ready C d \<longleftrightarrow> Duck_cond C d (co_ConditionReady C)"
  by (simp add: Duck_is_ready_def Duck_GetCondition_def Duck_cond_def cond_true_def DuckConditionReady_def)

lemma DuckType_is_ready_iff: "DuckType_is_ready C d \<longleftrightarrow> DuckType_cond C d (co_ConditionReady C)"
  by (simp add: DuckType_is_ready_def DuckType_GetCondition_def DuckType_cond_def cond_true_def DuckTypeConditionReady_def)

lemmas Duck_mark_defs = Duck_cond_def Duck_MarkTrue_def Duck_MarkFalse_def Duck_MarkUnknown_def Duck_Manage_def DuckStatus_Manage_def

lemmas DuckType_mark_defs = DuckType_cond_def DuckType_MarkTrue_def DuckType_MarkFalse_def DuckType_MarkUnknown_def
  DuckType_Manage_def DuckTypeStatus_Manage_def

lemma duck_dependents [simp]: "set (cs_dependents DuckStatus_GetConditionSet) = {DuckConditionRBAC, DuckConditionAvailable}"
  by (simp add: DuckStatus_GetConditionSet_def)

lemma ducktype_dependents [simp]: "set (cs_dependents DuckTypeStatus_GetConditionSet) =
    {DuckTypeConditionRBAC, DuckTypeConditionCustomResourceDefinitionEstablished}"
  by (simp add: DuckTypeStatus_GetConditionSet_def)

lemma duck_conditions_distinct [simp]: "DuckConditionRBAC \<noteq> DuckConditionAvailable" "DuckConditionAvailable \<noteq> DuckConditionRBAC"
  by (simp_all add: DuckConditionRBAC_def DuckConditionAvailable_def)

lemma ducktype_conditions_distinct [simp]:
  "DuckTypeConditionRBAC \<noteq> DuckTypeConditionCustomResourceDefinitionEstablished"
  "DuckTypeConditionCustomResourceDefinitionEstablished \<noteq> DuckTypeConditionRBAC"
  by (simp_all add: DuckTypeConditionRBAC_def DuckTypeConditionCustomResourceDefinitionEstablished_def)

lemma Duck_marks:
  assumes "condition_laws C" "t \<in> {DuckConditionRBAC, DuckConditionAvailable}" "u \<in> {DuckConditionRBAC, DuckConditionAvailable}"
  shows "Duck_cond C (Duck_MarkTrue C t r m d) u \<longleftrightarrow> u = t \<or> Duck_cond C d u"
    and "Duck_cond C (Duck_MarkFalse C t r m d) u \<longleftrightarrow> u \<noteq> t \<and> Duck_cond C d u"
    and "Duck_cond C (Duck_MarkUnknown C t r m d) u \<longleftrightarrow> u \<noteq> t \<and> Duck_cond C d u"
  using assms marks_of_laws [OF assms(1)] duck_cset_ok [OF assms(1)]
  by (simp_all add: Duck_mark_defs) (cases "u = t"; simp add: cond_true_mark_same cond_true_mark_other)+

lemma Duck_mark_ready:
  assumes "condition_laws C" "t \<in> {DuckConditionRBAC, DuckConditionAvailable}"
  shows "Duck_is_ready C (Duck_MarkTrue C t r m d) \<longleftrightarrow> (\<forall>u \<in> {DuckConditionRBAC, DuckConditionAvailable}. u \<noteq> t \<longrightarrow> Duck_cond C d u)"
    and "\<not> Duck_is_ready C (Duck_MarkFalse C t r m d)"
    and "\<not> Duck_is_ready C (Duck_MarkUnknown C t r m d)"
  using assms duck_cset_ok [OF assms(1)]
  by (simp_all add: Duck_is_ready_iff Duck_mark_defs MarkTrue_ready MarkFalse_not_ready MarkUnknown_not_ready)

lemma DuckType_marks:
  assumes "condition_laws C" "t \<in> {DuckTypeConditionRBAC, DuckTypeConditionCustomResourceDefinitionEstablished}" "u \<in> {DuckTypeConditionRBAC, DuckTypeConditionCustomResourceDefinitionEstablished}"
  shows "DuckType_cond C (DuckType_MarkTrue C t r m d) u \<longleftrightarrow> u = t \<or> DuckType_cond C d u"
    and "DuckType_cond C (DuckType_MarkFalse C t r m d) u \<longleftrightarrow> u \<noteq> t \<and> DuckType_cond C d u"
    and "DuckType_cond C (DuckType_MarkUnknown C t r m d) u \<longleftrightarrow> u \<noteq> t \<and> DuckType_cond C d u"
  using assms marks_of_laws [OF assms(1)] ducktype_cset_ok [OF assms(1)]
  by (simp_all add: DuckType_mark_defs) (cases "u = t"; simp add: cond_true_mark_same cond_true_mark_other)+

lemma DuckType_mark_ready:
  assumes "condition_laws C" "t \<in> {DuckTypeConditionRBAC, DuckTypeConditionCustomResourceDefinitionEstablished}"
  shows "DuckType_is_ready C (DuckType_MarkTrue C t r m d) \<longleftrightarrow> (\<forall>u \<in> {DuckTypeConditionRBAC, DuckTypeConditionCustomResourceDefinitionEstablished}. u \<noteq> t \<longrightarrow> DuckType_cond C d u)"
    and "\<not> DuckType_is_ready C (DuckType_MarkFalse C t r m d)"
    and "\<not> DuckType_is_ready C (DuckType_MarkUnknown C t r m d)"
  using assms ducktype_cset_ok [OF assms(1)]
  by (simp_all add: DuckType_is_ready_iff DuckType_mark_defs MarkTrue_ready MarkFalse_not_ready MarkUnknown_not_ready)

text \<open>A mark changes nothing but the status.\<close>

lemma Duck_mark_frame [simp]:
  "d_Spec (Duck_MarkTrue C t r m d) = d_Spec d" "d_ObjectMeta (Duck_MarkTrue C t r m d) = d_ObjectMeta d"
  "d_Spec (Duck_MarkFalse C t r m d) = d_Spec d" "d_ObjectMeta (Duck_MarkFalse C t r m d) = d_ObjectMeta d"
  "d_Spec (Duck_MarkUnknown C t r m d) = d_Spec d" "d_ObjectMeta (Duck_MarkUnknown C t r m d) = d_ObjectMeta d"
  by (simp_all add: Duck_mark_defs)

lemma DuckType_mark_frame [simp]:
  "dt_Spec (DuckType_MarkTrue C t r m d) = dt_Spec d" "dt_ObjectMeta (DuckType_MarkTrue C t r m d) = dt_ObjectMeta d"
  "dt_Spec (DuckType_MarkFalse C t r m d) = dt_Spec d" "dt_ObjectMeta (DuckType_MarkFalse C t r m d) = dt_ObjectMeta d"
  "dt_Spec (DuckType_MarkUnknown C t r m d) = dt_Spec d" "dt_ObjectMeta (DuckType_MarkUnknown C t r m d) = dt_ObjectMeta d"
  by (simp_all add: DuckType_mark_defs)

section \<open>Statuses the controllers can write\<close>

text \<open>
  A status starts without conditions, is initialised, and is then changed by marks of dependent
  conditions only.
\<close>

inductive managed :: "cond_ops \<Rightarrow> ConditionSet \<Rightarrow> Status \<Rightarrow> bool" for C S where
  managed_init: "st_Conditions st = [] \<Longrightarrow> managed C S (co_InitializeConditions C S st)"
| managed_true: "managed C S st \<Longrightarrow> t \<in> set (cs_dependents S) \<Longrightarrow>
     managed C S (co_MarkTrue C S t r m st)"
| managed_false: "managed C S st \<Longrightarrow> t \<in> set (cs_dependents S) \<Longrightarrow>
     managed C S (co_MarkFalse C S t r m st)"
| managed_unknown: "managed C S st \<Longrightarrow> t \<in> set (cs_dependents S) \<Longrightarrow>
     managed C S (co_MarkUnknown C S t r m st)"

lemma managed_ready:
  assumes "managed C S st" and "condition_laws C" and "cset_ok C S"
    and "cond_true C S st (co_ConditionReady C)" and "u \<in> set (cs_dependents S)"
  shows "cond_true C S st u"
  using assms
proof (induction rule: managed.induct)
  case (managed_init st)
  then show ?case unfolding condition_laws_def by blast
next
  case (managed_true st t r m)
  note mark = marks_of_laws(1) [OF managed_true.prems(1)]
  show ?case
  proof (cases "u = t")
    case True
    with managed_true show ?thesis by (simp add: cond_true_mark_same [OF _ mark])
  next
    case False
    with managed_true have "cond_true C S st u" by (simp add: MarkTrue_ready)
    with False managed_true show ?thesis by (simp add: cond_true_mark_other [OF mark])
  qed
qed (auto simp: MarkFalse_not_ready MarkUnknown_not_ready)

section \<open>A reference condition manager\<close>

text \<open>
  A concrete manager that satisfies the laws: conditions are kept one per type, and the happy
  condition summarises the dependents after every mark.
\<close>

definition find_cond :: "Condition list \<Rightarrow> string \<Rightarrow> Condition option" where
  "find_cond cs t = find (\<lambda>c. c_Type c = t) cs"

definition set_cond :: "Condition \<Rightarrow> Condition list \<Rightarrow> Condition list" where
  "set_cond c cs = filter (\<lambda>d. c_Type d \<noteq> c_Type c) cs @ [c]"

definition cond_has :: "Condition list \<Rightarrow> string \<Rightarrow> string \<Rightarrow> bool" where
  "cond_has cs v t \<longleftrightarrow> (case find_cond cs t of None \<Rightarrow> False | Some c \<Rightarrow> c_Status c = v)"

definition happy_status :: "ConditionSet \<Rightarrow> Condition list \<Rightarrow> string" where
  "happy_status S cs =
     (if list_ex (cond_has cs ''False'') (cs_dependents S) then ''False''
      else if list_all (cond_has cs ''True'') (cs_dependents S) then ''True'' else ''Unknown'')"

definition mark_ref :: "string \<Rightarrow> ConditionSet \<Rightarrow> string \<Rightarrow> string \<Rightarrow> string \<Rightarrow> Status \<Rightarrow> Status" where
  "mark_ref v S t r m st =
     (let cs = set_cond \<lparr>c_Type = t, c_Status = v, c_Reason = r, c_Message = m\<rparr> (st_Conditions st)
      in st\<lparr>st_Conditions := set_cond \<lparr>c_Type = ''Ready'', c_Status = happy_status S cs,
           c_Reason = cs_happyReason S, c_Message = []\<rparr> cs\<rparr>)"

definition cond_ref :: cond_ops where
  "cond_ref =
     \<lparr>co_ConditionReady = ''Ready'',
      co_GetCondition = (\<lambda>S st t. find_cond (st_Conditions st) t),
      co_MarkTrue = mark_ref ''True'',
      co_MarkFalse = mark_ref ''False'',
      co_MarkUnknown = mark_ref ''Unknown'',
      co_InitializeConditions = (\<lambda>S st. st\<lparr>st_Conditions := map (\<lambda>t.
         \<lparr>c_Type = t, c_Status = ''Unknown'', c_Reason = ''Initializing'', c_Message = []\<rparr>)
         (''Ready'' # cs_dependents S)\<rparr>),
      co_ConditionIsTrue = (\<lambda>co. case co of None \<Rightarrow> False | Some c \<Rightarrow> c_Status c = ''True'')\<rparr>"

lemma find_append: "find P (xs @ ys) = (case find P xs of None \<Rightarrow> find P ys | Some x \<Rightarrow> Some x)"
  by (induction xs) auto

lemma find_filter_other:
  "t \<noteq> u \<Longrightarrow> find (\<lambda>c. c_Type c = t) (filter (\<lambda>d. c_Type d \<noteq> u) cs) = find (\<lambda>c. c_Type c = t) cs"
  by (induction cs) auto

lemma find_filter_same: "find (\<lambda>c. c_Type c = t) (filter (\<lambda>d. c_Type d \<noteq> t) cs) = None"
  by (induction cs) auto

lemma find_set_cond [simp]:
  "find_cond (set_cond c cs) t = (if t = c_Type c then Some c else find_cond cs t)"
  by (auto simp: find_cond_def set_cond_def find_append find_filter_same find_filter_other
      split: option.splits)

lemma mark_ref_get:
  "find_cond (st_Conditions (mark_ref v S t r m st)) u =
     (if u = ''Ready'' then Some \<lparr>c_Type = ''Ready'', c_Status = happy_status S
           (set_cond \<lparr>c_Type = t, c_Status = v, c_Reason = r, c_Message = m\<rparr> (st_Conditions st)),
         c_Reason = cs_happyReason S, c_Message = []\<rparr>
      else if u = t then Some \<lparr>c_Type = t, c_Status = v, c_Reason = r, c_Message = m\<rparr>
      else find_cond (st_Conditions st) u)"
  by (simp add: mark_ref_def Let_def)

lemma mark_ref_marks_as: "marks_as cond_ref v (mark_ref v)"
  by (auto simp: marks_as_def cset_ok_def cond_ref_def mark_ref_get)

lemma cond_ref_true:
  "cond_true cond_ref S st t \<longleftrightarrow> cond_has (st_Conditions st) ''True'' t"
  by (simp add: cond_true_def cond_ref_def cond_has_def)

lemma cond_ref_ready:
  "cond_true cond_ref S (mark_ref v S t r m st) ''Ready'' \<longleftrightarrow>
     happy_status S (set_cond \<lparr>c_Type = t, c_Status = v, c_Reason = r, c_Message = m\<rparr>
       (st_Conditions st)) = ''True''"
  by (simp add: cond_ref_true cond_has_def mark_ref_get)

lemma happy_true_iff:
  "happy_status S cs = ''True'' \<longleftrightarrow> (\<forall>u \<in> set (cs_dependents S). cond_has cs ''True'' u)"
  by (auto simp: happy_status_def list_ex_iff list_all_iff cond_has_def split: option.splits)

lemma cond_has_set_cond:
  "cond_has (set_cond c cs) v t = (if t = c_Type c then c_Status c = v else cond_has cs v t)"
  by (simp add: cond_has_def)

lemma cond_ref_mark_ready:
  "t \<in> set (cs_dependents S) \<Longrightarrow> cond_true cond_ref S (mark_ref v S t r m st) ''Ready'' \<longleftrightarrow>
     v = ''True'' \<and> (\<forall>u \<in> set (cs_dependents S). u \<noteq> t \<longrightarrow> cond_true cond_ref S st u)"
  by (subst cond_ref_ready) (auto simp: happy_true_iff cond_has_set_cond cond_ref_true)

lemma cond_ref_laws: "condition_laws cond_ref"
proof -
  have ops: "co_MarkTrue cond_ref = mark_ref ''True''" "co_MarkFalse cond_ref = mark_ref ''False''"
    "co_MarkUnknown cond_ref = mark_ref ''Unknown''" "co_ConditionReady cond_ref = ''Ready''"
    by (simp_all add: cond_ref_def)
  have "co_ConditionIsTrue cond_ref co \<longleftrightarrow> (\<exists>c. co = Some c \<and> c_Status c = ''True'')" for co
    by (simp add: cond_ref_def split: option.splits)
  moreover have "\<not> cond_true cond_ref S (co_InitializeConditions cond_ref S st) ''Ready''" for S st
    by (simp add: cond_ref_true cond_has_def) (simp add: cond_ref_def find_cond_def)
  ultimately show ?thesis
    by (simp add: condition_laws_def ops mark_ref_marks_as cond_ref_mark_ready)
qed

section \<open>The libraries the components call\<close>

text \<open>
  The pure functions of the libraries, gathered: the schema functions, the condition manager, the
  Unicode part of \<open>strings.ToLower\<close>, and the predicates and the reason of
  \<open>k8s.io/apimachinery/pkg/api/errors\<close> on API errors of type \<open>'e\<close>.
\<close>

record 'e libs =
  lib_schema :: schema_ops
  lib_cond :: cond_ops
  lib_lower :: "string \<Rightarrow> string"
  lib_IsNotFound :: "'e \<Rightarrow> bool"
  lib_IsInvalid :: "'e \<Rightarrow> bool"
  lib_IsAlreadyExists :: "'e \<Rightarrow> bool"
  lib_ReasonForError :: "'e \<Rightarrow> string"

definition lib_laws :: "('e, 'z) libs_scheme \<Rightarrow> bool" where
  "lib_laws P \<longleftrightarrow> schema_laws (lib_schema P) \<and> condition_laws (lib_cond P)"

text \<open>A small error type for the reference libraries.\<close>

datatype api_error = NotFound | Invalid | AlreadyExists | Conflict

definition libs_ref :: "api_error libs" where
  "libs_ref = \<lparr>lib_schema = schema_ref, lib_cond = cond_ref, lib_lower = id,
     lib_IsNotFound = (\<lambda>e. e = NotFound), lib_IsInvalid = (\<lambda>e. e = Invalid),
     lib_IsAlreadyExists = (\<lambda>e. e = AlreadyExists),
     lib_ReasonForError = (\<lambda>e. case e of NotFound \<Rightarrow> ''NotFound'' | Invalid \<Rightarrow> ''Invalid''
        | AlreadyExists \<Rightarrow> ''AlreadyExists'' | Conflict \<Rightarrow> ''Conflict'')\<rparr>"

lemma libs_ref_laws: "lib_laws libs_ref"
  by (simp add: lib_laws_def libs_ref_def schema_ref_laws cond_ref_laws)

section \<open>Example ducks\<close>

definition ready_status :: Status where
  "ready_status = \<lparr>st_ObservedGeneration = 1, st_Conditions =
     [\<lparr>c_Type = ''Ready'', c_Status = ''True'', c_Reason = ''Ready'', c_Message = []\<rparr>]\<rparr>"

definition demo_duck :: "string \<Rightarrow> string \<Rightarrow> string \<Rightarrow> string \<Rightarrow> Status \<Rightarrow> Duck" where
  "demo_duck name g v k st =
     \<lparr>d_TypeMeta = \<lparr>tm_APIVersion = ''example.com/v1'', tm_Kind = ''Duck''\<rparr>,
      d_ObjectMeta = ObjectMeta_named name,
      d_Spec = \<lparr>ds_Group = g, ds_Version = v, ds_Kind = k\<rparr>,
      d_Status = \<lparr>dst_Status = st\<rparr>\<rparr>"

definition demo_deployment :: Duck where
  "demo_deployment = demo_duck ''deployments.apps'' ''apps'' ''v1'' ''Deployment'' ready_status"

definition demo_job :: Duck where
  "demo_job = demo_duck ''jobs.batch'' ''batch'' ''v1'' ''Job'' ready_status"

definition demo_unready :: Duck where
  "demo_unready = demo_duck ''crons.batch'' ''batch'' ''v1'' ''Cron'' Status_zero"

lemmas demo_duck_simps = demo_deployment_def demo_job_def demo_unready_def demo_duck_def

lemma demo_is_ready:
  "Duck_is_ready cond_ref demo_deployment" "Duck_is_ready cond_ref demo_job"
  "\<not> Duck_is_ready cond_ref demo_unready"
  by (simp_all add: Duck_is_ready_def Duck_GetCondition_def DuckConditionReady_def
      cond_ref_def find_cond_def demo_duck_simps ready_status_def Status_zero_def)

lemma demo_specs:
  "d_Spec demo_deployment = \<lparr>ds_Group = ''apps'', ds_Version = ''v1'', ds_Kind = ''Deployment''\<rparr>"
  "d_Spec demo_job = \<lparr>ds_Group = ''batch'', ds_Version = ''v1'', ds_Kind = ''Job''\<rparr>"
  "d_Spec demo_unready = \<lparr>ds_Group = ''batch'', ds_Version = ''v1'', ds_Kind = ''Cron''\<rparr>"
  by (simp_all add: demo_duck_simps)

lemma demo_names:
  "Duck_Name demo_deployment = ''deployments.apps''" "Duck_Name demo_job = ''jobs.batch''"
  "Duck_Name demo_unready = ''crons.batch''"
  by (simp_all add: demo_duck_simps Duck_Name_def ObjectMeta_named_def)

lemma demo_libs:
  "lib_cond libs_ref = cond_ref" "lib_schema libs_ref = schema_ref" "lib_lower libs_ref = id"
  by (simp_all add: libs_ref_def)

end
