(* ===== verification/Duck_Client.thy ===== *)
theory Duck_Client
  imports Api_Lifecycle Api_Webhooks
begin

text \<open>
  The duck client of \<open>client/client.go\<close>.  It wraps a client of the same interface, the parameter
  \<open>client_ops\<close>, whose methods are actions on a world \<open>'w\<close> (the cluster, the caches and the tracker);
  a Go method that dispatches on the type of its argument is one field per argument type the code
  uses.  An object or list that a method fills in place is the second component of the state.
\<close>

section \<open>Objects and the wrapped client\<close>

record 'o Object =
  o_gvk :: GroupVersionKind
  o_body :: 'o

record 'l ObjectList =
  ol_gvk :: GroupVersionKind
  ol_body :: 'l

datatype 'e client_error =
    ErrUnknownDuckType
  | ErrUnknownDuck
  | ErrDuckTypeNotReady
  | ClientError 'e

record ('w, 'e, 'o, 'u, 'k, 'opt, 'p) client_ops =
  Get_DuckType :: "string \<Rightarrow> DuckType \<Rightarrow> ('w, 'e, DuckType) act"
  List_Ducks :: "DuckList \<Rightarrow> ('w, 'e, DuckList) act"
  TrackAndList_Ducks :: "DuckList \<Rightarrow> ('w, 'e, DuckList) act"
  Get_Object :: "'k \<Rightarrow> 'opt list \<Rightarrow> ('w \<times> 'o Object, 'e, unit) act"
  TrackAndGet_Object :: "'k \<Rightarrow> 'opt list \<Rightarrow> ('w \<times> 'o Object, 'e, unit) act"
  List_Unstructured :: "GroupVersionKind \<Rightarrow> 'opt list \<Rightarrow> ('w, 'e, 'u list) act"
  TrackAndList_Unstructured :: "GroupVersionKind \<Rightarrow> 'opt list \<Rightarrow> ('w, 'e, 'u list) act"
  Create_Object :: "'opt list \<Rightarrow> ('w \<times> 'o Object, 'e, unit) act"
  Delete_Object :: "'opt list \<Rightarrow> ('w \<times> 'o Object, 'e, unit) act"
  Update_Object :: "'opt list \<Rightarrow> ('w \<times> 'o Object, 'e, unit) act"
  Patch_Object :: "'p \<Rightarrow> 'opt list \<Rightarrow> ('w \<times> 'o Object, 'e, unit) act"
  Apply_Configuration :: "'p \<Rightarrow> 'opt list \<Rightarrow> ('w, 'e, unit) act"
  DeleteAllOf_Object :: "'o Object \<Rightarrow> 'opt list \<Rightarrow> ('w, 'e, unit) act"
  IsObjectNamespaced_Object :: "'o Object \<Rightarrow> ('w, 'e, bool) act"

record ('w, 'e, 'o, 'u, 'k, 'opt, 'p) duckClient =
  dc_client :: "('w, 'e, 'o, 'u, 'k, 'opt, 'p) client_ops"
  dc_duckType :: DuckType

definition DuckClient_New ::
  "string \<Rightarrow> ('w, 'e, 'o, 'u, 'k, 'opt, 'p) client_ops \<Rightarrow> ('w, 'e, 'o, 'u, 'k, 'opt, 'p) duckClient" where
  "DuckClient_New duckType client =
     \<lparr>dc_client = client,
      dc_duckType = \<lparr>dt_TypeMeta = TypeMeta_zero, dt_ObjectMeta = ObjectMeta_named duckType,
        dt_Spec = DuckTypeSpec_zero, dt_Status = \<lparr>dtst_Status = Status_zero\<rparr>\<rparr>\<rparr>"

section \<open>Resolving ducks\<close>

text \<open>The loop of \<open>ducks\<close> over the listed ducks, with the slice it appends to.\<close>

fun select_ducks :: "('e, 'z) libs_scheme \<Rightarrow> GroupKind \<Rightarrow> Duck list \<Rightarrow> Duck list \<Rightarrow> Duck list" where
  "select_ducks P duckGK [] ducks = ducks"
| "select_ducks P duckGK (duck # rest) ducks =
     (if \<not> Duck_is_ready (lib_cond P) duck then select_ducks P duckGK rest ducks
      else if GroupKind_Empty (lib_schema P) duckGK then select_ducks P duckGK rest (ducks @ [duck])
      else if gk_Group duckGK = ds_Group (d_Spec duck) \<and> gk_Kind duckGK = ds_Kind (d_Spec duck)
      then select_ducks P duckGK rest (ducks @ [duck])
      else if gk_Group duckGK = ds_Group (d_Spec duck)
            \<and> gk_Kind duckGK = ds_Kind (d_Spec duck) @ ''List''
      then select_ducks P duckGK rest (ducks @ [duck])
      else select_ducks P duckGK rest ducks)"

definition duckList_of :: "('e, 'z) libs_scheme \<Rightarrow> DuckType \<Rightarrow> DuckList" where
  "duckList_of P duckType =
     \<lparr>dl_TypeMeta = \<lparr>tm_APIVersion = GroupVersion_String (lib_schema P)
          \<lparr>gv_Group = dts_Group (dt_Spec duckType), gv_Version = ''v1''\<rparr>,
        tm_Kind = dts_ListKind (dt_Spec duckType)\<rparr>,
      dl_Items = []\<rparr>"

definition ducks ::
  "('e, 'z) libs_scheme \<Rightarrow> ('w, 'e, 'o, 'u, 'k, 'opt, 'p) duckClient \<Rightarrow> GroupKind \<Rightarrow> bool
     \<Rightarrow> ('w, 'e client_error, Duck list) act" where
  "ducks P c duckGK track =
     abind (amap_err (\<lambda>err. if lib_IsNotFound P err then ErrUnknownDuckType else ClientError err)
         (Get_DuckType (dc_client c) (DuckType_Name (dc_duckType c)) (dc_duckType c)))
       (\<lambda>duckType. case DuckType_Default (lib_lower P) duckType of
          (Some err, _) \<Rightarrow> afail (ClientError err)
        | (None, duckType) \<Rightarrow>
            if \<not> DuckType_is_ready (lib_cond P) duckType then afail ErrDuckTypeNotReady
            else abind (amap_err ClientError
                ((if track then TrackAndList_Ducks (dc_client c) else List_Ducks (dc_client c))
                  (duckList_of P duckType)))
              (\<lambda>duckList.
                 let ds = select_ducks P duckGK (dl_Items duckList) []
                 in if \<not> GroupKind_Empty (lib_schema P) duckGK \<and> length ds = 0
                    then afail ErrUnknownDuck else areturn ds))"

definition duck ::
  "('e, 'z) libs_scheme \<Rightarrow> ('w, 'e, 'o, 'u, 'k, 'opt, 'p) duckClient \<Rightarrow> GroupKind \<Rightarrow> bool
     \<Rightarrow> ('w, 'e client_error, Duck) act" where
  "duck P c duckGK track =
     abind (ducks P c duckGK track)
       (\<lambda>ds. if length ds \<noteq> 1 then afail ErrUnknownDuck else areturn (ds ! 0))"

definition setDuckVersion ::
  "('e, 'z) libs_scheme \<Rightarrow> ('w, 'e, 'o, 'u, 'k, 'opt, 'p) duckClient \<Rightarrow> bool
     \<Rightarrow> ('w \<times> 'o Object, 'e client_error, unit) act" where
  "setDuckVersion P c track ws =
     (let gvk = o_gvk (snd ws)
      in abind (on_fst (duck P c (GVK_GroupKind gvk) track))
           (\<lambda>duck. on_snd (\<lambda>obj. (Ok (),
              obj\<lparr>o_gvk := gvk\<lparr>gvk_Version := ds_Version (d_Spec duck)\<rparr>\<rparr>))) ws)"

section \<open>Reading\<close>

definition DuckClient_Get ::
  "('e, 'z) libs_scheme \<Rightarrow> ('w, 'e, 'o, 'u, 'k, 'opt, 'p) duckClient \<Rightarrow> 'k \<Rightarrow> 'opt list
     \<Rightarrow> ('w \<times> 'o Object, 'e client_error, unit) act" where
  "DuckClient_Get P c key opts =
     abind (setDuckVersion P c False) (\<lambda>_. amap_err ClientError (Get_Object (dc_client c) key opts))"

definition DuckClient_TrackAndGet ::
  "('e, 'z) libs_scheme \<Rightarrow> ('w, 'e, 'o, 'u, 'k, 'opt, 'p) duckClient \<Rightarrow> 'k \<Rightarrow> 'opt list
     \<Rightarrow> ('w \<times> 'o Object, 'e client_error, unit) act" where
  "DuckClient_TrackAndGet P c key opts =
     abind (setDuckVersion P c True)
       (\<lambda>_. amap_err ClientError (TrackAndGet_Object (dc_client c) key opts))"

text \<open>The kind of the list that holds the resources of a duck.\<close>

definition duck_list_gvk :: "Duck \<Rightarrow> GroupVersionKind" where
  "duck_list_gvk d =
     \<lparr>gvk_Group = ds_Group (d_Spec d), gvk_Version = ds_Version (d_Spec d),
      gvk_Kind = ds_Kind (d_Spec d) @ ''List''\<rparr>"

text \<open>
  \<open>duck.Convert\<close>, which copies the aggregated items into the caller's list through their JSON form,
  is library code: the parameter \<open>convert\<close>.
\<close>

definition DuckClient_List ::
  "('e, 'z) libs_scheme \<Rightarrow> ('u list \<Rightarrow> ('l ObjectList, 'e, unit) act)
     \<Rightarrow> ('w, 'e, 'o, 'u, 'k, 'opt, 'p) duckClient \<Rightarrow> 'opt list
     \<Rightarrow> ('w \<times> 'l ObjectList, 'e client_error, unit) act" where
  "DuckClient_List P convert c opts ws =
     abind (on_fst (ducks P c (GVK_GroupKind (ol_gvk (snd ws))) False))
       (\<lambda>ds. abind (on_fst (for_append
            (\<lambda>duck. amap_err ClientError (List_Unstructured (dc_client c) (duck_list_gvk duck) opts))
            ds []))
          (\<lambda>items. on_snd (amap_err ClientError (convert items)))) ws"

definition DuckClient_TrackAndList ::
  "('e, 'z) libs_scheme \<Rightarrow> ('u list \<Rightarrow> ('l ObjectList, 'e, unit) act)
     \<Rightarrow> ('w, 'e, 'o, 'u, 'k, 'opt, 'p) duckClient \<Rightarrow> 'opt list
     \<Rightarrow> ('w \<times> 'l ObjectList, 'e client_error, unit) act" where
  "DuckClient_TrackAndList P convert c opts ws =
     abind (on_fst (ducks P c (GVK_GroupKind (ol_gvk (snd ws))) True))
       (\<lambda>ds. abind (on_fst (for_append
            (\<lambda>duck. amap_err ClientError
               (TrackAndList_Unstructured (dc_client c) (duck_list_gvk duck) opts))
            ds []))
          (\<lambda>items. on_snd (amap_err ClientError (convert items)))) ws"

definition DuckClient_GroupVersionKindFor ::
  "('e, 'z) libs_scheme \<Rightarrow> ('w, 'e, 'o, 'u, 'k, 'opt, 'p) duckClient \<Rightarrow> 'o Object
     \<Rightarrow> ('w, 'e client_error, GroupVersionKind) act" where
  "DuckClient_GroupVersionKindFor P c obj w =
     (case setDuckVersion P c False (w, obj) of
        (Ok _, (w', obj')) \<Rightarrow> (Ok (o_gvk obj'), w')
      | (Err err, (w', _)) \<Rightarrow> (Err err, w')
      | (Panic p, (w', _)) \<Rightarrow> (Panic p, w'))"

definition DuckClient_IsObjectNamespaced ::
  "('w, 'e, 'o, 'u, 'k, 'opt, 'p) duckClient \<Rightarrow> 'o Object \<Rightarrow> ('w, 'e client_error, bool) act" where
  "DuckClient_IsObjectNamespaced c obj =
     amap_err ClientError (IsObjectNamespaced_Object (dc_client c) obj)"

section \<open>Writing\<close>

definition DuckClient_Create ::
  "('w, 'e, 'o, 'u, 'k, 'opt, 'p) duckClient \<Rightarrow> 'opt list
     \<Rightarrow> ('w \<times> 'o Object, 'e client_error, unit) act" where
  "DuckClient_Create c opts = amap_err ClientError (Create_Object (dc_client c) opts)"

definition DuckClient_Delete ::
  "('w, 'e, 'o, 'u, 'k, 'opt, 'p) duckClient \<Rightarrow> 'opt list
     \<Rightarrow> ('w \<times> 'o Object, 'e client_error, unit) act" where
  "DuckClient_Delete c opts = amap_err ClientError (Delete_Object (dc_client c) opts)"

definition DuckClient_Update ::
  "('w, 'e, 'o, 'u, 'k, 'opt, 'p) duckClient \<Rightarrow> 'opt list
     \<Rightarrow> ('w \<times> 'o Object, 'e client_error, unit) act" where
  "DuckClient_Update c opts = amap_err ClientError (Update_Object (dc_client c) opts)"

definition DuckClient_Patch ::
  "('w, 'e, 'o, 'u, 'k, 'opt, 'p) duckClient \<Rightarrow> 'p \<Rightarrow> 'opt list
     \<Rightarrow> ('w \<times> 'o Object, 'e client_error, unit) act" where
  "DuckClient_Patch c patch opts = amap_err ClientError (Patch_Object (dc_client c) patch opts)"

definition DuckClient_Apply ::
  "('w, 'e, 'o, 'u, 'k, 'opt, 'p) duckClient \<Rightarrow> 'p \<Rightarrow> 'opt list
     \<Rightarrow> ('w, 'e client_error, unit) act" where
  "DuckClient_Apply c obj opts = amap_err ClientError (Apply_Configuration (dc_client c) obj opts)"

definition DuckClient_DeleteAllOf ::
  "('e, 'z) libs_scheme \<Rightarrow> ('w, 'e, 'o, 'u, 'k, 'opt, 'p) duckClient \<Rightarrow> 'o Object \<Rightarrow> 'opt list
     \<Rightarrow> ('w, 'e client_error, unit) act" where
  "DuckClient_DeleteAllOf P c obj opts =
     abind (ducks P c (GVK_GroupKind (o_gvk obj)) False)
       (for_each (\<lambda>duck. amap_err ClientError
          (DeleteAllOf_Object (dc_client c)
             (obj\<lparr>o_gvk := \<lparr>gvk_Group = ds_Group (d_Spec duck), gvk_Version = ds_Version (d_Spec duck),
                gvk_Kind = ds_Kind (d_Spec duck)\<rparr>\<rparr>) opts)))"

section \<open>Operations that are not available for duck types\<close>

definition DuckClient_Watch :: "('w, 'e client_error, 'i) act" where
  "DuckClient_Watch = apanic ''Watch is not implemented for duck types''"

definition DuckClient_Status :: "('w, 'e client_error, 'i) act" where
  "DuckClient_Status = apanic ''Status sub resource client is not implemented for duck types''"

definition DuckClient_SubResource :: "string \<Rightarrow> ('w, 'e client_error, 'i) act" where
  "DuckClient_SubResource subResource =
     apanic ''SubResource client is not implemented for duck types''"

section \<open>What the client relies on when it resolves ducks\<close>

text \<open>
  Every operation that takes a group and kind first resolves it to ducks.  The contract of the
  resolution: it only yields ducks that are acceptable for the group and kind it was asked for.
  From it follows that a loop over the resolved ducks only visits acceptable ducks.
\<close>

locale duck_resolver =
  fixes resolve :: "GroupKind \<Rightarrow> bool \<Rightarrow> ('w, 'e, Duck list) act"
    and acceptable :: "GroupKind \<Rightarrow> Duck \<Rightarrow> bool"
  assumes resolve_acceptable: "resolve gk t w = (Ok ds, w') \<Longrightarrow> list_all (acceptable gk) ds"
begin

lemma visit_logged:
  assumes log: "\<And>d w. log (snd (f d w)) = log w @ [k d]"
    and keep: "\<And>w. log (snd (resolve gk t w)) = log w"
  shows "\<exists>ds n. list_all (acceptable gk) ds
     \<and> log (snd (abind (resolve gk t) (for_each f) w)) = log w @ map k (take n ds)
     \<and> (fst (abind (resolve gk t) (for_each f) w) = Ok () \<longrightarrow>
          n = length ds \<and> fst (resolve gk t w) = Ok ds)"
proof -
  obtain r w1 where step: "resolve gk t w = (r, w1)" by fastforce
  with keep [of w] have log1: "log w1 = log w" by simp
  show ?thesis
  proof (cases r)
    case (Ok ds)
    with step have acc: "list_all (acceptable gk) ds" by (simp add: resolve_acceptable)
    obtain n where "log (snd (for_each f ds w1)) = log w1 @ map k (take n ds)"
        "fst (for_each f ds w1) = Ok () \<longrightarrow> n = length ds"
      using for_each_log [of log f k ds w1] log by blast
    with step Ok acc log1 show ?thesis by (intro exI [of _ ds] exI [of _ n]) simp
  qed (use step log1 in \<open>auto intro!: exI [of _ "[]"]\<close>)
qed

end

section \<open>Facts about resolving\<close>

text \<open>What the loop of \<open>ducks\<close> selects, stated as a predicate on one duck.\<close>

definition duck_matches :: "('e, 'z) libs_scheme \<Rightarrow> GroupKind \<Rightarrow> Duck \<Rightarrow> bool" where
  "duck_matches P gk d \<longleftrightarrow> Duck_is_ready (lib_cond P) d \<and>
     (GroupKind_Empty (lib_schema P) gk \<or>
      gk_Group gk = ds_Group (d_Spec d) \<and>
        (gk_Kind gk = ds_Kind (d_Spec d) \<or> gk_Kind gk = ds_Kind (d_Spec d) @ ''List''))"

lemma select_ducks_eq: "select_ducks P gk ds acc = acc @ filter (duck_matches P gk) ds"
  by (induction ds arbitrary: acc) (auto simp: duck_matches_def)

definition list_ducks_op ::
  "('w, 'e, 'o, 'u, 'k, 'opt, 'p) duckClient \<Rightarrow> bool \<Rightarrow> DuckList \<Rightarrow> ('w, 'e, DuckList) act" where
  "list_ducks_op c track = (if track then TrackAndList_Ducks (dc_client c) else List_Ducks (dc_client c))"

definition lookup_op ::
  "('w, 'e, 'o, 'u, 'k, 'opt, 'p) duckClient \<Rightarrow> ('w, 'e, DuckType) act" where
  "lookup_op c = Get_DuckType (dc_client c) (DuckType_Name (dc_duckType c)) (dc_duckType c)"

lemma ducks_eq:
  "ducks P c gk track =
     abind (amap_err (\<lambda>err. if lib_IsNotFound P err then ErrUnknownDuckType else ClientError err)
         (Get_DuckType (dc_client c) (DuckType_Name (dc_duckType c)) (dc_duckType c)))
       (\<lambda>dt. let dt' = DuckType_defaulted (lib_lower P) dt in
          if \<not> DuckType_is_ready (lib_cond P) dt' then afail ErrDuckTypeNotReady
          else abind (amap_err ClientError (list_ducks_op c track (duckList_of P dt')))
            (\<lambda>dl. let ds = filter (duck_matches P gk) (dl_Items dl) in
               if \<not> GroupKind_Empty (lib_schema P) gk \<and> ds = [] then afail ErrUnknownDuck
               else areturn ds))"
  unfolding ducks_def DuckType_Default_eq select_ducks_eq list_ducks_op_def Let_def
    append_Nil length_0_conv prod.case option.case by (rule refl)

lemma ducks_Ok_iff:
  "ducks P c gk track w = (Ok ds, w2) \<longleftrightarrow>
     (\<exists>dt w1 dl. Get_DuckType (dc_client c) (DuckType_Name (dc_duckType c)) (dc_duckType c) w
          = (Ok dt, w1)
        \<and> DuckType_is_ready (lib_cond P) (DuckType_defaulted (lib_lower P) dt)
        \<and> list_ducks_op c track (duckList_of P (DuckType_defaulted (lib_lower P) dt)) w1 = (Ok dl, w2)
        \<and> ds = filter (duck_matches P gk) (dl_Items dl)
        \<and> (GroupKind_Empty (lib_schema P) gk \<or> ds \<noteq> []))"
  by (auto simp: ducks_eq abind_eq_Ok_iff Let_def split: if_splits)

lemma keeps_ducks:
  assumes "\<And>key dt. act_keeps log (Get_DuckType (dc_client c) key dt)"
    and "\<And>dl. act_keeps log (List_Ducks (dc_client c) dl)"
  shows "act_keeps log (ducks P c gk False)"
  unfolding ducks_eq list_ducks_op_def Let_def if_False
  by (intro keep_intros assms)

lemma ducks_matches: "ducks P c gk track w = (Ok ds, w2) \<Longrightarrow> list_all (duck_matches P gk) ds"
  by (auto simp: ducks_Ok_iff list_all_iff)

interpretation dres: duck_resolver "ducks P c" "duck_matches P" for P c
  by unfold_locales (rule ducks_matches)

lemma single_result_iff:
  "(if length ds \<noteq> 1 then afail e else areturn (ds ! 0)) w = (Ok d, w2) \<longleftrightarrow> ds = [d] \<and> w2 = w"
  by (cases ds rule: remdups_adj.cases) auto

lemma duck_Ok_iff: "duck P c gk track w = (Ok d, w2) \<longleftrightarrow> ducks P c gk track w = (Ok [d], w2)"
  unfolding duck_def abind_eq_Ok_iff single_result_iff by blast

lemma duck_matches_duck: "duck P c gk track w = (Ok d, w2) \<Longrightarrow> duck_matches P gk d"
  using ducks_matches by (fastforce simp: duck_Ok_iff)

lemma setDuckVersion_Ok_iff:
  "setDuckVersion P c track (w, obj) = (Ok u, (w2, obj2)) \<longleftrightarrow>
     (\<exists>d. duck P c (GVK_GroupKind (o_gvk obj)) track w = (Ok d, w2)
        \<and> obj2 = obj\<lparr>o_gvk := (o_gvk obj)\<lparr>gvk_Version := ds_Version (d_Spec d)\<rparr>\<rparr>)"
  by (auto simp: setDuckVersion_def Let_def abind_eq_Ok_iff)

lemma setDuckVersion_Err_iff:
  "setDuckVersion P c track (w, obj) = (Err e, (w2, obj2)) \<longleftrightarrow>
     duck P c (GVK_GroupKind (o_gvk obj)) track w = (Err e, w2) \<and> obj2 = obj"
  by (auto simp: setDuckVersion_def Let_def abind_eq_Err_iff)

section \<open>Similarity of tracked and untracked reads\<close>

definition obs_object :: "('w \<Rightarrow> 'v) \<Rightarrow> 'w \<times> 's \<Rightarrow> 'v \<times> 's" where
  "obs_object obs ws = (obs (fst ws), snd ws)"

lemma sim_on_fst [sim_intros]:
  "act_sim obs m m' \<Longrightarrow> act_sim (obs_object obs) (on_fst m) (on_fst m')"
  unfolding act_sim_def on_fst_def obs_object_def by (fastforce split: prod.splits)

lemma sim_on_snd [sim_intros]: "act_sim (obs_object obs) (on_snd m) (on_snd m)"
  unfolding act_sim_def on_snd_def obs_object_def by (fastforce split: prod.splits)

text \<open>
  The documented relation of the tracking methods to the plain ones: they register the request
  with the tracker and otherwise read the same.  \<open>obs\<close> is what a read can observe of the world.
\<close>

definition tracking_laws ::
  "('w \<Rightarrow> 'v) \<Rightarrow> ('w, 'e, 'o, 'u, 'k, 'opt, 'p) client_ops \<Rightarrow> bool" where
  "tracking_laws obs K \<longleftrightarrow>
     (\<forall>key dt. act_sim obs (Get_DuckType K key dt) (Get_DuckType K key dt))
   \<and> (\<forall>dl. act_sim obs (List_Ducks K dl) (TrackAndList_Ducks K dl))
   \<and> (\<forall>gvk opts. act_sim obs (List_Unstructured K gvk opts) (TrackAndList_Unstructured K gvk opts))
   \<and> (\<forall>key opts. act_sim (obs_object obs) (Get_Object K key opts) (TrackAndGet_Object K key opts))"

lemma tracking_lawsD:
  assumes "tracking_laws obs K"
  shows "act_sim obs (Get_DuckType K key dt) (Get_DuckType K key dt)"
    and "act_sim obs (List_Ducks K dl) (TrackAndList_Ducks K dl)"
    and "act_sim obs (List_Unstructured K gvk opts) (TrackAndList_Unstructured K gvk opts)"
    and "act_sim (obs_object obs) (Get_Object K key' opts) (TrackAndGet_Object K key' opts)"
  using assms by (simp_all add: tracking_laws_def)

lemma sim_ducks:
  assumes "tracking_laws obs (dc_client c)"
  shows "act_sim obs (ducks P c gk False) (ducks P c gk True)"
  unfolding ducks_eq Let_def list_ducks_op_def if_True if_False
  by (intro sim_intros tracking_lawsD [OF assms])

lemma sim_duck:
  assumes "tracking_laws obs (dc_client c)"
  shows "act_sim obs (duck P c gk False) (duck P c gk True)"
  unfolding duck_def by (intro sim_intros sim_ducks assms)

lemma sim_setDuckVersion:
  fixes c :: "('w, 'e, 'o, 'u, 'k, 'opt, 'p) duckClient"
  assumes "tracking_laws obs (dc_client c)"
  shows "act_sim (obs_object obs) (setDuckVersion P c False) (setDuckVersion P c True)"
proof (rule act_simI)
  fix ws ws' :: "'w \<times> 'o Object"
  assume same: "obs_object obs ws = obs_object obs ws'"
  then have obj: "snd ws' = snd ws" by (simp add: obs_object_def)
  let ?gvk = "o_gvk (snd ws)"
  let ?set = "\<lambda>d. on_snd (\<lambda>obj. (Ok (),
      obj\<lparr>o_gvk := ?gvk\<lparr>gvk_Version := ds_Version (d_Spec d)\<rparr>\<rparr>))"
  have sim: "act_sim (obs_object obs)
      (abind (on_fst (duck P c (GVK_GroupKind ?gvk) False)) ?set)
      (abind (on_fst (duck P c (GVK_GroupKind ?gvk) True)) ?set)"
    by (intro sim_abind sim_on_fst sim_on_snd sim_duck assms)
  show "fst (setDuckVersion P c False ws) = fst (setDuckVersion P c True ws')
      \<and> obs_object obs (snd (setDuckVersion P c False ws))
        = obs_object obs (snd (setDuckVersion P c True ws'))"
    using act_simD [OF sim same] by (simp only: setDuckVersion_def Let_def obj)
qed

section \<open>A reference client\<close>

text \<open>
  A client over a fixed cluster, for evaluating the statements below: one ready duck type, three
  ducks of which the last is not ready, and a world that records the deleted kinds and counts the
  tracked requests.
\<close>

definition demo_ducktype :: DuckType where
  "demo_ducktype = example_ducktype\<lparr>dt_Status := \<lparr>dtst_Status = ready_status\<rparr>\<rparr>"

type_synonym demo_world = "GroupVersionKind list \<times> nat"

definition demo_ops :: "(demo_world, api_error, unit, string, string, unit, unit) client_ops" where
  "demo_ops =
     \<lparr>Get_DuckType = (\<lambda>key dt w. if key = ''ducks.example.com'' then (Ok demo_ducktype, w)
         else (Err NotFound, w)),
      List_Ducks = (\<lambda>dl w. (Ok (dl\<lparr>dl_Items := [demo_deployment, demo_job, demo_unready]\<rparr>), w)),
      TrackAndList_Ducks = (\<lambda>dl w.
         (Ok (dl\<lparr>dl_Items := [demo_deployment, demo_job, demo_unready]\<rparr>), (fst w, Suc (snd w)))),
      Get_Object = (\<lambda>key opts ws. (Ok (), ws)),
      TrackAndGet_Object = (\<lambda>key opts ws. (Ok (), ((fst (fst ws), Suc (snd (fst ws))), snd ws))),
      List_Unstructured = (\<lambda>gvk opts w. (Ok [gvk_Kind gvk @ ''/blue'', gvk_Kind gvk @ ''/green''], w)),
      TrackAndList_Unstructured = (\<lambda>gvk opts w.
         (Ok [gvk_Kind gvk @ ''/blue'', gvk_Kind gvk @ ''/green''], (fst w, Suc (snd w)))),
      Create_Object = (\<lambda>opts ws. (Ok (), ws)),
      Delete_Object = (\<lambda>opts ws. (Ok (), ws)),
      Update_Object = (\<lambda>opts ws. (Ok (), ws)),
      Patch_Object = (\<lambda>p opts ws. (Ok (), ws)),
      Apply_Configuration = (\<lambda>p opts w. (Ok (), w)),
      DeleteAllOf_Object = (\<lambda>obj opts w. (Ok (), (fst w @ [o_gvk obj], snd w))),
      IsObjectNamespaced_Object = (\<lambda>obj w. (Ok True, w))\<rparr>"

definition demo_client :: "(demo_world, api_error, unit, string, string, unit, unit) duckClient" where
  "demo_client = DuckClient_New ''ducks.example.com'' demo_ops"

lemmas demo_client_simps = demo_client_def DuckClient_New_def DuckType_Name_def ObjectMeta_named_def

lemma demo_ducktype_ready: "DuckType_is_ready cond_ref (DuckType_defaulted ul demo_ducktype)"
  by (simp add: DuckType_is_ready_def DuckType_GetCondition_def DuckTypeConditionReady_def
      DuckType_defaulted_def cond_ref_def find_cond_def demo_ducktype_def ready_status_def)

lemma demo_ducks:
  "ducks libs_ref demo_client gk track w =
     (let ds = filter (duck_matches libs_ref gk) [demo_deployment, demo_job, demo_unready];
          w' = (if track then (fst w, Suc (snd w)) else w)
      in if \<not> GroupKind_Empty schema_ref gk \<and> ds = [] then (Err ErrUnknownDuck, w') else (Ok ds, w'))"
proof -
  have get: "Get_DuckType (dc_client demo_client) (DuckType_Name (dc_duckType demo_client))
      (dc_duckType demo_client) w = (Ok demo_ducktype, w)"
    by (simp add: demo_client_simps demo_ops_def)
  have lst: "list_ducks_op demo_client track dl w = (Ok (dl\<lparr>dl_Items :=
      [demo_deployment, demo_job, demo_unready]\<rparr>), if track then (fst w, Suc (snd w)) else w)" for dl
    by (simp add: list_ducks_op_def demo_client_simps demo_ops_def)
  show ?thesis
    unfolding ducks_eq abind_def amap_err_def get demo_libs
    by (simp add: demo_is_ready demo_ducktype_ready lst Let_def)
qed

lemma demo_matches:
  "duck_matches libs_ref gk demo_deployment \<longleftrightarrow> gk = \<lparr>gk_Group = [], gk_Kind = []\<rparr> \<or>
     gk_Group gk = ''apps'' \<and> (gk_Kind gk = ''Deployment'' \<or> gk_Kind gk = ''DeploymentList'')"
  "duck_matches libs_ref gk demo_job \<longleftrightarrow> gk = \<lparr>gk_Group = [], gk_Kind = []\<rparr> \<or>
     gk_Group gk = ''batch'' \<and> (gk_Kind gk = ''Job'' \<or> gk_Kind gk = ''JobList'')"
  "\<not> duck_matches libs_ref gk demo_unready"
  by (cases gk; simp add: duck_matches_def demo_libs demo_is_ready demo_specs schema_ref_def)+

lemma demo_tracking: "tracking_laws fst demo_ops"
  by (simp add: tracking_laws_def act_sim_def demo_ops_def obs_object_def)

section \<open>Properties\<close>

text \<open>
  Property C1.  Once the duck type is found and ready and its ducks are listed, resolving a group
  and kind yields exactly the listed ducks that are ready and match it, in listing order, for
  every listing; asking for a specific group and kind that no ready duck matches is reported as an
  unknown duck.
\<close>

theorem ducks_selects_exactly_matches:
  assumes "lookup_op c w = (Ok dt, w1)"
    and "DuckType_is_ready (lib_cond P) (DuckType_defaulted (lib_lower P) dt)"
    and "list_ducks_op c track (duckList_of P (DuckType_defaulted (lib_lower P) dt)) w1 = (Ok dl, w2)"
  shows "ducks P c gk track w =
     (if (\<forall>d \<in> set (dl_Items dl). \<not> duck_matches P gk d) \<and> \<not> GroupKind_Empty (lib_schema P) gk
      then (Err ErrUnknownDuck, w2) else (Ok (filter (duck_matches P gk) (dl_Items dl)), w2))"
  using assms
  by (simp add: ducks_eq abind_def amap_err_def lookup_op_def Let_def filter_empty_conv)

theorem ducks_selects_exactly_matches_witness:
  "ducks libs_ref demo_client \<lparr>gk_Group = ''batch'', gk_Kind = ''JobList''\<rparr> True ([], 0)
     = (Ok [demo_job], ([], 1))
   \<and> ducks libs_ref demo_client \<lparr>gk_Group = ''batch'', gk_Kind = ''Cron''\<rparr> True ([], 0)
     = (Err ErrUnknownDuck, ([], 1))"
proof -
  let ?dl = "duckList_of libs_ref (DuckType_defaulted (lib_lower libs_ref) demo_ducktype)"
  let ?ds = "[demo_deployment, demo_job, demo_unready]"
  have get: "lookup_op demo_client ([], 0) = (Ok demo_ducktype, ([], 0))"
    by (simp add: lookup_op_def demo_client_simps demo_ops_def)
  have rdy: "DuckType_is_ready (lib_cond libs_ref)
      (DuckType_defaulted (lib_lower libs_ref) demo_ducktype)"
    by (simp add: demo_libs demo_ducktype_ready)
  have lst: "list_ducks_op demo_client True ?dl ([], 0) = (Ok (?dl\<lparr>dl_Items := ?ds\<rparr>), ([], 1))"
    by (simp add: list_ducks_op_def demo_client_simps demo_ops_def)
  note sel = ducks_selects_exactly_matches [OF get rdy lst]
  show ?thesis
    using sel [of "\<lparr>gk_Group = ''batch'', gk_Kind = ''JobList''\<rparr>"]
      sel [of "\<lparr>gk_Group = ''batch'', gk_Kind = ''Cron''\<rparr>"]
    by (simp add: demo_matches demo_libs schema_ref_def)
qed

text \<open>
  Property C32.  The error branches of resolving, each with the world it leaves behind: a missing
  duck type is \<open>ErrUnknownDuckType\<close>, any other lookup error and any listing error are passed on, and
  a duck type that is not ready is \<open>ErrDuckTypeNotReady\<close> before anything is listed.
\<close>

theorem ducks_error_branches:
  "(lookup_op c w = (Err e, w1) \<and> lib_IsNotFound P e \<longrightarrow>
      ducks P c gk track w = (Err ErrUnknownDuckType, w1))
 \<and> (lookup_op c w = (Err e, w1) \<and> \<not> lib_IsNotFound P e \<longrightarrow>
      ducks P c gk track w = (Err (ClientError e), w1))
 \<and> (lookup_op c w = (Ok dt, w1) \<and>
      \<not> DuckType_is_ready (lib_cond P) (DuckType_defaulted (lib_lower P) dt) \<longrightarrow>
      ducks P c gk track w = (Err ErrDuckTypeNotReady, w1))
 \<and> (lookup_op c w = (Ok dt, w1) \<and>
      DuckType_is_ready (lib_cond P) (DuckType_defaulted (lib_lower P) dt) \<and>
      list_ducks_op c track (duckList_of P (DuckType_defaulted (lib_lower P) dt)) w1 = (Err e, w2) \<longrightarrow>
      ducks P c gk track w = (Err (ClientError e), w2))"
  unfolding lookup_op_def ducks_eq abind_def amap_err_def Let_def by auto

theorem ducks_error_branches_witness:
  "ducks libs_ref (DuckClient_New ''swans.example.com'' demo_ops)
       \<lparr>gk_Group = ''apps'', gk_Kind = ''Deployment''\<rparr> False ([], 0)
     = (Err ErrUnknownDuckType, ([], 0))"
proof -
  let ?c = "DuckClient_New ''swans.example.com'' demo_ops"
  have "lookup_op ?c ([], 0) = (Err NotFound, ([], 0))" and "lib_IsNotFound libs_ref NotFound"
    by (simp_all add: lookup_op_def demo_client_simps demo_ops_def libs_ref_def)
  then show ?thesis
    using ducks_error_branches [of ?c "([], 0)" NotFound "([], 0)" libs_ref] by blast
qed


definition demo_object :: "unit Object" where
  "demo_object = \<lparr>o_gvk = \<lparr>gvk_Group = ''apps'', gvk_Version = ''v1beta1'', gvk_Kind = ''Deployment''\<rparr>,
     o_body = ()\<rparr>"

lemma demo_duck_deployment:
  "duck libs_ref demo_client (GVK_GroupKind (o_gvk demo_object)) track w =
     (Ok demo_deployment, if track then (fst w, Suc (snd w)) else w)"
  by (simp add: duck_Ok_iff demo_ducks demo_matches demo_object_def GVK_GroupKind_def Let_def)


text \<open>
  \<open>GroupVersionKindFor\<close> works on a copy and answers what a get would ask for: when the
  object resolves to a duck it returns the object's group and kind with the version of the duck,
  and otherwise the error of the resolution.
\<close>

theorem gvk_for_agrees_with_get:
  "(duck P c (GVK_GroupKind (o_gvk obj)) False w = (Ok d, w1) \<longrightarrow>
      DuckClient_GroupVersionKindFor P c obj w =
        (Ok \<lparr>gvk_Group = gvk_Group (o_gvk obj), gvk_Version = ds_Version (d_Spec d),
             gvk_Kind = gvk_Kind (o_gvk obj)\<rparr>, w1)
    \<and> snd (snd (setDuckVersion P c False (w, obj))) =
        obj\<lparr>o_gvk := \<lparr>gvk_Group = gvk_Group (o_gvk obj), gvk_Version = ds_Version (d_Spec d),
             gvk_Kind = gvk_Kind (o_gvk obj)\<rparr>\<rparr>)
 \<and> (duck P c (GVK_GroupKind (o_gvk obj)) False w = (Err e, w1) \<longrightarrow>
      DuckClient_GroupVersionKindFor P c obj w = (Err e, w1))"
proof (intro conjI impI)
  let ?gvk = "(o_gvk obj)\<lparr>gvk_Version := ds_Version (d_Spec d)\<rparr>"
  assume "duck P c (GVK_GroupKind (o_gvk obj)) False w = (Ok d, w1)"
  then have step: "setDuckVersion P c False (w, obj) = (Ok (), (w1, obj\<lparr>o_gvk := ?gvk\<rparr>))"
    by (simp add: setDuckVersion_Ok_iff)
  have gvk: "?gvk = \<lparr>gvk_Group = gvk_Group (o_gvk obj), gvk_Version = ds_Version (d_Spec d),
      gvk_Kind = gvk_Kind (o_gvk obj)\<rparr>"
    by (cases "o_gvk obj") simp
  from step gvk show "DuckClient_GroupVersionKindFor P c obj w =
      (Ok \<lparr>gvk_Group = gvk_Group (o_gvk obj), gvk_Version = ds_Version (d_Spec d),
           gvk_Kind = gvk_Kind (o_gvk obj)\<rparr>, w1)"
    by (simp add: DuckClient_GroupVersionKindFor_def)
  from step gvk show "snd (snd (setDuckVersion P c False (w, obj))) =
      obj\<lparr>o_gvk := \<lparr>gvk_Group = gvk_Group (o_gvk obj), gvk_Version = ds_Version (d_Spec d),
           gvk_Kind = gvk_Kind (o_gvk obj)\<rparr>\<rparr>"
    by simp
next
  assume "duck P c (GVK_GroupKind (o_gvk obj)) False w = (Err e, w1)"
  then have "setDuckVersion P c False (w, obj) = (Err e, (w1, obj))"
    by (simp add: setDuckVersion_Err_iff)
  then show "DuckClient_GroupVersionKindFor P c obj w = (Err e, w1)"
    by (simp add: DuckClient_GroupVersionKindFor_def)
qed

theorem gvk_for_agrees_with_get_witness:
  "DuckClient_GroupVersionKindFor libs_ref demo_client demo_object ([], 0) =
     (Ok \<lparr>gvk_Group = ''apps'', gvk_Version = ''v1'', gvk_Kind = ''Deployment''\<rparr>, ([], 0))"
  using gvk_for_agrees_with_get [of libs_ref demo_client demo_object "([], 0)" demo_deployment "([], 0)"]
    demo_duck_deployment [of False "([], 0)"]
  by (simp add: demo_specs) (simp add: demo_object_def)

text \<open>
  Property C23.  Tracking does not change what is read.  If the wrapped client's tracking methods read
  what its plain methods read, then from worlds that look the same a tracked get returns the same
  result and object as a plain one, and a tracked list the same result and list as a plain one.
\<close>

theorem tracking_reads_the_same:
  assumes "tracking_laws obs (dc_client c)" and "obs w = obs w'"
  shows "fst (DuckClient_Get P c key opts (w, obj)) = fst (DuckClient_TrackAndGet P c key opts (w', obj))
   \<and> snd (snd (DuckClient_Get P c key opts (w, obj)))
     = snd (snd (DuckClient_TrackAndGet P c key opts (w', obj)))
   \<and> fst (DuckClient_List P convert c opts (w, list))
     = fst (DuckClient_TrackAndList P convert c opts (w', list))
   \<and> snd (snd (DuckClient_List P convert c opts (w, list)))
     = snd (snd (DuckClient_TrackAndList P convert c opts (w', list)))"
proof -
  have get: "act_sim (obs_object obs) (DuckClient_Get P c key opts) (DuckClient_TrackAndGet P c key opts)"
    unfolding DuckClient_Get_def DuckClient_TrackAndGet_def
    by (intro sim_intros sim_setDuckVersion tracking_lawsD assms(1))
  have list: "act_sim (obs_object obs)
      (abind (on_fst (ducks P c gk False)) (\<lambda>ds. abind (on_fst (for_append
            (\<lambda>d. amap_err ClientError (List_Unstructured (dc_client c) (duck_list_gvk d) opts)) ds []))
          (\<lambda>items. on_snd (amap_err ClientError (convert items)))))
      (abind (on_fst (ducks P c gk True)) (\<lambda>ds. abind (on_fst (for_append
            (\<lambda>d. amap_err ClientError (TrackAndList_Unstructured (dc_client c) (duck_list_gvk d) opts))
              ds []))
          (\<lambda>items. on_snd (amap_err ClientError (convert items)))))" for gk
    by (intro sim_abind sim_on_fst sim_ducks sim_for_append sim_amap_err sim_on_snd
        tracking_lawsD(3) assms(1))
  have same: "obs_object obs (w, x) = obs_object obs (w', x)" for x
    using assms(2) by (simp add: obs_object_def)
  show ?thesis
    using act_simD [OF get same [of obj]] act_simD [OF list same [of list]]
    unfolding DuckClient_List_def DuckClient_TrackAndList_def snd_conv
    by (simp add: obs_object_def)
qed

definition demo_list :: "string list ObjectList" where
  "demo_list = \<lparr>ol_gvk = \<lparr>gvk_Group = [], gvk_Version = [], gvk_Kind = []\<rparr>, ol_body = []\<rparr>"

definition demo_convert :: "string list \<Rightarrow> (string list ObjectList, api_error, unit) act" where
  "demo_convert items l = (Ok (), l\<lparr>ol_body := items\<rparr>)"

theorem tracking_reads_the_same_witness:
  "tracking_laws fst (dc_client demo_client)
   \<and> fst (DuckClient_Get libs_ref demo_client ''ns/blue'' [] (([], 0), demo_object))
     = fst (DuckClient_TrackAndGet libs_ref demo_client ''ns/blue'' [] (([], 7), demo_object))"
proof -
  have laws: "tracking_laws fst (dc_client demo_client)"
    by (simp add: demo_client_def DuckClient_New_def demo_tracking)
  moreover have "fst ([], 0 :: nat) = fst ([], 7 :: nat)" by simp
  ultimately show ?thesis
    using tracking_reads_the_same [OF laws, of "([], 0)" "([], 7)" libs_ref "''ns/blue''" "[]"
        demo_object demo_convert demo_list]
    by simp
qed





end
