(* ===== verification/Broker_Loop.thy ===== *)
theory Broker_Loop
  imports Go_Prelude
begin

text \<open>
  The publish/subscribe broker of \<open>client/broker.go\<close> (the type \<open>broker\<close> and its methods).  The loop
  of \<open>Start\<close>, the callers of \<open>Publish\<close> and \<open>Subscribe\<close>, the goroutine each subscription leaves behind
  and the readers of the subscriptions run concurrently and meet at channels, so the broker is a
  transition system: one step is one channel operation of one of them.  A blocking channel
  operation is a step that is not enabled.  Channels of subscribers are numbered in the order they
  are made; \<open>sent\<close>, \<open>dispatched\<close>, \<open>received\<close>, \<open>taken\<close> and \<open>released\<close> record the history and are not
  read by any operation.
\<close>

section \<open>State and operations\<close>

datatype waiter = NotStarted | WaitingDone | Returned

record 'm broker =
  publishCh :: "'m list"
  subCh :: "nat list"
  unsubCh :: "nat list"
  subs :: "nat set"
  running :: bool
  ctxDone :: bool
  bufs :: "nat \<Rightarrow> 'm list"
  nextCh :: nat
  subDone :: "nat set"
  waiters :: "nat \<Rightarrow> waiter"
  sent :: "'m list"
  dispatched :: "'m list"
  received :: "nat \<Rightarrow> 'm list"
  taken :: "nat set"
  released :: "nat set"

text \<open>\<open>NewBroker\<close> makes the channels and starts the loop with no subscriptions.\<close>

definition NewBroker :: "'m broker" where
  "NewBroker = \<lparr>publishCh = [], subCh = [], unsubCh = [], subs = {}, running = True, ctxDone = False,
     bufs = (\<lambda>_. []), nextCh = 0, subDone = {}, waiters = (\<lambda>_. NotStarted), sent = [],
     dispatched = [], received = (\<lambda>_. []), taken = {}, released = {}\<rparr>"

definition Publish :: "'m \<Rightarrow> 'm broker \<Rightarrow> 'm broker option" where
  "Publish msg b = (case chan_send 1 (publishCh b) msg of
     None \<Rightarrow> None
   | Some q \<Rightarrow> Some (b\<lparr>publishCh := q, sent := sent b @ [msg]\<rparr>))"

definition Subscribe :: "'m broker \<Rightarrow> (nat \<times> 'm broker) option" where
  "Subscribe b = (case chan_send 1 (subCh b) (nextCh b) of
     None \<Rightarrow> None
   | Some q \<Rightarrow> Some (nextCh b, b\<lparr>subCh := q, nextCh := Suc (nextCh b),
        waiters := (waiters b)(nextCh b := WaitingDone)\<rparr>))"

text \<open>The goroutine of a subscription: wait for the subscriber's context, then ask to be removed.\<close>

definition Subscribe_goroutine :: "nat \<Rightarrow> 'm broker \<Rightarrow> 'm broker option" where
  "Subscribe_goroutine msgCh b =
     (if waiters b msgCh = WaitingDone \<and> msgCh \<in> subDone b
      then (case chan_send 1 (unsubCh b) msgCh of
              None \<Rightarrow> None
            | Some q \<Rightarrow> Some (b\<lparr>unsubCh := q, waiters := (waiters b)(msgCh := Returned)\<rparr>))
      else None)"

text \<open>The cases of the \<open>select\<close> in \<open>Start\<close>.\<close>

definition Start_sub :: "'m broker \<Rightarrow> 'm broker option" where
  "Start_sub b = (case chan_recv (subCh b) of
     None \<Rightarrow> None
   | Some (msgCh, q) \<Rightarrow> Some (b\<lparr>subCh := q, subs := insert msgCh (subs b), taken := insert msgCh (taken b)\<rparr>))"

definition Start_unsub :: "'m broker \<Rightarrow> 'm broker option" where
  "Start_unsub b = (case chan_recv (unsubCh b) of
     None \<Rightarrow> None
   | Some (msgCh, q) \<Rightarrow> Some (b\<lparr>unsubCh := q, subs := subs b - {msgCh},
        released := insert msgCh (released b)\<rparr>))"

text \<open>
  \<open>for msgCh := range subs\<close> visits the map in an order the runtime chooses, the argument \<open>order\<close>;
  each visit is a non-blocking send.
\<close>

fun broadcast :: "nat list \<Rightarrow> 'm \<Rightarrow> (nat \<Rightarrow> 'm list) \<Rightarrow> (nat \<Rightarrow> 'm list)" where
  "broadcast [] msg bs = bs"
| "broadcast (msgCh # order) msg bs =
     broadcast order msg (bs(msgCh := chan_try_send 5 (bs msgCh) msg))"

definition Start_pub :: "nat list \<Rightarrow> 'm broker \<Rightarrow> 'm broker option" where
  "Start_pub order b = (case chan_recv (publishCh b) of
     None \<Rightarrow> None
   | Some (msg, q) \<Rightarrow> Some (b\<lparr>publishCh := q, bufs := broadcast order msg (bufs b),
        dispatched := dispatched b @ [msg]\<rparr>))"

definition Start_done :: "'m broker \<Rightarrow> 'm broker option" where
  "Start_done b = (if ctxDone b then Some (b\<lparr>running := False\<rparr>) else None)"

text \<open>A subscriber reads its channel.\<close>

definition Receive :: "nat \<Rightarrow> 'm broker \<Rightarrow> ('m \<times> 'm broker) option" where
  "Receive msgCh b = (case chan_recv (bufs b msgCh) of
     None \<Rightarrow> None
   | Some (msg, q) \<Rightarrow> Some (msg, b\<lparr>bufs := (bufs b)(msgCh := q),
        received := (received b)(msgCh := received b msgCh @ [msg])\<rparr>))"

inductive broker_step :: "'m broker \<Rightarrow> 'm broker \<Rightarrow> bool" where
  step_publish: "Publish msg b = Some b' \<Longrightarrow> broker_step b b'"
| step_subscribe: "Subscribe b = Some (msgCh, b') \<Longrightarrow> broker_step b b'"
| step_sub_done: "msgCh < nextCh b \<Longrightarrow> broker_step b (b\<lparr>subDone := insert msgCh (subDone b)\<rparr>)"
| step_unsubscribe: "Subscribe_goroutine msgCh b = Some b' \<Longrightarrow> broker_step b b'"
| step_receive: "Receive msgCh b = Some (msg, b') \<Longrightarrow> broker_step b b'"
| step_cancel: "broker_step b (b\<lparr>ctxDone := True\<rparr>)"
| loop_sub: "running b \<Longrightarrow> Start_sub b = Some b' \<Longrightarrow> broker_step b b'"
| loop_unsub: "running b \<Longrightarrow> Start_unsub b = Some b' \<Longrightarrow> broker_step b b'"
| loop_pub: "running b \<Longrightarrow> distinct order \<Longrightarrow> set order = subs b \<Longrightarrow>
     Start_pub order b = Some b' \<Longrightarrow> broker_step b b'"
| loop_done: "running b \<Longrightarrow> Start_done b = Some b' \<Longrightarrow> broker_step b b'"

definition broker_reach :: "'m broker \<Rightarrow> bool" where
  "broker_reach = reach (\<lambda>b. b = NewBroker) broker_step"

section \<open>The broadcast does not depend on the order of the map\<close>

lemma broadcast_notin: "c \<notin> set order \<Longrightarrow> broadcast order msg bs c = bs c"
  by (induction order arbitrary: bs) auto

lemma broadcast_eq:
  "distinct order \<Longrightarrow> broadcast order msg bs =
     (\<lambda>c. if c \<in> set order then chan_try_send 5 (bs c) msg else bs c)"
proof (induction order arbitrary: bs)
  case Nil
  then show ?case by simp
next
  case (Cons msgCh order)
  then show ?case by (auto simp: fun_eq_iff)
qed

lemma broadcast_apply:
  "distinct order \<Longrightarrow> broadcast order msg bs c =
     (if c \<in> set order \<and> length (bs c) < 5 then bs c @ [msg] else bs c)"
  by (simp add: broadcast_eq ch5.try_send_cases)

section \<open>Invariant\<close>

definition broker_inv :: "'m broker \<Rightarrow> bool" where
  "broker_inv b \<longleftrightarrow>
     length (publishCh b) \<le> 1 \<and> length (subCh b) \<le> 1 \<and> length (unsubCh b) \<le> 1
   \<and> (\<forall>c. length (bufs b c) \<le> 5)
   \<and> sent b = dispatched b @ publishCh b
   \<and> (\<forall>c. subseq (received b c @ bufs b c) (dispatched b))
   \<and> (\<forall>c. c \<in> taken b \<or> c \<in> set (subCh b) \<longleftrightarrow> c < nextCh b)
   \<and> taken b \<inter> set (subCh b) = {}
   \<and> subs b \<subseteq> taken b \<and> finite (subs b)
   \<and> (\<forall>c. waiters b c = Returned \<longleftrightarrow> c \<in> released b \<or> c \<in> set (unsubCh b))
   \<and> released b \<inter> set (unsubCh b) = {}
   \<and> (\<forall>c. waiters b c \<noteq> NotStarted \<longrightarrow> c < nextCh b)
   \<and> (\<forall>c. c \<notin> taken b \<longrightarrow> received b c = [] \<and> bufs b c = [])"

text \<open>When each operation gets through, and what it does then.\<close>

lemma chan1_send: "chan_send (Suc 0) q m = (if q = [] then Some [m] else None)"
  by (cases q) (simp_all add: chan_send_def)

lemma Publish_iff:
  "Publish msg b = Some b' \<longleftrightarrow>
     publishCh b = [] \<and> b' = b\<lparr>publishCh := [msg], sent := sent b @ [msg]\<rparr>"
  by (auto simp: Publish_def chan1_send split: if_splits)

lemma Subscribe_iff:
  "Subscribe b = Some (c, b') \<longleftrightarrow> subCh b = [] \<and> c = nextCh b \<and>
     b' = b\<lparr>subCh := [c], nextCh := Suc c, waiters := (waiters b)(c := WaitingDone)\<rparr>"
  by (auto simp: Subscribe_def chan1_send split: if_splits)

lemma Subscribe_goroutine_iff:
  "Subscribe_goroutine c b = Some b' \<longleftrightarrow>
     waiters b c = WaitingDone \<and> c \<in> subDone b \<and> unsubCh b = [] \<and>
     b' = b\<lparr>unsubCh := [c], waiters := (waiters b)(c := Returned)\<rparr>"
  by (auto simp: Subscribe_goroutine_def chan1_send split: if_splits)

lemma Start_sub_iff:
  "Start_sub b = Some b' \<longleftrightarrow> (\<exists>c q. subCh b = c # q \<and>
     b' = b\<lparr>subCh := q, subs := insert c (subs b), taken := insert c (taken b)\<rparr>)"
  by (auto simp: Start_sub_def chan_recv_def split: option.splits list.splits)

lemma Start_unsub_iff:
  "Start_unsub b = Some b' \<longleftrightarrow> (\<exists>c q. unsubCh b = c # q \<and>
     b' = b\<lparr>unsubCh := q, subs := subs b - {c}, released := insert c (released b)\<rparr>)"
  by (auto simp: Start_unsub_def chan_recv_def split: option.splits list.splits)

lemma Start_pub_iff:
  "Start_pub order b = Some b' \<longleftrightarrow> (\<exists>m q. publishCh b = m # q \<and>
     b' = b\<lparr>publishCh := q, bufs := broadcast order m (bufs b), dispatched := dispatched b @ [m]\<rparr>)"
  by (auto simp: Start_pub_def chan_recv_def split: option.splits list.splits)

lemma Start_done_iff:
  "Start_done b = Some b' \<longleftrightarrow> ctxDone b \<and> b' = b\<lparr>running := False\<rparr>"
  by (auto simp: Start_done_def)

lemma Receive_iff:
  "Receive c b = Some (m, b') \<longleftrightarrow> (\<exists>q. bufs b c = m # q \<and>
     b' = b\<lparr>bufs := (bufs b)(c := q), received := (received b)(c := received b c @ [m])\<rparr>)"
  by (auto simp: Receive_def chan_recv_def split: option.splits list.splits)

lemmas broker_op_iffs = Publish_iff Subscribe_iff Subscribe_goroutine_iff Start_sub_iff
  Start_unsub_iff Start_pub_iff Start_done_iff Receive_iff

lemma broker_inv_init: "broker_inv NewBroker"
  by (simp add: broker_inv_def NewBroker_def)

lemma inv_Publish: "broker_inv b \<Longrightarrow> Publish msg b = Some b' \<Longrightarrow> broker_inv b'"
  by (auto simp: broker_inv_def Publish_iff)

lemma inv_Subscribe: "broker_inv b \<Longrightarrow> Subscribe b = Some (c, b') \<Longrightarrow> broker_inv b'"
  by (auto simp: broker_inv_def Subscribe_iff less_Suc_eq) (metis less_irrefl waiter.distinct(4))+

lemma inv_goroutine: "broker_inv b \<Longrightarrow> Subscribe_goroutine c b = Some b' \<Longrightarrow> broker_inv b'"
  by (auto simp: broker_inv_def Subscribe_goroutine_iff) (metis waiter.distinct(6))

lemma inv_Start_sub: "broker_inv b \<Longrightarrow> Start_sub b = Some b' \<Longrightarrow> broker_inv b'"
  by (auto simp: broker_inv_def Start_sub_iff)

lemma inv_Start_unsub: "broker_inv b \<Longrightarrow> Start_unsub b = Some b' \<Longrightarrow> broker_inv b'"
  by (auto simp: broker_inv_def Start_unsub_iff)

lemma inv_Start_done: "broker_inv b \<Longrightarrow> Start_done b = Some b' \<Longrightarrow> broker_inv b'"
  by (auto simp: broker_inv_def Start_done_iff)

lemma inv_Receive: "broker_inv b \<Longrightarrow> Receive c b = Some (m, b') \<Longrightarrow> broker_inv b'"
proof -
  assume inv: "broker_inv b" and "Receive c b = Some (m, b')"
  then obtain q where q: "bufs b c = m # q" and b': "b' = b\<lparr>bufs := (bufs b)(c := q),
      received := (received b)(c := received b c @ [m])\<rparr>"
    by (auto simp: Receive_iff)
  have log: "received b' x @ bufs b' x = received b x @ bufs b x" for x
    by (simp add: b' q)
  have bound: "\<forall>x. length (bufs b x) \<le> 5"
    using inv by (simp add: broker_inv_def)
  have "\<forall>x. length (bufs b' x) \<le> 5"
    using bound spec [OF bound, of c] by (simp add: b' q)
  moreover have "\<forall>x. subseq (received b' x @ bufs b' x) (dispatched b')"
    using inv unfolding log broker_inv_def by (simp add: b')
  moreover have "\<forall>x. x \<notin> taken b' \<longrightarrow> received b' x = [] \<and> bufs b' x = []"
  proof (intro allI impI)
    fix x
    assume "x \<notin> taken b'"
    then have "received b x @ bufs b x = []"
      using inv by (simp add: b' broker_inv_def)
    then show "received b' x = [] \<and> bufs b' x = []"
      using log [of x] by simp
  qed
  moreover have "publishCh b' = publishCh b" "subCh b' = subCh b" "unsubCh b' = unsubCh b"
    "sent b' = sent b" "dispatched b' = dispatched b" "taken b' = taken b" "nextCh b' = nextCh b"
    "subs b' = subs b" "waiters b' = waiters b" "released b' = released b"
    by (simp_all add: b')
  ultimately show "broker_inv b'"
    using inv unfolding broker_inv_def by simp
qed

lemma subseq_try_append:
  "subseq (r @ q) h \<Longrightarrow> subseq (r @ (if P then q @ [m] else q)) (h @ [m])"
  using list_emb_append_mono [of "(=)" "r @ q" h "[m]" "[m]"]
    subseq_rev_drop_many [of "r @ q" h "[m]"] by simp

lemma inv_Start_pub:
  assumes inv: "broker_inv b" and ord: "distinct order" "set order = subs b"
    and step: "Start_pub order b = Some b'"
  shows "broker_inv b'"
proof -
  obtain m where m: "publishCh b = [m]" and b': "b' = b\<lparr>publishCh := [],
      bufs := broadcast order m (bufs b), dispatched := dispatched b @ [m]\<rparr>"
    using step inv by (fastforce simp: Start_pub_iff broker_inv_def)
  have "length (bufs b' c) \<le> 5" for c
    using inv by (auto simp: b' broadcast_apply [OF ord(1)] broker_inv_def)
  moreover have "subseq (received b' c @ bufs b' c) (dispatched b')" for c
    using inv subseq_try_append [of "received b c" "bufs b c" "dispatched b"]
    by (simp add: b' broadcast_apply [OF ord(1)] broker_inv_def)
  moreover have "received b' c = [] \<and> bufs b' c = []" if "c \<notin> taken b'" for c
    using inv that ord by (auto simp: b' broadcast_apply broker_inv_def)
  ultimately show ?thesis
    using inv m unfolding broker_inv_def by (simp add: b')
qed

lemma broker_inv_step: "broker_inv b \<Longrightarrow> broker_step b b' \<Longrightarrow> broker_inv b'"
proof (erule broker_step.cases)
  fix c x
  assume "broker_inv b" "b = x" "b' = x\<lparr>subDone := insert c (subDone x)\<rparr>"
  then show "broker_inv b'" by (simp add: broker_inv_def)
next
  fix x
  assume "broker_inv b" "b = x" "b' = x\<lparr>ctxDone := True\<rparr>"
  then show "broker_inv b'" by (simp add: broker_inv_def)
qed (auto intro: inv_Publish inv_Subscribe inv_goroutine inv_Receive inv_Start_sub inv_Start_unsub
    inv_Start_pub inv_Start_done)

interpretation brk: invariant_system "\<lambda>b. b = NewBroker" broker_step broker_inv
  by unfold_locales (auto simp: broker_inv_init intro: broker_inv_step)

lemma broker_reach_inv: "broker_reach b \<Longrightarrow> broker_inv b"
  unfolding broker_reach_def by (rule brk.reach_inv)

section \<open>Executable schedules\<close>

text \<open>
  A schedule names the operation that goes next; it is how concrete runs are evaluated.  Every
  schedule that goes through is a run of the transition system.
\<close>

datatype 'm broker_op = OpPublish 'm | OpSubscribe | OpSubDone nat | OpUnsubscribe nat | OpReceive nat
  | OpCancel | OpLoopSub | OpLoopUnsub | OpLoopPub "nat list" | OpLoopDone

fun broker_exec :: "'m broker_op \<Rightarrow> 'm broker \<Rightarrow> 'm broker option" where
  "broker_exec (OpPublish msg) b = Publish msg b"
| "broker_exec OpSubscribe b = map_option snd (Subscribe b)"
| "broker_exec (OpSubDone c) b =
     (if c < nextCh b then Some (b\<lparr>subDone := insert c (subDone b)\<rparr>) else None)"
| "broker_exec (OpUnsubscribe c) b = Subscribe_goroutine c b"
| "broker_exec (OpReceive c) b = map_option snd (Receive c b)"
| "broker_exec OpCancel b = Some (b\<lparr>ctxDone := True\<rparr>)"
| "broker_exec OpLoopSub b = (if running b then Start_sub b else None)"
| "broker_exec OpLoopUnsub b = (if running b then Start_unsub b else None)"
| "broker_exec (OpLoopPub order) b =
     (if running b \<and> distinct order \<and> set order = subs b then Start_pub order b else None)"
| "broker_exec OpLoopDone b = (if running b then Start_done b else None)"

fun broker_run :: "'m broker_op list \<Rightarrow> 'm broker \<Rightarrow> 'm broker option" where
  "broker_run [] b = Some b"
| "broker_run (op # ops) b = Option.bind (broker_exec op b) (broker_run ops)"

lemma broker_exec_step: "broker_exec op b = Some b' \<Longrightarrow> broker_step b b'"
  by (cases op) (auto split: if_splits intro: broker_step.intros)

lemma broker_step_exec: "broker_step b b' \<Longrightarrow> \<exists>op. broker_exec op b = Some b'"
proof (induction rule: broker_step.induct)
  case (step_publish msg b b')
  then show ?case by (intro exI [of _ "OpPublish msg"]) simp
next
  case (step_subscribe b msgCh b')
  then show ?case by (intro exI [of _ OpSubscribe]) simp
next
  case (step_sub_done msgCh b)
  then show ?case by (intro exI [of _ "OpSubDone msgCh"]) simp
next
  case (step_unsubscribe msgCh b b')
  then show ?case by (intro exI [of _ "OpUnsubscribe msgCh"]) simp
next
  case (step_receive msgCh b msg b')
  then show ?case by (intro exI [of _ "OpReceive msgCh"]) simp
next
  case (step_cancel b)
  show ?case by (intro exI [of _ OpCancel]) simp
next
  case (loop_sub b b')
  then show ?case by (intro exI [of _ OpLoopSub]) simp
next
  case (loop_unsub b b')
  then show ?case by (intro exI [of _ OpLoopUnsub]) simp
next
  case (loop_pub b order b')
  then show ?case by (intro exI [of _ "OpLoopPub order"]) simp
next
  case (loop_done b b')
  then show ?case by (intro exI [of _ OpLoopDone]) simp
qed

lemma broker_run_steps: "broker_run ops b = Some b' \<Longrightarrow> broker_step\<^sup>*\<^sup>* b b'"
proof (induction ops arbitrary: b)
  case (Cons op ops)
  then obtain b1 where "broker_exec op b = Some b1" "broker_run ops b1 = Some b'"
    by (auto simp: bind_eq_Some_conv)
  then show ?case
    using Cons.IH broker_exec_step converse_rtranclp_into_rtranclp by metis
qed simp

lemma broker_run_reach: "broker_run ops NewBroker = Some b \<Longrightarrow> broker_reach b"
  unfolding broker_reach_def by (rule reach_steps [OF broker_run_steps reach_init]) simp_all

section \<open>Abstract specification\<close>

text \<open>
  What the broker promises: a set of members, a log of what was dispatched, and for every member an
  inbox of at most five messages.  A dispatched message goes to the inbox of every member with room
  and to nobody else; a member that is full loses it.
\<close>

record 'm pubsub =
  members :: "nat set"
  log :: "'m list"
  inbox :: "nat \<Rightarrow> 'm list"
  seen :: "nat \<Rightarrow> 'm list"

inductive pubsub_step :: "'m pubsub \<Rightarrow> 'm pubsub \<Rightarrow> bool" where
  ps_join: "c \<notin> members p \<Longrightarrow> inbox p c = [] \<Longrightarrow> seen p c = [] \<Longrightarrow>
     pubsub_step p (p\<lparr>members := insert c (members p)\<rparr>)"
| ps_leave: "pubsub_step p (p\<lparr>members := members p - {c}\<rparr>)"
| ps_post: "pubsub_step p (p\<lparr>log := log p @ [msg], inbox := (\<lambda>c.
     if c \<in> members p \<and> length (inbox p c) < 5 then inbox p c @ [msg] else inbox p c)\<rparr>)"
| ps_read: "inbox p c = msg # q \<Longrightarrow>
     pubsub_step p (p\<lparr>inbox := (inbox p)(c := q), seen := (seen p)(c := seen p c @ [msg])\<rparr>)"

definition pubsub_of :: "'m broker \<Rightarrow> 'm pubsub" where
  "pubsub_of b = \<lparr>members = subs b, log = dispatched b, inbox = bufs b, seen = received b\<rparr>"

lemma broker_simulates:
  assumes inv: "broker_inv b" and step: "broker_step b b'"
  shows "pubsub_of b' = pubsub_of b \<or> pubsub_step (pubsub_of b) (pubsub_of b')"
  using step
proof cases
  case loop_sub
  then obtain c where b': "subCh b = [c]" "b' = b\<lparr>subCh := [], subs := insert c (subs b), taken := insert c (taken b)\<rparr>"
    using inv by (fastforce simp: Start_sub_iff broker_inv_def)
  then have "c \<notin> taken b" using inv by (auto simp: broker_inv_def)
  then have "c \<notin> subs b" "bufs b c = []" "received b c = []" using inv by (auto simp: broker_inv_def)
  then have "pubsub_step (pubsub_of b) (pubsub_of b\<lparr>members := insert c (members (pubsub_of b))\<rparr>)"
    by (intro ps_join) (simp_all add: pubsub_of_def)
  then show ?thesis by (simp add: b' pubsub_of_def)
next
  case loop_unsub
  then obtain c q where "b' = b\<lparr>unsubCh := q, subs := subs b - {c}, released := insert c (released b)\<rparr>"
    by (auto simp: Start_unsub_iff)
  then show ?thesis using ps_leave [of "pubsub_of b" c] by (simp add: pubsub_of_def)
next
  case (loop_pub order)
  then obtain m q where "b' = b\<lparr>publishCh := q, bufs := broadcast order m (bufs b), dispatched := dispatched b @ [m]\<rparr>"
    by (auto simp: Start_pub_iff)
  moreover from loop_pub have "broadcast order m (bufs b) =
      (\<lambda>c. if c \<in> subs b \<and> length (bufs b c) < 5 then bufs b c @ [m] else bufs b c)"
    by (simp add: fun_eq_iff broadcast_apply)
  ultimately show ?thesis using ps_post [of "pubsub_of b" m] by (simp add: pubsub_of_def cong: if_cong)
next
  case (step_receive c m)
  then obtain q where "bufs b c = m # q"
    "b' = b\<lparr>bufs := (bufs b)(c := q), received := (received b)(c := received b c @ [m])\<rparr>"
    by (auto simp: Receive_iff)
  then show ?thesis using ps_read [of "pubsub_of b" c m q] by (simp add: pubsub_of_def)
qed (auto simp: broker_op_iffs pubsub_of_def)

section \<open>Properties\<close>

text \<open>
  Property C11.  In every state the broker can reach, however the callers, the loop and the readers
  interleave: no channel exceeds its capacity; what was published is what was dispatched followed by
  what still waits, in order and without loss; and what a subscriber has received followed by what
  is buffered for it is a subsequence of what was dispatched, so nothing is duplicated, reordered or
  made up.
\<close>

theorem broker_delivers_in_order:
  assumes "broker_reach b"
  shows "length (publishCh b) \<le> 1 \<and> length (subCh b) \<le> 1 \<and> length (unsubCh b) \<le> 1
    \<and> sent b = dispatched b @ publishCh b
    \<and> (\<forall>c. length (bufs b c) \<le> 5 \<and> subseq (received b c @ bufs b c) (dispatched b))"
  using broker_reach_inv [OF assms] by (simp add: broker_inv_def)

definition two_messages :: "nat broker_op list" where
  "two_messages = [OpSubscribe, OpLoopSub, OpPublish 7, OpLoopPub [0], OpPublish 8, OpLoopPub [0], OpReceive 0, OpPublish 9]"

lemmas broker_eval = NewBroker_def Publish_def Subscribe_def Subscribe_goroutine_def Start_sub_def
  Start_unsub_def Start_pub_def Start_done_def Receive_def chan_send_def chan_recv_def chan_try_send_def

theorem broker_delivers_in_order_witness:
  "\<exists>b. broker_run two_messages NewBroker = Some b \<and> received b 0 = [7] \<and> bufs b 0 = [8] \<and> publishCh b = [9]
     \<and> subseq (received b 0 @ bufs b 0) (dispatched b)"
proof -
  obtain b where b: "broker_run two_messages NewBroker = Some b" "received b 0 = [7]" "bufs b 0 = [8]" "publishCh b = [9]"
    by (simp add: two_messages_def broker_eval)
  with broker_delivers_in_order [OF broker_run_reach [OF b(1)]] show ?thesis by blast
qed

definition pubsub_init :: "'m pubsub" where
  "pubsub_init = \<lparr>members = {}, log = [], inbox = (\<lambda>_. []), seen = (\<lambda>_. [])\<rparr>"

lemma broker_reach_pubsub:
  assumes "broker_reach b"
  shows "reach (\<lambda>p. p = pubsub_init) pubsub_step (pubsub_of b)"
  using assms unfolding broker_reach_def
proof (induction rule: reach.induct)
  case (reach_init b)
  have "pubsub_of NewBroker = pubsub_init"
    by (simp add: pubsub_of_def NewBroker_def pubsub_init_def)
  then show ?case unfolding reach_init by (rule reach.reach_init)
next
  case (reach_step b b')
  from broker_simulates [OF brk.reach_inv [OF reach_step.hyps(1)] reach_step.hyps(2)]
  show ?case using reach_step.IH reach.reach_step by metis
qed



text \<open>
  Property C26.  A slow subscriber never blocks the broker: while the loop runs, a published message can be
  dispatched whatever the state of the subscribers; the result does not depend on the order in which
  the map of subscriptions is visited; exactly the subscribers with room get the message, at the end of
  their channel; and the next publisher gets through.
\<close>

theorem broker_never_blocked_by_subscribers:
  assumes "broker_reach b" "running b" "publishCh b = [msg]"
  shows "\<exists>b'. broker_step b b' \<and> (\<forall>order. distinct order \<and> set order = subs b \<longrightarrow> Start_pub order b = Some b')
    \<and> (\<forall>c. bufs b' c = (if c \<in> subs b \<and> length (bufs b c) < 5 then bufs b c @ [msg] else bufs b c))
    \<and> dispatched b' = dispatched b @ [msg] \<and> subs b' = subs b \<and> (\<forall>msg'. Publish msg' b' \<noteq> None)"
proof -
  have "finite (subs b)"
    using broker_reach_inv [OF assms(1)] by (simp add: broker_inv_def)
  then obtain order where order: "set order = subs b" "distinct order"
    using finite_distinct_list by blast
  define b' where "b' = b\<lparr>publishCh := [], bufs := broadcast order msg (bufs b), dispatched := dispatched b @ [msg]\<rparr>"
  have same: "broadcast order' msg (bufs b) = broadcast order msg (bufs b)"
    if "distinct order' \<and> set order' = subs b" for order'
    using that order by (simp add: broadcast_eq)
  have all: "Start_pub order' b = Some b'" if "distinct order' \<and> set order' = subs b" for order'
    using same [OF that] by (simp add: Start_pub_iff assms(3) b'_def)
  then have "broker_step b b'"
    using order by (intro broker_step.loop_pub [OF assms(2), of order]) simp_all
  moreover have "Publish msg' b' \<noteq> None" for msg'
    using Publish_iff [of msg' b'] by (auto simp: b'_def)
  ultimately show ?thesis
    using all order by (intro exI [of _ b']) (simp add: b'_def broadcast_apply)
qed

text \<open>The witness: one subscriber is full, the other is not, and the message reaches only the latter.\<close>

definition full_subscriber :: "nat broker_op list" where
  "full_subscriber = [OpSubscribe, OpLoopSub, OpSubscribe, OpLoopSub]
     @ concat (map (\<lambda>i. [OpPublish i, OpLoopPub [1, 0], OpReceive 1]) [1, 2, 3, 4, 5]) @ [OpPublish 6]"

theorem broker_never_blocked_by_subscribers_witness:
  "\<exists>b b'. broker_run full_subscriber NewBroker = Some b \<and> broker_step b b'
     \<and> bufs b' 0 = [1, 2, 3, 4, 5] \<and> bufs b' 1 = [6]"
proof -
  obtain b where b: "broker_run full_subscriber NewBroker = Some b" "running b" "publishCh b = [6]"
    "subs b = {1, 0}" "bufs b 0 = [1, 2, 3, 4, 5]" "bufs b 1 = []"
    by (simp add: full_subscriber_def broker_eval insert_commute)
  with broker_never_blocked_by_subscribers [OF broker_run_reach [OF b(1)] b(2,3)] show ?thesis by auto
qed

section \<open>Properties that last\<close>

text \<open>
  A channel that was registered and removed does not come back, and one whose removal has been
  handled is not removed again: facts that every step keeps, given the invariant.
\<close>

lemma removed_kept:
  assumes "broker_inv b" "broker_step b b'"
    and "c \<in> taken b \<and> c \<notin> subs b \<and> received b c @ bufs b c = h"
  shows "c \<in> taken b' \<and> c \<notin> subs b' \<and> received b' c @ bufs b' c = h"
  using assms(2,1,3)
proof cases
  case loop_sub
  then show ?thesis using assms(1,3) by (auto simp: Start_sub_iff broker_inv_def)
next
  case (loop_pub order)
  then show ?thesis using assms(3) by (auto simp: Start_pub_iff broadcast_notin)
next
  case (step_receive c' m)
  then show ?thesis using assms(3) by (auto simp: Receive_iff)
qed (auto simp: broker_op_iffs)

lemma leaked_kept:
  assumes "broker_inv b" "broker_step b b'" and "c \<in> released b \<and> c \<in> subs b"
  shows "c \<in> released b' \<and> c \<in> subs b'"
  using assms(2,1,3)
proof cases
  case loop_unsub
  then show ?thesis using assms(1,3) by (auto simp: Start_unsub_iff broker_inv_def)
qed (auto simp: broker_op_iffs)

lemma stopped_kept:
  assumes "broker_step b b'" and "\<not> running b \<and> publishCh b = [msg] \<and> dispatched b = h"
  shows "\<not> running b' \<and> publishCh b' = [msg] \<and> dispatched b' = h"
  using assms by cases (auto simp: broker_op_iffs)

text \<open>
  Property C27.  Once a subscription has been registered and removed, its channel is never written
  again: whatever happens afterwards, it is not a subscription, and the messages its reader has
  received or will find buffered are the same.
\<close>

theorem unsubscribed_receives_nothing_more:
  assumes "broker_reach b" "c \<in> taken b" "c \<notin> subs b" "broker_step\<^sup>*\<^sup>* b b'"
  shows "c \<notin> subs b' \<and> received b' c @ bufs b' c = received b c @ bufs b c"
  using brk.reach_stable [OF assms(4) assms(1) [unfolded broker_reach_def], of
      "\<lambda>s. c \<in> taken s \<and> c \<notin> subs s \<and> received s c @ bufs s c = received b c @ bufs b c"]
    removed_kept [of _ _ c] assms(2,3) by blast

theorem unsubscribed_receives_nothing_more_witness:
  "\<exists>b b'. broker_run [OpSubscribe, OpLoopSub, OpPublish (7::nat), OpLoopPub [0], OpSubDone 0,
       OpUnsubscribe 0, OpLoopUnsub] NewBroker = Some b
     \<and> broker_run [OpPublish 8, OpLoopPub []] b = Some b' \<and> dispatched b' = [7, 8]
     \<and> received b' 0 @ bufs b' 0 = [7]"
proof -
  obtain b where b: "broker_run [OpSubscribe, OpLoopSub, OpPublish (7::nat), OpLoopPub [0], OpSubDone 0,
      OpUnsubscribe 0, OpLoopUnsub] NewBroker = Some b"
    "0 \<in> taken b" "0 \<notin> subs b" "received b 0 @ bufs b 0 = [7]" "running b" "publishCh b = []" "subs b = {}" "dispatched b = [7]"
    by (simp add: broker_eval)
  obtain b' where b': "broker_run [OpPublish 8, OpLoopPub []] b = Some b'" "dispatched b' = [7, 8]"
    using b(5-8) by (simp add: broker_eval)
  with unsubscribed_receives_nothing_more [OF broker_run_reach [OF b(1)] b(2,3) broker_run_steps [OF b'(1)]] b
  show ?thesis by auto
qed

text \<open>
  Property C33.  The loop takes subscriptions and removals from two channels, so it can handle the
  removal of a subscription before the subscription itself.  Such a subscription is never removed: its
  goroutine has returned, and it stays in the map of the loop in every later state.
\<close>

theorem removal_before_subscription_leaks:
  assumes "broker_reach b" "c \<in> released b" "c \<in> subs b" "broker_step\<^sup>*\<^sup>* b b'"
  shows "waiters b c = Returned \<and> c \<in> subs b'"
proof -
  have "waiters b c = Returned"
    using broker_reach_inv [OF assms(1)] assms(2) by (simp add: broker_inv_def)
  moreover have "c \<in> released b' \<and> c \<in> subs b'"
    using brk.reach_stable [OF assms(4) assms(1) [unfolded broker_reach_def], of "\<lambda>s. c \<in> released s \<and> c \<in> subs s"]
      leaked_kept [of _ _ c] assms(2,3) by blast
  ultimately show ?thesis by blast
qed

theorem removal_before_subscription_leaks_witness:
  "\<exists>b. broker_run [OpSubscribe, OpSubDone 0, OpUnsubscribe 0, OpLoopUnsub, OpLoopSub] (NewBroker :: nat broker) = Some b
     \<and> 0 \<in> subDone b \<and> waiters b 0 = Returned \<and> running b \<and> (\<forall>b'. broker_step\<^sup>*\<^sup>* b b' \<longrightarrow> 0 \<in> subs b')"
proof -
  obtain b where b: "broker_run [OpSubscribe, OpSubDone 0, OpUnsubscribe 0, OpLoopUnsub, OpLoopSub] (NewBroker :: nat broker) = Some b"
    "0 \<in> released b" "0 \<in> subs b" "0 \<in> subDone b" "running b"
    by (simp add: broker_eval)
  with removal_before_subscription_leaks [OF broker_run_reach [OF b(1)] b(2,3)] show ?thesis by blast
qed

text \<open>
  When the loop has stopped with a message waiting, nothing takes the message any more:
  it is never dispatched and every later call of \<open>Publish\<close> blocks for ever.
\<close>

theorem publish_blocks_after_stop:
  assumes "broker_reach b" "\<not> running b" "publishCh b = [msg]" "broker_step\<^sup>*\<^sup>* b b'"
  shows "Publish msg' b' = None \<and> dispatched b' = dispatched b"
proof -
  have "\<not> running b' \<and> publishCh b' = [msg] \<and> dispatched b' = dispatched b"
    using brk.reach_stable [OF assms(4) assms(1) [unfolded broker_reach_def], of
        "\<lambda>s. \<not> running s \<and> publishCh s = [msg] \<and> dispatched s = dispatched b"]
      stopped_kept [of _ _ msg] assms(2,3) by blast
  then show ?thesis
    using Publish_iff [of msg' b'] by (cases "Publish msg' b'") auto
qed

theorem publish_blocks_after_stop_witness:
  "\<exists>b. broker_run [OpCancel, OpLoopDone, OpPublish (7::nat)] NewBroker = Some b \<and> Publish 8 b = None"
proof -
  obtain b where b: "broker_run [OpCancel, OpLoopDone, OpPublish (7::nat)] NewBroker = Some b"
    "\<not> running b" "publishCh b = [7]"
    by (simp add: broker_eval)
  with publish_blocks_after_stop [OF broker_run_reach [OF b(1)] b(2,3) rtranclp.rtrancl_refl] show ?thesis by blast
qed

end
