(* ===== verification/Broker_Informers.thy ===== *)
theory Broker_Informers
  imports Api_Lifecycle
begin

text \<open>
  The runnable that \<open>NewBroker\<close> adds to the manager (\<open>client/broker.go\<close>): it watches the ducks of one
  duck type and keeps an event handler on the informer of every duck that was seen ready.  The two maps
  of the closure are the state; each handler body holds the mutex from its first access of the maps to
  its end, so a handler call is one action.  The informers of controller-runtime and client-go are
  parameters.  The closures that are registered are named by \<open>handler\<close>; what the closure for the ducks
  does is \<open>AddFunc\<close>, \<open>UpdateFunc\<close> and \<open>DeleteFunc\<close>, and what the closure for the resources of one duck
  does is \<open>resource_handler\<close>.
\<close>

section \<open>State and operations\<close>

datatype handler = DuckHandler | ResourceHandler

text \<open>What an informer hands to a handler: an object, or the marker of a deletion it missed.\<close>

datatype 'u informer_obj = Object 'u | DeletedFinalStateUnknown

record ('w, 'e, 'i, 'r, 'u) informer_ops =
  GetInformer :: "GroupVersionKind \<Rightarrow> ('w, 'e, 'i) act"
  AddEventHandler :: "'i \<Rightarrow> handler \<Rightarrow> ('w, 'e, 'r) act"
  RemoveEventHandler :: "'i \<Rightarrow> 'r \<Rightarrow> ('w, 'e, unit) act"
  FromUnstructured :: "'u \<Rightarrow> ('e, Duck) result"
  GetName :: "'u \<Rightarrow> string"

record ('i, 'r) informing =
  duckInformers :: "string \<Rightarrow> 'i option"
  duckRegistrations :: "string \<Rightarrow> 'r option"
  cancelled :: bool

definition informing_init :: "('i, 'r) informing" where
  "informing_init = \<lparr>duckInformers = Map.empty, duckRegistrations = Map.empty, cancelled = False\<rparr>"

text \<open>The handler of a resource publishes the object; the type assertion fails on the marker.\<close>

definition resource_handler :: "'u informer_obj \<Rightarrow> ('e, 'u) result" where
  "resource_handler obj = (case obj of Object u \<Rightarrow> Ok u | DeletedFinalStateUnknown \<Rightarrow> Panic ''type assertion'')"

definition informOn ::
  "('e, 'z) libs_scheme \<Rightarrow> ('w, 'e, 'i, 'r, 'u) informer_ops \<Rightarrow> Duck
     \<Rightarrow> ('w \<times> ('i, 'r) informing, 'e, unit) act" where
  "informOn P K r ws =
     (if duckInformers (snd ws) (Duck_Name r) \<noteq> None then (Ok (), ws)
      else if \<not> Duck_is_ready (lib_cond P) r then (Ok (), ws)
      else alogged
        (abind (on_fst (GetInformer K (DuckSpec_GroupVersionKind (d_Spec r)))) (\<lambda>duckInformer.
         abind (on_fst (AddEventHandler K duckInformer ResourceHandler)) (\<lambda>duckRegistration.
         on_snd (\<lambda>s. (Ok (),
           s\<lparr>duckInformers := (duckInformers s)(Duck_Name r \<mapsto> duckInformer),
             duckRegistrations := (duckRegistrations s)(Duck_Name r \<mapsto> duckRegistration)\<rparr>))))) ws)"

definition AddFunc ::
  "('e, 'z) libs_scheme \<Rightarrow> ('w, 'e, 'i, 'r, 'u) informer_ops \<Rightarrow> 'u informer_obj
     \<Rightarrow> ('w \<times> ('i, 'r) informing, 'e, unit) act" where
  "AddFunc P K obj = (case obj of
     DeletedFinalStateUnknown \<Rightarrow> apanic ''type assertion''
   | Object u \<Rightarrow> (case FromUnstructured K u of
        Ok r \<Rightarrow> informOn P K r
      | Err e \<Rightarrow> apanic ''conversion''
      | Panic p \<Rightarrow> apanic p))"

definition UpdateFunc ::
  "('e, 'z) libs_scheme \<Rightarrow> ('w, 'e, 'i, 'r, 'u) informer_ops \<Rightarrow> 'u informer_obj \<Rightarrow> 'u informer_obj
     \<Rightarrow> ('w \<times> ('i, 'r) informing, 'e, unit) act" where
  "UpdateFunc P K oldObj newObj = (case newObj of
     DeletedFinalStateUnknown \<Rightarrow> apanic ''type assertion''
   | Object u \<Rightarrow> (case FromUnstructured K u of
        Ok r \<Rightarrow> informOn P K r
      | Err e \<Rightarrow> apanic ''conversion''
      | Panic p \<Rightarrow> apanic p))"

text \<open>A call on an informer that is not in the map is a call on a nil interface, which panics.\<close>

definition stop_informing ::
  "('w, 'e, 'i, 'r, 'u) informer_ops \<Rightarrow> string \<Rightarrow> 'r \<Rightarrow> ('w \<times> ('i, 'r) informing, 'e, unit) act" where
  "stop_informing K name registration ws = (case duckInformers (snd ws) name of
     None \<Rightarrow> (Panic ''nil pointer'', ws)
   | Some i \<Rightarrow> on_fst (RemoveEventHandler K i registration) ws)"

definition DeleteFunc ::
  "('w, 'e, 'i, 'r, 'u) informer_ops \<Rightarrow> 'u informer_obj \<Rightarrow> ('w \<times> ('i, 'r) informing, 'e, unit) act" where
  "DeleteFunc K obj ws = (case obj of
     DeletedFinalStateUnknown \<Rightarrow> (Panic ''type assertion'', ws)
   | Object u \<Rightarrow> (case duckRegistrations (snd ws) (GetName K u) of
        None \<Rightarrow> (Ok (), ws)
      | Some registration \<Rightarrow> alogged
          (abind (stop_informing K (GetName K u) registration) (\<lambda>_.
           on_snd (\<lambda>s. (Ok (),
             s\<lparr>duckInformers := (duckInformers s)(GetName K u := None),
               duckRegistrations := (duckRegistrations s)(GetName K u := None)\<rparr>)))) ws))"

text \<open>The runnable up to \<open>Started\<close>: the informer of the duck type and the registration of the handler.\<close>

definition runnable_start ::
  "('w, 'e, 'i, 'r, 'u) informer_ops \<Rightarrow> GroupKind \<Rightarrow> ('w, 'e, 'i \<times> 'r) act" where
  "runnable_start K gk =
     abind (GetInformer K \<lparr>gvk_Group = gk_Group gk, gvk_Version = ''v1'', gvk_Kind = gk_Kind gk\<rparr>)
       (\<lambda>duckTypeInformer. abind (AddEventHandler K duckTypeInformer DuckHandler)
       (\<lambda>duckTypeRegistration. areturn (duckTypeInformer, duckTypeRegistration)))"

text \<open>
  After \<open>ctx.Done()\<close>: cancel the loop of the broker, then remove the handlers; \<open>order\<close> is the order in
  which the runtime ranges over \<open>duckRegistrations\<close>.
\<close>

definition runnable_shutdown ::
  "('w, 'e, 'i, 'r, 'u) informer_ops \<Rightarrow> 'i \<times> 'r \<Rightarrow> string list \<Rightarrow> ('w \<times> ('i, 'r) informing, 'e, unit) act" where
  "runnable_shutdown K treg order =
     abind (on_snd (\<lambda>s. (Ok (), s\<lparr>cancelled := True\<rparr>))) (\<lambda>_.
     abind (on_fst (RemoveEventHandler K (fst treg) (snd treg))) (\<lambda>_.
     for_each (\<lambda>name ws. (case duckRegistrations (snd ws) name of
         None \<Rightarrow> (Ok (), ws)
       | Some registration \<Rightarrow> stop_informing K name registration ws)) order))"

text \<open>The callbacks that arrive while the runnable waits.\<close>

datatype 'u duck_event = OnAdd "'u informer_obj" | OnUpdate "'u informer_obj" "'u informer_obj"
  | OnDelete "'u informer_obj"

fun handle ::
  "('e, 'z) libs_scheme \<Rightarrow> ('w, 'e, 'i, 'r, 'u) informer_ops \<Rightarrow> 'u duck_event
     \<Rightarrow> ('w \<times> ('i, 'r) informing, 'e, unit) act" where
  "handle P K (OnAdd obj) = AddFunc P K obj"
| "handle P K (OnUpdate oldObj newObj) = UpdateFunc P K oldObj newObj"
| "handle P K (OnDelete obj) = DeleteFunc K obj"

section \<open>Live handlers\<close>

text \<open>
  What the maps are for: \<open>live\<close> is the set of the event handlers that are registered in a world, as pairs
  of informer and registration.  \<open>informer_laws\<close> is the documented behaviour of the informers: asking
  for an informer registers nothing, a successful registration is new, removing one takes it out, and a
  call that fails changes nothing.
\<close>

definition informer_laws ::
  "('w \<Rightarrow> ('i \<times> 'r) set) \<Rightarrow> ('w, 'e, 'i, 'r, 'u) informer_ops \<Rightarrow> bool" where
  "informer_laws live K \<longleftrightarrow>
     (\<forall>gvk w. live (snd (GetInformer K gvk w)) = live w)
   \<and> (\<forall>i h w r w'. AddEventHandler K i h w = (Ok r, w') \<longrightarrow>
        (i, r) \<notin> live w \<and> live w' = insert (i, r) (live w))
   \<and> (\<forall>i h w. (\<forall>r. fst (AddEventHandler K i h w) \<noteq> Ok r) \<longrightarrow>
        live (snd (AddEventHandler K i h w)) = live w)
   \<and> (\<forall>i r w w'. RemoveEventHandler K i r w = (Ok (), w') \<longrightarrow> live w' = live w - {(i, r)})
   \<and> (\<forall>i r w. fst (RemoveEventHandler K i r w) \<noteq> Ok () \<longrightarrow>
        live (snd (RemoveEventHandler K i r w)) = live w)"

lemma informer_lawsD:
  assumes "informer_laws live K"
  shows "GetInformer K gvk w = (x, w') \<Longrightarrow> live w' = live w"
    and "AddEventHandler K i h w = (Ok r, w') \<Longrightarrow> (i, r) \<notin> live w \<and> live w' = insert (i, r) (live w)"
    and "AddEventHandler K i h w = (Err e, w') \<Longrightarrow> live w' = live w"
    and "AddEventHandler K i h w = (Panic p, w') \<Longrightarrow> live w' = live w"
    and "RemoveEventHandler K i r w = (Ok u, w') \<Longrightarrow> live w' = live w - {(i, r)}"
    and "RemoveEventHandler K i r w = (Err e, w') \<Longrightarrow> live w' = live w"
    and "RemoveEventHandler K i r w = (Panic p, w') \<Longrightarrow> live w' = live w"
  using assms unfolding informer_laws_def by (metis snd_conv fst_conv result.distinct old.unit.exhaust)+

definition tracked_handler :: "('i, 'r) informing \<Rightarrow> string \<Rightarrow> 'i \<times> 'r" where
  "tracked_handler s n = (the (duckInformers s n), the (duckRegistrations s n))"

definition informing_inv ::
  "('w \<Rightarrow> ('i \<times> 'r) set) \<Rightarrow> ('i \<times> 'r) set \<Rightarrow> 'w \<times> ('i, 'r) informing \<Rightarrow> bool" where
  "informing_inv live base ws \<longleftrightarrow>
     dom (duckRegistrations (snd ws)) = dom (duckInformers (snd ws))
   \<and> finite (dom (duckInformers (snd ws)))
   \<and> inj_on (tracked_handler (snd ws)) (dom (duckInformers (snd ws)))
   \<and> tracked_handler (snd ws) ` dom (duckInformers (snd ws)) \<inter> base = {}
   \<and> live (fst ws) = base \<union> tracked_handler (snd ws) ` dom (duckInformers (snd ws))"

lemma informing_inv_world: "live w' = live w \<Longrightarrow> informing_inv live base (w, s) \<Longrightarrow> informing_inv live base (w', s)"
  by (simp add: informing_inv_def)

lemma tracked_handler_upd:
  "tracked_handler (s\<lparr>duckInformers := (duckInformers s)(n \<mapsto> i), duckRegistrations := (duckRegistrations s)(n \<mapsto> r)\<rparr>)
     = (tracked_handler s)(n := (i, r))"
  by (auto simp: tracked_handler_def fun_eq_iff)

lemma tracked_handler_del:
  "m \<noteq> n \<Longrightarrow> tracked_handler (s\<lparr>duckInformers := (duckInformers s)(n := None),
      duckRegistrations := (duckRegistrations s)(n := None)\<rparr>) m = tracked_handler s m"
  by (auto simp: tracked_handler_def)

text \<open>Adding a fresh handler under a new name and removing the handler of a name keep the invariant.\<close>

lemma informing_inv_add:
  assumes inv: "informing_inv live base (w, s)" and new: "n \<notin> dom (duckInformers s)"
    and fresh: "(i, r) \<notin> live w" and live': "live w' = insert (i, r) (live w)"
  shows "informing_inv live base (w', s\<lparr>duckInformers := (duckInformers s)(n \<mapsto> i),
    duckRegistrations := (duckRegistrations s)(n \<mapsto> r)\<rparr>)"
proof -
  let ?D = "dom (duckInformers s)" and ?t = "(tracked_handler s)(n := (i, r))"
  have "?t ` ?D = tracked_handler s ` ?D" using new by auto
  moreover have "(i, r) \<notin> tracked_handler s ` ?D" "(i, r) \<notin> base"
    using inv fresh by (auto simp: informing_inv_def)
  moreover have "inj_on ?t (insert n ?D)"
    using inv new calculation by (simp add: informing_inv_def inj_on_fun_updI)
  moreover have "?t ` insert n ?D = insert (i, r) (tracked_handler s ` ?D)"
    using calculation(1) by (metis fun_upd_same image_insert)
  ultimately show ?thesis
    using inv live' unfolding informing_inv_def
    by (simp add: tracked_handler_upd del: image_insert fun_upd_image inj_on_insert)
qed

lemma informing_inv_remove:
  assumes inv: "informing_inv live base (w, s)" and n: "duckInformers s n = Some i" "duckRegistrations s n = Some r"
    and live': "live w' = live w - {(i, r)}"
  shows "informing_inv live base (w', s\<lparr>duckInformers := (duckInformers s)(n := None),
    duckRegistrations := (duckRegistrations s)(n := None)\<rparr>)"
proof -
  let ?D = "dom (duckInformers s)" and ?t = "tracked_handler s"
  let ?s = "s\<lparr>duckInformers := (duckInformers s)(n := None), duckRegistrations := (duckRegistrations s)(n := None)\<rparr>"
  have t: "?t n = (i, r)" "n \<in> ?D" using n by (auto simp: tracked_handler_def)
  have D: "dom (duckInformers ?s) = ?D - {n}" "dom (duckRegistrations ?s) = dom (duckRegistrations s) - {n}" by auto
  have img: "tracked_handler ?s ` (?D - {n}) = ?t ` (?D - {n})"
    by (rule image_cong) (simp_all add: tracked_handler_del)
  have inj: "inj_on ?t ?D" "inj_on (tracked_handler ?s) (?D - {n})"
    using inv unfolding informing_inv_def inj_on_def by (simp_all add: tracked_handler_del)
  have img': "?t ` (?D - {n}) = ?t ` ?D - {(i, r)}"
    using inj_on_image_set_diff [OF inj(1), of ?D "{n}"] t by simp
  have old: "dom (duckRegistrations s) = ?D" "finite ?D" "?t ` ?D \<inter> base = {}" "live w = base \<union> ?t ` ?D"
    using inv by (simp_all add: informing_inv_def)
  have "(i, r) \<in> ?t ` ?D" using t by (metis imageI)
  then have "(i, r) \<notin> base" using old(3) by blast
  then have "live w' = base \<union> (X - {(i, r)}) \<and> (X - {(i, r)}) \<inter> base = {}"
    if "X \<inter> base = {}" "live w = base \<union> X" for X
    using that live' by auto
  from this [OF old(3,4)] have lv: "live w' = base \<union> (?t ` ?D - {(i, r)})" "(?t ` ?D - {(i, r)}) \<inter> base = {}"
    by (simp_all only:)
  show ?thesis
    unfolding informing_inv_def fst_conv snd_conv D img img' old(1)
    by (intro conjI inj(2) lv finite_Diff old(2) refl)
qed

text \<open>Every handler keeps the invariant, whatever the informers answer.\<close>

lemma informOn_inv:
  assumes "informer_laws live K" "informing_inv live base ws"
  shows "informing_inv live base (snd (informOn P K r ws))"
proof (cases "duckInformers (snd ws) (Duck_Name r) \<noteq> None \<or> \<not> Duck_is_ready (lib_cond P) r")
  case True
  then show ?thesis using assms(2) by (auto simp: informOn_def)
next
  case False
  obtain w s where ws: "ws = (w, s)" by fastforce
  obtain x w1 where get: "GetInformer K (DuckSpec_GroupVersionKind (d_Spec r)) w = (x, w1)" by fastforce
  have inv1: "informing_inv live base (w1, s)"
    using informing_inv_world assms informer_lawsD(1) [OF assms(1) get] ws by metis
  show ?thesis
  proof (cases x)
    case (Ok i)
    obtain y w2 where add: "AddEventHandler K i ResourceHandler w1 = (y, w2)" by fastforce
    show ?thesis
    proof (cases y)
      case y: (Ok reg)
      have "informing_inv live base (w2, s\<lparr>duckInformers := (duckInformers s)(Duck_Name r \<mapsto> i),
          duckRegistrations := (duckRegistrations s)(Duck_Name r \<mapsto> reg)\<rparr>)"
        using informer_lawsD(2) [OF assms(1) add [unfolded y]] False
        by (intro informing_inv_add [OF inv1]) (auto simp: ws)
      then show ?thesis
        using False by (simp add: ws informOn_def alogged_def abind_def on_fst_def get add Ok y)
    next
      case (Err e)
      then show ?thesis
        using False informing_inv_world [OF _ inv1] informer_lawsD(3) [OF assms(1)] add
        by (auto simp add: ws informOn_def alogged_def abind_def on_fst_def get Ok)
    next
      case (Panic p)
      then show ?thesis
        using False informing_inv_world [OF _ inv1] informer_lawsD(4) [OF assms(1)] add
        by (auto simp add: ws informOn_def alogged_def abind_def on_fst_def get Ok)
    qed
  qed (use False inv1 in \<open>simp_all add: ws informOn_def alogged_def abind_def on_fst_def get\<close>)
qed

lemma DeleteFunc_inv:
  assumes laws: "informer_laws live K" and inv: "informing_inv live base ws"
  shows "informing_inv live base (snd (DeleteFunc K obj ws))"
proof (cases obj)
  case DeletedFinalStateUnknown
  then show ?thesis using inv by (simp add: DeleteFunc_def)
next
  case (Object u)
  obtain w s where ws: "ws = (w, s)" by fastforce
  show ?thesis
  proof (cases "duckRegistrations s (GetName K u)")
    case None
    then show ?thesis using Object inv by (simp add: DeleteFunc_def ws)
  next
    case reg: (Some reg)
    then obtain i where i: "duckInformers s (GetName K u) = Some i"
      using inv unfolding informing_inv_def ws snd_conv by (metis domD domI)
    obtain x w1 where rem: "RemoveEventHandler K i reg w = (x, w1)" by fastforce
    note defs = DeleteFunc_def stop_informing_def alogged_def abind_def on_fst_def
    show ?thesis
    proof (cases x)
      case (Ok v)
      have "live w1 = live w - {(i, reg)}"
        using informer_lawsD(5) [OF laws] rem Ok by metis
      from informing_inv_remove [OF inv [unfolded ws] i reg this] show ?thesis
        using Ok by (simp add: ws Object reg i rem defs)
    next
      case (Err e)
      then show ?thesis
        using informer_lawsD(6) [OF laws] rem informing_inv_world [OF _ inv [unfolded ws], of w1]
        by (simp add: ws Object reg i defs)
    next
      case (Panic p)
      then show ?thesis
        using informer_lawsD(7) [OF laws] rem informing_inv_world [OF _ inv [unfolded ws], of w1]
        by (simp add: ws Object reg i defs)
    qed
  qed
qed

lemma handle_inv:
  assumes "informer_laws live K" "informing_inv live base ws"
  shows "informing_inv live base (snd (handle P K ev ws))"
  using assms
  by (cases ev) (auto simp: AddFunc_def UpdateFunc_def intro: informOn_inv DeleteFunc_inv
      split: informer_obj.splits result.splits)

lemma handlers_inv:
  assumes "informer_laws live K" "informing_inv live base ws"
  shows "informing_inv live base (snd (for_each (handle P K) evs ws))"
  using assms by (intro for_each_inv [where Q = "informing_inv live base"] handle_inv)

lemma informing_inv_init: "informing_inv live (live w) (w, informing_init)"
  by (simp add: informing_inv_def informing_init_def)

section \<open>Which ducks are tracked\<close>

text \<open>
  The reference: a duck is tracked when, after its last deletion, some event showed it ready, and the
  informer in use is the one for the group, version and kind it had in the first such event.
\<close>

definition deletes :: "('w, 'e, 'i, 'r, 'u) informer_ops \<Rightarrow> string \<Rightarrow> 'u duck_event \<Rightarrow> bool" where
  "deletes K n ev = (case ev of OnDelete (Object u) \<Rightarrow> GetName K u = n | _ \<Rightarrow> False)"

definition shows_ready ::
  "('e, 'z) libs_scheme \<Rightarrow> ('w, 'e, 'i, 'r, 'u) informer_ops \<Rightarrow> string \<Rightarrow> 'u duck_event
     \<Rightarrow> GroupVersionKind option" where
  "shows_ready P K n ev =
     (let obj = (case ev of OnAdd obj \<Rightarrow> Some obj | OnUpdate _ obj \<Rightarrow> Some obj | OnDelete _ \<Rightarrow> None)
      in case obj of
        Some (Object u) \<Rightarrow> (case FromUnstructured K u of
            Ok r \<Rightarrow> if Duck_Name r = n \<and> Duck_is_ready (lib_cond P) r
                    then Some (DuckSpec_GroupVersionKind (d_Spec r)) else None
          | _ \<Rightarrow> None)
      | _ \<Rightarrow> None)"

definition since_deletion :: "('w, 'e, 'i, 'r, 'u) informer_ops \<Rightarrow> string \<Rightarrow> 'u duck_event list \<Rightarrow> 'u duck_event list" where
  "since_deletion K n evs = rev (takeWhile (\<lambda>ev. \<not> deletes K n ev) (rev evs))"

definition tracked_spec ::
  "('e, 'z) libs_scheme \<Rightarrow> ('w, 'e, 'i, 'r, 'u) informer_ops \<Rightarrow> 'u duck_event list \<Rightarrow> string
     \<Rightarrow> GroupVersionKind option" where
  "tracked_spec P K evs n =
     (case List.map_filter (shows_ready P K n) (since_deletion K n evs) of [] \<Rightarrow> None | g # _ \<Rightarrow> Some g)"

lemma tracked_spec_snoc:
  "tracked_spec P K (evs @ [ev]) n =
     (if deletes K n ev then None
      else case tracked_spec P K evs n of Some g \<Rightarrow> Some g | None \<Rightarrow> shows_ready P K n ev)"
  by (auto simp: tracked_spec_def since_deletion_def List.map_filter_def split: list.splits option.splits)

lemma tracked_spec_Nil [simp]: "tracked_spec P K [] n = None"
  by (simp add: tracked_spec_def since_deletion_def List.map_filter_def)

text \<open>
  The calls a history needs all go through: no event carries a deletion marker, objects convert to ducks
  of their name, and the informers answer without an error.
\<close>

definition event_obj :: "'u duck_event \<Rightarrow> 'u informer_obj" where
  "event_obj ev = (case ev of OnAdd obj \<Rightarrow> obj | OnUpdate _ obj \<Rightarrow> obj | OnDelete obj \<Rightarrow> obj)"

definition event_ok :: "('w, 'e, 'i, 'r, 'u) informer_ops \<Rightarrow> 'u duck_event \<Rightarrow> bool" where
  "event_ok K ev = (case event_obj ev of
     DeletedFinalStateUnknown \<Rightarrow> False
   | Object u \<Rightarrow> (case FromUnstructured K u of Ok r \<Rightarrow> Duck_Name r = GetName K u | _ \<Rightarrow> False))"

definition informers_answer ::
  "('i \<Rightarrow> GroupVersionKind) \<Rightarrow> ('w, 'e, 'i, 'r, 'u) informer_ops \<Rightarrow> bool" where
  "informers_answer gvk_of K \<longleftrightarrow>
     (\<forall>gvk w. \<exists>i w'. GetInformer K gvk w = (Ok i, w') \<and> gvk_of i = gvk)
   \<and> (\<forall>i h w. \<exists>r w'. AddEventHandler K i h w = (Ok r, w'))
   \<and> (\<forall>i r w. \<exists>w'. RemoveEventHandler K i r w = (Ok (), w'))"

definition tracks ::
  "('e, 'z) libs_scheme \<Rightarrow> ('i \<Rightarrow> GroupVersionKind) \<Rightarrow> ('w, 'e, 'i, 'r, 'u) informer_ops \<Rightarrow> 'u duck_event list
     \<Rightarrow> ('i, 'r) informing \<Rightarrow> bool" where
  "tracks P gvk_of K evs s \<longleftrightarrow>
     dom (duckRegistrations s) = dom (duckInformers s)
   \<and> (\<forall>n. map_option gvk_of (duckInformers s n) = tracked_spec P K evs n)"

lemma informOn_tracks:
  assumes ans: "informers_answer gvk_of K" and tr: "tracks P gvk_of K evs s"
    and show_r: "\<And>n. shows_ready P K n ev = (if Duck_Name r = n \<and> Duck_is_ready (lib_cond P) r
        then Some (DuckSpec_GroupVersionKind (d_Spec r)) else None)"
    and no_del: "\<And>n. \<not> deletes K n ev"
  shows "\<exists>w' s'. informOn P K r (w, s) = (Ok (), (w', s')) \<and> tracks P gvk_of K (evs @ [ev]) s'"
proof (cases "duckInformers s (Duck_Name r) \<noteq> None \<or> \<not> Duck_is_ready (lib_cond P) r")
  case True
  have "tracks P gvk_of K (evs @ [ev]) s"
  proof -
    have "map_option gvk_of (duckInformers s n) = tracked_spec P K (evs @ [ev]) n" for n
      using tr True spec [OF conjunct2 [OF tr [unfolded tracks_def]], of n]
      by (cases "duckInformers s n"; cases "tracked_spec P K evs n") (auto simp: tracked_spec_snoc no_del show_r)
    then show ?thesis using tr by (simp add: tracks_def)
  qed
  then show ?thesis using True by (auto simp: informOn_def)
next
  case False
  obtain i w1 where get: "GetInformer K (DuckSpec_GroupVersionKind (d_Spec r)) w = (Ok i, w1)"
      "gvk_of i = DuckSpec_GroupVersionKind (d_Spec r)"
    using ans unfolding informers_answer_def by meson
  obtain reg w2 where add: "AddEventHandler K i ResourceHandler w1 = (Ok reg, w2)"
    using ans unfolding informers_answer_def by meson
  let ?s = "s\<lparr>duckInformers := (duckInformers s)(Duck_Name r \<mapsto> i), duckRegistrations := (duckRegistrations s)(Duck_Name r \<mapsto> reg)\<rparr>"
  have "map_option gvk_of (duckInformers ?s n) = tracked_spec P K (evs @ [ev]) n" for n
    using False spec [OF conjunct2 [OF tr [unfolded tracks_def]], of n] get(2)
    by (cases "duckInformers s n"; cases "tracked_spec P K evs n") (auto simp: tracked_spec_snoc no_del show_r)
  then have "tracks P gvk_of K (evs @ [ev]) ?s"
    using tr by (auto simp: tracks_def)
  moreover have "informOn P K r (w, s) = (Ok (), (w2, ?s))"
    using False by (simp add: informOn_def alogged_def abind_def on_fst_def get(1) add)
  ultimately show ?thesis by blast
qed

lemma DeleteFunc_tracks:
  assumes ans: "informers_answer gvk_of K" and tr: "tracks P gvk_of K evs s"
  shows "\<exists>w' s'. DeleteFunc K (Object u) (w, s) = (Ok (), (w', s')) \<and> tracks P gvk_of K (evs @ [OnDelete (Object u)]) s'"
proof -
  let ?n = "GetName K u"
  have del: "deletes K n (OnDelete (Object u)) \<longleftrightarrow> n = ?n" "shows_ready P K n (OnDelete (Object u)) = None" for n
    by (auto simp: deletes_def shows_ready_def)
  have old: "map_option gvk_of (duckInformers s n) = tracked_spec P K evs n" for n
    using tr by (simp add: tracks_def)
  show ?thesis
  proof (cases "duckRegistrations s ?n")
    case None
    then have "duckInformers s ?n = None"
      using tr unfolding tracks_def by (metis domIff)
    then have "tracks P gvk_of K (evs @ [OnDelete (Object u)]) s"
      using tr by (auto simp: tracks_def tracked_spec_snoc del simp flip: old split: option.splits)
    then show ?thesis using None by (simp add: DeleteFunc_def)
  next
    case (Some reg)
    then obtain i where i: "duckInformers s ?n = Some i"
      using tr unfolding tracks_def by (metis domD domI)
    obtain w1 where rem: "RemoveEventHandler K i reg w = (Ok (), w1)"
      using ans unfolding informers_answer_def by meson
    let ?s = "s\<lparr>duckInformers := (duckInformers s)(?n := None), duckRegistrations := (duckRegistrations s)(?n := None)\<rparr>"
    have "tracks P gvk_of K (evs @ [OnDelete (Object u)]) ?s"
      using tr old by (auto simp: tracks_def tracked_spec_snoc del split: option.splits)
    then show ?thesis
      using Some by (simp add: DeleteFunc_def stop_informing_def alogged_def abind_def on_fst_def i rem)
  qed
qed

lemma handle_tracks:
  assumes ans: "informers_answer gvk_of K" and ok: "event_ok K ev" and tr: "tracks P gvk_of K evs s"
  shows "\<exists>w' s'. handle P K ev (w, s) = (Ok (), (w', s')) \<and> tracks P gvk_of K (evs @ [ev]) s'"
proof -
  obtain u r where u: "event_obj ev = Object u" "FromUnstructured K u = Ok r"
    using ok by (auto simp: event_ok_def split: informer_obj.splits result.splits)
  show ?thesis
  proof (cases ev)
    case (OnAdd obj)
    then show ?thesis
      using informOn_tracks [OF ans tr, of ev r w] u
      by (auto simp: event_obj_def AddFunc_def shows_ready_def deletes_def)
  next
    case (OnUpdate old obj)
    then show ?thesis
      using informOn_tracks [OF ans tr, of ev r w] u
      by (auto simp: event_obj_def UpdateFunc_def shows_ready_def deletes_def)
  next
    case (OnDelete obj)
    then show ?thesis
      using DeleteFunc_tracks [OF ans tr, of u w] u by (simp add: event_obj_def)
  qed
qed

lemma handlers_track:
  assumes "informers_answer gvk_of K" "list_all (event_ok K) evs"
  shows "\<exists>w' s'. for_each (handle P K) evs (w, informing_init) = (Ok (), (w', s')) \<and> tracks P gvk_of K evs s'"
  using assms(2)
proof (induction evs rule: rev_induct)
  case Nil
  then show ?case by (simp add: tracks_def informing_init_def)
next
  case (snoc ev evs)
  then obtain w1 s1 where "for_each (handle P K) evs (w, informing_init) = (Ok (), (w1, s1))"
      "tracks P gvk_of K evs s1"
    by auto
  with handle_tracks [OF assms(1) _ this(2), of ev w1] snoc.prems show ?case
    by (auto simp: for_each_append)
qed

section \<open>Removing the handlers\<close>

text \<open>
  The loop of the shutdown leaves the maps alone; it removes the handlers of the names it gets to, all of
  them when it succeeds, and no others.
\<close>

lemma remove_loop:
  fixes K :: "('w, 'e, 'i, 'r, 'u) informer_ops" and s :: "('i, 'r) informing"
  defines "body \<equiv> \<lambda>name ws. (case duckRegistrations (snd ws) name of None \<Rightarrow> (Ok (), ws)
      | Some registration \<Rightarrow> stop_informing K name registration ws)"
  assumes laws: "informer_laws live K" and dom: "dom (duckRegistrations s) = dom (duckInformers s)"
    and "distinct order" "set order \<subseteq> dom (duckInformers s)" "inj_on (tracked_handler s) (set order)"
    and "live w = B \<union> tracked_handler s ` set order" "tracked_handler s ` set order \<inter> B = {}"
    and "for_each body order (w, s) = (res, (w', s'))"
  shows "s' = s \<and> B \<subseteq> live w' \<and> (res = Ok () \<longrightarrow> live w' = B)"
  using assms(4-)
proof (induction order arbitrary: w)
  case Nil
  then show ?case by simp
next
  case (Cons n order)
  obtain i reg where maps: "duckInformers s n = Some i" "duckRegistrations s n = Some reg"
    using Cons.prems(2) dom by (metis domD insert_subset list.simps(15))
  then have t: "tracked_handler s n = (i, reg)" by (simp add: tracked_handler_def)
  obtain x w1 where rem: "RemoveEventHandler K i reg w = (x, w1)" by fastforce
  have step: "body n (w, s) = (x, (w1, s))"
    by (simp add: body_def maps stop_informing_def on_fst_def rem)
  have notin: "(i, reg) \<notin> tracked_handler s ` set order" "(i, reg) \<notin> B"
    using Cons.prems(1,3,5) t by (auto simp: inj_on_def)
  show ?case
  proof (cases x)
    case (Ok v)
    have "live w1 = live w - {(i, reg)}"
      using informer_lawsD(5) [OF laws] rem Ok by metis
    then have "live w1 = B \<union> tracked_handler s ` set order"
      using Cons.prems(4) notin by (simp add: t)
    then show ?thesis
      using Cons.prems step Ok by (intro Cons.IH) auto
  next
    case (Err e)
    then have "live w1 = live w" using informer_lawsD(6) [OF laws] rem by metis
    then show ?thesis using Cons.prems(4,6) step Err by auto
  next
    case (Panic p)
    then have "live w1 = live w" using informer_lawsD(7) [OF laws] rem by metis
    then show ?thesis using Cons.prems(4,6) step Panic by auto
  qed
qed

section \<open>Reference informers\<close>

text \<open>
  Informers that always answer: the informer of a kind is named by the kind, a registration is a number
  larger than all in use, and the world is the list of registered handlers.
\<close>

definition informers_ref :: "((GroupVersionKind \<times> nat) list, api_error, GroupVersionKind, nat, Duck) informer_ops" where
  "informers_ref =
     \<lparr>GetInformer = (\<lambda>gvk w. (Ok gvk, w)),
      AddEventHandler = (\<lambda>i h w. (Ok (Suc (sum_list (map snd w))), (i, Suc (sum_list (map snd w))) # w)),
      RemoveEventHandler = (\<lambda>i r w. (Ok (), removeAll (i, r) w)),
      FromUnstructured = Ok,
      GetName = Duck_Name\<rparr>"

lemma informers_ref_laws: "informer_laws set informers_ref"
proof -
  have "(i, Suc (sum_list (map snd w))) \<notin> set w" for i :: GroupVersionKind and w :: "(GroupVersionKind \<times> nat) list"
    using member_le_sum_list [of "Suc (sum_list (map snd w))" "map snd w"] by force
  then show ?thesis by (auto simp: informer_laws_def informers_ref_def)
qed

lemma informers_ref_answer: "informers_answer id informers_ref"
  by (simp add: informers_answer_def informers_ref_def)

definition demo_events :: "Duck duck_event list" where
  "demo_events = [OnAdd (Object demo_unready), OnAdd (Object demo_deployment), OnAdd (Object demo_job),
     OnUpdate (Object demo_deployment) (Object demo_deployment), OnDelete (Object demo_job)]"

lemma demo_events_run:
  "for_each (handle libs_ref informers_ref) demo_events (w, informing_init) =
     (Ok (), (removeAll (DuckSpec_GroupVersionKind (d_Spec demo_job), Suc (Suc (sum_list (map snd w) + sum_list (map snd w))))
        ((DuckSpec_GroupVersionKind (d_Spec demo_deployment), Suc (sum_list (map snd w))) # w),
      \<lparr>duckInformers = [''deployments.apps'' \<mapsto> DuckSpec_GroupVersionKind (d_Spec demo_deployment)],
       duckRegistrations = [''deployments.apps'' \<mapsto> Suc (sum_list (map snd w))], cancelled = False\<rparr>))"
  by (simp add: demo_events_def AddFunc_def UpdateFunc_def DeleteFunc_def informOn_def informers_ref_def
      informing_init_def demo_libs demo_is_ready alogged_def abind_def on_fst_def stop_informing_def
      demo_names demo_specs DuckSpec_GroupVersionKind_def fun_eq_iff)

section \<open>Properties\<close>

text \<open>
  Property C15.  After any sequence of duck events, and whatever the informers answer, the ducks in the
  two maps are the same and correspond one to one to the event handlers the broker has registered: no
  duck is watched twice, no handler is lost or left behind, and no handler of somebody else is touched.
\<close>

theorem one_handler_per_tracked_duck:
  assumes "informer_laws live K"
    and "for_each (handle P K) evs (w, informing_init) = (res, (w', s))"
  shows "dom (duckRegistrations s) = dom (duckInformers s) \<and> live w \<subseteq> live w'
    \<and> bij_betw (tracked_handler s) (dom (duckInformers s)) (live w' - live w)"
proof -
  have inv: "informing_inv live (live w) (w', s)"
    using handlers_inv [OF assms(1) informing_inv_init, where P = P and evs = evs] assms(2) by (metis snd_conv)
  let ?T = "tracked_handler s ` dom (duckInformers s)"
  have "?T \<inter> live w = {}" "live w' = live w \<union> ?T"
    using inv by (simp_all add: informing_inv_def)
  then have "?T = live w' - live w" by auto
  then show ?thesis
    using inv \<open>live w' = live w \<union> ?T\<close> by (simp add: informing_inv_def bij_betw_def)
qed

theorem one_handler_per_tracked_duck_witness:
  "\<exists>w' s. for_each (handle libs_ref informers_ref) demo_events ([], informing_init) = (Ok (), (w', s))
     \<and> dom (duckInformers s) = {''deployments.apps''}
     \<and> bij_betw (tracked_handler s) {''deployments.apps''} (set w')"
  using one_handler_per_tracked_duck [OF informers_ref_laws demo_events_run [of "[]"]]
  by (auto simp: demo_events_run)

text \<open>
  Property C8.  When the informers answer and every event carries an object, the tracked ducks are exactly
  those that were seen ready since their last deletion, and the informer in use is that of the group,
  version and kind of the first such event: a later change of version does not move it, and a duck that
  stops being ready keeps it.
\<close>

theorem tracked_ducks_are_ready_since_deletion:
  assumes "informers_answer gvk_of K" "list_all (event_ok K) evs"
  shows "\<exists>w' s. for_each (handle P K) evs (w, informing_init) = (Ok (), (w', s))
    \<and> (\<forall>n. map_option gvk_of (duckInformers s n) = tracked_spec P K evs n)"
  using handlers_track [OF assms, of P w] by (auto simp: tracks_def)

theorem tracked_ducks_are_ready_since_deletion_witness:
  "\<exists>w' s. for_each (handle libs_ref informers_ref) demo_events ([], informing_init) = (Ok (), (w', s))
     \<and> tracked_spec libs_ref informers_ref demo_events ''deployments.apps'' =
         Some \<lparr>gvk_Group = ''apps'', gvk_Version = ''v1'', gvk_Kind = ''Deployment''\<rparr>
     \<and> tracked_spec libs_ref informers_ref demo_events ''jobs.batch'' = None"
proof -
  have "list_all (event_ok informers_ref) demo_events"
    by (simp add: demo_events_def event_ok_def event_obj_def informers_ref_def)
  from tracked_ducks_are_ready_since_deletion [OF informers_ref_answer this, of libs_ref "[]"]
  obtain w' s where run: "for_each (handle libs_ref informers_ref) demo_events ([], informing_init) = (Ok (), (w', s))"
    and spec: "\<And>n. map_option id (duckInformers s n) = tracked_spec libs_ref informers_ref demo_events n"
    by auto
  from run have "duckInformers s = [''deployments.apps'' \<mapsto> DuckSpec_GroupVersionKind (d_Spec demo_deployment)]"
    by (auto simp: demo_events_run)
  then show ?thesis
    using run spec [of "''deployments.apps''"] spec [of "''jobs.batch''"]
    by (simp add: demo_specs DuckSpec_GroupVersionKind_def)
qed

text \<open>
  Property C34.  What one event does to the maps on every branch of \<open>informOn\<close>: a duck that is tracked or
  not ready changes nothing; a failure to get the informer or to register the handler is logged and
  leaves the maps as they were, so that the next event tries again; otherwise exactly this duck is added.
  A deletion of a duck that is not tracked changes nothing, a failing removal is logged and keeps the duck
  tracked, and a successful one drops exactly this duck.  The marker of a missed deletion makes the handlers
  of ducks and of resources panic, so the duck stays tracked.
\<close>

theorem informOn_branches:
  fixes K :: "('w, 'e, 'i, 'r, 'u) informer_ops"
  shows "(duckInformers s (Duck_Name r) \<noteq> None \<or> \<not> Duck_is_ready (lib_cond P) r \<longrightarrow> informOn P K r (w, s) = (Ok (), (w, s)))
 \<and> (duckInformers s (Duck_Name r) = None \<and> Duck_is_ready (lib_cond P) r \<longrightarrow>
      (\<forall>e w1. GetInformer K (DuckSpec_GroupVersionKind (d_Spec r)) w = (Err e, w1) \<longrightarrow>
         informOn P K r (w, s) = (Ok (), (w1, s)))
    \<and> (\<forall>i w1 e w2. GetInformer K (DuckSpec_GroupVersionKind (d_Spec r)) w = (Ok i, w1)
         \<and> AddEventHandler K i ResourceHandler w1 = (Err e, w2) \<longrightarrow> informOn P K r (w, s) = (Ok (), (w2, s)))
    \<and> (\<forall>i w1 reg w2. GetInformer K (DuckSpec_GroupVersionKind (d_Spec r)) w = (Ok i, w1)
         \<and> AddEventHandler K i ResourceHandler w1 = (Ok reg, w2) \<longrightarrow>
         informOn P K r (w, s) = (Ok (), (w2, s\<lparr>duckInformers := (duckInformers s)(Duck_Name r \<mapsto> i),
           duckRegistrations := (duckRegistrations s)(Duck_Name r \<mapsto> reg)\<rparr>))))
 \<and> (duckRegistrations s (GetName K u) = None \<longrightarrow> DeleteFunc K (Object u) (w, s) = (Ok (), (w, s)))
 \<and> (\<forall>reg i. duckRegistrations s (GetName K u) = Some reg \<and> duckInformers s (GetName K u) = Some i \<longrightarrow>
      (\<forall>e w1. RemoveEventHandler K i reg w = (Err e, w1) \<longrightarrow> DeleteFunc K (Object u) (w, s) = (Ok (), (w1, s)))
    \<and> (\<forall>w1. RemoveEventHandler K i reg w = (Ok (), w1) \<longrightarrow> DeleteFunc K (Object u) (w, s) =
         (Ok (), (w1, s\<lparr>duckInformers := (duckInformers s)(GetName K u := None),
           duckRegistrations := (duckRegistrations s)(GetName K u := None)\<rparr>))))
 \<and> DeleteFunc K DeletedFinalStateUnknown (w, s) = (Panic ''type assertion'', (w, s))
 \<and> resource_handler (DeletedFinalStateUnknown :: 'u informer_obj) = (Panic ''type assertion'' :: ('e, 'u) result)"
  by (auto simp: informOn_def DeleteFunc_def stop_informing_def resource_handler_def alogged_def abind_def on_fst_def on_snd_def)

theorem informOn_branches_witness:
  "informOn libs_ref informers_ref demo_unready ([], informing_init) = (Ok (), ([], informing_init))
 \<and> informOn libs_ref (informers_ref\<lparr>GetInformer := (\<lambda>_ w. (Err Conflict, w))\<rparr>) demo_job ([], informing_init)
     = (Ok (), ([], informing_init))
 \<and> DeleteFunc informers_ref DeletedFinalStateUnknown ([], informing_init) = (Panic ''type assertion'', ([], informing_init))"
  using informOn_branches [of informing_init demo_unready libs_ref informers_ref "[]"]
    informOn_branches [of informing_init demo_job libs_ref "informers_ref\<lparr>GetInformer := (\<lambda>_ w. (Err Conflict, w))\<rparr>" "[]"]
  by (simp add: informing_init_def demo_libs demo_is_ready)

text \<open>
  Property C35.  The life of the runnable leaves nothing behind: after the start, any duck events and the
  shutdown, the loop of the broker is cancelled, and a shutdown that succeeds has removed exactly the
  handlers the broker registered, in whatever order the map is visited.  A shutdown that stops at an error
  still removes no handler of anyone else.
\<close>

theorem runnable_releases_handlers:
  assumes laws: "informer_laws live K"
    and start: "runnable_start K gk w = (Ok treg, w1)"
    and events: "for_each (handle P K) evs (w1, informing_init) = (res, (w2, s2))"
    and order: "distinct order" "set order = dom (duckRegistrations s2)"
    and shutdown: "runnable_shutdown K treg order (w2, s2) = (res', (w3, s3))"
  shows "cancelled s3 \<and> live w \<subseteq> live w3 \<and> (res' = Ok () \<longrightarrow> live w3 = live w)"
proof -
  obtain w0 where "live w0 = live w" "AddEventHandler K (fst treg) DuckHandler w0 = (Ok (snd treg), w1)"
    using start by (auto simp: runnable_start_def abind_eq_Ok_iff dest: informer_lawsD(1) [OF laws])
  then have treg: "treg \<notin> live w" "live w1 = insert treg (live w)"
    using informer_lawsD(2) [OF laws] by (metis prod.collapse)+
  have inv: "informing_inv live (live w1) (w2, s2)"
    using handlers_inv [OF laws informing_inv_init, where P = P and evs = evs] events by (metis snd_conv)
  let ?s = "s2\<lparr>cancelled := True\<rparr>" and ?T = "tracked_handler s2 ` dom (duckInformers s2)"
  have T: "tracked_handler ?s = tracked_handler s2" by (simp add: tracked_handler_def fun_eq_iff)
  have old: "dom (duckRegistrations s2) = dom (duckInformers s2)" "inj_on (tracked_handler s2) (dom (duckInformers s2))"
    "?T \<inter> live w1 = {}" "live w2 = live w1 \<union> ?T"
    using inv by (simp_all add: informing_inv_def)
  obtain x w' where rem: "RemoveEventHandler K (fst treg) (snd treg) w2 = (x, w')" by fastforce
  note defs = runnable_shutdown_def abind_def on_fst_def
  show ?thesis
  proof (cases x)
    case (Ok u)
    have "live w' = live w2 - {treg}"
      using informer_lawsD(5) [OF laws] rem Ok by (metis prod.collapse)
    then have lv: "live w' = live w \<union> ?T" "?T \<inter> live w = {}"
      using old(3,4) treg by auto
    have loop: "for_each (\<lambda>name ws. (case duckRegistrations (snd ws) name of None \<Rightarrow> (Ok (), ws)
        | Some registration \<Rightarrow> stop_informing K name registration ws)) order (w', ?s) = (res', (w3, s3))"
      using shutdown Ok rem by (simp add: defs)
    show ?thesis
      using remove_loop [OF laws _ order(1) _ _ _ _ loop, of "live w"] order(2) old lv by (simp add: T)
  next
    case (Err e)
    then have "live w' = live w2" using informer_lawsD(6) [OF laws] rem by metis
    then show ?thesis using shutdown rem Err old(4) treg by (auto simp: defs)
  next
    case (Panic p)
    then have "live w' = live w2" using informer_lawsD(7) [OF laws] rem by metis
    then show ?thesis using shutdown rem Panic old(4) treg by (auto simp: defs)
  qed
qed

theorem runnable_releases_handlers_witness:
  "\<exists>treg w1 w2 s2 w3 s3. runnable_start informers_ref \<lparr>gk_Group = ''example.com'', gk_Kind = ''Duck''\<rparr> [] = (Ok treg, w1)
     \<and> for_each (handle libs_ref informers_ref) demo_events (w1, informing_init) = (Ok (), (w2, s2))
     \<and> length w2 = 2 \<and> runnable_shutdown informers_ref treg [''deployments.apps''] (w2, s2) = (Ok (), (w3, s3))
     \<and> w3 = []"
proof -
  define treg where "treg = (\<lparr>gvk_Group = ''example.com'', gvk_Version = ''v1'', gvk_Kind = ''Duck''\<rparr>, Suc 0)"
  have start: "runnable_start informers_ref \<lparr>gk_Group = ''example.com'', gk_Kind = ''Duck''\<rparr> [] = (Ok treg, [treg])"
    by (simp add: runnable_start_def informers_ref_def abind_def treg_def)
  obtain w2 s2 where events: "for_each (handle libs_ref informers_ref) demo_events ([treg], informing_init) = (Ok (), (w2, s2))"
    and w2: "length w2 = 2" and s2: "duckInformers s2 = [''deployments.apps'' \<mapsto> DuckSpec_GroupVersionKind (d_Spec demo_deployment)]"
      "duckRegistrations s2 = [''deployments.apps'' \<mapsto> Suc (Suc 0)]"
    by (simp add: demo_events_run treg_def demo_specs DuckSpec_GroupVersionKind_def)
  obtain w3 s3 where shutdown: "runnable_shutdown informers_ref treg [''deployments.apps''] (w2, s2) = (Ok (), (w3, s3))"
    by (simp add: runnable_shutdown_def informers_ref_def abind_def on_fst_def stop_informing_def s2)
  have "set w3 = set []"
    using runnable_releases_handlers [OF informers_ref_laws start events _ _ shutdown] by (simp add: s2)
  then show ?thesis using start events w2 shutdown by auto
qed

end
