(* ===== verification/Controller_Roles.thy ===== *)
theory Controller_Roles
  imports Api_Lifecycle
begin

text \<open>
  The cluster roles of \<open>internal/controller/ducktype_controller.go\<close>: the two aggregate roles of a duck
  type, the two roles of every duck, how an existing role is brought in line with the desired one, and how
  the outcome is reflected in the status of the parent.  The child-set reconciler that lists, creates,
  updates and deletes the roles belongs to \<open>reconciler.io/runtime\<close>; the functions it is configured with
  are the definitions here.
\<close>

section \<open>Roles\<close>

record PolicyRule =
  pr_APIGroups :: "string list"
  pr_Resources :: "string list"
  pr_Verbs :: "string list"

text \<open>An aggregation rule is the list of its selectors, each the map of its match labels.\<close>

record ClusterRole =
  cr_ObjectMeta :: ObjectMeta
  cr_Rules :: "PolicyRule list"
  cr_AggregationRule :: "(string \<rightharpoonup> string) list option"

definition cr_Name :: "ClusterRole \<Rightarrow> string" where
  "cr_Name r = om_Name (cr_ObjectMeta r)"

definition cr_Labels :: "ClusterRole \<Rightarrow> string \<rightharpoonup> string" where
  "cr_Labels r = om_Labels (cr_ObjectMeta r)"

text \<open>\<open>DesiredChildren\<close> of a duck type.\<close>

definition DuckType_DesiredRoles :: "DuckType \<Rightarrow> ClusterRole list" where
  "DuckType_DesiredRoles resource =
    [\<lparr>cr_ObjectMeta = (ObjectMeta_named (''reconcilerio-ducks-'' @ DuckType_Name resource @ ''-view''))
        \<lparr>om_Labels := [''ducks.reconciler.io/type'' \<mapsto> DuckType_Name resource]\<rparr>,
      cr_Rules = [],
      cr_AggregationRule = Some [[''ducks.reconciler.io/type'' \<mapsto> DuckType_Name resource,
                                  ''ducks.reconciler.io/role'' \<mapsto> ''view'']]\<rparr>,
     \<lparr>cr_ObjectMeta = (ObjectMeta_named (''reconcilerio-ducks-'' @ DuckType_Name resource @ ''-edit''))
        \<lparr>om_Labels := [''ducks.reconciler.io/type'' \<mapsto> DuckType_Name resource]\<rparr>,
      cr_Rules = [],
      cr_AggregationRule = Some [[''ducks.reconciler.io/type'' \<mapsto> DuckType_Name resource,
                                  ''ducks.reconciler.io/role'' \<mapsto> ''edit'']]\<rparr>]"

text \<open>
  What the controllers of a duck use of their configuration: the kind of an object, the REST mapping of a
  kind (its resource), the construction of a controller reference, the resources the API server serves
  for a group and version, and the tracker.
\<close>

record APIResource =
  ar_Name :: string
  ar_Kind :: string

datatype tracked = TrackedCustomResourceDefinition string | TrackedAPIService string

record ('w, 'e) ctl_ops =
  ctl_GroupVersionKindFor :: "Duck \<Rightarrow> ('w, 'e, GroupVersionKind) act"
  ctl_RESTMapping :: "GroupKind \<Rightarrow> string \<Rightarrow> ('w, 'e, GroupVersionResource) act"
  ctl_NewControllerRef :: "ObjectMeta \<Rightarrow> GroupVersionKind \<Rightarrow> OwnerReference"
  ctl_ServerResourcesForGroupVersion :: "string \<Rightarrow> ('w, 'e, APIResource list) act"
  ctl_TrackObject :: "tracked \<Rightarrow> Duck \<Rightarrow> ('w, 'e, unit) act"

text \<open>\<open>DesiredChildren\<close> of a duck.\<close>

definition Duck_DesiredRoles ::
  "('e, 'z) libs_scheme \<Rightarrow> ('w, 'e) ctl_ops \<Rightarrow> Duck \<Rightarrow> ('w, 'e, ClusterRole list) act" where
  "Duck_DesiredRoles P C resource =
     abind (ctl_GroupVersionKindFor C resource) (\<lambda>gvk.
     abind (ctl_RESTMapping C (GVK_GroupKind gvk) (gvk_Version gvk)) (\<lambda>mapping.
     let gr = ParseGroupResource (lib_schema P) (Duck_Name resource);
         type = GroupResource_String (lib_schema P) (GVR_GroupResource mapping)
     in areturn
       [\<lparr>cr_ObjectMeta = (ObjectMeta_named (''reconcilerio-ducks-'' @ type @ ''-'' @ Duck_Name resource @ ''-view''))
           \<lparr>om_Labels := [''ducks.reconciler.io/type'' \<mapsto> type, ''ducks.reconciler.io/role'' \<mapsto> ''view''],
            om_OwnerReferences := [ctl_NewControllerRef C (d_ObjectMeta resource) gvk]\<rparr>,
         cr_Rules = [\<lparr>pr_APIGroups = [gr_Group gr], pr_Resources = [gr_Resource gr],
                      pr_Verbs = [''get'', ''list'', ''watch'']\<rparr>],
         cr_AggregationRule = None\<rparr>,
        \<lparr>cr_ObjectMeta = (ObjectMeta_named (''reconcilerio-ducks-'' @ type @ ''-'' @ Duck_Name resource @ ''-edit''))
           \<lparr>om_Labels := [''ducks.reconciler.io/type'' \<mapsto> type, ''ducks.reconciler.io/role'' \<mapsto> ''edit''],
            om_OwnerReferences := [ctl_NewControllerRef C (d_ObjectMeta resource) gvk]\<rparr>,
         cr_Rules = [\<lparr>pr_APIGroups = [gr_Group gr], pr_Resources = [gr_Resource gr],
                      pr_Verbs = [''get'', ''list'', ''watch'', ''patch'']\<rparr>],
         cr_AggregationRule = None\<rparr>]))"

text \<open>\<open>IdentifyChild\<close>, \<open>HarmonizeImmutableFields\<close> and \<open>MergeBeforeUpdate\<close>, once per reconciler.\<close>

definition DuckType_IdentifyRole :: "ClusterRole \<Rightarrow> string" where
  "DuckType_IdentifyRole child = cr_Name child"

definition DuckType_HarmonizeRole :: "ClusterRole \<Rightarrow> ClusterRole \<Rightarrow> ClusterRole" where
  "DuckType_HarmonizeRole current desired =
     (if cr_AggregationRule desired \<noteq> None then desired\<lparr>cr_Rules := cr_Rules current\<rparr> else desired)"

definition DuckType_MergeRole :: "ClusterRole \<Rightarrow> ClusterRole \<Rightarrow> ClusterRole" where
  "DuckType_MergeRole current desired =
     current\<lparr>cr_ObjectMeta := (cr_ObjectMeta current)\<lparr>om_Labels := om_Labels (cr_ObjectMeta desired)\<rparr>,
             cr_Rules := cr_Rules desired, cr_AggregationRule := cr_AggregationRule desired\<rparr>"

definition Duck_IdentifyRole :: "ClusterRole \<Rightarrow> string" where
  "Duck_IdentifyRole child = cr_Name child"

definition Duck_HarmonizeRole :: "ClusterRole \<Rightarrow> ClusterRole \<Rightarrow> ClusterRole" where
  "Duck_HarmonizeRole current desired =
     (if cr_AggregationRule desired \<noteq> None then desired\<lparr>cr_Rules := cr_Rules current\<rparr> else desired)"

definition Duck_MergeRole :: "ClusterRole \<Rightarrow> ClusterRole \<Rightarrow> ClusterRole" where
  "Duck_MergeRole current desired =
     current\<lparr>cr_ObjectMeta := (cr_ObjectMeta current)\<lparr>om_Labels := om_Labels (cr_ObjectMeta desired)\<rparr>,
             cr_Rules := cr_Rules desired, cr_AggregationRule := cr_AggregationRule desired\<rparr>"

text \<open>
  \<open>ReflectChildrenStatusOnParentWithError\<close>: the aggregate error of the children, if any, and the parent;
  the result is the error to return, if any, and the changed parent.
\<close>

definition DuckType_ReflectRoles ::
  "('e, 'z) libs_scheme \<Rightarrow> 'e option \<Rightarrow> DuckType \<Rightarrow> 'e option \<times> DuckType" where
  "DuckType_ReflectRoles P err parent = (case err of
     Some e \<Rightarrow>
       if lib_IsInvalid P e
       then (None, DuckType_MarkFalse (lib_cond P) DuckTypeConditionRBAC ''Invalid'' (lib_ReasonForError P e) parent)
       else if lib_IsAlreadyExists P e
       then (None, DuckType_MarkFalse (lib_cond P) DuckTypeConditionRBAC ''AlreadyExists'' (lib_ReasonForError P e) parent)
       else (Some e, DuckType_MarkUnknown (lib_cond P) DuckTypeConditionRBAC ''Unknown'' [] parent)
   | None \<Rightarrow> (None, DuckType_MarkTrue (lib_cond P) DuckTypeConditionRBAC ''Defined'' [] parent))"

definition Duck_ReflectRoles ::
  "('e, 'z) libs_scheme \<Rightarrow> 'e option \<Rightarrow> Duck \<Rightarrow> 'e option \<times> Duck" where
  "Duck_ReflectRoles P err parent = (case err of
     Some e \<Rightarrow>
       if lib_IsInvalid P e
       then (None, Duck_MarkFalse (lib_cond P) DuckConditionRBAC ''Invalid'' (lib_ReasonForError P e) parent)
       else if lib_IsAlreadyExists P e
       then (None, Duck_MarkFalse (lib_cond P) DuckConditionRBAC ''AlreadyExists'' (lib_ReasonForError P e) parent)
       else (Some e, Duck_MarkUnknown (lib_cond P) DuckConditionRBAC ''Unknown'' [] parent)
   | None \<Rightarrow> (None, Duck_MarkTrue (lib_cond P) DuckConditionRBAC ''Defined'' [] parent))"

section \<open>Bringing a child in line\<close>

text \<open>
  The contract of the two functions an updating object manager is configured with.  The manager first lets
  the desired object take over what only the server decides, then merges it into the current one and
  writes the result back if it differs; writing must therefore settle.
\<close>

locale child_manager =
  fixes harmonize :: "'c \<Rightarrow> 'c \<Rightarrow> 'c"
    and merge :: "'c \<Rightarrow> 'c \<Rightarrow> 'c"
  assumes merge_merge: "merge (merge c d) d' = merge c d'"
    and harmonize_again: "merge c (harmonize (merge c (harmonize c d)) d) = merge c (harmonize c d)"
begin

lemma update_settles:
  "merge (merge c (harmonize c d)) (harmonize (merge c (harmonize c d)) d) = merge c (harmonize c d)"
  by (simp only: merge_merge harmonize_again)

lemma updates_settle:
  "0 < n \<Longrightarrow> ((\<lambda>c. merge c (harmonize c d)) ^^ n) c = merge c (harmonize c d)"
proof (induction n)
  case (Suc n)
  then show ?case by (cases n) (simp_all add: update_settles)
qed simp

end

interpretation dtr: child_manager DuckType_HarmonizeRole DuckType_MergeRole
  by unfold_locales (simp_all add: DuckType_HarmonizeRole_def DuckType_MergeRole_def)

interpretation dr: child_manager Duck_HarmonizeRole Duck_MergeRole
  by unfold_locales (simp_all add: Duck_HarmonizeRole_def Duck_MergeRole_def)

section \<open>What roles grant\<close>

text \<open>
  The documented meaning of role-based access control: a rule allows a verb on a resource of a group when it
  lists all three (no rule here uses a wildcard), an aggregate role has the rules of all roles whose labels
  contain one of its selectors.
\<close>

definition allows :: "PolicyRule list \<Rightarrow> string \<Rightarrow> string \<Rightarrow> string \<Rightarrow> bool" where
  "allows rules verb g r \<longleftrightarrow>
     (\<exists>rule \<in> set rules. verb \<in> set (pr_Verbs rule) \<and> g \<in> set (pr_APIGroups rule) \<and> r \<in> set (pr_Resources rule))"

definition selects :: "ClusterRole \<Rightarrow> ClusterRole \<Rightarrow> bool" where
  "selects agg role = (case cr_AggregationRule agg of
     None \<Rightarrow> False | Some sels \<Rightarrow> list_ex (\<lambda>sel. sel \<subseteq>\<^sub>m cr_Labels role) sels)"

definition effective_rules :: "ClusterRole list \<Rightarrow> ClusterRole \<Rightarrow> PolicyRule list" where
  "effective_rules roles agg = concat (map cr_Rules (filter (selects agg) roles))"

definition view_verbs :: "string list" where
  "view_verbs = [''get'', ''list'', ''watch'']"

definition edit_verbs :: "string list" where
  "edit_verbs = [''get'', ''list'', ''watch'', ''patch'']"

text \<open>The role of one duck, with the name of its type and the kind of access as arguments.\<close>

definition duck_role :: "schema_ops \<Rightarrow> string \<Rightarrow> OwnerReference \<Rightarrow> Duck \<Rightarrow> string \<Rightarrow> string list \<Rightarrow> ClusterRole" where
  "duck_role L type ref d access verbs =
     \<lparr>cr_ObjectMeta = (ObjectMeta_named (''reconcilerio-ducks-'' @ type @ ''-'' @ Duck_Name d @ ''-'' @ access))
        \<lparr>om_Labels := [''ducks.reconciler.io/type'' \<mapsto> type, ''ducks.reconciler.io/role'' \<mapsto> access],
         om_OwnerReferences := [ref]\<rparr>,
      cr_Rules = [\<lparr>pr_APIGroups = [gr_Group (ParseGroupResource L (Duck_Name d))],
                   pr_Resources = [gr_Resource (ParseGroupResource L (Duck_Name d))], pr_Verbs = verbs\<rparr>],
      cr_AggregationRule = None\<rparr>"

definition aggregate_role :: "DuckType \<Rightarrow> string \<Rightarrow> ClusterRole" where
  "aggregate_role dt access =
     \<lparr>cr_ObjectMeta = (ObjectMeta_named (''reconcilerio-ducks-'' @ DuckType_Name dt @ ''-'' @ access))
        \<lparr>om_Labels := [''ducks.reconciler.io/type'' \<mapsto> DuckType_Name dt]\<rparr>,
      cr_Rules = [],
      cr_AggregationRule = Some [[''ducks.reconciler.io/type'' \<mapsto> DuckType_Name dt, ''ducks.reconciler.io/role'' \<mapsto> access]]\<rparr>"

lemma DuckType_DesiredRoles_eq:
  "DuckType_DesiredRoles dt = [aggregate_role dt ''view'', aggregate_role dt ''edit'']"
  by (simp add: DuckType_DesiredRoles_def aggregate_role_def)

lemma Duck_DesiredRoles_Ok:
  assumes "ctl_GroupVersionKindFor C d w = (Ok gvk, w1)"
    and "ctl_RESTMapping C (GVK_GroupKind gvk) (gvk_Version gvk) w1 = (Ok mapping, w2)"
    and "type = GroupResource_String (lib_schema P) (GVR_GroupResource mapping)"
  shows "Duck_DesiredRoles P C d w = (Ok
    [duck_role (lib_schema P) type (ctl_NewControllerRef C (d_ObjectMeta d) gvk) d ''view'' view_verbs,
     duck_role (lib_schema P) type (ctl_NewControllerRef C (d_ObjectMeta d) gvk) d ''edit'' edit_verbs], w2)"
  using assms by (simp add: Duck_DesiredRoles_def Let_def duck_role_def view_verbs_def edit_verbs_def)

lemma map_le_two:
  "k \<noteq> k' \<Longrightarrow> [k \<mapsto> a, k' \<mapsto> b] \<subseteq>\<^sub>m m \<longleftrightarrow> m k = Some a \<and> m k' = Some b"
  by (auto simp: map_le_def)

lemma label_keys: "''ducks.reconciler.io/type'' \<noteq> ''ducks.reconciler.io/role''"
  by simp

lemma duck_role_labels:
  "cr_Labels (duck_role L type ref d access verbs) ''ducks.reconciler.io/type'' = Some type"
  "cr_Labels (duck_role L type ref d access verbs) ''ducks.reconciler.io/role'' = Some access"
  by (simp_all add: duck_role_def cr_Labels_def)

lemma aggregate_role_label: "cr_Labels (aggregate_role dt access) ''ducks.reconciler.io/role'' = None"
  by (simp add: aggregate_role_def cr_Labels_def)

lemma selects_iff:
  "selects (aggregate_role dt access) role \<longleftrightarrow>
     cr_Labels role ''ducks.reconciler.io/type'' = Some (DuckType_Name dt)
   \<and> cr_Labels role ''ducks.reconciler.io/role'' = Some access"
proof -
  have "cr_AggregationRule (aggregate_role dt access) =
      Some [[''ducks.reconciler.io/type'' \<mapsto> DuckType_Name dt, ''ducks.reconciler.io/role'' \<mapsto> access]]"
    by (simp only: aggregate_role_def ClusterRole.select_convs)
  then show ?thesis
    unfolding selects_def by (simp only: option.case list_ex_iff list.set bex_simps map_le_two [OF label_keys] simp_thms)
qed

lemma selects_duck_role:
  "selects (aggregate_role dt access) (duck_role L type ref d access' verbs) \<longleftrightarrow>
     type = DuckType_Name dt \<and> access = access'"
  unfolding selects_iff duck_role_labels by auto

lemma selects_aggregate_role: "\<not> selects (aggregate_role dt access) (aggregate_role dt' access')"
  unfolding selects_iff aggregate_role_label by simp

lemma allows_concat: "allows (concat rss) v g r \<longleftrightarrow> (\<exists>rs \<in> set rss. allows rs v g r)"
  by (auto simp: allows_def)

lemma allows_duck_role:
  "allows (cr_Rules (duck_role L type ref d access verbs)) v g r \<longleftrightarrow>
     v \<in> set verbs \<and> ParseGroupResource L (Duck_Name d) = \<lparr>gr_Group = g, gr_Resource = r\<rparr>"
  by (cases "ParseGroupResource L (Duck_Name d)") (auto simp: allows_def duck_role_def)

lemma effective_rules_allows:
  "allows (effective_rules roles agg) v g r \<longleftrightarrow> (\<exists>role \<in> set roles. selects agg role \<and> allows (cr_Rules role) v g r)"
  by (auto simp: effective_rules_def allows_concat)

text \<open>The kind and the mapping of every duck can be told, and telling changes nothing.\<close>

definition ducks_resolve ::
  "('w, 'e) ctl_ops \<Rightarrow> schema_ops \<Rightarrow> (Duck \<Rightarrow> string) \<Rightarrow> Duck list \<Rightarrow> bool" where
  "ducks_resolve C L type_of ds \<longleftrightarrow> (\<forall>d \<in> set ds. \<forall>w. \<exists>gvk mapping.
     ctl_GroupVersionKindFor C d w = (Ok gvk, w)
   \<and> ctl_RESTMapping C (GVK_GroupKind gvk) (gvk_Version gvk) w = (Ok mapping, w)
   \<and> GroupResource_String L (GVR_GroupResource mapping) = type_of d)"

lemma all_duck_roles:
  assumes "ducks_resolve C (lib_schema P) type_of ds"
  shows "\<exists>roles. for_append (Duck_DesiredRoles P C) ds acc w = (Ok (acc @ roles), w)
    \<and> (\<forall>role \<in> set roles. \<exists>d \<in> set ds. \<exists>ref. role = duck_role (lib_schema P) (type_of d) ref d ''view'' view_verbs
         \<or> role = duck_role (lib_schema P) (type_of d) ref d ''edit'' edit_verbs)
    \<and> (\<forall>d \<in> set ds. \<exists>ref. duck_role (lib_schema P) (type_of d) ref d ''view'' view_verbs \<in> set roles
         \<and> duck_role (lib_schema P) (type_of d) ref d ''edit'' edit_verbs \<in> set roles)"
  using assms
proof (induction ds arbitrary: acc)
  case (Cons d ds)
  from Cons.prems obtain gvk mapping where res: "ctl_GroupVersionKindFor C d w = (Ok gvk, w)"
      "ctl_RESTMapping C (GVK_GroupKind gvk) (gvk_Version gvk) w = (Ok mapping, w)"
      "GroupResource_String (lib_schema P) (GVR_GroupResource mapping) = type_of d"
    unfolding ducks_resolve_def by (meson list.set_intros(1))
  define ref where "ref = ctl_NewControllerRef C (d_ObjectMeta d) gvk"
  let ?rs = "[duck_role (lib_schema P) (type_of d) ref d ''view'' view_verbs,
     duck_role (lib_schema P) (type_of d) ref d ''edit'' edit_verbs]"
  have one: "Duck_DesiredRoles P C d w = (Ok ?rs, w)"
    unfolding ref_def by (rule Duck_DesiredRoles_Ok [OF res(1,2) res(3) [symmetric]])
  have "ducks_resolve C (lib_schema P) type_of ds"
    using Cons.prems by (simp add: ducks_resolve_def)
  from Cons.IH [OF this, of "acc @ ?rs"] obtain roles where
    IH: "for_append (Duck_DesiredRoles P C) ds (acc @ ?rs) w = (Ok ((acc @ ?rs) @ roles), w)"
      "\<forall>role \<in> set roles. \<exists>d \<in> set ds. \<exists>ref. role = duck_role (lib_schema P) (type_of d) ref d ''view'' view_verbs
         \<or> role = duck_role (lib_schema P) (type_of d) ref d ''edit'' edit_verbs"
      "\<forall>d \<in> set ds. \<exists>ref. duck_role (lib_schema P) (type_of d) ref d ''view'' view_verbs \<in> set roles
         \<and> duck_role (lib_schema P) (type_of d) ref d ''edit'' edit_verbs \<in> set roles"
    by blast
  show ?case
    using IH one by (intro exI [of _ "?rs @ roles"]) fastforce
qed simp

lemma aggregate_effective:
  assumes roles: "\<forall>role \<in> set roles. \<exists>d \<in> set ds. \<exists>ref. role = duck_role L (type_of d) ref d ''view'' view_verbs
         \<or> role = duck_role L (type_of d) ref d ''edit'' edit_verbs"
      "\<forall>d \<in> set ds. \<exists>ref. duck_role L (type_of d) ref d ''view'' view_verbs \<in> set roles
         \<and> duck_role L (type_of d) ref d ''edit'' edit_verbs \<in> set roles"
    and access: "access = ''view'' \<and> verbs = view_verbs \<or> access = ''edit'' \<and> verbs = edit_verbs"
  shows "allows (effective_rules roles (aggregate_role dt access)) v g r \<longleftrightarrow>
    (\<exists>d \<in> set ds. type_of d = DuckType_Name dt \<and> ParseGroupResource L (Duck_Name d) = \<lparr>gr_Group = g, gr_Resource = r\<rparr>
       \<and> v \<in> set verbs)" (is "?l \<longleftrightarrow> ?r")
proof
  assume ?l
  then obtain role where role: "role \<in> set roles" "selects (aggregate_role dt access) role" "allows (cr_Rules role) v g r"
    by (auto simp: effective_rules_allows)
  with roles(1) obtain d ref where "d \<in> set ds" "role = duck_role L (type_of d) ref d ''view'' view_verbs
         \<or> role = duck_role L (type_of d) ref d ''edit'' edit_verbs"
    by blast
  with role(2,3) access show ?r by (auto simp: selects_duck_role allows_duck_role)
next
  assume ?r
  then obtain d where d: "d \<in> set ds" "type_of d = DuckType_Name dt"
      "ParseGroupResource L (Duck_Name d) = \<lparr>gr_Group = g, gr_Resource = r\<rparr>" "v \<in> set verbs"
    by blast
  with roles(2) access obtain ref where "duck_role L (type_of d) ref d access verbs \<in> set roles"
    by auto
  with d show ?l
    by (auto simp: effective_rules_allows selects_duck_role allows_duck_role intro!: bexI)
qed

section \<open>Properties\<close>

text \<open>A configuration in which every duck is of the type named in its API version.\<close>

definition ctl_ref :: "(tracked list, api_error) ctl_ops" where
  "ctl_ref = \<lparr>ctl_GroupVersionKindFor = (\<lambda>d w. (Ok \<lparr>gvk_Group = ''example.com'', gvk_Version = ''v1'', gvk_Kind = ''Duck''\<rparr>, w)),
     ctl_RESTMapping = (\<lambda>gk v w. (Ok \<lparr>gvr_Group = gk_Group gk, gvr_Version = v, gvr_Resource = ''ducks''\<rparr>, w)),
     ctl_NewControllerRef = (\<lambda>m gvk. \<lparr>or_APIVersion = [], or_Kind = gvk_Kind gvk, or_Name = om_Name m, or_UID = om_UID m\<rparr>),
     ctl_ServerResourcesForGroupVersion = (\<lambda>gv w.
       if gv = ''apps/v1'' then (Ok [\<lparr>ar_Name = ''deployments'', ar_Kind = ''Deployment''\<rparr>], w) else (Err NotFound, w)),
     ctl_TrackObject = (\<lambda>t d w. (Ok (), w @ [t]))\<rparr>"

definition ducks_ducktype :: DuckType where
  "ducks_ducktype = \<lparr>dt_TypeMeta = TypeMeta_zero, dt_ObjectMeta = ObjectMeta_named ''ducks.example.com'',
     dt_Spec = DuckTypeSpec_zero, dt_Status = \<lparr>dtst_Status = Status_zero\<rparr>\<rparr>"

lemma ctl_ref_resolve: "ducks_resolve ctl_ref schema_ref (\<lambda>_. ''ducks.example.com'') ds"
  by (simp add: ducks_resolve_def ctl_ref_def GVK_GroupKind_def GVR_GroupResource_def schema_ref_def)

text \<open>
  Property C16.  The aggregate roles of a duck type grant exactly what its ducks are for.  When the roles of
  all ducks of all types are defined, the view role of a duck type allows get, list and watch, and the edit
  role also patch, on exactly the resources named by the ducks of this type: nothing of another type's
  ducks, nothing on other resources, no other verb.
\<close>

theorem aggregate_roles_grant_exactly:
  assumes "ducks_resolve C (lib_schema P) type_of ds"
  shows "\<exists>roles view edit. for_append (Duck_DesiredRoles P C) ds [] w = (Ok roles, w)
    \<and> DuckType_DesiredRoles dt = [view, edit]
    \<and> (\<forall>v g r. allows (effective_rules (roles @ DuckType_DesiredRoles dt) view) v g r \<longleftrightarrow>
         (\<exists>d \<in> set ds. type_of d = DuckType_Name dt
            \<and> ParseGroupResource (lib_schema P) (Duck_Name d) = \<lparr>gr_Group = g, gr_Resource = r\<rparr>
            \<and> v \<in> {''get'', ''list'', ''watch''}))
    \<and> (\<forall>v g r. allows (effective_rules (roles @ DuckType_DesiredRoles dt) edit) v g r \<longleftrightarrow>
         (\<exists>d \<in> set ds. type_of d = DuckType_Name dt
            \<and> ParseGroupResource (lib_schema P) (Duck_Name d) = \<lparr>gr_Group = g, gr_Resource = r\<rparr>
            \<and> v \<in> {''get'', ''list'', ''watch'', ''patch''}))"
proof -
  from all_duck_roles [OF assms, of "[]" w] obtain roles where
    run: "for_append (Duck_DesiredRoles P C) ds [] w = (Ok roles, w)" and
    roles: "\<forall>role \<in> set roles. \<exists>d \<in> set ds. \<exists>ref. role = duck_role (lib_schema P) (type_of d) ref d ''view'' view_verbs
         \<or> role = duck_role (lib_schema P) (type_of d) ref d ''edit'' edit_verbs"
      "\<forall>d \<in> set ds. \<exists>ref. duck_role (lib_schema P) (type_of d) ref d ''view'' view_verbs \<in> set roles
         \<and> duck_role (lib_schema P) (type_of d) ref d ''edit'' edit_verbs \<in> set roles"
    by auto
  have own: "effective_rules (roles @ DuckType_DesiredRoles dt) (aggregate_role dt access) =
      effective_rules roles (aggregate_role dt access)" for access
    by (simp add: effective_rules_def DuckType_DesiredRoles_eq selects_aggregate_role)
  show ?thesis
    using aggregate_effective [OF roles, of "''view''" view_verbs dt]
      aggregate_effective [OF roles, of "''edit''" edit_verbs dt] run
    by (intro exI [of _ roles] exI [of _ "aggregate_role dt ''view''"] exI [of _ "aggregate_role dt ''edit''"])
      (simp add: own, simp add: DuckType_DesiredRoles_eq view_verbs_def edit_verbs_def)
qed

theorem aggregate_roles_grant_exactly_witness:
  "\<exists>roles view edit. for_append (Duck_DesiredRoles libs_ref ctl_ref) [demo_deployment] [] [] = (Ok roles, [])
     \<and> DuckType_DesiredRoles ducks_ducktype = [view, edit]
     \<and> allows (effective_rules (roles @ DuckType_DesiredRoles ducks_ducktype) edit) ''patch'' ''apps'' ''deployments''
     \<and> \<not> allows (effective_rules (roles @ DuckType_DesiredRoles ducks_ducktype) view) ''patch'' ''apps'' ''deployments''"
proof -
  have parse: "ParseGroupResource (lib_schema libs_ref) (Duck_Name demo_deployment) = \<lparr>gr_Group = ''apps'', gr_Resource = ''deployments''\<rparr>"
    using schema_parse_dot [OF schema_ref_laws, of "''deployments''" "''apps''"] by (simp add: demo_libs demo_names)
  have name: "DuckType_Name ducks_ducktype = ''ducks.example.com''"
    by (simp add: ducks_ducktype_def DuckType_Name_def ObjectMeta_named_def)
  have "ducks_resolve ctl_ref (lib_schema libs_ref) (\<lambda>_. ''ducks.example.com'') [demo_deployment]"
    by (simp add: demo_libs ctl_ref_resolve)
  from aggregate_roles_grant_exactly [OF this, of "[]" ducks_ducktype] show ?thesis
    by (elim exE conjE) (auto simp: parse name)
qed

text \<open>
  Bringing an existing role in line settles after one write and touches only what it must:
  the labels and the aggregation rule become the desired ones, the rules of an aggregate role stay those
  the API server has filled in while those of any other role become the desired ones, and the rest of the
  object is kept.  The roles of duck types and of ducks are treated alike.
\<close>

theorem role_update_settles:
  "(0 < n \<longrightarrow> ((\<lambda>c. DuckType_MergeRole c (DuckType_HarmonizeRole c desired)) ^^ n) current =
       current\<lparr>cr_ObjectMeta := (cr_ObjectMeta current)\<lparr>om_Labels := cr_Labels desired\<rparr>,
         cr_Rules := (if cr_AggregationRule desired = None then cr_Rules desired else cr_Rules current),
         cr_AggregationRule := cr_AggregationRule desired\<rparr>)
  \<and> (0 < n \<longrightarrow> ((\<lambda>c. Duck_MergeRole c (Duck_HarmonizeRole c desired)) ^^ n) current =
       ((\<lambda>c. DuckType_MergeRole c (DuckType_HarmonizeRole c desired)) ^^ n) current)"
  by (simp add: dtr.updates_settle dr.updates_settle)
    (simp add: DuckType_MergeRole_def DuckType_HarmonizeRole_def Duck_MergeRole_def Duck_HarmonizeRole_def cr_Labels_def)

theorem role_update_settles_witness:
  "((\<lambda>c. DuckType_MergeRole c (DuckType_HarmonizeRole c (aggregate_role ducks_ducktype ''view''))) ^^ 3)
     ((aggregate_role ducks_ducktype ''view'')\<lparr>cr_Rules := [\<lparr>pr_APIGroups = [''apps''], pr_Resources = [''deployments''], pr_Verbs = view_verbs\<rparr>]\<rparr>)
   = (aggregate_role ducks_ducktype ''view'')\<lparr>cr_Rules := [\<lparr>pr_APIGroups = [''apps''], pr_Resources = [''deployments''], pr_Verbs = view_verbs\<rparr>]\<rparr>"
  using role_update_settles [of 3 "aggregate_role ducks_ducktype ''view''"
      "(aggregate_role ducks_ducktype ''view'')\<lparr>cr_Rules := [\<lparr>pr_APIGroups = [''apps''], pr_Resources = [''deployments''], pr_Verbs = view_verbs\<rparr>]\<rparr>"]
  by (simp add: aggregate_role_def cr_Labels_def)

text \<open>
  When the roles of two ducks have the same name.  The name joins the type, the duck and the
  access with hyphens, which may also occur in types and ducks: within one type it identifies the duck, but
  a duck of one type and a duck of another can claim roles of the same name.
\<close>

theorem role_names_equal_iff:
  assumes "ctl_GroupVersionKindFor C d w = (Ok gvk, w1)"
    and "ctl_RESTMapping C (GVK_GroupKind gvk) (gvk_Version gvk) w1 = (Ok mapping, w2)"
    and "ctl_GroupVersionKindFor C d' w2 = (Ok gvk', w3)"
    and "ctl_RESTMapping C (GVK_GroupKind gvk') (gvk_Version gvk') w3 = (Ok mapping', w4)"
  shows "\<exists>view edit view' edit'. Duck_DesiredRoles P C d w = (Ok [view, edit], w2)
    \<and> Duck_DesiredRoles P C d' w2 = (Ok [view', edit'], w4)
    \<and> (Duck_IdentifyRole view = Duck_IdentifyRole view' \<longleftrightarrow>
         GroupResource_String (lib_schema P) (GVR_GroupResource mapping) @ ''-'' @ Duck_Name d =
         GroupResource_String (lib_schema P) (GVR_GroupResource mapping') @ ''-'' @ Duck_Name d')
    \<and> (Duck_IdentifyRole edit = Duck_IdentifyRole edit' \<longleftrightarrow> Duck_IdentifyRole view = Duck_IdentifyRole view')
    \<and> Duck_IdentifyRole view \<noteq> Duck_IdentifyRole edit'"
proof -
  have name: "Duck_IdentifyRole (duck_role L t ref x access verbs) = (''reconcilerio-ducks-'' @ (t @ ''-'' @ Duck_Name x)) @ ''-'' @ access"
    for L t ref x access verbs
    by (simp add: Duck_IdentifyRole_def cr_Name_def duck_role_def ObjectMeta_named_def)
  show ?thesis
    unfolding Duck_DesiredRoles_Ok [OF assms(1,2) refl] Duck_DesiredRoles_Ok [OF assms(3,4) refl]
    by (intro exI conjI, rule refl, rule refl) (simp_all only: name append_same_eq same_append_eq, simp_all)
qed

text \<open>The witness is such a clash: types \<open>foos.ex\<close> and \<open>foos.ex-bar\<close> with ducks \<open>bar-baz.q\<close> and \<open>baz.q\<close>.\<close>

definition ctl_clash :: "(unit, api_error) ctl_ops" where
  "ctl_clash = \<lparr>ctl_GroupVersionKindFor = (\<lambda>d w. (Ok \<lparr>gvk_Group = tm_APIVersion (d_TypeMeta d), gvk_Version = ''v1'', gvk_Kind = ''Foo''\<rparr>, w)),
     ctl_RESTMapping = (\<lambda>gk v w. (Ok \<lparr>gvr_Group = gk_Group gk, gvr_Version = v, gvr_Resource = ''foos''\<rparr>, w)),
     ctl_NewControllerRef = (\<lambda>m gvk. \<lparr>or_APIVersion = [], or_Kind = gvk_Kind gvk, or_Name = om_Name m, or_UID = om_UID m\<rparr>),
     ctl_ServerResourcesForGroupVersion = (\<lambda>gv w. (Err NotFound, w)), ctl_TrackObject = (\<lambda>t d w. (Ok (), w))\<rparr>"

definition clash_duck :: "string \<Rightarrow> string \<Rightarrow> Duck" where
  "clash_duck g n = (demo_duck n ''q'' ''v1'' ''Bar'' Status_zero)\<lparr>d_TypeMeta := \<lparr>tm_APIVersion = g, tm_Kind = ''Foo''\<rparr>\<rparr>"

theorem role_names_equal_iff_witness:
  "\<exists>view edit view' edit'. Duck_DesiredRoles libs_ref ctl_clash (clash_duck ''ex'' ''bar-baz.q'') () = (Ok [view, edit], ())
     \<and> Duck_DesiredRoles libs_ref ctl_clash (clash_duck ''ex-bar'' ''baz.q'') () = (Ok [view', edit'], ())
     \<and> Duck_IdentifyRole view = Duck_IdentifyRole view' \<and> cr_Labels view \<noteq> cr_Labels view'"
proof -
  let ?d = "clash_duck ''ex'' ''bar-baz.q''" and ?d' = "clash_duck ''ex-bar'' ''baz.q''"
  let ?m = "\<lambda>g. \<lparr>gvr_Group = g, gvr_Version = ''v1'', gvr_Resource = ''foos''\<rparr>"
  have res: "ctl_GroupVersionKindFor ctl_clash (clash_duck g n) () = (Ok \<lparr>gvk_Group = g, gvk_Version = ''v1'', gvk_Kind = ''Foo''\<rparr>, ())"
    "ctl_RESTMapping ctl_clash (GVK_GroupKind \<lparr>gvk_Group = g, gvk_Version = ''v1'', gvk_Kind = ''Foo''\<rparr>)
       (gvk_Version \<lparr>gvk_Group = g, gvk_Version = ''v1'', gvk_Kind = ''Foo''\<rparr>) () = (Ok (?m g), ())" for g n
    by (simp_all add: ctl_clash_def clash_duck_def GVK_GroupKind_def)
  have names: "Duck_Name ?d = ''bar-baz.q''" "Duck_Name ?d' = ''baz.q''"
    by (simp_all add: clash_duck_def demo_duck_def Duck_Name_def ObjectMeta_named_def)
  have types: "GroupResource_String (lib_schema libs_ref) (GVR_GroupResource (?m ''ex'')) = ''foos.ex''"
    "GroupResource_String (lib_schema libs_ref) (GVR_GroupResource (?m ''ex-bar'')) = ''foos.ex-bar''"
    by (simp_all add: demo_libs schema_ref_def GVR_GroupResource_def)
  note runs = Duck_DesiredRoles_Ok [OF res refl, of libs_ref]
  have labels: "cr_Labels (duck_role L ''foos.ex'' ref x a v) \<noteq> cr_Labels (duck_role L ''foos.ex-bar'' ref' x' a v)" for L ref ref' x x' a v
  proof
    assume "cr_Labels (duck_role L ''foos.ex'' ref x a v) = cr_Labels (duck_role L ''foos.ex-bar'' ref' x' a v)"
    then have "Some ''foos.ex'' = Some ''foos.ex-bar''" by (metis duck_role_labels(1))
    then show False by simp
  qed
  from role_names_equal_iff [OF res(1) [of "''ex''" "''bar-baz.q''"] res(2) res(1) [of "''ex-bar''" "''baz.q''"] res(2), of libs_ref] labels
  show ?thesis
    by (simp add: runs names types)
qed

end
