(* ===== verification/Controller_Crd.thy ===== *)
theory Controller_Crd
  imports Api_Webhooks Controller_Roles
begin

text \<open>
  The custom resource definition that \<open>internal/controller/ducktype_controller.go\<close> keeps for every duck
  type: the desired definition with its schema, how an existing one is brought in line, and how its state is
  reflected in the status of the duck type.
\<close>

section \<open>Custom resource definitions\<close>

text \<open>
  \<open>JSONSchemaProps\<close> with the fields the source sets, in this order: type, format, properties, items,
  required, enum, maximal and minimal length, minimum and pattern.  The zero value of an unset pointer is
  \<open>None\<close>.
\<close>

datatype JSONSchemaProps = JSONSchemaProps
  (js_Type: string) (js_Format: string) (js_Properties: "(string \<times> JSONSchemaProps) list")
  (js_Items: "JSONSchemaProps option") (js_Required: "string list") (js_Enum: "string list")
  (js_MaxLength: "int option") (js_MinLength: "int option") (js_Minimum: "int option") (js_Pattern: string)

record CrdNames =
  crdn_Plural :: string
  crdn_Singular :: string
  crdn_Kind :: string
  crdn_ListKind :: string
  crdn_Categories :: "string list"

record CrdColumn =
  crdc_JSONPath :: string
  crdc_Name :: string
  crdc_Type :: string

record CrdVersion =
  crdv_Name :: string
  crdv_Served :: bool
  crdv_Storage :: bool
  crdv_SelectableFields :: "string list"
  crdv_StatusSubresource :: bool
  crdv_Columns :: "CrdColumn list"
  crdv_Schema :: JSONSchemaProps

datatype CrdScope = ClusterScoped | NamespaceScoped

datatype CrdConverter = NoneConverter | WebhookConverter

record CrdSpec =
  crds_Group :: string
  crds_Scope :: CrdScope
  crds_Names :: CrdNames
  crds_Versions :: "CrdVersion list"
  crds_Conversion :: CrdConverter

record CrdCondition =
  cc_Type :: string
  cc_Status :: string
  cc_Reason :: string

record Crd =
  crd_ObjectMeta :: ObjectMeta
  crd_Spec :: CrdSpec
  crd_Conditions :: "CrdCondition list"

section \<open>The desired definition\<close>

definition js_of_type :: "string \<Rightarrow> JSONSchemaProps" where
  "js_of_type t = JSONSchemaProps t [] [] None [] [] None None None []"

definition js_object :: "(string \<times> JSONSchemaProps) list \<Rightarrow> string list \<Rightarrow> JSONSchemaProps" where
  "js_object props required = JSONSchemaProps ''object'' [] props None required [] None None None []"

definition condition_schema :: JSONSchemaProps where
  "condition_schema = js_object
     [(''lastTransitionTime'', JSONSchemaProps ''string'' ''date-time'' [] None [] [] None None None []),
      (''message'', JSONSchemaProps ''string'' [] [] None [] [] (Some 32768) None None []),
      (''observedGeneration'', JSONSchemaProps ''integer'' ''int64'' [] None [] [] None None (Some 0) []),
      (''reason'', JSONSchemaProps ''string'' [] [] None [] [] (Some 1024) (Some 1) None
         ''^[A-Za-z]([A-Za-z0-9_,:]*[A-Za-z0-9_])?$''),
      (''status'', JSONSchemaProps ''string'' [] [] None [] [''True'', ''False'', ''Unknown''] None None None []),
      (''type'', JSONSchemaProps ''string'' [] [] None [] [] (Some 316) None None
         (''^([a-z0-9]([-a-z0-9]*[a-z0-9])?('' @ [CHR 0x5C] @ ''.[a-z0-9]([-a-z0-9]*[a-z0-9])?)*/)?(([A-Za-z0-9][-A-Za-z0-9_.]*)?[A-Za-z0-9])$''))]
     [''lastTransitionTime'', ''message'', ''reason'', ''status'', ''type'']"

definition duck_schema :: JSONSchemaProps where
  "duck_schema = js_object
     [(''apiVersion'', js_of_type ''string''),
      (''kind'', js_of_type ''string''),
      (''metadata'', js_of_type ''object''),
      (''spec'', js_object
         [(''group'', js_of_type ''string''), (''version'', js_of_type ''string''), (''kind'', js_of_type ''string'')]
         [''group'', ''version'', ''kind'']),
      (''status'', js_object
         [(''conditions'', JSONSchemaProps ''array'' [] [] (Some condition_schema) [] [] None None None []),
          (''observedGeneration'', JSONSchemaProps ''integer'' ''int64'' [] None [] [] None None None []),
          (''resolved'', js_object [(''apiVersion'', js_of_type ''string''), (''kind'', js_of_type ''string'')] [])]
         [])]
     []"

definition duck_crd_version :: CrdVersion where
  "duck_crd_version = \<lparr>crdv_Name = ''v1'', crdv_Served = True, crdv_Storage = True,
     crdv_SelectableFields = [''.spec.group'', ''.spec.kind''],
     crdv_StatusSubresource = True,
     crdv_Columns =
       [\<lparr>crdc_JSONPath = ''.status.conditions[?(@.type=='' @ [CHR 0x22] @ ''Ready'' @ [CHR 0x22] @ '')].status'',
         crdc_Name = ''Ready'', crdc_Type = ''string''\<rparr>,
        \<lparr>crdc_JSONPath = ''.status.conditions[?(@.type=='' @ [CHR 0x22] @ ''Ready'' @ [CHR 0x22] @ '')].reason'',
         crdc_Name = ''Reason'', crdc_Type = ''string''\<rparr>,
        \<lparr>crdc_JSONPath = ''.metadata.creationTimestamp'', crdc_Name = ''Age'', crdc_Type = ''date''\<rparr>],
     crdv_Schema = duck_schema\<rparr>"

definition DuckType_DesiredCrd :: "DuckType \<Rightarrow> Crd" where
  "DuckType_DesiredCrd resource =
     \<lparr>crd_ObjectMeta = ObjectMeta_named (DuckType_Name resource),
      crd_Spec = \<lparr>crds_Group = dts_Group (dt_Spec resource), crds_Scope = ClusterScoped,
        crds_Names = \<lparr>crdn_Plural = dts_Plural (dt_Spec resource), crdn_Singular = dts_Singular (dt_Spec resource),
          crdn_Kind = dts_Kind (dt_Spec resource), crdn_ListKind = dts_ListKind (dt_Spec resource),
          crdn_Categories = [''duck'']\<rparr>,
        crds_Versions = [duck_crd_version], crds_Conversion = NoneConverter\<rparr>,
      crd_Conditions = []\<rparr>"

text \<open>\<open>MergeBeforeUpdate\<close>; no field is harmonized.\<close>

definition DuckType_MergeCrd :: "Crd \<Rightarrow> Crd \<Rightarrow> Crd" where
  "DuckType_MergeCrd current desired =
     current\<lparr>crd_ObjectMeta := (crd_ObjectMeta current)\<lparr>om_Labels := om_Labels (crd_ObjectMeta desired)\<rparr>,
             crd_Spec := crd_Spec desired\<rparr>"

section \<open>Reflecting the state\<close>

datatype 'e ctl_error = ErrQuiet | CtlError 'e

text \<open>
  \<open>ReflectChildStatusOnParentWithError\<close>; \<open>details\<close> reads kind and name from the status of an API error.  The
  happy case is the first condition of type \<open>Established\<close>; without one the status is empty.
\<close>

definition established_status :: "Crd \<Rightarrow> string" where
  "established_status child = (case find (\<lambda>c. cc_Type c = ''Established'') (crd_Conditions child) of
     Some c \<Rightarrow> cc_Status c | None \<Rightarrow> [])"

definition DuckType_ReflectCrd ::
  "('e, 'z) libs_scheme \<Rightarrow> ('e \<Rightarrow> string \<times> string) \<Rightarrow> Crd option \<Rightarrow> 'e option \<Rightarrow> DuckType
     \<Rightarrow> 'e ctl_error option \<times> DuckType" where
  "DuckType_ReflectCrd P details child err parent =
     (let E = DuckTypeConditionCustomResourceDefinitionEstablished in
      case err of
        Some e \<Rightarrow>
          if lib_IsInvalid P e
          then (None, DuckType_MarkFalse (lib_cond P) E ''Invalid'' (lib_ReasonForError P e) parent)
          else if lib_IsAlreadyExists P e
          then (None, DuckType_MarkFalse (lib_cond P) E ''AlreadyExists''
                  (''another '' @ fst (details e) @ '' already exists with name '' @ snd (details e)) parent)
          else (Some ErrQuiet, DuckType_MarkUnknown (lib_cond P) E ''Unknown'' [] parent)
      | None \<Rightarrow> (case child of
          None \<Rightarrow> (None, DuckType_MarkFalse (lib_cond P) E ''Missing'' [] parent)
        | Some child \<Rightarrow>
            if established_status child \<noteq> ''True''
            then if established_status child = ''False''
              then (None, DuckType_MarkFalse (lib_cond P) E ''NotEstablished''
                     (''child CustomResourceDefinition '' @ om_Name (crd_ObjectMeta child) @ '' is not established'') parent)
              else (None, DuckType_MarkUnknown (lib_cond P) E ''NotEstablished''
                     (''child CustomResourceDefinition '' @ om_Name (crd_ObjectMeta child) @ '' is not established'') parent)
            else (None, DuckType_MarkTrue (lib_cond P) E ''Established'' [] parent)))"

interpretation dtc: child_manager "\<lambda>current desired. desired" DuckType_MergeCrd
  by unfold_locales (simp_all add: DuckType_MergeCrd_def)

section \<open>Well-formed schemas\<close>

text \<open>
  What the API server asks of a structural schema: every node has a type, only objects have properties, each
  under one name, every required property is one of them, and exactly the arrays have items.
\<close>

fun schema_wf :: "JSONSchemaProps \<Rightarrow> bool" and props_wf :: "(string \<times> JSONSchemaProps) list \<Rightarrow> bool"
  and items_wf :: "JSONSchemaProps option \<Rightarrow> bool" where
  "schema_wf (JSONSchemaProps t f ps it req en mx mn mi pat) \<longleftrightarrow>
     t \<in> {''string'', ''integer'', ''object'', ''array''} \<and> (ps \<noteq> [] \<longrightarrow> t = ''object'')
   \<and> distinct (map fst ps) \<and> set req \<subseteq> fst ` set ps \<and> (t = ''array'' \<longleftrightarrow> it \<noteq> None)
   \<and> props_wf ps \<and> items_wf it"
| "props_wf [] \<longleftrightarrow> True"
| "props_wf (p # ps) \<longleftrightarrow> schema_wf (snd p) \<and> props_wf ps"
| "items_wf None \<longleftrightarrow> True"
| "items_wf (Some s) \<longleftrightarrow> schema_wf s"

lemma condition_schema_wf: "schema_wf condition_schema"
  by (simp add: condition_schema_def js_object_def)

lemma duck_schema_wf: "schema_wf duck_schema"
  by (simp add: duck_schema_def js_object_def js_of_type_def condition_schema_wf)

section \<open>Facts about the reflected status\<close>

lemma ReflectRoles_facts:
  assumes "condition_laws (lib_cond P)" "DuckType_ReflectRoles P err dt = (e, dt')"
  shows "DuckType_cond (lib_cond P) dt' DuckTypeConditionRBAC \<longleftrightarrow> err = None"
    and "e = None \<longleftrightarrow> (\<forall>e. err = Some e \<longrightarrow> lib_IsInvalid P e \<or> lib_IsAlreadyExists P e)"
    and "dt_Spec dt' = dt_Spec dt" "dt_ObjectMeta dt' = dt_ObjectMeta dt"
  using assms by (auto simp: DuckType_ReflectRoles_def DuckType_marks split: option.splits if_splits)

lemma ReflectCrd_facts:
  assumes "condition_laws (lib_cond P)" "DuckType_ReflectCrd P details child err dt = (e, dt')"
  defines "happy \<equiv> err = None \<and> (\<exists>c. child = Some c \<and> established_status c = ''True'')"
  shows "DuckType_cond (lib_cond P) dt' DuckTypeConditionCustomResourceDefinitionEstablished \<longleftrightarrow> happy"
    and "DuckType_cond (lib_cond P) dt' DuckTypeConditionRBAC \<longleftrightarrow> DuckType_cond (lib_cond P) dt DuckTypeConditionRBAC"
    and "DuckType_is_ready (lib_cond P) dt' \<longleftrightarrow> DuckType_cond (lib_cond P) dt DuckTypeConditionRBAC \<and> happy"
    and "e = None \<longleftrightarrow> (\<forall>e. err = Some e \<longrightarrow> lib_IsInvalid P e \<or> lib_IsAlreadyExists P e)"
    and "dt_Spec dt' = dt_Spec dt" "dt_ObjectMeta dt' = dt_ObjectMeta dt"
  using assms(2) unfolding happy_def
  by (auto simp: DuckType_ReflectCrd_def Let_def DuckType_marks [OF assms(1)] DuckType_mark_ready [OF assms(1)]
      split: option.splits if_splits)

section \<open>Properties\<close>

text \<open>
  Property C12.  The definition desired for an admitted duck type is one the API server can take: it is named
  \<open><plural>.<group>\<close>, all its names are present, singular and plural are lower case, exactly one version is
  served and stored, that version is \<open>v1\<close>, and its schema is a well-formed structural schema in which group,
  version and kind of a duck are required strings.  Applying it to an existing definition settles after one
  write and keeps the metadata, apart from the labels, and the status.
\<close>

theorem crd_of_admitted_ducktype:
  assumes "aggregate_laws agg" "DuckType_ValidateCreate ul agg obj = (None, dt)"
  shows "let crd = DuckType_DesiredCrd dt; spec = crd_Spec crd; names = crds_Names spec in
       om_Name (crd_ObjectMeta crd) = crdn_Plural names @ ''.'' @ crds_Group spec
     \<and> crds_Group spec \<noteq> [] \<and> crdn_Plural names \<noteq> [] \<and> crdn_Singular names \<noteq> [] \<and> crdn_Kind names \<noteq> [] \<and> crdn_ListKind names \<noteq> []
     \<and> to_lower ul (crdn_Plural names) = crdn_Plural names \<and> to_lower ul (crdn_Singular names) = crdn_Singular names
     \<and> map crdv_Name (filter crdv_Storage (crds_Versions spec)) = [''v1'']
     \<and> map crdv_Name (filter crdv_Served (crds_Versions spec)) = [''v1'']
     \<and> (\<forall>v \<in> set (crds_Versions spec). schema_wf (crdv_Schema v)
          \<and> (\<exists>s. map_of (js_Properties (crdv_Schema v)) ''spec'' = Some s \<and> js_Required s = [''group'', ''version'', ''kind'']
               \<and> (\<forall>f \<in> set (js_Required s). map_of (js_Properties s) f = Some (js_of_type ''string''))))
     \<and> ((\<lambda>c. DuckType_MergeCrd c crd) ^^ Suc n) current =
         current\<lparr>crd_ObjectMeta := (crd_ObjectMeta current)\<lparr>om_Labels := Map.empty\<rparr>, crd_Spec := spec\<rparr>"
proof -
  have "DuckType_Validate ul dt (NewPath '''') = []"
    using assms dtw.create_accepts_iff [OF assms(1)] by blast
  then have fields: "DuckType_Name dt = dts_Plural (dt_Spec dt) @ ''.'' @ dts_Group (dt_Spec dt)"
      "DuckTypeSpec_Validate ul (dt_Spec dt) (PathChild (NewPath '''') [''spec'']) = []"
    by (simp_all add: DuckType_Validate_Nil)
  have merged: "((\<lambda>c. DuckType_MergeCrd c d) ^^ Suc n) current = DuckType_MergeCrd current d" for d
    using dtc.updates_settle [of "Suc n" d current] by simp
  have spec: "map_of (js_Properties duck_schema) ''spec'' = Some (js_object
         [(''group'', js_of_type ''string''), (''version'', js_of_type ''string''), (''kind'', js_of_type ''string'')]
         [''group'', ''version'', ''kind''])"
    by (simp add: duck_schema_def js_object_def)
  show ?thesis
    unfolding Let_def merged using fields
    by (simp add: DuckType_DesiredCrd_def DuckTypeSpec_Validate_Nil duck_crd_version_def duck_schema_wf spec
        DuckType_MergeCrd_def ObjectMeta_named_def js_object_def)
qed

theorem crd_of_admitted_ducktype_witness:
  "\<exists>dt. DuckType_ValidateCreate id agg_ref example_ducktype = (None, dt)
     \<and> om_Name (crd_ObjectMeta (DuckType_DesiredCrd dt)) = ''ducks.example.com''
     \<and> crdn_ListKind (crds_Names (crd_Spec (DuckType_DesiredCrd dt))) = ''DuckList''
     \<and> crdn_Plural (crds_Names (crd_Spec (DuckType_DesiredCrd dt))) \<noteq> []"
proof -
  have "DuckType_Validate id (DuckType_defaulted id example_ducktype) (NewPath '''') = []"
  proof -
    have low: "to_lower id ''example.com'' = ''example.com''" "to_lower id ''ducks'' = ''ducks''"
      "to_lower id (to_lower id ''Duck'') = to_lower id ''Duck''" "to_lower id ''Duck'' \<noteq> []"
      by code_simp+
    show ?thesis
      by (simp add: DuckType_Validate_Nil DuckTypeSpec_Validate_Nil DuckType_defaulted_def DuckTypeSpec_defaulted_def
          example_ducktype_simps low)
  qed
  then have adm: "DuckType_ValidateCreate id agg_ref example_ducktype = (None, DuckType_defaulted id example_ducktype)"
    by (simp add: dtw.create_eq agg_ref_def)
  from crd_of_admitted_ducktype [OF agg_ref_laws adm, of 0] adm show ?thesis
    by (auto simp: Let_def DuckType_DesiredCrd_def DuckType_defaulted_def DuckTypeSpec_defaulted_def example_ducktype_simps)
qed

text \<open>
  Property C38.  What the status of a duck type says after its children were reconciled.  The roles leave the
  RBAC condition true exactly when they reported no error; the definition leaves its condition true exactly
  when there was no error, the definition exists and the first of its \<open>Established\<close> conditions is true.  If
  either is not true afterwards, the duck type is not ready, and when both steps succeeded it is.  Only an
  error that is neither an invalid nor an already existing object is returned to the caller.
\<close>

theorem ducktype_status_reflects_children:
  assumes "condition_laws (lib_cond P)"
    and "DuckType_ReflectRoles P err dt = (e1, dt1)"
    and "DuckType_ReflectCrd P details child err' dt1 = (e2, dt2)"
  shows "(DuckType_cond (lib_cond P) dt2 DuckTypeConditionRBAC \<longleftrightarrow> err = None)
    \<and> (DuckType_cond (lib_cond P) dt2 DuckTypeConditionCustomResourceDefinitionEstablished \<longleftrightarrow>
         err' = None \<and> (\<exists>c. child = Some c \<and> established_status c = ''True''))
    \<and> (DuckType_is_ready (lib_cond P) dt2 \<longleftrightarrow>
         err = None \<and> err' = None \<and> (\<exists>c. child = Some c \<and> established_status c = ''True''))
    \<and> (e1 = None \<longleftrightarrow> (\<forall>e. err = Some e \<longrightarrow> lib_IsInvalid P e \<or> lib_IsAlreadyExists P e))
    \<and> (e2 = None \<longleftrightarrow> (\<forall>e. err' = Some e \<longrightarrow> lib_IsInvalid P e \<or> lib_IsAlreadyExists P e))
    \<and> dt_Spec dt2 = dt_Spec dt \<and> dt_ObjectMeta dt2 = dt_ObjectMeta dt"
  unfolding ReflectCrd_facts [OF assms(1,3)] ReflectRoles_facts [OF assms(1,2)] by blast

theorem ducktype_status_reflects_children_witness:
  "\<exists>dt1 dt2. DuckType_ReflectRoles libs_ref None example_ducktype = (None, dt1)
     \<and> DuckType_ReflectCrd libs_ref (\<lambda>_. ([], [])) (Some ((DuckType_DesiredCrd example_ducktype)\<lparr>crd_Conditions :=
          [\<lparr>cc_Type = ''Established'', cc_Status = ''True'', cc_Reason = []\<rparr>]\<rparr>)) None dt1 = (None, dt2)
     \<and> DuckType_is_ready cond_ref dt2"
proof -
  let ?child = "(DuckType_DesiredCrd example_ducktype)\<lparr>crd_Conditions := [\<lparr>cc_Type = ''Established'', cc_Status = ''True'', cc_Reason = []\<rparr>]\<rparr>"
  have est: "established_status ?child = ''True''" by (simp add: established_status_def)
  obtain dt1 where 1: "DuckType_ReflectRoles libs_ref None example_ducktype = (None, dt1)"
    by (simp add: DuckType_ReflectRoles_def)
  obtain dt2 where 2: "DuckType_ReflectCrd libs_ref (\<lambda>_. ([], [])) (Some ?child) None dt1 = (None, dt2)"
    using est by (simp add: DuckType_ReflectCrd_def)
  from ducktype_status_reflects_children [OF _ 1 2] est have "DuckType_is_ready cond_ref dt2"
    by (simp add: demo_libs cond_ref_laws)
  with 1 2 show ?thesis by blast
qed

end
