(* ===== verification/Sub_Cache.thy ===== *)
theory Sub_Cache
  imports Api_Types
begin

text \<open>
  The sub-manager of \<open>internal/submanager/submanager.go\<close>: a manager whose cache serves some kinds from a
  cache of its own and every other kind from the cache of the manager it was made from.  The two inner
  caches, the constructor of a cache and the constructor of a manager belong to controller-runtime and
  are parameters; each cache acts on a state of its own, so the state of a sub-cache is a pair.
\<close>

section \<open>Caches\<close>

record ('w, 'e, 'o, 'k, 'opt, 'i, 'f) cache_ops =
  cache_Get :: "'k \<Rightarrow> 'o \<Rightarrow> 'opt list \<Rightarrow> ('w, 'e, 'o) act"
  cache_List :: "'o \<Rightarrow> 'opt list \<Rightarrow> ('w, 'e, 'o) act"
  cache_GetInformer :: "'o \<Rightarrow> 'opt list \<Rightarrow> ('w, 'e, 'i) act"
  cache_GetInformerForKind :: "GroupVersionKind \<Rightarrow> 'opt list \<Rightarrow> ('w, 'e, 'i) act"
  cache_RemoveInformer :: "'o \<Rightarrow> ('w, 'e, unit) act"
  cache_Start :: "('w, 'e, unit) act"
  cache_WaitForCacheSync :: "'w \<Rightarrow> bool \<times> 'w"
  cache_IndexField :: "'o \<Rightarrow> string \<Rightarrow> 'f \<Rightarrow> ('w, 'e, unit) act"

text \<open>
  \<open>c_GroupVersionKindFor\<close> is the one method of the client that the cache calls.  A read that fills in an
  object returns the object.
\<close>

record ('l, 'u, 'e, 'o, 'k, 'opt, 'i, 'f) Cache =
  c_GroupVersionKindFor :: "'o \<Rightarrow> ('e, GroupVersionKind) result"
  c_localTypes :: "GroupKind set"
  c_local :: "('l, 'e, 'o, 'k, 'opt, 'i, 'f) cache_ops"
  c_upstream :: "('u, 'e, 'o, 'k, 'opt, 'i, 'f) cache_ops"

definition Cache_isLocalKind :: "('l, 'u, 'e, 'o, 'k, 'opt, 'i, 'f) Cache \<Rightarrow> GroupVersionKind \<Rightarrow> bool" where
  "Cache_isLocalKind c gvk \<longleftrightarrow> GVK_GroupKind gvk \<in> c_localTypes c"

definition Cache_isLocal :: "('l, 'u, 'e, 'o, 'k, 'opt, 'i, 'f) Cache \<Rightarrow> 'o \<Rightarrow> ('w, 'e, bool) act" where
  "Cache_isLocal c obj = (case c_GroupVersionKindFor c obj of
     Ok gvk \<Rightarrow> areturn (Cache_isLocalKind c gvk)
   | Err e \<Rightarrow> apanic ''GroupVersionKindFor''
   | Panic p \<Rightarrow> apanic p)"

definition Cache_Get ::
  "('l, 'u, 'e, 'o, 'k, 'opt, 'i, 'f) Cache \<Rightarrow> 'k \<Rightarrow> 'o \<Rightarrow> 'opt list \<Rightarrow> ('l \<times> 'u, 'e, 'o) act" where
  "Cache_Get c key obj opts = abind (Cache_isLocal c obj) (\<lambda>loc.
     if loc then on_fst (cache_Get (c_local c) key obj opts)
     else on_snd (cache_Get (c_upstream c) key obj opts))"

definition Cache_List ::
  "('l, 'u, 'e, 'o, 'k, 'opt, 'i, 'f) Cache \<Rightarrow> 'o \<Rightarrow> 'opt list \<Rightarrow> ('l \<times> 'u, 'e, 'o) act" where
  "Cache_List c list opts = abind (Cache_isLocal c list) (\<lambda>loc.
     if loc then on_fst (cache_List (c_local c) list opts)
     else on_snd (cache_List (c_upstream c) list opts))"

definition Cache_GetInformer ::
  "('l, 'u, 'e, 'o, 'k, 'opt, 'i, 'f) Cache \<Rightarrow> 'o \<Rightarrow> 'opt list \<Rightarrow> ('l \<times> 'u, 'e, 'i) act" where
  "Cache_GetInformer c obj opts = abind (Cache_isLocal c obj) (\<lambda>loc.
     if loc then on_fst (cache_GetInformer (c_local c) obj opts)
     else on_snd (cache_GetInformer (c_upstream c) obj opts))"

definition Cache_GetInformerForKind ::
  "('l, 'u, 'e, 'o, 'k, 'opt, 'i, 'f) Cache \<Rightarrow> GroupVersionKind \<Rightarrow> 'opt list \<Rightarrow> ('l \<times> 'u, 'e, 'i) act" where
  "Cache_GetInformerForKind c gvk opts =
     (if Cache_isLocalKind c gvk then on_fst (cache_GetInformerForKind (c_local c) gvk opts)
      else on_snd (cache_GetInformerForKind (c_upstream c) gvk opts))"

definition Cache_RemoveInformer ::
  "('l, 'u, 'e, 'o, 'k, 'opt, 'i, 'f) Cache \<Rightarrow> 'o \<Rightarrow> ('l \<times> 'u, 'e, unit) act" where
  "Cache_RemoveInformer c obj = abind (Cache_isLocal c obj) (\<lambda>loc.
     if loc then on_fst (cache_RemoveInformer (c_local c) obj)
     else on_snd (cache_RemoveInformer (c_upstream c) obj))"

definition Cache_Start :: "('l, 'u, 'e, 'o, 'k, 'opt, 'i, 'f) Cache \<Rightarrow> ('l \<times> 'u, 'e, unit) act" where
  "Cache_Start c = on_fst (cache_Start (c_local c))"

definition Cache_WaitForCacheSync ::
  "('l, 'u, 'e, 'o, 'k, 'opt, 'i, 'f) Cache \<Rightarrow> 'l \<times> 'u \<Rightarrow> bool \<times> ('l \<times> 'u)" where
  "Cache_WaitForCacheSync c w = (case cache_WaitForCacheSync (c_upstream c) (snd w) of
     (False, u) \<Rightarrow> (False, (fst w, u))
   | (True, u) \<Rightarrow> (case cache_WaitForCacheSync (c_local c) (fst w) of (b, l) \<Rightarrow> (b, (l, u))))"

definition Cache_IndexField ::
  "('l, 'u, 'e, 'o, 'k, 'opt, 'i, 'f) Cache \<Rightarrow> 'o \<Rightarrow> string \<Rightarrow> 'f \<Rightarrow> ('l \<times> 'u, 'e, unit) act" where
  "Cache_IndexField c obj field extractValue = abind (Cache_isLocal c obj) (\<lambda>loc.
     if loc then on_fst (cache_IndexField (c_local c) obj field extractValue)
     else on_snd (cache_IndexField (c_upstream c) obj field extractValue))"

section \<open>The sub-manager\<close>

text \<open>
  The fields of \<open>manager.Options\<close> that the sources set or read; \<open>NewCache\<close> is the constructor the manager
  will use.  A sync period is in nanoseconds.
\<close>

record ('s, 'cfg, 'copt, 'cache) Options =
  opt_Scheme :: "'s option"
  opt_SkipNameValidation :: "bool option"
  opt_MetricsBindAddress :: string
  opt_LeaderElection :: bool
  opt_Cache :: 'copt
  opt_NewCache :: "('cfg \<Rightarrow> 'copt \<Rightarrow> 'cache) option"

record ('s, 'cfg, 'u, 'e, 'o, 'k, 'opt, 'i, 'f) Manager =
  mgr_Scheme :: 's
  mgr_Config :: 'cfg
  mgr_Cache :: "('u, 'e, 'o, 'k, 'opt, 'i, 'f) cache_ops"
  mgr_GroupVersionKindFor :: "'o \<Rightarrow> ('e, GroupVersionKind) result"

definition submanager_NewCache ::
  "('cfg \<Rightarrow> 'copt \<Rightarrow> ('w, 'e, ('l, 'e, 'o, 'k, 'opt, 'i, 'f) cache_ops) act)
   \<Rightarrow> ('s, 'cfg, 'u, 'e, 'o, 'k, 'opt, 'i, 'f) Manager \<Rightarrow> GroupKind list \<Rightarrow> 'cfg \<Rightarrow> 'copt
   \<Rightarrow> ('w, 'e, ('l, 'u, 'e, 'o, 'k, 'opt, 'i, 'f) Cache) act" where
  "submanager_NewCache cache_New mgr localTypes config opts =
     abind (cache_New config opts) (\<lambda>loc. areturn
       \<lparr>c_GroupVersionKindFor = mgr_GroupVersionKindFor mgr, c_localTypes = set localTypes,
        c_local = loc, c_upstream = mgr_Cache mgr\<rparr>)"

definition submanager_New ::
  "('cfg \<Rightarrow> 'copt \<Rightarrow> ('w, 'e, ('l, 'e, 'o, 'k, 'opt, 'i, 'f) cache_ops) act)
   \<Rightarrow> ('cfg \<Rightarrow> ('s, 'cfg, 'copt, ('w, 'e, ('l, 'u, 'e, 'o, 'k, 'opt, 'i, 'f) Cache) act) Options \<Rightarrow> ('w, 'e, 'm) act)
   \<Rightarrow> ('s, 'cfg, 'u, 'e, 'o, 'k, 'opt, 'i, 'f) Manager
   \<Rightarrow> ('s, 'cfg, 'copt, ('w, 'e, ('l, 'u, 'e, 'o, 'k, 'opt, 'i, 'f) Cache) act) Options
   \<Rightarrow> GroupKind list \<Rightarrow> ('w, 'e, 'm) act" where
  "submanager_New cache_New NewManager mgr opts localTypes =
     (let opts = opts\<lparr>opt_NewCache := Some (submanager_NewCache cache_New mgr localTypes)\<rparr>;
          opts = (if opt_Scheme opts = None then opts\<lparr>opt_Scheme := Some (mgr_Scheme mgr)\<rparr> else opts);
          opts = (if opt_SkipNameValidation opts = None then opts\<lparr>opt_SkipNameValidation := Some True\<rparr> else opts);
          opts = (if opt_MetricsBindAddress opts = [] then opts\<lparr>opt_MetricsBindAddress := ''0''\<rparr> else opts);
          opts = opts\<lparr>opt_LeaderElection := False\<rparr>
      in NewManager (mgr_Config mgr) opts)"

section \<open>Serving a sequence of requests\<close>

text \<open>The calls of a client of a cache, as data, so that sequences of calls can be compared.\<close>

datatype ('o, 'k, 'opt, 'f) cache_req =
    ReqGet 'k 'o "'opt list" | ReqList 'o "'opt list" | ReqGetInformer 'o "'opt list"
  | ReqGetInformerForKind GroupVersionKind "'opt list" | ReqRemoveInformer 'o | ReqIndexField 'o string 'f

datatype ('o, 'i) cache_reply = ReplyObject 'o | ReplyInformer 'i | ReplyDone

definition amap :: "('a \<Rightarrow> 'b) \<Rightarrow> ('w, 'e, 'a) act \<Rightarrow> ('w, 'e, 'b) act" where
  "amap g m = abind m (\<lambda>a. areturn (g a))"

fun cache_exec ::
  "('w, 'e, 'o, 'k, 'opt, 'i, 'f) cache_ops \<Rightarrow> ('o, 'k, 'opt, 'f) cache_req \<Rightarrow> ('w, 'e, ('o, 'i) cache_reply) act" where
  "cache_exec C (ReqGet key obj opts) = amap ReplyObject (cache_Get C key obj opts)"
| "cache_exec C (ReqList list opts) = amap ReplyObject (cache_List C list opts)"
| "cache_exec C (ReqGetInformer obj opts) = amap ReplyInformer (cache_GetInformer C obj opts)"
| "cache_exec C (ReqGetInformerForKind gvk opts) = amap ReplyInformer (cache_GetInformerForKind C gvk opts)"
| "cache_exec C (ReqRemoveInformer obj) = amap (\<lambda>_. ReplyDone) (cache_RemoveInformer C obj)"
| "cache_exec C (ReqIndexField obj field f) = amap (\<lambda>_. ReplyDone) (cache_IndexField C obj field f)"

fun Cache_exec ::
  "('l, 'u, 'e, 'o, 'k, 'opt, 'i, 'f) Cache \<Rightarrow> ('o, 'k, 'opt, 'f) cache_req
     \<Rightarrow> ('l \<times> 'u, 'e, ('o, 'i) cache_reply) act" where
  "Cache_exec c (ReqGet key obj opts) = amap ReplyObject (Cache_Get c key obj opts)"
| "Cache_exec c (ReqList list opts) = amap ReplyObject (Cache_List c list opts)"
| "Cache_exec c (ReqGetInformer obj opts) = amap ReplyInformer (Cache_GetInformer c obj opts)"
| "Cache_exec c (ReqGetInformerForKind gvk opts) = amap ReplyInformer (Cache_GetInformerForKind c gvk opts)"
| "Cache_exec c (ReqRemoveInformer obj) = amap (\<lambda>_. ReplyDone) (Cache_RemoveInformer c obj)"
| "Cache_exec c (ReqIndexField obj field f) = amap (\<lambda>_. ReplyDone) (Cache_IndexField c obj field f)"

text \<open>The kind a request is about, where it can be told.\<close>

fun req_gvk :: "('o \<Rightarrow> ('e, GroupVersionKind) result) \<Rightarrow> ('o, 'k, 'opt, 'f) cache_req \<Rightarrow> ('e, GroupVersionKind) result" where
  "req_gvk kind_of (ReqGet key obj opts) = kind_of obj"
| "req_gvk kind_of (ReqList list opts) = kind_of list"
| "req_gvk kind_of (ReqGetInformer obj opts) = kind_of obj"
| "req_gvk kind_of (ReqGetInformerForKind gvk opts) = Ok gvk"
| "req_gvk kind_of (ReqRemoveInformer obj) = kind_of obj"
| "req_gvk kind_of (ReqIndexField obj field f) = kind_of obj"

definition req_known :: "('l, 'u, 'e, 'o, 'k, 'opt, 'i, 'f) Cache \<Rightarrow> ('o, 'k, 'opt, 'f) cache_req \<Rightarrow> bool" where
  "req_known c q = (case req_gvk (c_GroupVersionKindFor c) q of Ok gvk \<Rightarrow> True | _ \<Rightarrow> False)"

definition req_local :: "('l, 'u, 'e, 'o, 'k, 'opt, 'i, 'f) Cache \<Rightarrow> ('o, 'k, 'opt, 'f) cache_req \<Rightarrow> bool" where
  "req_local c q = (case req_gvk (c_GroupVersionKindFor c) q of
     Ok gvk \<Rightarrow> GVK_GroupKind gvk \<in> c_localTypes c | _ \<Rightarrow> False)"

text \<open>Calls go on after one that failed.\<close>

fun serve :: "('q \<Rightarrow> ('w, 'e, 'r) act) \<Rightarrow> 'q list \<Rightarrow> 'w \<Rightarrow> ('e, 'r) result list \<times> 'w" where
  "serve exec [] w = ([], w)"
| "serve exec (q # qs) w = (case exec q w of (r, w') \<Rightarrow> (case serve exec qs w' of (rs, w'') \<Rightarrow> (r # rs, w'')))"

text \<open>
  The contract of a service that is composed of two: every request it knows is answered by one of the
  two services, on its part of the state, and the other part is not touched.
\<close>

locale split_service =
  fixes exec1 :: "'q \<Rightarrow> ('l, 'e, 'r) act"
    and exec2 :: "'q \<Rightarrow> ('u, 'e, 'r) act"
    and exec :: "'q \<Rightarrow> ('l \<times> 'u, 'e, 'r) act"
    and known :: "'q \<Rightarrow> bool"
    and first :: "'q \<Rightarrow> bool"
  assumes exec_first: "known q \<Longrightarrow> first q \<Longrightarrow> exec q = on_fst (exec1 q)"
    and exec_second: "known q \<Longrightarrow> \<not> first q \<Longrightarrow> exec q = on_snd (exec2 q)"
begin

lemma serve_splits:
  assumes "list_all known qs" and "serve exec qs (l, u) = (rs, (l', u'))"
  shows "serve exec1 (filter first qs) l = (map snd (filter (\<lambda>p. first (fst p)) (zip qs rs)), l')
       \<and> serve exec2 (filter (\<lambda>q. \<not> first q) qs) u = (map snd (filter (\<lambda>p. \<not> first (fst p)) (zip qs rs)), u')"
  using assms
proof (induction qs arbitrary: l u rs)
  case (Cons q qs)
  obtain r l1 u1 rs1 where step: "exec q (l, u) = (r, (l1, u1))"
      and rest: "serve exec qs (l1, u1) = (rs1, (l', u'))" "rs = r # rs1"
    using Cons.prems(2) by (auto split: prod.splits)
  have IH: "serve exec1 (filter first qs) l1 = (map snd (filter (\<lambda>p. first (fst p)) (zip qs rs1)), l')"
    "serve exec2 (filter (\<lambda>q. \<not> first q) qs) u1 = (map snd (filter (\<lambda>p. \<not> first (fst p)) (zip qs rs1)), u')"
    using Cons.IH [OF _ rest(1)] Cons.prems(1) by simp_all
  show ?case
  proof (cases "first q")
    case True
    then have "exec1 q l = (r, l1) \<and> u1 = u"
      using step Cons.prems(1) by (simp add: exec_first on_fst_def split: prod.splits)
    then show ?thesis using IH True rest(2) by simp
  next
    case False
    then have "exec2 q u = (r, u1) \<and> l1 = l"
      using step Cons.prems(1) by (simp add: exec_second on_snd_def split: prod.splits)
    then show ?thesis using IH False rest(2) by simp
  qed
qed simp

end

lemma amap_on_fst [simp]: "amap g (on_fst m) = on_fst (amap g m)"
  by (rule ext) (auto simp: amap_def abind_def on_fst_def split: prod.splits result.splits)

lemma amap_on_snd [simp]: "amap g (on_snd m) = on_snd (amap g m)"
  by (rule ext) (auto simp: amap_def abind_def on_snd_def split: prod.splits result.splits)

lemmas Cache_op_defs = Cache_Get_def Cache_List_def Cache_GetInformer_def Cache_GetInformerForKind_def
  Cache_RemoveInformer_def Cache_IndexField_def Cache_isLocal_def Cache_isLocalKind_def

interpretation sub: split_service "cache_exec (c_local c)" "cache_exec (c_upstream c)" "Cache_exec c"
    "req_known c" "req_local c" for c
proof
  fix q
  assume "req_known c q" "req_local c q"
  then show "Cache_exec c q = on_fst (cache_exec (c_local c) q)"
    by (cases q) (auto simp: req_known_def req_local_def Cache_op_defs split: result.splits)
next
  fix q
  assume "req_known c q" "\<not> req_local c q"
  then show "Cache_exec c q = on_snd (cache_exec (c_upstream c) q)"
    by (cases q) (auto simp: req_known_def req_local_def Cache_op_defs split: result.splits)
qed

section \<open>A reference cache\<close>

text \<open>
  Objects are kinds, keys and numbers; a cache of this kind stores one number per kind, returned by \<open>Get\<close>
  and \<open>List\<close>, and counts its calls.
\<close>

type_synonym ref_object = "GroupVersionKind \<times> nat"

definition cache_ref :: "(nat \<times> (GroupVersionKind \<Rightarrow> nat), unit, ref_object, nat, unit, nat, unit) cache_ops" where
  "cache_ref =
     \<lparr>cache_Get = (\<lambda>key obj opts w. (Ok (fst obj, snd w (fst obj)), (Suc (fst w), snd w))),
      cache_List = (\<lambda>obj opts w. (Ok (fst obj, snd w (fst obj)), (Suc (fst w), snd w))),
      cache_GetInformer = (\<lambda>obj opts w. (Ok (fst w), (Suc (fst w), snd w))),
      cache_GetInformerForKind = (\<lambda>gvk opts w. (Ok (fst w), (Suc (fst w), snd w))),
      cache_RemoveInformer = (\<lambda>obj w. (Ok (), (Suc (fst w), snd w))),
      cache_Start = (\<lambda>w. (Ok (), w)),
      cache_WaitForCacheSync = (\<lambda>w. (True, w)),
      cache_IndexField = (\<lambda>obj field f w. (Ok (), (Suc (fst w), snd w)))\<rparr>"

definition pod_gvk :: GroupVersionKind where
  "pod_gvk = \<lparr>gvk_Group = [], gvk_Version = ''v1'', gvk_Kind = ''Pod''\<rparr>"

definition widget_gvk :: GroupVersionKind where
  "widget_gvk = \<lparr>gvk_Group = ''example.com'', gvk_Version = ''v1'', gvk_Kind = ''Widget''\<rparr>"

definition Cache_ref ::
  "(nat \<times> (GroupVersionKind \<Rightarrow> nat), nat \<times> (GroupVersionKind \<Rightarrow> nat), unit, ref_object, nat, unit, nat, unit) Cache" where
  "Cache_ref = \<lparr>c_GroupVersionKindFor = (\<lambda>obj. if gvk_Kind (fst obj) = [] then Err () else Ok (fst obj)),
     c_localTypes = {GVK_GroupKind widget_gvk}, c_local = cache_ref, c_upstream = cache_ref\<rparr>"

section \<open>Properties\<close>

text \<open>
  Property C10.  A sub-cache is two separate caches.  For every sequence of calls on objects whose kind is
  known, the calls on local kinds see, and leave behind, exactly what they would if they alone were made
  on the local cache, and the other calls exactly what they would on the upstream cache: neither group
  can observe or disturb the other, however they are interleaved.
\<close>

theorem sub_cache_is_two_caches:
  assumes "list_all (req_known c) reqs"
    and "serve (Cache_exec c) reqs (l, u) = (rs, (l', u'))"
  shows "serve (cache_exec (c_local c)) (filter (req_local c) reqs) l =
           (map snd (filter (\<lambda>p. req_local c (fst p)) (zip reqs rs)), l')
       \<and> serve (cache_exec (c_upstream c)) (filter (\<lambda>q. \<not> req_local c q) reqs) u =
           (map snd (filter (\<lambda>p. \<not> req_local c (fst p)) (zip reqs rs)), u')"
  using assms by (rule sub.serve_splits)

theorem sub_cache_is_two_caches_witness:
  "serve (Cache_exec Cache_ref) [ReqGet 0 (widget_gvk, 0) [], ReqList (pod_gvk, 0) [], ReqGetInformer (widget_gvk, 0) []]
     ((0, \<lambda>_. 5), (10, \<lambda>_. 6)) =
     ([Ok (ReplyObject (widget_gvk, 5)), Ok (ReplyObject (pod_gvk, 6)), Ok (ReplyInformer 1)], ((2, \<lambda>_. 5), (11, \<lambda>_. 6)))
 \<and> serve (cache_exec cache_ref) [ReqGet 0 (widget_gvk, 0) [], ReqGetInformer (widget_gvk, 0) []] (0, \<lambda>_. 5) =
     ([Ok (ReplyObject (widget_gvk, 5)), Ok (ReplyInformer 1)], (2, \<lambda>_. 5))"
proof -
  let ?reqs = "[ReqGet 0 (widget_gvk, 0) [], ReqList (pod_gvk, 0) [], ReqGetInformer (widget_gvk, 0) []]
     :: (ref_object, nat, unit, unit) cache_req list"
  have run: "serve (Cache_exec Cache_ref) ?reqs ((0, \<lambda>_. 5), (10, \<lambda>_. 6)) =
     ([Ok (ReplyObject (widget_gvk, 5)), Ok (ReplyObject (pod_gvk, 6)), Ok (ReplyInformer 1)], ((2, \<lambda>_. 5), (11, \<lambda>_. 6)))"
    by (simp add: Cache_op_defs Cache_ref_def cache_ref_def pod_gvk_def widget_gvk_def GVK_GroupKind_def
        amap_def on_fst_def on_snd_def abind_def)
  have known: "list_all (req_known Cache_ref) ?reqs"
    by (simp add: req_known_def Cache_ref_def pod_gvk_def widget_gvk_def)
  have side: "req_local Cache_ref (ReqGet 0 (widget_gvk, 0) [])" "\<not> req_local Cache_ref (ReqList (pod_gvk, 0) [])"
    "req_local Cache_ref (ReqGetInformer (widget_gvk, 0) [])"
    by (simp_all add: req_local_def Cache_ref_def pod_gvk_def widget_gvk_def GVK_GroupKind_def)
  from sub_cache_is_two_caches [OF known run] have
    "serve (cache_exec (c_local Cache_ref)) [ReqGet 0 (widget_gvk, 0) [], ReqGetInformer (widget_gvk, 0) []] (0, \<lambda>_. 5) =
     ([Ok (ReplyObject (widget_gvk, 5)), Ok (ReplyInformer 1)], (2, \<lambda>_. 5))"
    by (simp add: side)
  with run show ?thesis by (simp add: Cache_ref_def)
qed

text \<open>
  A call on an object whose kind cannot be told panics instead of returning the error, and
  reaches neither cache.
\<close>

theorem sub_cache_unknown_kind_panics:
  assumes "req_gvk (c_GroupVersionKindFor c) q = Err e"
  shows "Cache_exec c q w = (Panic ''GroupVersionKindFor'', w)"
  using assms by (cases q) (simp_all add: Cache_op_defs amap_def abind_def)

theorem sub_cache_unknown_kind_panics_witness:
  "Cache_exec Cache_ref (ReqRemoveInformer (\<lparr>gvk_Group = [], gvk_Version = [], gvk_Kind = []\<rparr>, 0)) ((0, \<lambda>_. 5), (10, \<lambda>_. 6))
     = (Panic ''GroupVersionKindFor'', ((0, \<lambda>_. 5), (10, \<lambda>_. 6)))"
  using sub_cache_unknown_kind_panics [of Cache_ref "ReqRemoveInformer (\<lparr>gvk_Group = [], gvk_Version = [], gvk_Kind = []\<rparr>, 0)" "()"]
  by (simp add: Cache_ref_def)

text \<open>
  Starting a sub-cache starts the local cache only, and waiting for it to sync waits for the
  upstream cache first: the answer is yes exactly when both have synced, and the local cache is not
  asked when the upstream one says no.
\<close>

theorem sub_cache_lifecycle:
  "Cache_Start c (l, u) = (case cache_Start (c_local c) l of (r, l') \<Rightarrow> (r, (l', u)))
 \<and> (fst (Cache_WaitForCacheSync c (l, u)) \<longleftrightarrow>
      fst (cache_WaitForCacheSync (c_upstream c) u) \<and> fst (cache_WaitForCacheSync (c_local c) l))
 \<and> snd (snd (Cache_WaitForCacheSync c (l, u))) = snd (cache_WaitForCacheSync (c_upstream c) u)
 \<and> fst (snd (Cache_WaitForCacheSync c (l, u))) =
      (if fst (cache_WaitForCacheSync (c_upstream c) u) then snd (cache_WaitForCacheSync (c_local c) l) else l)"
  by (auto simp: Cache_Start_def on_fst_def Cache_WaitForCacheSync_def split: prod.splits bool.splits)

text \<open>
  The manager is made with the configuration of the given manager and these options: leader
  election is off, what the caller left out is filled in (the scheme of the given manager, skipped name
  validation, no metrics endpoint) and what the caller set is kept; and the cache it will use has the
  given kinds local and the cache of the given manager upstream.
\<close>

theorem submanager_options:
  "\<exists>opts'. submanager_New cache_New NewManager mgr opts localTypes = NewManager (mgr_Config mgr) opts'
    \<and> \<not> opt_LeaderElection opts' \<and> opt_Cache opts' = opt_Cache opts
    \<and> opt_Scheme opts' = (case opt_Scheme opts of None \<Rightarrow> Some (mgr_Scheme mgr) | Some s \<Rightarrow> Some s)
    \<and> opt_SkipNameValidation opts' = (case opt_SkipNameValidation opts of None \<Rightarrow> Some True | Some b \<Rightarrow> Some b)
    \<and> opt_MetricsBindAddress opts' = (if opt_MetricsBindAddress opts = [] then ''0'' else opt_MetricsBindAddress opts)
    \<and> (\<exists>f. opt_NewCache opts' = Some f \<and> (\<forall>cfg copt w loc w'. cache_New cfg copt w = (Ok loc, w') \<longrightarrow>
         (\<exists>c. f cfg copt w = (Ok c, w') \<and> c_local c = loc \<and> c_upstream c = mgr_Cache mgr
            \<and> (\<forall>gvk. Cache_isLocalKind c gvk \<longleftrightarrow> GVK_GroupKind gvk \<in> set localTypes))))"
  unfolding submanager_New_def Let_def
  by (rule exI, intro conjI, rule refl)
    (auto simp: submanager_NewCache_def Cache_isLocalKind_def split: option.splits)

theorem submanager_options_witness:
  "\<exists>opts' f c. submanager_New (\<lambda>cfg copt w. (Ok cache_ref, w)) (\<lambda>cfg opts w. (Ok opts, w))
       \<lparr>mgr_Scheme = ''s'', mgr_Config = (), mgr_Cache = cache_ref, mgr_GroupVersionKindFor = Ok \<circ> fst\<rparr>
       \<lparr>opt_Scheme = None, opt_SkipNameValidation = Some False, opt_MetricsBindAddress = [], opt_LeaderElection = True,
        opt_Cache = (), opt_NewCache = None\<rparr> [GVK_GroupKind widget_gvk] () = (Ok opts', ())
     \<and> opt_Scheme opts' = Some ''s'' \<and> \<not> opt_LeaderElection opts' \<and> opt_NewCache opts' = Some f
     \<and> f () () () = (Ok c, ()) \<and> Cache_isLocalKind c widget_gvk \<and> \<not> Cache_isLocalKind c pod_gvk"
proof -
  let ?mgr = "\<lparr>mgr_Scheme = ''s'', mgr_Config = (), mgr_Cache = cache_ref, mgr_GroupVersionKindFor = Ok \<circ> fst\<rparr>"
  let ?opts = "\<lparr>opt_Scheme = None, opt_SkipNameValidation = Some False, opt_MetricsBindAddress = [], opt_LeaderElection = True,
        opt_Cache = (), opt_NewCache = None\<rparr>"
  let ?new = "\<lambda>(cfg :: unit) (copt :: unit) (w :: unit). (Ok cache_ref, w)" and ?make = "\<lambda>(cfg :: unit) opts (w :: unit). (Ok opts, w)"
  show ?thesis
    using submanager_options [of ?new ?make ?mgr ?opts "[GVK_GroupKind widget_gvk]"]
  proof (elim conjE exE, goal_cases)
    case (1 opts' f)
    from 1(8) [rule_format, OF refl, of "()" "()" "()"] obtain c where "f () () () = (Ok c, ())"
        "\<forall>gvk. Cache_isLocalKind c gvk \<longleftrightarrow> GVK_GroupKind gvk \<in> set [GVK_GroupKind widget_gvk]"
      by auto
    then show ?case
      using 1(1-7) by (intro exI [of _ opts'] exI [of _ f] exI [of _ c])
        (simp add: widget_gvk_def pod_gvk_def GVK_GroupKind_def)
  qed
qed

end
