(* ===== verification/Sub_Reconciler.thy ===== *)
theory Sub_Reconciler
  imports Sub_Cache
begin

text \<open>
  The reconciler of \<open>reconcilers/submanager.go\<close>: for every resource it runs a sub-manager in a goroutine,
  from the first reconcile that finds the finalizer until the resource is deleted.  The functions the
  user supplies and the constructor of the sub-manager are parameters that act on the outside world \<open>'w\<close>;
  a function that may be nil is an option.  The state of the reconciler includes the goroutines it has
  started, numbered in order, and the contexts it has cancelled.  Receiving from the channel of a
  goroutine blocks, so a reconcile either returns or waits for one goroutine, and the rest of the call
  is a step of its own.
\<close>

section \<open>State\<close>

text \<open>
  A goroutine runs the manager, then waits to hand over what \<open>mgr.Start\<close> returned, then is gone.
\<close>

datatype 'e proc = Running | Exited "'e option" | Collected

datatype 'e smr_error = MustProvide string string | MissingFinalizer string | OpError 'e

record ('e, 'M) SubManagerReconciler =
  smr_Name :: string
  smr_SyncPeriod :: "nat option"
  smr_AssertFinalizer :: string
  smr_initOnce :: bool
  smr_mgr :: "'M option"
  smr_managers :: "(string \<Rightarrow> nat option) option"
  smr_procs :: "nat \<Rightarrow> 'e proc option"
  smr_next :: nat
  smr_cancelled :: "nat set"

text \<open>The fields of the struct that are functions, the metadata of a resource and the constructor.\<close>

record ('w, 'e, 'o, 'm, 'M) smr_ops =
  Setup :: "('M \<Rightarrow> ('w, 'e, unit) act) option"
  LocalTypes :: "('o \<Rightarrow> ('w, 'e, GroupKind list) act) option"
  SetupWithSubManager :: "('m \<Rightarrow> 'o \<Rightarrow> ('w, 'e, unit) act) option"
  meta_of :: "'o \<Rightarrow> ObjectMeta"
  NewSubManager :: "'M \<Rightarrow> nat option \<Rightarrow> GroupKind list \<Rightarrow> ('w, 'e, 'm) act"

text \<open>The constructor as the source calls it: \<open>submanager.New\<close> with these options.\<close>

record cache_options =
  copt_SyncPeriod :: "nat option"
  copt_ReaderFailOnMissingInformer :: bool

definition start_options :: "nat option \<Rightarrow> ('s, 'cfg, cache_options, 'cache) Options" where
  "start_options period = \<lparr>opt_Scheme = None, opt_SkipNameValidation = None, opt_MetricsBindAddress = [],
     opt_LeaderElection = False,
     opt_Cache = \<lparr>copt_SyncPeriod = period, copt_ReaderFailOnMissingInformer = True\<rparr>, opt_NewCache = None\<rparr>"

section \<open>Operations\<close>

text \<open>\<open>sync.Once\<close> counts a function that panics as done.  Ten hours in nanoseconds.\<close>

definition smr_init :: "(('e, 'M) SubManagerReconciler, 'x, unit) act" where
  "smr_init r = (if smr_initOnce r then (Ok (), r)
     else let r = r\<lparr>smr_initOnce := True\<rparr>;
              r = (if smr_Name r = [] then r\<lparr>smr_Name := ''SubManagerReconciler''\<rparr> else r);
              r = (if smr_SyncPeriod r = None then r\<lparr>smr_SyncPeriod := Some 36000000000000\<rparr> else r)
          in if smr_mgr r = None
             then (Panic ''SubManagerReconciler: SetupWithManager must be called before Reconcile'', r)
             else (Ok (), r\<lparr>smr_managers := Some Map.empty\<rparr>))"

definition smr_Validate ::
  "('w, 'e, 'o, 'm, 'M) smr_ops \<Rightarrow> (('e, 'M) SubManagerReconciler, 'e smr_error, unit) act" where
  "smr_Validate S = abind smr_init (\<lambda>_ r.
     if smr_AssertFinalizer r = [] then (Err (MustProvide (smr_Name r) ''AssertFinalizer''), r)
     else if LocalTypes S = None then (Err (MustProvide (smr_Name r) ''LocalTypes''), r)
     else if SetupWithSubManager S = None then (Err (MustProvide (smr_Name r) ''SetupWithSubManager''), r)
     else (Ok (), r))"

definition smr_SetupWithManager ::
  "('w, 'e, 'o, 'm, 'M) smr_ops \<Rightarrow> 'M \<Rightarrow> ('w \<times> ('e, 'M) SubManagerReconciler, 'e smr_error, unit) act" where
  "smr_SetupWithManager S mgr =
     abind (on_snd (\<lambda>r. (Ok (), if smr_mgr r = None then r\<lparr>smr_mgr := Some mgr\<rparr> else r))) (\<lambda>_.
     abind (on_snd smr_init) (\<lambda>_.
     abind (on_snd (smr_Validate S)) (\<lambda>_.
     case Setup S of None \<Rightarrow> areturn () | Some f \<Rightarrow> amap_err OpError (on_fst (f mgr)))))"

text \<open>
  What a call of \<open>Reconcile\<close> comes to: it has returned, or it waits on the channel of a goroutine.
\<close>

datatype outcome = Returned | AwaitDone string nat

text \<open>Calling a nil function, using a nil manager and writing to a nil map panic.\<close>

definition smr_call :: "('f option) \<Rightarrow> ('f \<Rightarrow> ('w, 'e, 'a) act) \<Rightarrow> ('w, 'e, 'a) act" where
  "smr_call f run = (case f of None \<Rightarrow> apanic ''nil pointer'' | Some g \<Rightarrow> run g)"

definition smr_launch :: "string \<Rightarrow> (('e, 'M) SubManagerReconciler, 'x, outcome) act" where
  "smr_launch uid r = (case smr_managers r of
     None \<Rightarrow> (Panic ''assignment to entry in nil map'', r)
   | Some m \<Rightarrow> (Ok Returned, r\<lparr>smr_managers := Some (m(uid \<mapsto> smr_next r)),
        smr_procs := (smr_procs r)(smr_next r \<mapsto> Running), smr_next := Suc (smr_next r)\<rparr>))"

text \<open>
  \<open>start\<close>: an error of \<open>LocalTypes\<close> is dropped; the context that \<open>SetupWithSubManager\<close> got is cancelled on an
  error, before any goroutine uses it.
\<close>

definition smr_start ::
  "('w, 'e, 'o, 'm, 'M) smr_ops \<Rightarrow> 'o \<Rightarrow> ('w \<times> ('e, 'M) SubManagerReconciler, 'e smr_error, outcome) act" where
  "smr_start S resource ws =
     (case on_fst (smr_call (LocalTypes S) (\<lambda>f. f resource)) ws of
        (Err e, ws) \<Rightarrow> (Ok Returned, ws)
      | (Panic p, ws) \<Rightarrow> (Panic p, ws)
      | (Ok localTypes, ws) \<Rightarrow>
          abind (amap_err OpError (on_fst (smr_call (smr_mgr (snd ws))
              (\<lambda>mgr. NewSubManager S mgr (smr_SyncPeriod (snd ws)) localTypes)))) (\<lambda>mgr.
          abind (amap_err OpError (on_fst (smr_call (SetupWithSubManager S) (\<lambda>f. f mgr resource)))) (\<lambda>_.
          on_snd (smr_launch (om_UID (meta_of S resource))))) ws)"

definition smr_manager_of :: "('e, 'M) SubManagerReconciler \<Rightarrow> string \<Rightarrow> nat option" where
  "smr_manager_of r uid = (case smr_managers r of None \<Rightarrow> None | Some m \<Rightarrow> m uid)"

text \<open>\<open>shutdown\<close> up to the receive, and from the receive on.\<close>

definition smr_shutdown ::
  "('w, 'e, 'o, 'm, 'M) smr_ops \<Rightarrow> 'o \<Rightarrow> (('e, 'M) SubManagerReconciler, 'x, outcome) act" where
  "smr_shutdown S resource r = (case smr_manager_of r (om_UID (meta_of S resource)) of
     None \<Rightarrow> (Ok Returned, r)
   | Some pid \<Rightarrow> (Ok (AwaitDone (om_UID (meta_of S resource)) pid), r\<lparr>smr_cancelled := insert pid (smr_cancelled r)\<rparr>))"

definition smr_shutdown_resume :: "string \<Rightarrow> nat \<Rightarrow> ('e, 'M) SubManagerReconciler \<Rightarrow> ('e, 'M) SubManagerReconciler option" where
  "smr_shutdown_resume uid pid r = (case smr_procs r pid of
     Some (Exited err) \<Rightarrow> Some (r\<lparr>smr_procs := (smr_procs r)(pid \<mapsto> Collected),
        smr_managers := map_option (\<lambda>m. m(uid := None)) (smr_managers r)\<rparr>)
   | _ \<Rightarrow> None)"

definition smr_Reconcile ::
  "('w, 'e, 'o, 'm, 'M) smr_ops \<Rightarrow> 'o \<Rightarrow> ('w \<times> ('e, 'M) SubManagerReconciler, 'e smr_error, outcome) act" where
  "smr_Reconcile S resource = abind (on_snd smr_init) (\<lambda>_ ws.
     if om_DeletionTimestamp (meta_of S resource) \<noteq> None then on_snd (smr_shutdown S resource) ws
     else if smr_AssertFinalizer (snd ws) \<notin> set (om_Finalizers (meta_of S resource))
       then (Err (MissingFinalizer (smr_AssertFinalizer (snd ws))), ws)
     else if smr_manager_of (snd ws) (om_UID (meta_of S resource)) \<noteq> None then (Ok Returned, ws)
     else smr_start S resource ws)"

section \<open>Runs\<close>

text \<open>
  Calls of \<open>Reconcile\<close> come one after the other (the controller runs one worker); the call in progress is
  the third part of the state.  A manager may return from \<open>Start\<close> at any time.
\<close>

type_synonym ('w, 'e, 'M) smr_sys = "'w \<times> ('e, 'M) SubManagerReconciler \<times> (string \<times> nat) option"

inductive smr_step ::
  "('w, 'e, 'o, 'm, 'M) smr_ops \<Rightarrow> ('w, 'e, 'M) smr_sys \<Rightarrow> ('w, 'e, 'M) smr_sys \<Rightarrow> bool" for S where
  smr_reconcile: "smr_Reconcile S resource (w, r) = (res, (w', r')) \<Longrightarrow> (\<And>uid pid. res \<noteq> Ok (AwaitDone uid pid)) \<Longrightarrow>
     smr_step S (w, r, None) (w', r', None)"
| smr_block: "smr_Reconcile S resource (w, r) = (Ok (AwaitDone uid pid), (w', r')) \<Longrightarrow>
     smr_step S (w, r, None) (w', r', Some (uid, pid))"
| smr_resume: "smr_shutdown_resume uid pid r = Some r' \<Longrightarrow> smr_step S (w, r, Some (uid, pid)) (w, r', None)"
| smr_exit: "smr_procs r pid = Some Running \<Longrightarrow>
     smr_step S (w, r, p) (w, r\<lparr>smr_procs := (smr_procs r)(pid \<mapsto> Exited err)\<rparr>, p)"

definition smr_fresh :: "('w, 'e, 'M) smr_sys \<Rightarrow> bool" where
  "smr_fresh s = (case s of (w, r, p) \<Rightarrow> \<not> smr_initOnce r \<and> smr_managers r = None \<and> smr_procs r = Map.empty
     \<and> smr_next r = 0 \<and> smr_cancelled r = {} \<and> p = None)"

definition smr_reach :: "('w, 'e, 'o, 'm, 'M) smr_ops \<Rightarrow> ('w, 'e, 'M) smr_sys \<Rightarrow> bool" where
  "smr_reach S = reach smr_fresh (smr_step S)"

section \<open>Invariant\<close>

definition live_procs :: "('e, 'M) SubManagerReconciler \<Rightarrow> nat set" where
  "live_procs r = {pid. \<exists>st. smr_procs r pid = Some st \<and> st \<noteq> Collected}"

definition collected :: "('e, 'M) SubManagerReconciler \<Rightarrow> nat set" where
  "collected r = {pid. smr_procs r pid = Some Collected}"

definition smr_ok :: "('e, 'M) SubManagerReconciler \<Rightarrow> bool" where
  "smr_ok r \<longleftrightarrow> (\<forall>pid. smr_procs r pid \<noteq> None \<longleftrightarrow> pid < smr_next r)
     \<and> inj_on (smr_manager_of r) (dom (smr_manager_of r)) \<and> ran (smr_manager_of r) = live_procs r
     \<and> (\<not> smr_initOnce r \<longrightarrow> smr_next r = 0 \<and> smr_managers r = None)"

fun smr_inv :: "('w, 'e, 'M) smr_sys \<Rightarrow> bool" where
  "smr_inv (w, r, None) \<longleftrightarrow> smr_ok r \<and> smr_cancelled r \<subseteq> collected r"
| "smr_inv (w, r, Some (uid, pid)) \<longleftrightarrow> smr_ok r \<and> smr_initOnce r
     \<and> smr_manager_of r uid = Some pid \<and> smr_cancelled r \<subseteq> insert pid (collected r) \<and> pid \<in> smr_cancelled r"

lemma smr_frame [simp]:
  "smr_manager_of (r\<lparr>smr_cancelled := X\<rparr>) = smr_manager_of r" "smr_manager_of (r\<lparr>smr_procs := f\<rparr>) = smr_manager_of r"
  "collected (r\<lparr>smr_cancelled := X\<rparr>) = collected r" "live_procs (r\<lparr>smr_cancelled := X\<rparr>) = live_procs r"
  by (simp_all add: smr_manager_of_def collected_def live_procs_def fun_eq_iff)

lemma smr_ok_cancelled [simp]: "smr_ok (r\<lparr>smr_cancelled := X\<rparr>) = smr_ok r"
  by (simp add: smr_ok_def)

lemma smr_init_facts:
  assumes "smr_init r = (res, r')"
  shows "smr_initOnce r'" "smr_procs r' = smr_procs r" "smr_next r' = smr_next r" "smr_cancelled r' = smr_cancelled r"
    "smr_ok r \<Longrightarrow> smr_manager_of r' = smr_manager_of r" "\<And>e. res \<noteq> Err e" "smr_AssertFinalizer r' = smr_AssertFinalizer r"
  using assms by (auto simp: smr_init_def Let_def smr_ok_def smr_manager_of_def fun_eq_iff split: if_splits)

lemma smr_init_ok:
  assumes "smr_init r = (res, r')" "smr_ok r"
  shows "smr_ok r'" "collected r' = collected r" "live_procs r' = live_procs r"
  using smr_init_facts [OF assms(1)] assms(2) by (simp_all add: smr_ok_def collected_def live_procs_def)

lemma smr_initialised [simp]: "smr_initOnce r \<Longrightarrow> smr_init r = (Ok (), r)"
  by (simp add: smr_init_def)

text \<open>Only the last step of \<open>start\<close> touches the reconciler.\<close>

lemma smr_start_cases:
  assumes "smr_start S resource (w, r) = (res, (w', r'))"
  shows "r' = r \<and> (\<forall>uid pid. res \<noteq> Ok (AwaitDone uid pid))
       \<or> res = Ok Returned \<and> smr_launch (om_UID (meta_of S resource)) r = (Ok Returned, r')"
  using assms
  by (auto simp: smr_start_def abind_def amap_err_def on_fst_def smr_launch_def
      split: prod.splits result.splits option.splits)

lemma smr_launch_ok:
  assumes ok: "smr_ok r" "smr_initOnce r" and new: "smr_manager_of r uid = None"
    and launch: "smr_launch uid r = (Ok Returned, r')"
  shows "smr_ok r'" "collected r' = collected r" "smr_cancelled r' = smr_cancelled r" "smr_initOnce r'"
    "smr_manager_of r' = (smr_manager_of r)(uid \<mapsto> smr_next r)"
    "live_procs r' = insert (smr_next r) (live_procs r)"
proof -
  obtain m where m: "smr_managers r = Some m" and r': "r' = r\<lparr>smr_managers := Some (m(uid \<mapsto> smr_next r)),
        smr_procs := (smr_procs r)(smr_next r \<mapsto> Running), smr_next := Suc (smr_next r)\<rparr>"
    using launch by (auto simp: smr_launch_def split: option.splits)
  have M: "smr_manager_of r = m" by (simp add: fun_eq_iff smr_manager_of_def m)
  have procs: "smr_procs r (smr_next r) = None" using ok(1) unfolding smr_ok_def by blast
  show eqs: "collected r' = collected r" "smr_cancelled r' = smr_cancelled r" "smr_initOnce r'"
    using procs ok(2) by (auto simp: r' collected_def)
  show mgr: "smr_manager_of r' = (smr_manager_of r)(uid \<mapsto> smr_next r)"
    by (simp add: fun_eq_iff smr_manager_of_def r' m)
  show live: "live_procs r' = insert (smr_next r) (live_procs r)"
    using procs by (auto simp: live_procs_def r')
  have fresh: "smr_next r \<notin> ran m"
    using ok procs by (auto simp: smr_ok_def M live_procs_def)
  have "Some (smr_next r) \<notin> m ` dom m"
    using fresh by (auto simp: ran_def)
  then have "inj_on (m(uid \<mapsto> smr_next r)) (insert uid (dom m))"
    using ok new by (auto simp add: smr_ok_def M inj_on_fun_updI domIff)
  moreover have "ran (m(uid \<mapsto> smr_next r)) = insert (smr_next r) (ran m)"
    using new by (simp add: M)
  ultimately show "smr_ok r'"
    using ok unfolding smr_ok_def mgr live M by (auto simp: r' less_Suc_eq)
qed

lemma smr_Reconcile_inv:
  fixes S :: "('w, 'e, 'o, 'm, 'M) smr_ops"
  assumes inv: "smr_inv (w, r, None)" and step: "smr_Reconcile S resource (w, r) = (res, (w', r'))"
  shows "case res of Ok (AwaitDone uid pid) \<Rightarrow> smr_inv (w', r', Some (uid, pid)) | _ \<Rightarrow> smr_inv (w', r', None)"
proof -
  obtain res1 :: "('e smr_error, unit) result" and r1 where init: "smr_init r = (res1, r1)" by fastforce
  have ok1: "smr_ok r1" "smr_initOnce r1" "smr_cancelled r1 \<subseteq> collected r1"
    using inv smr_init_ok [OF init] smr_init_facts [OF init] by auto
  show ?thesis
  proof (cases res1)
    case (Ok u)
    consider (shut) "om_DeletionTimestamp (meta_of S resource) \<noteq> None" "on_snd (smr_shutdown S resource) (w, r1) = (res, (w', r'))"
      | (same) "r' = r1" "\<forall>uid pid. res \<noteq> Ok (AwaitDone uid pid)"
      | (start) "smr_manager_of r1 (om_UID (meta_of S resource)) = None" "smr_start S resource (w, r1) = (res, (w', r'))"
      using step Ok by (auto simp: smr_Reconcile_def abind_def init split: if_splits)
    then show ?thesis
    proof cases
      case shut
      then show ?thesis using ok1
        by (auto simp: smr_shutdown_def split: option.splits)
    next
      case same
      then show ?thesis using ok1 by (auto split: result.splits outcome.splits)
    next
      case start
      from smr_start_cases [OF start(2)] show ?thesis
      proof (elim disjE conjE)
        assume "r' = r1" "\<forall>uid pid. res \<noteq> Ok (AwaitDone uid pid)"
        then show ?thesis using ok1 by (auto split: result.splits outcome.splits)
      next
        assume "res = Ok Returned" and launch: "smr_launch (om_UID (meta_of S resource)) r1 = (Ok Returned, r')"
        then show ?thesis using ok1(3) smr_launch_ok [OF ok1(1,2) start(1) launch] by simp
      qed
    qed
  qed (use step init ok1 in \<open>auto simp: smr_Reconcile_def abind_def\<close>)
qed

lemma smr_exit_inv:
  assumes "smr_inv (w, r, p)" "smr_procs r pid = Some Running"
  shows "smr_inv (w, r\<lparr>smr_procs := (smr_procs r)(pid \<mapsto> Exited err)\<rparr>, p)"
proof -
  let ?r = "r\<lparr>smr_procs := (smr_procs r)(pid \<mapsto> Exited err)\<rparr>"
  have same: "live_procs ?r = live_procs r" "collected ?r = collected r"
    using assms(2) by (auto simp: live_procs_def collected_def)
  have "smr_ok ?r" if "smr_ok r"
    using that assms(2) same by (auto simp: smr_ok_def)
  then show ?thesis
    using assms(1) same by (cases "(w, r, p)" rule: smr_inv.cases) auto
qed

lemma smr_resume_inv:
  assumes inv: "smr_inv (w, r, Some (uid, pid))" and res: "smr_shutdown_resume uid pid r = Some r'"
  shows "smr_inv (w, r', None)" "smr_manager_of r' = (smr_manager_of r)(uid := None)"
    "smr_procs r' = (smr_procs r)(pid \<mapsto> Collected)"
proof -
  obtain err where ex: "smr_procs r pid = Some (Exited err)" and r': "r' = r\<lparr>smr_procs := (smr_procs r)(pid \<mapsto> Collected),
        smr_managers := map_option (\<lambda>m. m(uid := None)) (smr_managers r)\<rparr>"
    using res by (auto simp: smr_shutdown_resume_def split: option.splits proc.splits)
  show M: "smr_manager_of r' = (smr_manager_of r)(uid := None)"
    by (auto simp: smr_manager_of_def r' fun_eq_iff split: option.splits)
  show "smr_procs r' = (smr_procs r)(pid \<mapsto> Collected)" by (simp add: r')
  let ?M = "smr_manager_of r"
  have ok: "smr_ok r" "smr_initOnce r" and uid: "?M uid = Some pid" and can: "smr_cancelled r \<subseteq> insert pid (collected r)"
    using inv by auto
  have live: "live_procs r' = live_procs r - {pid}" and col: "collected r' = insert pid (collected r)"
    by (auto simp: live_procs_def collected_def r')
  have inj: "inj_on ?M (dom ?M)" using ok by (simp add: smr_ok_def)
  have "ran (?M(uid := None)) = ran ?M - {pid}"
    using inj uid by (auto simp: ran_def inj_on_def dom_def) (metis option.inject)+
  moreover have "inj_on (?M(uid := None)) (dom (?M(uid := None)))"
    using inj by (auto simp: inj_on_def dom_def)
  moreover have "(smr_procs r' x \<noteq> None) = (x < smr_next r')" for x
    using ok ex by (auto simp: smr_ok_def r')
  ultimately have "smr_ok r'"
    using ok unfolding smr_ok_def M live by (simp add: r')
  then show "smr_inv (w, r', None)"
    using can col by (simp add: r')
qed

lemma smr_inv_step: "smr_inv s \<Longrightarrow> smr_step S s s' \<Longrightarrow> smr_inv s'"
proof (erule smr_step.cases)
  fix resource w r res w' r'
  assume "smr_inv s" "s = (w, r, None)" "s' = (w', r', None)" "smr_Reconcile S resource (w, r) = (res, (w', r'))"
    "\<And>uid pid. res \<noteq> Ok (AwaitDone uid pid)"
  then show "smr_inv s'"
    using smr_Reconcile_inv [of w r S resource res w' r'] by (auto split: result.splits outcome.splits)
next
  fix resource w r uid pid w' r'
  assume "smr_inv s" "s = (w, r, None)" "s' = (w', r', Some (uid, pid))"
    "smr_Reconcile S resource (w, r) = (Ok (AwaitDone uid pid), (w', r'))"
  then show "smr_inv s'"
    using smr_Reconcile_inv [of w r S resource "Ok (AwaitDone uid pid)" w' r'] by simp
qed (auto intro: smr_resume_inv smr_exit_inv simp del: smr_inv.simps)

lemma smr_inv_fresh: "smr_fresh s \<Longrightarrow> smr_inv s"
  by (cases s) (auto simp: smr_fresh_def smr_ok_def smr_manager_of_def live_procs_def ran_def inj_on_def dom_def)

interpretation smr: invariant_system smr_fresh "smr_step S" smr_inv for S
  by unfold_locales (auto intro: smr_inv_fresh smr_inv_step simp del: smr_inv.simps)

lemma smr_reach_inv: "smr_reach S s \<Longrightarrow> smr_inv s"
  unfolding smr_reach_def by (rule smr.reach_inv)

lemma smr_inv_ok: "smr_inv (w, r, p) \<Longrightarrow> smr_ok r"
  by (cases "(w, r, p)" rule: smr_inv.cases) auto

section \<open>A reference reconciler\<close>

text \<open>Resources are their metadata; a sub-manager is the list of its local kinds; nothing fails.\<close>

definition smr_ops_ref :: "(unit, string, ObjectMeta, GroupKind list, unit) smr_ops" where
  "smr_ops_ref = \<lparr>Setup = None, LocalTypes = Some (\<lambda>obj w. (Ok [], w)),
     SetupWithSubManager = Some (\<lambda>m obj w. (Ok (), w)), meta_of = id,
     NewSubManager = (\<lambda>M period kinds w. (Ok kinds, w))\<rparr>"

definition smr_ref :: "(string, unit) SubManagerReconciler" where
  "smr_ref = \<lparr>smr_Name = [], smr_SyncPeriod = None, smr_AssertFinalizer = ''ducks'', smr_initOnce = False,
     smr_mgr = Some (), smr_managers = None, smr_procs = Map.empty, smr_next = 0, smr_cancelled = {}\<rparr>"

definition resource_ref :: ObjectMeta where
  "resource_ref = (ObjectMeta_named ''r'')\<lparr>om_UID := ''u'', om_Finalizers := [''ducks'']\<rparr>"

lemmas smr_eval = smr_Reconcile_def smr_init_def smr_start_def smr_launch_def smr_shutdown_def smr_call_def
  smr_manager_of_def smr_ops_ref_def smr_ref_def resource_ref_def ObjectMeta_named_def abind_def on_fst_def amap_err_def

definition smr_started :: "(string, unit) SubManagerReconciler" where
  "smr_started = smr_ref\<lparr>smr_Name := ''SubManagerReconciler'', smr_SyncPeriod := Some 36000000000000,
     smr_initOnce := True, smr_managers := Some [''u'' \<mapsto> 0], smr_procs := [0 \<mapsto> Running], smr_next := 1\<rparr>"

lemma smr_started_run: "smr_Reconcile smr_ops_ref resource_ref ((), smr_ref) = (Ok Returned, ((), smr_started))"
  by (simp add: smr_eval smr_started_def)

lemma smr_started_reach: "smr_reach smr_ops_ref ((), smr_started, None)"
proof -
  have "smr_step smr_ops_ref ((), smr_ref, None) ((), smr_started, None)"
    by (rule smr_reconcile [OF smr_started_run]) simp
  moreover have "reach smr_fresh (smr_step smr_ops_ref) ((), smr_ref, None)"
    by (rule reach_init) (simp add: smr_fresh_def smr_ref_def)
  ultimately show ?thesis
    unfolding smr_reach_def by (rule reach_step [rotated])
qed

section \<open>Properties\<close>




definition resource_deleted :: ObjectMeta where
  "resource_deleted = resource_ref\<lparr>om_DeletionTimestamp := Some 1\<rparr>"


text \<open>
  Property C36.  What a reconcile of a resource that is not being deleted does, on every branch, once the
  reconciler is initialised.  Without the finalizer it fails; with an entry it does nothing; an error of
  \<open>LocalTypes\<close> is dropped, the call reports success and nothing runs; an error of the constructor or of the
  setup is returned and nothing runs; otherwise exactly one goroutine is started, under the UID of the
  resource.
\<close>

theorem reconcile_branches:
  fixes S :: "('w, 'e, 'o, 'm, 'M) smr_ops"
  assumes "smr_initOnce r" "smr_managers r = Some m" "smr_mgr r = Some M"
    and "om_DeletionTimestamp (meta_of S resource) = None" "om_UID (meta_of S resource) = uid"
    and "LocalTypes S = Some types" "SetupWithSubManager S = Some setup"
  shows "(smr_AssertFinalizer r \<notin> set (om_Finalizers (meta_of S resource)) \<longrightarrow>
      smr_Reconcile S resource (w, r) = (Err (MissingFinalizer (smr_AssertFinalizer r)), (w, r)))
  \<and> (smr_AssertFinalizer r \<in> set (om_Finalizers (meta_of S resource)) \<longrightarrow>
      (m uid \<noteq> None \<longrightarrow> smr_Reconcile S resource (w, r) = (Ok Returned, (w, r)))
    \<and> (m uid = None \<longrightarrow>
        (\<forall>e w1. types resource w = (Err e, w1) \<longrightarrow> smr_Reconcile S resource (w, r) = (Ok Returned, (w1, r)))
      \<and> (\<forall>ts w1 e w2. types resource w = (Ok ts, w1) \<and> NewSubManager S M (smr_SyncPeriod r) ts w1 = (Err e, w2) \<longrightarrow>
          smr_Reconcile S resource (w, r) = (Err (OpError e), (w2, r)))
      \<and> (\<forall>ts w1 mgr w2 e w3. types resource w = (Ok ts, w1) \<and> NewSubManager S M (smr_SyncPeriod r) ts w1 = (Ok mgr, w2)
          \<and> setup mgr resource w2 = (Err e, w3) \<longrightarrow> smr_Reconcile S resource (w, r) = (Err (OpError e), (w3, r)))
      \<and> (\<forall>ts w1 mgr w2 w3. types resource w = (Ok ts, w1) \<and> NewSubManager S M (smr_SyncPeriod r) ts w1 = (Ok mgr, w2)
          \<and> setup mgr resource w2 = (Ok (), w3) \<longrightarrow>
          smr_Reconcile S resource (w, r) = (Ok Returned, (w3, r\<lparr>smr_managers := Some (m(uid \<mapsto> smr_next r)),
            smr_procs := (smr_procs r)(smr_next r \<mapsto> Running), smr_next := Suc (smr_next r)\<rparr>)))))"
  using assms
  by (auto simp: smr_Reconcile_def smr_start_def smr_launch_def smr_call_def smr_manager_of_def abind_def on_fst_def amap_err_def)

theorem reconcile_branches_witness:
  "smr_Reconcile (smr_ops_ref\<lparr>LocalTypes := Some (\<lambda>obj w. (Err ''no mapping'', w))\<rparr>) (resource_ref\<lparr>om_UID := ''v''\<rparr>) ((), smr_started)
     = (Ok Returned, ((), smr_started))
 \<and> smr_Reconcile smr_ops_ref (resource_ref\<lparr>om_Finalizers := []\<rparr>) ((), smr_started)
     = (Err (MissingFinalizer ''ducks''), ((), smr_started))"
  using reconcile_branches [of smr_started "[''u'' \<mapsto> 0]" "()"
      "smr_ops_ref\<lparr>LocalTypes := Some (\<lambda>obj w. (Err ''no mapping'', w))\<rparr>" "resource_ref\<lparr>om_UID := ''v''\<rparr>" "''v''"
      "\<lambda>obj w. (Err ''no mapping'', w)" "\<lambda>m obj w. (Ok (), w)" "()"]
    reconcile_branches [of smr_started "[''u'' \<mapsto> 0]" "()" smr_ops_ref "resource_ref\<lparr>om_Finalizers := []\<rparr>" "''u''"
      "\<lambda>obj w. (Ok [], w)" "\<lambda>m obj w. (Ok (), w)" "()"]
  by (simp add: smr_started_def smr_ref_def smr_ops_ref_def resource_ref_def ObjectMeta_named_def)



text \<open>
  Setting up a new reconciler with a manager succeeds exactly when the finalizer and the two
  functions are given; then it is initialised with the manager, an empty map and the defaults for what was
  left out, and reconciling does not panic in the initialisation.  Without the set up the first reconcile
  panics.
\<close>

theorem setup_initialises:
  fixes S :: "('w, 'e, 'o, 'm, 'M) smr_ops"
  assumes "\<not> smr_initOnce r" "smr_mgr r = None" "Setup S = None"
  shows "(fst (smr_SetupWithManager S mgr (w, r)) = Ok () \<longleftrightarrow>
       smr_AssertFinalizer r \<noteq> [] \<and> LocalTypes S \<noteq> None \<and> SetupWithSubManager S \<noteq> None)
    \<and> (\<exists>r'. snd (smr_SetupWithManager S mgr (w, r)) = (w, r') \<and> smr_init r' = (Ok () :: ('e smr_error, unit) result, r')
       \<and> smr_mgr r' = Some mgr \<and> smr_managers r' = Some Map.empty \<and> smr_Name r' \<noteq> []
       \<and> smr_SyncPeriod r' = (case smr_SyncPeriod r of None \<Rightarrow> Some (10 * 60 * 60 * 10 ^ 9) | Some d \<Rightarrow> Some d))
    \<and> (\<exists>msg r'. smr_Reconcile S resource (w, r) = (Panic msg, (w, r')) \<and> smr_managers r' = smr_managers r)"
  using assms
  by (auto simp: smr_SetupWithManager_def smr_Validate_def smr_Reconcile_def smr_init_def Let_def abind_def split: option.splits)

theorem setup_initialises_witness:
  "fst (smr_SetupWithManager smr_ops_ref () ((), smr_ref\<lparr>smr_mgr := None\<rparr>)) = Ok ()
 \<and> fst (smr_SetupWithManager (smr_ops_ref\<lparr>LocalTypes := None\<rparr>) () ((), smr_ref\<lparr>smr_mgr := None\<rparr>)) \<noteq> Ok ()"
proof
  let ?r = "smr_ref\<lparr>smr_mgr := None\<rparr>"
  have r: "\<not> smr_initOnce ?r" "smr_mgr ?r = None" "smr_AssertFinalizer ?r \<noteq> []"
    by (simp_all add: smr_ref_def)
  show "fst (smr_SetupWithManager smr_ops_ref () ((), ?r)) = Ok ()"
    using setup_initialises [OF r(1,2), of smr_ops_ref "()" "()" resource_ref] r(3) by (simp add: smr_ops_ref_def)
  show "fst (smr_SetupWithManager (smr_ops_ref\<lparr>LocalTypes := None\<rparr>) () ((), ?r)) \<noteq> Ok ()"
    using setup_initialises [OF r(1,2), of "smr_ops_ref\<lparr>LocalTypes := None\<rparr>" "()" "()" resource_ref]
    by (simp add: smr_ops_ref_def)
qed

end
