(* ===== verification/Controller_Ready.thy ===== *)
theory Controller_Ready
  imports Controller_Crd Sub_Reconciler
begin

text \<open>
  The rest of \<open>internal/controller/ducktype_controller.go\<close>: the check that a duck names a resource the API
  server serves, the reconciler of ducks, and the sub-reconciler that runs it per duck type.  How
  \<open>reconciler.io/runtime\<close> runs a sequence of sub-reconcilers and a set of children are parameters with laws.
\<close>

section \<open>The availability check\<close>

text \<open>
  The loop over the resources of a group and version; \<open>fmt_q\<close> is the \<open>%q\<close> of the standard library.  The
  first resource whose printed name is the name of the duck decides.
\<close>

fun sync_resources ::
  "('e, 'z) libs_scheme \<Rightarrow> (string \<Rightarrow> string) \<Rightarrow> GroupVersionResource \<Rightarrow> APIResource list \<Rightarrow> Duck \<Rightarrow> Duck" where
  "sync_resources P fmt_q gvr [] resource =
     Duck_MarkFalse (lib_cond P) DuckConditionAvailable ''NotFound'' [] resource"
| "sync_resources P fmt_q gvr (apiResource # apiResources) resource =
     (if Duck_Name resource = GroupResource_String (lib_schema P) \<lparr>gr_Group = gvr_Group gvr, gr_Resource = ar_Name apiResource\<rparr>
      then if ar_Name apiResource @ ''.'' @ ds_Group (d_Spec resource) \<noteq> Duck_Name resource
        then Duck_MarkFalse (lib_cond P) DuckConditionAvailable ''Invalid'' ''.spec.group does not match resolved resource'' resource
        else if ar_Kind apiResource \<noteq> ds_Kind (d_Spec resource)
        then Duck_MarkFalse (lib_cond P) DuckConditionAvailable ''Invalid''
               (''.spec.kind does not match resolved kind '' @ fmt_q (ar_Kind apiResource)) resource
        else Duck_MarkTrue (lib_cond P) DuckConditionAvailable ''Available'' [] resource
      else sync_resources P fmt_q gvr apiResources resource)"

text \<open>\<open>Sync\<close>: the errors of the tracker are not looked at.\<close>

definition Duck_Sync ::
  "('e, 'z) libs_scheme \<Rightarrow> (string \<Rightarrow> string) \<Rightarrow> ('w, 'e) ctl_ops \<Rightarrow> ('w \<times> Duck, 'e, unit) act" where
  "Duck_Sync P fmt_q C wd =
     (let resource = snd wd;
          gvr = Duck_GroupVersionResource (lib_schema P) resource
      in abind (alogged (on_fst (ctl_TrackObject C (TrackedCustomResourceDefinition
             (GroupResource_String (lib_schema P) (GVR_GroupResource gvr))) resource))) (\<lambda>_.
         abind (alogged (on_fst (ctl_TrackObject C (TrackedAPIService (gvr_Version gvr @ ''.'' @ gvr_Group gvr)) resource))) (\<lambda>_ wd.
         case on_fst (ctl_ServerResourcesForGroupVersion C (GroupVersion_String (lib_schema P) (GVR_GroupVersion gvr))) wd of
           (Ok resources, (w, d)) \<Rightarrow> (Ok (), (w, sync_resources P fmt_q gvr resources resource))
         | (Err e, (w, d)) \<Rightarrow>
             if lib_IsNotFound P e
             then (Ok (), (w, Duck_MarkFalse (lib_cond P) DuckConditionAvailable ''NotFound'' [] resource))
             else (Err e, (w, resource))
         | (Panic p, (w, d)) \<Rightarrow> (Panic p, (w, resource)))) wd)"

section \<open>Reconcilers\<close>

text \<open>
  \<open>Sequence\<close> is given the sub-reconcilers in order; \<open>ChildSet\<close> is given what to desire, how to identify,
  harmonize and merge a child, and how to reflect the outcome.
\<close>

record ('w, 'e) runtime_ops =
  rt_Sequence :: "('w \<times> Duck, 'e, unit) act list \<Rightarrow> ('w \<times> Duck, 'e, unit) act"
  rt_ChildSet :: "(Duck \<Rightarrow> ('w, 'e, ClusterRole list) act) \<Rightarrow> (ClusterRole \<Rightarrow> string)
     \<Rightarrow> (ClusterRole \<Rightarrow> ClusterRole \<Rightarrow> ClusterRole) \<Rightarrow> (ClusterRole \<Rightarrow> ClusterRole \<Rightarrow> ClusterRole)
     \<Rightarrow> ('e option \<Rightarrow> Duck \<Rightarrow> 'e option \<times> Duck) \<Rightarrow> ('w \<times> Duck, 'e, unit) act"

definition DuckReconcilerClusterRoleChildSetReconciler ::
  "('w, 'e) runtime_ops \<Rightarrow> ('e, 'z) libs_scheme \<Rightarrow> ('w, 'e) ctl_ops \<Rightarrow> ('w \<times> Duck, 'e, unit) act" where
  "DuckReconcilerClusterRoleChildSetReconciler R P C =
     rt_ChildSet R (Duck_DesiredRoles P C) Duck_IdentifyRole Duck_HarmonizeRole Duck_MergeRole (Duck_ReflectRoles P)"

definition DuckReconciler ::
  "('w, 'e) runtime_ops \<Rightarrow> ('e, 'z) libs_scheme \<Rightarrow> (string \<Rightarrow> string) \<Rightarrow> ('w, 'e) ctl_ops \<Rightarrow> ('w \<times> Duck, 'e, unit) act" where
  "DuckReconciler R P fmt_q C =
     rt_Sequence R [DuckReconcilerClusterRoleChildSetReconciler R P C, Duck_Sync P fmt_q C]"

text \<open>
  The finalizer of the duck types, the finalizer the sub-reconciler asserts, the kinds local to the
  sub-manager of a duck type and the kind its reconciler is set up for.
\<close>

definition DuckTypeReconciler_Finalizer :: string where
  "DuckTypeReconciler_Finalizer = GroupVersion_Group @ ''/reconciler''"

definition DuckSubReconciler_AssertFinalizer :: string where
  "DuckSubReconciler_AssertFinalizer = GroupVersion_Group @ ''/reconciler''"

definition DuckSubReconciler_LocalTypes :: "DuckType \<Rightarrow> GroupKind list" where
  "DuckSubReconciler_LocalTypes resource =
     [\<lparr>gk_Group = dts_Group (dt_Spec resource), gk_Kind = dts_Kind (dt_Spec resource)\<rparr>,
      \<lparr>gk_Group = dts_Group (dt_Spec resource), gk_Kind = dts_ListKind (dt_Spec resource)\<rparr>]"

definition DuckSubReconciler_typeMeta :: "schema_ops \<Rightarrow> DuckType \<Rightarrow> TypeMeta" where
  "DuckSubReconciler_typeMeta L resource =
     \<lparr>tm_APIVersion = GroupVersion_String L \<lparr>gv_Group = dts_Group (dt_Spec resource), gv_Version = ''v1''\<rparr>,
      tm_Kind = dts_Kind (dt_Spec resource)\<rparr>"

definition DuckSubReconciler ::
  "('m \<Rightarrow> TypeMeta \<Rightarrow> ('w, 'e, unit) act) \<Rightarrow> schema_ops \<Rightarrow> ('M \<Rightarrow> nat option \<Rightarrow> GroupKind list \<Rightarrow> ('w, 'e, 'm) act)
     \<Rightarrow> ('w, 'e, DuckType, 'm, 'M) smr_ops" where
  "DuckSubReconciler SetupDuckReconciler L new =
     \<lparr>Setup = None,
      LocalTypes = Some (\<lambda>resource. areturn (DuckSubReconciler_LocalTypes resource)),
      SetupWithSubManager = Some (\<lambda>mgr resource. SetupDuckReconciler mgr (DuckSubReconciler_typeMeta L resource)),
      meta_of = dt_ObjectMeta,
      NewSubManager = new\<rparr>"

section \<open>Laws of the runtime\<close>

text \<open>
  A sequence runs its members in order and stops at the first error.  A child set either fails on its own,
  with the resource as it was, or calls the reflect function once, with the aggregate error of the
  children, and returns the error it returns.
\<close>

definition runtime_laws :: "('w, 'e) runtime_ops \<Rightarrow> bool" where
  "runtime_laws R \<longleftrightarrow>
     (\<forall>rs. rt_Sequence R rs = foldr (\<lambda>r k. abind r (\<lambda>_. k)) rs (areturn ()))
   \<and> (\<forall>desired ident harm merge reflect w d. \<exists>w'.
        (\<exists>e. rt_ChildSet R desired ident harm merge reflect (w, d) = (Err e, (w', d)))
      \<or> (\<exists>err. rt_ChildSet R desired ident harm merge reflect (w, d) =
          (case reflect err d of (None, d') \<Rightarrow> (Ok (), (w', d')) | (Some e, d') \<Rightarrow> (Err e, (w', d')))))"

lemma runtime_Sequence:
  "runtime_laws R \<Longrightarrow> rt_Sequence R [a, b] = abind a (\<lambda>_. abind b (\<lambda>_. areturn ()))"
  by (simp add: runtime_laws_def)

lemma runtime_ChildSet:
  assumes "runtime_laws R" "rt_ChildSet R desired ident harm merge reflect (w, d) = (Ok (), (w1, d1))"
  obtains err where "reflect err d = (None, d1)"
proof -
  obtain w' where "(\<exists>e. rt_ChildSet R desired ident harm merge reflect (w, d) = (Err e, (w', d)))
      \<or> (\<exists>err. rt_ChildSet R desired ident harm merge reflect (w, d) =
          (case reflect err d of (None, d') \<Rightarrow> (Ok (), (w', d')) | (Some e, d') \<Rightarrow> (Err e, (w', d'))))"
    using conjunct2 [OF assms(1) [unfolded runtime_laws_def], rule_format, of desired ident harm merge reflect w d] by (elim exE)
  then obtain err where err: "(Ok (), (w1, d1)) = (case reflect err d of (None, d') \<Rightarrow> (Ok (), (w', d')) | (Some e, d') \<Rightarrow> (Err e, (w', d')))"
    using assms(2) by auto
  show ?thesis
  proof (cases "reflect err d")
    case (Pair e d')
    with err have "reflect err d = (None, d1)" by (cases e) simp_all
    then show ?thesis by (rule that)
  qed
qed

section \<open>Facts about the check\<close>

lemma sync_resources_frame [simp]:
  "d_Spec (sync_resources P fmt_q gvr rs d) = d_Spec d" "d_ObjectMeta (sync_resources P fmt_q gvr rs d) = d_ObjectMeta d"
  by (induction rs) simp_all

lemma sync_resources_cond:
  assumes "condition_laws (lib_cond P)"
  shows "Duck_cond (lib_cond P) (sync_resources P fmt_q gvr rs d) DuckConditionAvailable \<longleftrightarrow>
    (\<exists>a. find (\<lambda>a. Duck_Name d = GroupResource_String (lib_schema P) \<lparr>gr_Group = gvr_Group gvr, gr_Resource = ar_Name a\<rparr>) rs = Some a
       \<and> ar_Name a @ ''.'' @ ds_Group (d_Spec d) = Duck_Name d \<and> ar_Kind a = ds_Kind (d_Spec d))"
    and "Duck_cond (lib_cond P) (sync_resources P fmt_q gvr rs d) DuckConditionRBAC = Duck_cond (lib_cond P) d DuckConditionRBAC"
    and "Duck_is_ready (lib_cond P) (sync_resources P fmt_q gvr rs d) \<longleftrightarrow>
      Duck_cond (lib_cond P) (sync_resources P fmt_q gvr rs d) DuckConditionAvailable \<and> Duck_cond (lib_cond P) d DuckConditionRBAC"
  by (induction rs) (auto simp: Duck_marks [OF assms] Duck_mark_ready [OF assms])

text \<open>
  For a duck whose name ends in its group, the resource the loop looks for is the one before the first dot,
  and it can only be the right one if the rest of the name is the group.
\<close>

lemma name_match:
  assumes "schema_laws L" and name: "Duck_Name d = q @ ''.'' @ g" "g \<noteq> []"
    and gr: "ParseGroupResource L (Duck_Name d) = gr"
  shows "Duck_Name d = GroupResource_String L \<lparr>gr_Group = gr_Group gr, gr_Resource = n\<rparr> \<and> n @ ''.'' @ g = Duck_Name d
    \<longleftrightarrow> n = q \<and> CHR ''.'' \<notin> set q"
proof -
  from assms(1) show ?thesis
  proof (cases rule: schema_parse_cases [where n = "Duck_Name d"])
    case (dot r g')
    then have gr': "gr = \<lparr>gr_Group = g', gr_Resource = r\<rparr>" using gr by simp
    have "r @ CHR ''.'' # g' = q @ CHR ''.'' # g" using dot name by simp
    moreover have "g' \<noteq> []"
      using calculation dot(2) name(2) by (auto simp: append_eq_append_conv2 Cons_eq_append_conv append_eq_Cons_conv)
    ultimately show ?thesis
      using append_sep_inject [OF dot(2), of q g' g] assms(1) dot(2)
      by (auto simp: gr' name schema_print_gr)
  next
    case nodot
    then show ?thesis using name by simp
  qed
qed



text \<open>The run of the check, when the tracker does not panic and discovery answers the same in every world.\<close>

definition tracker_returns :: "('w, 'e) ctl_ops \<Rightarrow> bool" where
  "tracker_returns C \<longleftrightarrow> (\<forall>t d w p. fst (ctl_TrackObject C t d w) \<noteq> Panic p)"

lemma alogged_track:
  assumes "tracker_returns C"
  shows "alogged (on_fst (ctl_TrackObject C t d)) (w, x) = (Ok (), (snd (ctl_TrackObject C t d w), x))"
proof (cases "ctl_TrackObject C t d w")
  case (Pair r w')
  then show ?thesis
    using assms unfolding tracker_returns_def
    by (cases r) (auto simp: alogged_def on_fst_def, metis fst_conv)
qed

definition track_both :: "schema_ops \<Rightarrow> ('w, 'e) ctl_ops \<Rightarrow> Duck \<Rightarrow> 'w \<Rightarrow> 'w" where
  "track_both L C d w =
     (let gvr = Duck_GroupVersionResource L d;
          w1 = snd (ctl_TrackObject C (TrackedCustomResourceDefinition (GroupResource_String L (GVR_GroupResource gvr))) d w)
      in snd (ctl_TrackObject C (TrackedAPIService (gvr_Version gvr @ ''.'' @ gvr_Group gvr)) d w1))"

definition discovery ::
  "schema_ops \<Rightarrow> ('w, 'e) ctl_ops \<Rightarrow> Duck \<Rightarrow> ('w, 'e, APIResource list) act" where
  "discovery L C d = ctl_ServerResourcesForGroupVersion C
     (GroupVersion_String L (GVR_GroupVersion (Duck_GroupVersionResource L d)))"

lemma Duck_Sync_eq:
  assumes "tracker_returns C"
  shows "Duck_Sync P fmt_q C (w, d) = (case discovery (lib_schema P) C d (track_both (lib_schema P) C d w) of
      (Ok resources, w') \<Rightarrow> (Ok (), (w', sync_resources P fmt_q (Duck_GroupVersionResource (lib_schema P) d) resources d))
    | (Err e, w') \<Rightarrow> if lib_IsNotFound P e
        then (Ok (), (w', Duck_MarkFalse (lib_cond P) DuckConditionAvailable ''NotFound'' [] d)) else (Err e, (w', d))
    | (Panic p, w') \<Rightarrow> (Panic p, (w', d)))"
  by (simp add: Duck_Sync_def Let_def abind_def alogged_track [OF assms] track_both_def discovery_def on_fst_def
      split: prod.splits result.splits)

lemma GVR_of_name: "gvr_Group (Duck_GroupVersionResource L d) = gr_Group (ParseGroupResource L (Duck_Name d))"
  by (simp add: Duck_GroupVersionResource_def GR_WithVersion_def)

lemma available_iff:
  assumes "schema_laws (lib_schema P)" "condition_laws (lib_cond P)"
    and "Duck_Name d = q @ ''.'' @ ds_Group (d_Spec d)" "ds_Group (d_Spec d) \<noteq> []"
  shows "Duck_cond (lib_cond P) (sync_resources P fmt_q (Duck_GroupVersionResource (lib_schema P) d) rs d) DuckConditionAvailable
    \<longleftrightarrow> CHR ''.'' \<notin> set q \<and> (\<exists>a. find (\<lambda>a. ar_Name a = q) rs = Some a \<and> ar_Kind a = ds_Kind (d_Spec d))"
proof -
  let ?hit = "\<lambda>a. Duck_Name d = GroupResource_String (lib_schema P)
      \<lparr>gr_Group = gr_Group (ParseGroupResource (lib_schema P) (Duck_Name d)), gr_Resource = ar_Name a\<rparr>"
  have match: "?hit a \<and> ar_Name a @ ''.'' @ ds_Group (d_Spec d) = Duck_Name d \<longleftrightarrow> ar_Name a = q \<and> CHR ''.'' \<notin> set q" for a
    using name_match [OF assms(1,3,4) refl] by blast
  have hit: "?hit a \<longleftrightarrow> ar_Name a = q" if "CHR ''.'' \<notin> set q" for a
    using that assms(1,3,4) by (auto simp add: schema_parse_dot schema_print_gr)
  show ?thesis
  proof (cases "CHR ''.'' \<in> set q")
    case True
    have "ar_Name a @ ''.'' @ ds_Group (d_Spec d) \<noteq> Duck_Name d" if "find ?hit rs = Some a" for a
      using match [of a] True that by (auto simp: find_Some_iff)
    with True show ?thesis
      unfolding sync_resources_cond(1) [OF assms(2)] GVR_of_name by blast
  next
    case False
    then have eq: "?hit = (\<lambda>a. ar_Name a = q)" using hit by (intro ext) blast
    have "ar_Name a @ ''.'' @ ds_Group (d_Spec d) = Duck_Name d" if "find (\<lambda>a. ar_Name a = q) rs = Some a" for a
      using that assms(3) by (auto simp: find_Some_iff)
    with False show ?thesis
      unfolding sync_resources_cond(1) [OF assms(2)] GVR_of_name eq by blast
  qed
qed

section \<open>Reconciling a duck\<close>

lemma discovery_cong:
  "d_Spec d' = d_Spec d \<Longrightarrow> d_ObjectMeta d' = d_ObjectMeta d \<Longrightarrow> discovery S C d' = discovery S C d"
  by (simp add: discovery_def Duck_GroupVersionResource_def Duck_Name_def)

text \<open>What a check that ends without an error says about the duck it leaves behind.\<close>

lemma sync_ok_facts:
  assumes "condition_laws (lib_cond P)" "tracker_returns C" "Duck_Sync P fmt_q C (w, d) = (Ok (), (w', d'))"
  shows "d_Spec d' = d_Spec d" "d_ObjectMeta d' = d_ObjectMeta d"
    and "Duck_is_ready (lib_cond P) d' \<longleftrightarrow>
      Duck_cond (lib_cond P) d' DuckConditionRBAC \<and> Duck_cond (lib_cond P) d' DuckConditionAvailable"
    and "Duck_is_ready (lib_cond P) d' \<Longrightarrow> \<exists>w1 w2 resources a. discovery (lib_schema P) C d w1 = (Ok resources, w2)
      \<and> a \<in> set resources \<and> Duck_Name d = ar_Name a @ ''.'' @ ds_Group (d_Spec d) \<and> ar_Kind a = ds_Kind (d_Spec d)"
proof -
  note marks = Duck_marks [OF assms(1)] Duck_mark_ready [OF assms(1)]
  let ?v = "track_both (lib_schema P) C d w" and ?gvr = "Duck_GroupVersionResource (lib_schema P) d"
  consider (found) resources where "discovery (lib_schema P) C d ?v = (Ok resources, w')" "d' = sync_resources P fmt_q ?gvr resources d"
    | (missing) "d' = Duck_MarkFalse (lib_cond P) DuckConditionAvailable ''NotFound'' [] d"
    using assms(3) by (auto simp: Duck_Sync_eq [OF assms(2)] split: prod.splits result.splits if_splits)
  note outcomes = this
  then show "d_Spec d' = d_Spec d" "d_ObjectMeta d' = d_ObjectMeta d" by (cases; simp)+
  from outcomes show "Duck_is_ready (lib_cond P) d' \<longleftrightarrow>
      Duck_cond (lib_cond P) d' DuckConditionRBAC \<and> Duck_cond (lib_cond P) d' DuckConditionAvailable"
    by cases (auto simp: sync_resources_cond [OF assms(1)] marks)
  assume ready: "Duck_is_ready (lib_cond P) d'"
  from outcomes show "\<exists>w1 w2 resources a. discovery (lib_schema P) C d w1 = (Ok resources, w2)
      \<and> a \<in> set resources \<and> Duck_Name d = ar_Name a @ ''.'' @ ds_Group (d_Spec d) \<and> ar_Kind a = ds_Kind (d_Spec d)"
  proof cases
    case found
    then obtain a where a: "find (\<lambda>a. Duck_Name d = GroupResource_String (lib_schema P) \<lparr>gr_Group = gvr_Group ?gvr, gr_Resource = ar_Name a\<rparr>) resources = Some a"
        "Duck_Name d = ar_Name a @ ''.'' @ ds_Group (d_Spec d)" "ar_Kind a = ds_Kind (d_Spec d)"
      using ready unfolding found(2) sync_resources_cond(3) [OF assms(1)] sync_resources_cond(1) [OF assms(1)] by metis
    moreover have "a \<in> set resources" using a(1) unfolding find_Some_iff by (metis nth_mem)
    ultimately show ?thesis using found(1) by blast
  qed (use ready in \<open>simp add: marks\<close>)
qed

lemma reconciled_duck:
  assumes "lib_laws P" "tracker_returns C" "runtime_laws R"
    and "DuckReconciler R P fmt_q C (w, d) = (Ok (), (w', d'))"
  shows "d_Spec d' = d_Spec d" "d_ObjectMeta d' = d_ObjectMeta d"
    and "Duck_is_ready (lib_cond P) d' \<longleftrightarrow>
      Duck_cond (lib_cond P) d' DuckConditionRBAC \<and> Duck_cond (lib_cond P) d' DuckConditionAvailable"
    and "Duck_is_ready (lib_cond P) d' \<longrightarrow> (\<exists>w1 w2 resources a. discovery (lib_schema P) C d' w1 = (Ok resources, w2)
      \<and> a \<in> set resources \<and> Duck_Name d' = ar_Name a @ ''.'' @ ds_Group (d_Spec d') \<and> ar_Kind a = ds_Kind (d_Spec d'))"
proof -
  have laws: "condition_laws (lib_cond P)" using assms(1) by (simp add: lib_laws_def)
  have run: "abind (DuckReconcilerClusterRoleChildSetReconciler R P C) (\<lambda>_. abind (Duck_Sync P fmt_q C) (\<lambda>_. areturn ())) (w, d)
      = (Ok (), (w', d'))"
    using assms(4) by (simp only: DuckReconciler_def runtime_Sequence [OF assms(3)])
  obtain w1 d1 where roles: "DuckReconcilerClusterRoleChildSetReconciler R P C (w, d) = (Ok (), (w1, d1))"
      and sync: "Duck_Sync P fmt_q C (w1, d1) = (Ok (), (w', d'))"
    using run unfolding abind_eq_Ok_iff by (auto simp: areturn_def)
  obtain err where "Duck_ReflectRoles P err d = (None, d1)"
    using roles unfolding DuckReconcilerClusterRoleChildSetReconciler_def by (rule runtime_ChildSet [OF assms(3)])
  then have same: "d_Spec d1 = d_Spec d" "d_ObjectMeta d1 = d_ObjectMeta d"
    by (auto simp: Duck_ReflectRoles_def split: option.splits if_splits)
  note f = sync_ok_facts [OF laws assms(2) sync]
  show "d_Spec d' = d_Spec d" "d_ObjectMeta d' = d_ObjectMeta d" using f(1,2) same by simp_all
  show "Duck_is_ready (lib_cond P) d' \<longleftrightarrow>
      Duck_cond (lib_cond P) d' DuckConditionRBAC \<and> Duck_cond (lib_cond P) d' DuckConditionAvailable" by (rule f(3))
  have "discovery (lib_schema P) C d' = discovery (lib_schema P) C d1" using f(1,2) by (rule discovery_cong)
  then show "Duck_is_ready (lib_cond P) d' \<longrightarrow> (\<exists>w1 w2 resources a. discovery (lib_schema P) C d' w1 = (Ok resources, w2)
      \<and> a \<in> set resources \<and> Duck_Name d' = ar_Name a @ ''.'' @ ds_Group (d_Spec d') \<and> ar_Kind a = ds_Kind (d_Spec d'))"
    using f(1,2,4) by (simp add: Duck_Name_def)
qed

section \<open>Properties\<close>

text \<open>A runtime whose child sets never fail.\<close>

definition runtime_ref :: "(tracked list, api_error) runtime_ops" where
  "runtime_ref = \<lparr>rt_Sequence = (\<lambda>rs. foldr (\<lambda>r k. abind r (\<lambda>_. k)) rs (areturn ())),
     rt_ChildSet = (\<lambda>desired ident harm merge reflect (w, d). (case reflect None d of
        (None, d') \<Rightarrow> (Ok (), (w, d')) | (Some e, d') \<Rightarrow> (Err e, (w, d'))))\<rparr>"

lemma runtime_ref_laws: "runtime_laws runtime_ref"
  unfolding runtime_laws_def runtime_ref_def by auto

lemma ctl_ref_tracker: "tracker_returns ctl_ref"
  by (simp add: tracker_returns_def ctl_ref_def)

lemma ctl_ref_discovery:
  "discovery schema_ref ctl_ref demo_deployment w = (Ok [\<lparr>ar_Name = ''deployments'', ar_Kind = ''Deployment''\<rparr>], w)"
proof -
  have "Duck_GroupVersionResource schema_ref demo_deployment = \<lparr>gvr_Group = ''apps'', gvr_Version = ''v1'', gvr_Resource = ''deployments''\<rparr>"
    using schema_parse_dot [OF schema_ref_laws, of "''deployments''" "''apps''"]
    by (simp add: Duck_GroupVersionResource_def GR_WithVersion_def demo_names demo_specs)
  then show ?thesis
    by (simp add: discovery_def ctl_ref_def GVR_GroupVersion_def schema_ref_def)
qed

text \<open>The reconcile of a deployment that the API server serves.\<close>

lemma demo_reconciled:
  obtains w' d' where "DuckReconciler runtime_ref libs_ref id ctl_ref ([], demo_deployment) = (Ok (), (w', d'))"
    "Duck_cond cond_ref d' DuckConditionAvailable" "Duck_cond cond_ref d' DuckConditionRBAC"
proof -
  define d where "d = Duck_MarkTrue cond_ref DuckConditionRBAC ''Defined'' [] demo_deployment"
  define rs where "rs = [\<lparr>ar_Name = ''deployments'', ar_Kind = ''Deployment''\<rparr>]"
  define d' where "d' = sync_resources libs_ref id (Duck_GroupVersionResource schema_ref d) rs d"
  have meta: "Duck_Name d = Duck_Name demo_deployment" "d_Spec d = d_Spec demo_deployment"
    by (simp_all add: d_def Duck_Name_def)
  have disc: "discovery schema_ref ctl_ref d w = (Ok rs, w)" for w
    using ctl_ref_discovery [of w] by (simp only: discovery_def Duck_GroupVersionResource_def meta rs_def)
  have roles: "DuckReconcilerClusterRoleChildSetReconciler runtime_ref libs_ref ctl_ref ([], demo_deployment) = (Ok (), ([], d))"
    by (simp add: DuckReconcilerClusterRoleChildSetReconciler_def runtime_ref_def Duck_ReflectRoles_def demo_libs d_def)
  have sync: "Duck_Sync libs_ref id ctl_ref ([], d) = (Ok (), (track_both schema_ref ctl_ref d [], d'))"
    by (simp add: Duck_Sync_eq [OF ctl_ref_tracker] demo_libs disc d'_def)
  have run: "DuckReconciler runtime_ref libs_ref id ctl_ref ([], demo_deployment) = (Ok (), (track_both schema_ref ctl_ref d [], d'))"
    using roles sync by (simp add: DuckReconciler_def runtime_ref_def abind_def)
  have name: "Duck_Name d = ''deployments'' @ ''.'' @ ds_Group (d_Spec d)"
    by (simp add: meta demo_names demo_specs)
  have "Duck_cond cond_ref d' DuckConditionAvailable"
    using available_iff [of libs_ref d "''deployments''" id rs] name
    by (simp add: d'_def demo_libs schema_ref_laws cond_ref_laws meta demo_specs rs_def del: sync_resources.simps)
  moreover have "Duck_cond cond_ref d' DuckConditionRBAC"
    using sync_resources_cond(2) [of libs_ref id _ rs d] by (simp add: d'_def d_def demo_libs cond_ref_laws Duck_marks)
  ultimately show ?thesis using that [OF run] by blast
qed

text \<open>
  Property C19.  When discovery answers, the check marks an admitted duck available exactly when its name is
  a plain resource name, a dot and its group, the API server serves a resource of that name for the group
  and version, and the first such resource has the kind of the duck.  In particular a duck that was admitted
  with a further dot before its group can never become available.
\<close>

theorem sync_marks_available_iff_served:
  assumes "lib_laws P" "tracker_returns C" "aggregate_laws agg"
    and "fst (Duck_ValidateCreate agg d) = None" "Duck_Name d = q @ ''.'' @ ds_Group (d_Spec d)"
    and "discovery (lib_schema P) C d (track_both (lib_schema P) C d w) = (Ok resources, w')"
  shows "\<exists>d'. Duck_Sync P fmt_q C (w, d) = (Ok (), (w', d'))
    \<and> (Duck_cond (lib_cond P) d' DuckConditionAvailable \<longleftrightarrow>
         CHR ''.'' \<notin> set q \<and> (\<exists>a. find (\<lambda>a. ar_Name a = q) resources = Some a \<and> ar_Kind a = ds_Kind (d_Spec d)))
    \<and> (Duck_is_ready (lib_cond P) d' \<longleftrightarrow>
         Duck_cond (lib_cond P) d' DuckConditionAvailable \<and> Duck_cond (lib_cond P) d DuckConditionRBAC)
    \<and> d_Spec d' = d_Spec d \<and> d_ObjectMeta d' = d_ObjectMeta d"
proof -
  have laws: "schema_laws (lib_schema P)" "condition_laws (lib_cond P)"
    using assms(1) by (simp_all add: lib_laws_def)
  have "Duck_Validate d (NewPath '''') = []"
    using assms(3,4) by (simp add: dw.create_eq aggregate_laws_def)
  then have "ds_Group (d_Spec d) \<noteq> []" by (simp add: Duck_Validate_Nil)
  note avail = available_iff [OF laws assms(5) this]
  show ?thesis
    by (simp add: Duck_Sync_eq [OF assms(2)] assms(6) avail sync_resources_cond(3) [OF laws(2)])
qed

theorem sync_marks_available_iff_served_witness:
  "\<exists>w' d'. Duck_Sync libs_ref id ctl_ref ([], demo_deployment) = (Ok (), (w', d')) \<and> Duck_cond cond_ref d' DuckConditionAvailable"
proof -
  have name: "Duck_Name demo_deployment = ''deployments'' @ ''.'' @ ds_Group (d_Spec demo_deployment)"
    by (simp add: demo_names demo_specs)
  have "Duck_Validate demo_deployment (NewPath '''') = []"
    unfolding Duck_Validate_Nil using name by (simp add: demo_specs)
  then have adm: "fst (Duck_ValidateCreate agg_ref demo_deployment) = None"
    by (simp add: dw.create_eq agg_ref_def)
  define rs where "rs = [\<lparr>ar_Name = ''deployments'', ar_Kind = ''Deployment''\<rparr>]"
  have disc: "discovery (lib_schema libs_ref) ctl_ref demo_deployment w = (Ok rs, w)" for w
    by (simp add: demo_libs ctl_ref_discovery rs_def)
  obtain d' where "Duck_Sync libs_ref id ctl_ref ([], demo_deployment) =
      (Ok (), (track_both (lib_schema libs_ref) ctl_ref demo_deployment [], d'))"
      and avail: "Duck_cond (lib_cond libs_ref) d' DuckConditionAvailable \<longleftrightarrow> CHR ''.'' \<notin> set ''deployments''
        \<and> (\<exists>a. find (\<lambda>a. ar_Name a = ''deployments'') rs = Some a \<and> ar_Kind a = ds_Kind (d_Spec demo_deployment))"
    using sync_marks_available_iff_served [OF libs_ref_laws ctl_ref_tracker agg_ref_laws adm name disc, of id "[]"] by blast
  moreover have "Duck_cond cond_ref d' DuckConditionAvailable"
    using avail by (simp add: rs_def demo_specs demo_libs)
  ultimately show ?thesis by (intro exI conjI)
qed

text \<open>
  Property C39.  The definition and the API service that may back a duck are tracked before anything else, on
  every branch of the check.  If the API server does not know the group and version the duck is marked not
  available and the check succeeds; any other error of discovery is returned and the duck is left as it was.
\<close>

theorem sync_tracks_and_errors:
  assumes "lib_laws P" "tracker_returns C"
    and "\<And>t x w. log (snd (ctl_TrackObject C t x w)) = log w @ [t]"
    and "\<And>gv w. log (snd (ctl_ServerResourcesForGroupVersion C gv w)) = log w"
    and "Duck_Name d = r @ ''.'' @ g" "CHR ''.'' \<notin> set r" "g \<noteq> []"
  shows "log (fst (snd (Duck_Sync P fmt_q C (w, d)))) =
      log w @ [TrackedCustomResourceDefinition (Duck_Name d), TrackedAPIService (ds_Version (d_Spec d) @ ''.'' @ g)]
    \<and> (\<forall>e w'. discovery (lib_schema P) C d (track_both (lib_schema P) C d w) = (Err e, w') \<longrightarrow>
        (if lib_IsNotFound P e
         then fst (Duck_Sync P fmt_q C (w, d)) = Ok ()
           \<and> \<not> Duck_cond (lib_cond P) (snd (snd (Duck_Sync P fmt_q C (w, d)))) DuckConditionAvailable
           \<and> \<not> Duck_is_ready (lib_cond P) (snd (snd (Duck_Sync P fmt_q C (w, d))))
         else Duck_Sync P fmt_q C (w, d) = (Err e, (w', d))))"
proof -
  have laws: "schema_laws (lib_schema P)" "condition_laws (lib_cond P)"
    using assms(1) by (simp_all add: lib_laws_def)
  have gvr: "Duck_GroupVersionResource (lib_schema P) d = \<lparr>gvr_Group = g, gvr_Version = ds_Version (d_Spec d), gvr_Resource = r\<rparr>"
    using assms(5,6) laws(1) by (simp add: Duck_GroupVersionResource_def GR_WithVersion_def schema_parse_dot)
  have "log (track_both (lib_schema P) C d w) =
      log w @ [TrackedCustomResourceDefinition (Duck_Name d), TrackedAPIService (ds_Version (d_Spec d) @ ''.'' @ g)]"
    using assms(5,7) laws(1) by (simp add: track_both_def Let_def gvr assms(3) GVR_GroupResource_def schema_print_gr)
  moreover have "fst (snd (Duck_Sync P fmt_q C (w, d))) = snd (discovery (lib_schema P) C d (track_both (lib_schema P) C d w))"
    by (simp add: Duck_Sync_eq [OF assms(2)] split: prod.splits result.splits)
  ultimately have "log (fst (snd (Duck_Sync P fmt_q C (w, d)))) =
      log w @ [TrackedCustomResourceDefinition (Duck_Name d), TrackedAPIService (ds_Version (d_Spec d) @ ''.'' @ g)]"
    by (simp add: discovery_def assms(4))
  then show ?thesis
    by (simp add: Duck_Sync_eq [OF assms(2)] Duck_marks [OF laws(2)] Duck_mark_ready [OF laws(2)])
qed

theorem sync_tracks_and_errors_witness:
  "fst (snd (Duck_Sync libs_ref id ctl_ref ([], demo_deployment))) =
     [TrackedCustomResourceDefinition ''deployments.apps'', TrackedAPIService ''v1.apps'']
 \<and> fst (Duck_Sync libs_ref id (ctl_ref\<lparr>ctl_ServerResourcesForGroupVersion := (\<lambda>gv w. (Err Conflict, w))\<rparr>) ([], demo_deployment)) = Err Conflict"
proof -
  let ?C = "ctl_ref\<lparr>ctl_ServerResourcesForGroupVersion := (\<lambda>gv w. (Err Conflict, w))\<rparr>"
  have name: "Duck_Name demo_deployment = ''deployments'' @ ''.'' @ ''apps''" by (simp add: demo_names)
  have laws: "id (snd (ctl_TrackObject C t x w)) = id w @ [t]" "id (snd (ctl_ServerResourcesForGroupVersion C gv w)) = id w"
      "tracker_returns C" if "C = ctl_ref \<or> C = ?C" for C t x w gv
    using that by (auto simp: ctl_ref_def tracker_returns_def)
  have disc: "discovery (lib_schema libs_ref) ?C demo_deployment v = (Err Conflict, v)" for v
    by (simp add: discovery_def)
  show ?thesis
    using sync_tracks_and_errors [OF libs_ref_laws laws(3) laws(1) laws(2) name, of ctl_ref id "[]"]
      sync_tracks_and_errors [OF libs_ref_laws laws(3) laws(1) laws(2) name, of ?C id "[]"] disc
    by (simp add: demo_names demo_specs libs_ref_def)
qed



text \<open>
  Property C30.  The sub-reconciler of duck types starts what it must.  A duck type that carries the finalizer
  the outer reconciler adds is never turned away for a missing finalizer; unless it is already running, its
  sub-manager is created for the duck kind and the list kind of the type and set up for version \<open>v1\<close> of the
  kind.  A cache with these local kinds serves exactly the ducks of this type and their lists itself, and
  every other kind from upstream.
\<close>

theorem duck_submanager_is_started:
  assumes "DuckTypeReconciler_Finalizer \<in> set (om_Finalizers (dt_ObjectMeta dt))" "om_DeletionTimestamp (dt_ObjectMeta dt) = None"
    and "smr_initOnce r" "smr_managers r = Some m" "smr_mgr r = Some M"
    and "smr_AssertFinalizer r = DuckSubReconciler_AssertFinalizer" "m (om_UID (dt_ObjectMeta dt)) = None"
    and "new M (smr_SyncPeriod r) (DuckSubReconciler_LocalTypes dt) w = (Ok sub, w1)"
    and "SetupDuckReconciler sub (DuckSubReconciler_typeMeta L dt) w1 = (Ok (), w2)"
  shows "\<exists>r'. smr_Reconcile (DuckSubReconciler SetupDuckReconciler L new) dt (w, r) = (Ok Returned, (w2, r'))
    \<and> smr_manager_of r' (om_UID (dt_ObjectMeta dt)) = Some (smr_next r) \<and> smr_procs r' (smr_next r) = Some Running
    \<and> DuckSubReconciler_typeMeta L dt = DuckSpec_TypeMeta L \<lparr>ds_Group = dts_Group (dt_Spec dt), ds_Version = ''v1'', ds_Kind = dts_Kind (dt_Spec dt)\<rparr>
    \<and> (\<forall>c gvk. c_localTypes c = set (DuckSubReconciler_LocalTypes dt) \<longrightarrow>
        (Cache_isLocalKind (c :: ('l, 'u, 'ce, 'o, 'k, 'opt, 'i, 'f) Cache) gvk \<longleftrightarrow>
           gvk_Group gvk = dts_Group (dt_Spec dt) \<and> gvk_Kind gvk \<in> {dts_Kind (dt_Spec dt), dts_ListKind (dt_Spec dt)}))"
proof -
  let ?r = "r\<lparr>smr_managers := Some (m(om_UID (dt_ObjectMeta dt) \<mapsto> smr_next r)),
      smr_procs := (smr_procs r)(smr_next r \<mapsto> Running), smr_next := Suc (smr_next r)\<rparr>"
  have "smr_AssertFinalizer r \<in> set (om_Finalizers (dt_ObjectMeta dt))"
    using assms(1,6) by (simp add: DuckTypeReconciler_Finalizer_def DuckSubReconciler_AssertFinalizer_def)
  then have "smr_Reconcile (DuckSubReconciler SetupDuckReconciler L new) dt (w, r) = (Ok Returned, (w2, ?r))"
    using assms(2-9) by (simp add: DuckSubReconciler_def smr_Reconcile_def smr_start_def smr_launch_def smr_call_def
        smr_manager_of_def abind_def on_fst_def amap_err_def)
  then show ?thesis
    by (intro exI [of _ ?r]) (auto simp: smr_manager_of_def DuckSubReconciler_typeMeta_def DuckSpec_TypeMeta_def
        Cache_isLocalKind_def DuckSubReconciler_LocalTypes_def GVK_GroupKind_def)
qed

theorem duck_submanager_is_started_witness:
  "\<exists>r'. smr_Reconcile (DuckSubReconciler (\<lambda>sub tm w. (Ok (), w @ [tm_Kind tm])) schema_ref (\<lambda>M period kinds w. (Ok kinds, w)))
      (example_ducktype\<lparr>dt_ObjectMeta := (ObjectMeta_named ''ducks.example.com'')\<lparr>om_UID := ''u'', om_Finalizers := [''duck.reconciler.io/reconciler'']\<rparr>\<rparr>)
      ([], smr_started\<lparr>smr_AssertFinalizer := ''duck.reconciler.io/reconciler'', smr_managers := Some Map.empty\<rparr>)
      = (Ok Returned, ([''Duck''], r')) \<and> smr_manager_of r' ''u'' = Some 1"
proof -
  let ?dt = "example_ducktype\<lparr>dt_ObjectMeta := (ObjectMeta_named ''ducks.example.com'')\<lparr>om_UID := ''u'', om_Finalizers := [''duck.reconciler.io/reconciler'']\<rparr>\<rparr>"
  let ?r = "smr_started\<lparr>smr_AssertFinalizer := ''duck.reconciler.io/reconciler'', smr_managers := Some Map.empty\<rparr>"
  have "DuckTypeReconciler_Finalizer \<in> set (om_Finalizers (dt_ObjectMeta ?dt))" "om_DeletionTimestamp (dt_ObjectMeta ?dt) = None"
    "smr_initOnce ?r" "smr_managers ?r = Some Map.empty" "smr_mgr ?r = Some ()"
    "smr_AssertFinalizer ?r = DuckSubReconciler_AssertFinalizer" "Map.empty (om_UID (dt_ObjectMeta ?dt)) = None"
    by (simp_all add: DuckTypeReconciler_Finalizer_def DuckSubReconciler_AssertFinalizer_def GroupVersion_Group_def
        ObjectMeta_named_def smr_started_def smr_ref_def)
  from duck_submanager_is_started [OF this, of "\<lambda>M period kinds w. (Ok kinds, w)" "[]" "DuckSubReconciler_LocalTypes ?dt" "[]"
      "\<lambda>sub tm w. (Ok (), w @ [tm_Kind tm])" schema_ref "[''Duck'']"]
  show ?thesis
    by (simp add: DuckSubReconciler_typeMeta_def example_ducktype_def ObjectMeta_named_def smr_started_def) blast
qed

end
