(* ===== verification/Controller_DuckType.thy ===== *)
theory Controller_DuckType
  imports Controller_Ready
begin

text \<open>
  The reconciler of duck types, \<open>DuckTypeReconciler\<close> of \<open>internal/controller/ducktype_controller.go\<close>: under a
  finalizer, the aggregate roles, then the definition, then the sub-manager.  The combinators of
  \<open>reconciler.io/runtime\<close> are a parameter with their documented behaviour as laws.  The state is the
  world, the fields of the sub-manager reconciler and the duck type.
\<close>

section \<open>The reconciler\<close>

datatype 'e dt_error = OfRoles 'e | OfCrd "'e ctl_error" | OfSub "'e smr_error"

type_synonym ('w, 'e, 'M, 'a) dt_act = "(('w \<times> ('e, 'M) SubManagerReconciler) \<times> DuckType, 'e dt_error, 'a) act"

record ('w, 'e, 'M) dt_runtime =
  rtt_Sequence :: "('w, 'e, 'M, outcome) dt_act list \<Rightarrow> ('w, 'e, 'M, outcome) dt_act"
  rtt_WithFinalizer :: "string \<Rightarrow> ('w, 'e, 'M, outcome) dt_act \<Rightarrow> ('w, 'e, 'M, outcome) dt_act"
  rtt_ChildSet :: "(DuckType \<Rightarrow> ClusterRole list) \<Rightarrow> (ClusterRole \<Rightarrow> string) \<Rightarrow> (ClusterRole \<Rightarrow> ClusterRole \<Rightarrow> ClusterRole)
     \<Rightarrow> (ClusterRole \<Rightarrow> ClusterRole \<Rightarrow> ClusterRole) \<Rightarrow> ('e option \<Rightarrow> DuckType \<Rightarrow> 'e option \<times> DuckType) \<Rightarrow> ('w, 'e, 'M, outcome) dt_act"
  rtt_Child :: "(DuckType \<Rightarrow> Crd) \<Rightarrow> (Crd \<Rightarrow> Crd \<Rightarrow> Crd)
     \<Rightarrow> (Crd option \<Rightarrow> 'e option \<Rightarrow> DuckType \<Rightarrow> 'e ctl_error option \<times> DuckType) \<Rightarrow> ('w, 'e, 'M, outcome) dt_act"

definition DuckClusterRoleChildSetReconciler :: "('w, 'e, 'M) dt_runtime \<Rightarrow> ('e, 'z) libs_scheme \<Rightarrow> ('w, 'e, 'M, outcome) dt_act" where
  "DuckClusterRoleChildSetReconciler R P =
     rtt_ChildSet R DuckType_DesiredRoles DuckType_IdentifyRole DuckType_HarmonizeRole DuckType_MergeRole (DuckType_ReflectRoles P)"

definition DuckCustomResourceDefinitionChildReconciler ::
  "('w, 'e, 'M) dt_runtime \<Rightarrow> ('e, 'z) libs_scheme \<Rightarrow> ('e \<Rightarrow> string \<times> string) \<Rightarrow> ('w, 'e, 'M, outcome) dt_act" where
  "DuckCustomResourceDefinitionChildReconciler R P details =
     rtt_Child R DuckType_DesiredCrd DuckType_MergeCrd (DuckType_ReflectCrd P details)"

definition DuckSubReconciler_step :: "('w, 'e, DuckType, 'm, 'M) smr_ops \<Rightarrow> ('w, 'e, 'M, outcome) dt_act" where
  "DuckSubReconciler_step S ws = (case smr_Reconcile S (snd ws) (fst ws) of (res, s') \<Rightarrow>
     (case res of Ok a \<Rightarrow> Ok a | Err e \<Rightarrow> Err (OfSub e) | Panic p \<Rightarrow> Panic p, (s', snd ws)))"

definition DuckTypeReconciler ::
  "('w, 'e, 'M) dt_runtime \<Rightarrow> ('e, 'z) libs_scheme \<Rightarrow> ('e \<Rightarrow> string \<times> string) \<Rightarrow> ('w, 'e, DuckType, 'm, 'M) smr_ops
     \<Rightarrow> ('w, 'e, 'M, outcome) dt_act" where
  "DuckTypeReconciler R P details S = rtt_WithFinalizer R DuckTypeReconciler_Finalizer (rtt_Sequence R
     [DuckClusterRoleChildSetReconciler R P, DuckCustomResourceDefinitionChildReconciler R P details, DuckSubReconciler_step S])"

section \<open>Laws of the runtime\<close>

text \<open>
  A sequence runs its members in order and stops at the first error.  With the finalizer in place and no
  deletion, the wrapped reconciler runs as it is.  A child reconciler either fails on its own, with the duck
  type as it was, or calls its reflect function once, with the child it observed and the error it met, and
  returns the error it returns; it does not touch the sub-manager reconciler.
\<close>

definition reflected :: "('x \<Rightarrow> 'e dt_error) \<Rightarrow> 'x option \<times> DuckType \<Rightarrow> 's \<Rightarrow> ('e dt_error, outcome) result \<times> ('s \<times> DuckType)" where
  "reflected f out s = (case fst out of None \<Rightarrow> Ok Returned | Some e \<Rightarrow> Err (f e), (s, snd out))"

definition dt_runtime_laws :: "('w, 'e, 'M) dt_runtime \<Rightarrow> bool" where
  "dt_runtime_laws R \<longleftrightarrow>
     (\<forall>rs. rs \<noteq> [] \<longrightarrow> rtt_Sequence R rs = foldr (\<lambda>r k. abind r (\<lambda>_. k)) (butlast rs) (last rs))
   \<and> (\<forall>f r s dt. f \<in> set (om_Finalizers (dt_ObjectMeta dt)) \<longrightarrow> om_DeletionTimestamp (dt_ObjectMeta dt) = None \<longrightarrow>
        rtt_WithFinalizer R f r (s, dt) = r (s, dt))
   \<and> (\<forall>desired ident harm merge reflect w r dt. \<exists>w' out. rtt_ChildSet R desired ident harm merge reflect ((w, r), dt) = reflected OfRoles out (w', r)
        \<and> ((\<exists>e. out = (Some e, dt)) \<or> (\<exists>err. out = reflect err dt)))
   \<and> (\<forall>desired merge reflect w r dt. \<exists>w' out. rtt_Child R desired merge reflect ((w, r), dt) = reflected OfCrd out (w', r)
        \<and> ((\<exists>e. out = (Some e, dt)) \<or> (\<exists>child err. out = reflect child err dt)))"

lemma reflected_eq [simp]:
  "reflected f (None, d) s = (Ok Returned, (s, d))" "reflected f (Some e, d) s = (Err (f e), (s, d))"
  by (simp_all add: reflected_def)

text \<open>A sub-manager reconcile of a duck type with its finalizer ends with a sub-manager or with an error of a callee.\<close>

lemma sub_reconcile_ok:
  fixes SetupDuckReconciler :: "'m \<Rightarrow> TypeMeta \<Rightarrow> ('w, 'e, unit) act" and new :: "'M \<Rightarrow> nat option \<Rightarrow> GroupKind list \<Rightarrow> ('w, 'e, 'm) act"
  assumes "DuckTypeReconciler_Finalizer \<in> set (om_Finalizers (dt_ObjectMeta dt))" "om_DeletionTimestamp (dt_ObjectMeta dt) = None"
    and "smr_initOnce r" "smr_managers r = Some m" "smr_AssertFinalizer r = DuckSubReconciler_AssertFinalizer"
    and "smr_Reconcile (DuckSubReconciler SetupDuckReconciler L new) dt (w, r) = (res, (w', r'))"
  shows "(\<forall>a. res = Ok a \<longrightarrow> a = Returned \<and> smr_manager_of r' (om_UID (dt_ObjectMeta dt)) \<noteq> None)
    \<and> (\<forall>e. res = Err e \<longrightarrow> (\<exists>e'. e = OpError e'))"
proof -
  let ?S = "DuckSubReconciler SetupDuckReconciler L new" and ?uid = "om_UID (dt_ObjectMeta dt)"
  have fin: "smr_AssertFinalizer r \<in> set (om_Finalizers (dt_ObjectMeta dt))"
    using assms(1,5) by (simp add: DuckTypeReconciler_Finalizer_def DuckSubReconciler_AssertFinalizer_def)
  show ?thesis
  proof (cases "m ?uid")
    case None
    then have "smr_start ?S dt (w, r) = (res, (w', r'))"
      using assms(2-4,6) fin by (simp add: smr_Reconcile_def DuckSubReconciler_def smr_init_def abind_def smr_manager_of_def)
    then show ?thesis
      using assms(4) by (auto simp: smr_start_def DuckSubReconciler_def smr_call_def smr_launch_def smr_manager_of_def on_fst_def
          abind_def amap_err_def split: prod.splits result.splits option.splits)
  next
    case (Some pid)
    then show ?thesis
      using assms(2-4,6) fin by (simp add: smr_Reconcile_def DuckSubReconciler_def smr_init_def abind_def smr_manager_of_def) auto
  qed
qed

text \<open>The two child reconcilers: what they return and what they may have done to the status.\<close>

lemma dt_roles_run:
  assumes "lib_laws P" "dt_runtime_laws R"
  obtains e dt' w' where "DuckClusterRoleChildSetReconciler R P ((w, r), dt) = reflected OfRoles (e, dt') (w', r)"
    "dt_Spec dt' = dt_Spec dt" "dt_ObjectMeta dt' = dt_ObjectMeta dt"
    "DuckType_cond (lib_cond P) dt' DuckTypeConditionCustomResourceDefinitionEstablished \<longleftrightarrow>
       DuckType_cond (lib_cond P) dt DuckTypeConditionCustomResourceDefinitionEstablished"
    "e \<noteq> None \<longrightarrow> dt' = dt \<or> \<not> DuckType_is_ready (lib_cond P) dt'"
    "e = None \<longrightarrow> (DuckType_is_ready (lib_cond P) dt' \<longrightarrow>
       DuckType_cond (lib_cond P) dt DuckTypeConditionCustomResourceDefinitionEstablished)"
proof -
  have laws: "condition_laws (lib_cond P)" using assms(1) by (simp add: lib_laws_def)
  obtain w' out where out: "DuckClusterRoleChildSetReconciler R P ((w, r), dt) = reflected OfRoles out (w', r)"
      "(\<exists>e. out = (Some e, dt)) \<or> (\<exists>err. out = DuckType_ReflectRoles P err dt)"
    using assms(2) unfolding dt_runtime_laws_def DuckClusterRoleChildSetReconciler_def by meson
  obtain e dt' where e: "out = (e, dt')" by fastforce
  from out(2) show ?thesis
  proof (elim disjE exE)
    fix e' assume "out = (Some e', dt)"
    then show ?thesis using that [of e dt' w'] out(1) e by simp
  next
    fix err assume "out = DuckType_ReflectRoles P err dt"
    then have r: "DuckType_ReflectRoles P err dt = (e, dt')" using e by simp
    show ?thesis
    proof (rule that [of e dt' w'])
      show "DuckClusterRoleChildSetReconciler R P ((w, r), dt) = reflected OfRoles (e, dt') (w', r)" using out(1) e by simp
    qed (use r in \<open>auto simp: DuckType_ReflectRoles_def DuckType_marks [OF laws] DuckType_mark_ready [OF laws]
        DuckTypeConditionRBAC_def DuckTypeConditionCustomResourceDefinitionEstablished_def split: option.splits if_splits\<close>)
  qed
qed

lemma dt_crd_run:
  assumes "lib_laws P" "dt_runtime_laws R"
  obtains e dt' w' where "DuckCustomResourceDefinitionChildReconciler R P details ((w, r), dt) = reflected OfCrd (e, dt') (w', r)"
    "dt_Spec dt' = dt_Spec dt" "dt_ObjectMeta dt' = dt_ObjectMeta dt"
    "e \<noteq> None \<longrightarrow> dt' = dt \<or> \<not> DuckType_is_ready (lib_cond P) dt'"
    "e = None \<longrightarrow> (DuckType_is_ready (lib_cond P) dt' \<longleftrightarrow> DuckType_cond (lib_cond P) dt' DuckTypeConditionRBAC
       \<and> DuckType_cond (lib_cond P) dt' DuckTypeConditionCustomResourceDefinitionEstablished)"
proof -
  have laws: "condition_laws (lib_cond P)" using assms(1) by (simp add: lib_laws_def)
  obtain w' out where out: "DuckCustomResourceDefinitionChildReconciler R P details ((w, r), dt) = reflected OfCrd out (w', r)"
      "(\<exists>e. out = (Some e, dt)) \<or> (\<exists>child err. out = DuckType_ReflectCrd P details child err dt)"
    using assms(2) unfolding dt_runtime_laws_def DuckCustomResourceDefinitionChildReconciler_def by meson
  obtain e dt' where e: "out = (e, dt')" by fastforce
  from out(2) show ?thesis
  proof (elim disjE exE)
    fix e' assume "out = (Some e', dt)"
    then show ?thesis using that [of e dt' w'] out(1) e by simp
  next
    fix child err assume "out = DuckType_ReflectCrd P details child err dt"
    then have r: "DuckType_ReflectCrd P details child err dt = (e, dt')" using e by simp
    note f = ReflectCrd_facts [OF laws r]
    show ?thesis
      using that [of e dt' w'] out(1) e f by auto
  qed
qed

text \<open>A runtime whose children are written without an error and whose definition is established.\<close>

definition dt_runtime_ref :: "(string list, api_error, unit) dt_runtime" where
  "dt_runtime_ref = \<lparr>rtt_Sequence = (\<lambda>rs. foldr (\<lambda>r k. abind r (\<lambda>_. k)) (butlast rs) (last rs)),
     rtt_WithFinalizer = (\<lambda>f r. r),
     rtt_ChildSet = (\<lambda>desired ident harm merge reflect (s, dt). reflected OfRoles (reflect None dt) s),
     rtt_Child = (\<lambda>desired merge reflect (s, dt). reflected OfCrd (reflect (Some ((desired dt)\<lparr>crd_Conditions :=
        [\<lparr>cc_Type = ''Established'', cc_Status = ''True'', cc_Reason = []\<rparr>]\<rparr>)) None dt) s)\<rparr>"

lemma dt_runtime_ref_laws: "dt_runtime_laws dt_runtime_ref"
  unfolding dt_runtime_laws_def dt_runtime_ref_def dt_runtime.simps prod.case by blast

definition finalized_ducktype :: DuckType where
  "finalized_ducktype = example_ducktype\<lparr>dt_ObjectMeta :=
     (ObjectMeta_named ''ducks.example.com'')\<lparr>om_UID := ''u'', om_Finalizers := [''duck.reconciler.io/reconciler'']\<rparr>\<rparr>"

definition dt_smr_ref :: "(api_error, unit) SubManagerReconciler" where
  "dt_smr_ref = \<lparr>smr_Name = ''SubManagerReconciler'', smr_SyncPeriod = Some 36000000000000,
     smr_AssertFinalizer = DuckSubReconciler_AssertFinalizer, smr_initOnce = True,
     smr_mgr = Some (), smr_managers = Some Map.empty, smr_procs = Map.empty, smr_next = 0, smr_cancelled = {}\<rparr>"

section \<open>Properties\<close>

text \<open>
  Property C9.  Reconciling a duck type that carries its finalizer and is not deleted runs roles, definition
  and sub-manager in this order.  If the roles or the definition end in an error, no sub-manager is touched, and
  the duck type does not become ready on it: after an error of the roles it is as it was or not ready, after
  an error of the definition it is ready only if its definition was established before.  If all ends well, the
  duck type is ready exactly when its roles and its definition are established, and it has a sub-manager.
  The spec and metadata are never changed, and the sub-manager never reports a missing finalizer.
\<close>

theorem ducktype_reconcile_order:
  fixes SetupDuckReconciler :: "'m \<Rightarrow> TypeMeta \<Rightarrow> ('w, 'e, unit) act" and new :: "'M \<Rightarrow> nat option \<Rightarrow> GroupKind list \<Rightarrow> ('w, 'e, 'm) act"
  assumes "lib_laws P" "dt_runtime_laws R"
    and "DuckTypeReconciler_Finalizer \<in> set (om_Finalizers (dt_ObjectMeta dt))" "om_DeletionTimestamp (dt_ObjectMeta dt) = None"
    and "smr_initOnce r" "smr_managers r = Some m" "smr_AssertFinalizer r = DuckSubReconciler_AssertFinalizer"
    and "DuckTypeReconciler R P details (DuckSubReconciler SetupDuckReconciler L new) ((w, r), dt) = (res, ((w', r'), dt'))"
  shows "dt_Spec dt' = dt_Spec dt \<and> dt_ObjectMeta dt' = dt_ObjectMeta dt
    \<and> (case res of
        Ok a \<Rightarrow> a = Returned \<and> smr_manager_of r' (om_UID (dt_ObjectMeta dt)) \<noteq> None
          \<and> (DuckType_is_ready (lib_cond P) dt' \<longleftrightarrow> DuckType_cond (lib_cond P) dt' DuckTypeConditionRBAC
               \<and> DuckType_cond (lib_cond P) dt' DuckTypeConditionCustomResourceDefinitionEstablished)
      | Err (OfRoles e) \<Rightarrow> r' = r \<and> (dt' = dt \<or> \<not> DuckType_is_ready (lib_cond P) dt')
      | Err (OfCrd e) \<Rightarrow> r' = r \<and> (DuckType_is_ready (lib_cond P) dt' \<longrightarrow>
          DuckType_cond (lib_cond P) dt DuckTypeConditionCustomResourceDefinitionEstablished)
      | Err (OfSub e) \<Rightarrow> \<exists>e'. e = OpError e'
      | Panic p \<Rightarrow> True)"
proof -
  let ?S = "DuckSubReconciler SetupDuckReconciler L new"
  have run: "abind (DuckClusterRoleChildSetReconciler R P) (\<lambda>_. abind (DuckCustomResourceDefinitionChildReconciler R P details)
      (\<lambda>_. DuckSubReconciler_step ?S)) ((w, r), dt) = (res, ((w', r'), dt'))"
    using assms(2-4,8) by (simp add: dt_runtime_laws_def DuckTypeReconciler_def)
  obtain e1 dt1 w1 where roles: "DuckClusterRoleChildSetReconciler R P ((w, r), dt) = reflected OfRoles (e1, dt1) (w1, r)"
      and f1: "dt_Spec dt1 = dt_Spec dt" "dt_ObjectMeta dt1 = dt_ObjectMeta dt"
        "e1 \<noteq> None \<longrightarrow> dt1 = dt \<or> \<not> DuckType_is_ready (lib_cond P) dt1"
        "e1 = None \<longrightarrow> (DuckType_is_ready (lib_cond P) dt1 \<longrightarrow>
           DuckType_cond (lib_cond P) dt DuckTypeConditionCustomResourceDefinitionEstablished)"
    by (rule dt_roles_run [OF assms(1,2)]) blast
  obtain e2 dt2 w2 where crd: "DuckCustomResourceDefinitionChildReconciler R P details ((w1, r), dt1) = reflected OfCrd (e2, dt2) (w2, r)"
      and f2: "dt_Spec dt2 = dt_Spec dt1" "dt_ObjectMeta dt2 = dt_ObjectMeta dt1"
        "e2 \<noteq> None \<longrightarrow> dt2 = dt1 \<or> \<not> DuckType_is_ready (lib_cond P) dt2"
        "e2 = None \<longrightarrow> (DuckType_is_ready (lib_cond P) dt2 \<longleftrightarrow> DuckType_cond (lib_cond P) dt2 DuckTypeConditionRBAC
           \<and> DuckType_cond (lib_cond P) dt2 DuckTypeConditionCustomResourceDefinitionEstablished)"
    by (rule dt_crd_run [OF assms(1,2)]) blast
  consider (rolesf) e where "e1 = Some e" | (crdf) e where "e1 = None" "e2 = Some e" | (sub) "e1 = None" "e2 = None"
    by (cases e1; cases e2) auto
  then show ?thesis
  proof cases
    case rolesf
    then have "res = Err (OfRoles e)" "r' = r" "dt' = dt1" using run roles by (auto simp: abind_def)
    with rolesf f1 show ?thesis by simp
  next
    case crdf
    then have "res = Err (OfCrd e)" "r' = r" "dt' = dt2"
      using run roles crd by (auto simp: abind_def)
    with crdf f1 f2 show ?thesis by auto
  next
    case sub
    then obtain res' where s: "smr_Reconcile ?S dt2 (w2, r) = (res', (w', r'))" "dt' = dt2"
        "res = (case res' of Ok a \<Rightarrow> Ok a | Err e \<Rightarrow> Err (OfSub e) | Panic p \<Rightarrow> Panic p)"
      using run roles crd by (auto simp: abind_def DuckSubReconciler_step_def split: prod.splits)
    have meta: "dt_ObjectMeta dt2 = dt_ObjectMeta dt" using f1 f2 by simp
    from sub_reconcile_ok [of dt2 r m SetupDuckReconciler L new w2 res' w' r'] s(1) assms(3-7) meta
    show ?thesis using s(2,3) f1(1) f2(1,4) sub by (cases res') auto
  qed
qed

theorem ducktype_reconcile_order_witness:
  "\<exists>w' r' dt'. DuckTypeReconciler dt_runtime_ref libs_ref (\<lambda>_. ([], []))
        (DuckSubReconciler (\<lambda>sub tm w. (Ok (), w @ [tm_Kind tm])) schema_ref (\<lambda>M period kinds w. (Ok kinds, w)))
        (([], dt_smr_ref), finalized_ducktype)
      = (Ok Returned, ((w', r'), dt'))
     \<and> DuckType_is_ready cond_ref dt' \<and> smr_manager_of r' ''u'' \<noteq> None \<and> dt_Spec dt' = dt_Spec finalized_ducktype"
proof -
  let ?S = "DuckSubReconciler (\<lambda>sub tm w. (Ok (), w @ [tm_Kind tm])) schema_ref (\<lambda>M period kinds w. (Ok kinds, w))"
  let ?child = "\<lambda>dt. (DuckType_DesiredCrd dt)\<lparr>crd_Conditions := [\<lparr>cc_Type = ''Established'', cc_Status = ''True'', cc_Reason = []\<rparr>]\<rparr>"
  have hyps: "DuckTypeReconciler_Finalizer \<in> set (om_Finalizers (dt_ObjectMeta finalized_ducktype))"
    "om_DeletionTimestamp (dt_ObjectMeta finalized_ducktype) = None"
    "smr_initOnce dt_smr_ref" "smr_managers dt_smr_ref = Some Map.empty" "smr_AssertFinalizer dt_smr_ref = DuckSubReconciler_AssertFinalizer"
    by (simp_all add: DuckTypeReconciler_Finalizer_def DuckSubReconciler_AssertFinalizer_def GroupVersion_Group_def
        finalized_ducktype_def ObjectMeta_named_def dt_smr_ref_def)
  have laws: "condition_laws (lib_cond libs_ref)" using libs_ref_laws by (simp add: lib_laws_def)
  have est: "established_status (?child dt) = ''True''" for dt by (simp add: established_status_def)
  obtain dt1 where 1: "DuckType_ReflectRoles libs_ref None finalized_ducktype = (None, dt1)"
    by (simp add: DuckType_ReflectRoles_def)
  obtain dt2 where 2: "DuckType_ReflectCrd libs_ref (\<lambda>_. ([], [])) (Some (?child dt1)) None dt1 = (None, dt2)"
    using est by (simp add: DuckType_ReflectCrd_def)
  note f = ReflectRoles_facts [OF laws 1] ReflectCrd_facts [OF laws 2]
  have meta: "dt_ObjectMeta dt2 = dt_ObjectMeta finalized_ducktype" "dt_Spec dt2 = dt_Spec finalized_ducktype" using f by simp_all
  obtain w' r' where sub: "smr_Reconcile ?S dt2 ([], dt_smr_ref) = (Ok Returned, (w', r'))"
    using meta by (simp add: DuckSubReconciler_def smr_eval dt_smr_ref_def finalized_ducktype_def DuckSubReconciler_AssertFinalizer_def GroupVersion_Group_def)
  have run: "DuckTypeReconciler dt_runtime_ref libs_ref (\<lambda>_. ([], [])) ?S (([], dt_smr_ref), finalized_ducktype) = (Ok Returned, ((w', r'), dt2))"
    using 1 2 sub by (simp add: DuckTypeReconciler_def dt_runtime_ref_def DuckClusterRoleChildSetReconciler_def
        DuckCustomResourceDefinitionChildReconciler_def DuckSubReconciler_step_def abind_def)
  have "DuckType_is_ready cond_ref dt2" using f est by (simp add: libs_ref_def)
  moreover have "om_UID (dt_ObjectMeta finalized_ducktype) = ''u''" by (simp add: finalized_ducktype_def)
  ultimately show ?thesis
    using ducktype_reconcile_order [OF libs_ref_laws dt_runtime_ref_laws hyps run] run by simp
qed

end
