(* ===== verification/Go_Heap.thy ===== *)
theory Go_Heap
  imports Go_Prelude
begin

text \<open>
  Memory that Go values share: a heap of cells with an allocation limit, slices as windows on
  backing arrays, pointers, and the interface of a deep copy.  A value is seen through its view,
  the plain data it denotes in a heap; its references are the addresses its view depends on.  The
  interface says what a deep copy promises: the copy denotes the same data, lives in memory that
  did not exist before and leaves all older memory alone.  Structs, slices and pointers of values
  with a deep copy have one again.
\<close>

section \<open>Heaps\<close>

record 'c heap =
  hp_cells :: "nat \<Rightarrow> 'c"
  hp_next :: nat

definition halloc :: "'c \<Rightarrow> 'c heap \<Rightarrow> nat \<times> 'c heap" where
  "halloc c h = (hp_next h, h\<lparr>hp_cells := (hp_cells h)(hp_next h := c), hp_next := Suc (hp_next h)\<rparr>)"

definition hwrite :: "nat \<Rightarrow> 'c \<Rightarrow> 'c heap \<Rightarrow> 'c heap" where
  "hwrite a c h = h\<lparr>hp_cells := (hp_cells h)(a := c)\<rparr>"

text \<open>Later heaps in which all older memory is as it was.\<close>

definition extends :: "'c heap \<Rightarrow> 'c heap \<Rightarrow> bool" where
  "extends h h' \<longleftrightarrow> hp_next h \<le> hp_next h' \<and> (\<forall>a < hp_next h. hp_cells h' a = hp_cells h a)"

lemma hwrite_simps [simp]:
  "hp_next (hwrite a c h) = hp_next h" "hp_cells (hwrite a c h) b = (if b = a then c else hp_cells h b)"
  by (simp_all add: hwrite_def)

lemma halloc_simps [simp]:
  "fst (halloc c h) = hp_next h" "hp_next (snd (halloc c h)) = Suc (hp_next h)"
  "hp_cells (snd (halloc c h)) b = (if b = hp_next h then c else hp_cells h b)"
  by (simp_all add: halloc_def)

lemma extends_refl [simp]: "extends h h"
  by (simp add: extends_def)

lemma extends_trans [trans]: "extends h1 h2 \<Longrightarrow> extends h2 h3 \<Longrightarrow> extends h1 h3"
  by (simp add: extends_def)

lemma extends_alloc: "extends h (snd (halloc c h))"
  by (simp add: extends_def)

lemma extends_write: "extends h h' \<Longrightarrow> hp_next h \<le> a \<Longrightarrow> extends h (hwrite a c h')"
  by (simp add: extends_def)

lemma extendsD: "extends h h' \<Longrightarrow> a < hp_next h \<Longrightarrow> hp_cells h' a = hp_cells h a"
  and extends_next: "extends h h' \<Longrightarrow> hp_next h \<le> hp_next h'"
  by (simp_all add: extends_def)

section \<open>Slices\<close>

text \<open>
  A slice is nil or a window on a backing array: the address of the array and the number of
  elements in the window, which starts at the beginning of the array.  The length of the array is
  the capacity.  The functions \<open>mk\<close> and \<open>un\<close> put an array into a cell and take it out.
\<close>

type_synonym slice = "(nat \<times> nat) option"

definition slice_elems :: "('c \<Rightarrow> 'x list) \<Rightarrow> 'c heap \<Rightarrow> slice \<Rightarrow> 'x list" where
  "slice_elems un h s = (case s of None \<Rightarrow> [] | Some (a, n) \<Rightarrow> take n (un (hp_cells h a)))"

text \<open>\<open>s[i] = x\<close> for an index in range.\<close>

definition slice_set :: "('x list \<Rightarrow> 'c) \<Rightarrow> ('c \<Rightarrow> 'x list) \<Rightarrow> slice \<Rightarrow> nat \<Rightarrow> 'x \<Rightarrow> 'c heap \<Rightarrow> 'c heap" where
  "slice_set mk un s i x h = (case s of None \<Rightarrow> h | Some (a, n) \<Rightarrow> hwrite a (mk ((un (hp_cells h a))[i := x])) h)"

text \<open>
  \<open>append(s, x)\<close> writes into spare capacity if there is some; otherwise it moves the elements to
  a new array, whose spare capacity \<open>grow\<close> is the choice of the Go runtime.
\<close>

definition slice_append ::
  "(nat \<Rightarrow> nat) \<Rightarrow> 'x \<Rightarrow> ('x list \<Rightarrow> 'c) \<Rightarrow> ('c \<Rightarrow> 'x list) \<Rightarrow> slice \<Rightarrow> 'x \<Rightarrow> 'c heap \<Rightarrow> slice \<times> 'c heap" where
  "slice_append grow zero mk un s x h = (case s of
     Some (a, n) \<Rightarrow>
       if n < length (un (hp_cells h a)) then (Some (a, Suc n), hwrite a (mk ((un (hp_cells h a))[n := x])) h)
       else (case halloc (mk (take n (un (hp_cells h a)) @ [x] @ replicate (grow n) zero)) h of (b, h') \<Rightarrow> (Some (b, Suc n), h'))
   | None \<Rightarrow> (case halloc (mk ([x] @ replicate (grow 0) zero)) h of (b, h') \<Rightarrow> (Some (b, 1), h')))"

section \<open>The interface of a deep copy\<close>

locale deep_copyable =
  fixes view :: "'c heap \<Rightarrow> 'v \<Rightarrow> 'a"
    and refs :: "'c heap \<Rightarrow> 'v \<Rightarrow> nat set"
    and ok :: "'c heap \<Rightarrow> 'v \<Rightarrow> bool"
    and copy :: "'v \<Rightarrow> 'c heap \<Rightarrow> 'v \<times> 'c heap"
  assumes live: "ok h v \<Longrightarrow> refs h v \<subseteq> {..<hp_next h}"
    and copies: "ok h v \<Longrightarrow> copy v h = (v', h') \<Longrightarrow>
      extends h h' \<and> ok h' v' \<and> view h' v' = view h v \<and> refs h' v' \<subseteq> {hp_next h..<hp_next h'}"
    and local_ok: "ok h v \<Longrightarrow> (\<And>a. a \<in> refs h v \<Longrightarrow> hp_cells h2 a = hp_cells h a) \<Longrightarrow> hp_next h \<le> hp_next h2 \<Longrightarrow>
      ok h2 v \<and> view h2 v = view h v \<and> refs h2 v = refs h v"
begin

lemma stable: "ok h v \<Longrightarrow> extends h h' \<Longrightarrow> ok h' v \<and> view h' v = view h v \<and> refs h' v = refs h v"
  using live by (intro local_ok) (auto simp: extends_def)

lemma unread: "ok h v \<Longrightarrow> a \<notin> refs h v \<Longrightarrow> view (hwrite a c h) v = view h v"
  using local_ok [of h v "hwrite a c h"] by fastforce

lemma copy_independent:
  assumes "ok h v" "copy v h = (v', h')"
  shows "view h' v = view h v" "view h' v' = view h v"
    and "a \<in> refs h' v' \<Longrightarrow> view (hwrite a c h') v = view h v"
    and "a < hp_next h \<Longrightarrow> view (hwrite a c h') v' = view h v"
proof -
  note c = copies [OF assms]
  note s = stable [OF assms(1) conjunct1 [OF c]]
  show "view h' v = view h v" "view h' v' = view h v" using s c by simp_all
  show "view (hwrite a c h') v = view h v" if "a \<in> refs h' v'"
    using unread [of h' v a] s c live [OF assms(1)] that by fastforce
  show "view (hwrite a c h') v' = view h v" if "a < hp_next h"
    using unread [of h' v' a] c that by fastforce
qed

end

section \<open>Structs\<close>

text \<open>A plain value, whose assignment copies it.\<close>

lemma deep_copyable_plain: "deep_copyable (\<lambda>h v. v) (\<lambda>h v. {}) (\<lambda>h v. True) (\<lambda>v h. (v, h))"
  by unfold_locales simp_all

text \<open>Two fields that are copied one after the other.\<close>

definition copy_both ::
  "('x \<Rightarrow> 'c heap \<Rightarrow> 'x \<times> 'c heap) \<Rightarrow> ('y \<Rightarrow> 'c heap \<Rightarrow> 'y \<times> 'c heap) \<Rightarrow> 'x \<times> 'y \<Rightarrow> 'c heap \<Rightarrow> ('x \<times> 'y) \<times> 'c heap" where
  "copy_both C D v h = (case C (fst v) h of (x, h1) \<Rightarrow> case D (snd v) h1 of (y, h2) \<Rightarrow> ((x, y), h2))"

lemma deep_copyable_both:
  assumes "deep_copyable V R W C" "deep_copyable V' R' W' D"
  shows "deep_copyable (\<lambda>h v. (V h (fst v), V' h (snd v))) (\<lambda>h v. R h (fst v) \<union> R' h (snd v))
     (\<lambda>h v. W h (fst v) \<and> W' h (snd v)) (copy_both C D)"
proof
  fix h v v' h'
  assume wf: "W h (fst v) \<and> W' h (snd v)" and run: "copy_both C D v h = (v', h')"
  obtain x h1 where x: "C (fst v) h = (x, h1)" by fastforce
  obtain y h2 where y: "D (snd v) h1 = (y, h2)" by fastforce
  have v': "v' = (x, y)" "h' = h2" using run x y by (simp_all add: copy_both_def)
  note c = deep_copyable.copies [OF assms(1) conjunct1 [OF wf] x]
  note s = deep_copyable.stable [OF assms(2) conjunct2 [OF wf] conjunct1 [OF c]]
  note d = deep_copyable.copies [OF assms(2) conjunct1 [OF s] y]
  have "W h1 x" using c by blast
  note t = deep_copyable.stable [OF assms(1) this conjunct1 [OF d]]
  have "extends h h2" using c d extends_trans by blast
  moreover have "hp_next h \<le> hp_next h1" "hp_next h1 \<le> hp_next h2" using c d extends_next by blast+
  ultimately show "extends h h' \<and> (W h' (fst v') \<and> W' h' (snd v')) \<and>
      (V h' (fst v'), V' h' (snd v')) = (V h (fst v), V' h (snd v)) \<and>
      R h' (fst v') \<union> R' h' (snd v') \<subseteq> {hp_next h..<hp_next h'}"
    using c s d t unfolding v' by fastforce
next
  show "R h (fst v) \<union> R' h (snd v) \<subseteq> {..<hp_next h}" if "W h (fst v) \<and> W' h (snd v)" for h v
    using that deep_copyable.live [OF assms(1)] deep_copyable.live [OF assms(2)] by blast
next
  fix h v and h2 :: "'a heap"
  assume "W h (fst v) \<and> W' h (snd v)" "\<And>a. a \<in> R h (fst v) \<union> R' h (snd v) \<Longrightarrow> hp_cells h2 a = hp_cells h a"
    "hp_next h \<le> hp_next h2"
  then show "(W h2 (fst v) \<and> W' h2 (snd v)) \<and> (V h2 (fst v), V' h2 (snd v)) = (V h (fst v), V' h (snd v)) \<and>
      R h2 (fst v) \<union> R' h2 (snd v) = R h (fst v) \<union> R' h (snd v)"
    using deep_copyable.local_ok [OF assms(1), of h "fst v" h2] deep_copyable.local_ok [OF assms(2), of h "snd v" h2] by simp
qed

text \<open>
  A struct whose fields with references are \<open>p v\<close> and whose other fields are assigned: the copy
  of \<open>v\<close> is \<open>put v x\<close> for the copy \<open>x\<close> of \<open>p v\<close>, and its view is made from the view of \<open>p v\<close> and
  the other fields \<open>q v\<close>.
\<close>

lemma deep_copyable_struct:
  assumes "deep_copyable V R W C"
    and "\<And>h v. view h v = F (q v) (V h (p v))" "\<And>h v. refs h v = R h (p v)" "\<And>h v. ok h v = W h (p v)"
    and "\<And>v h. copy v h = (case C (p v) h of (x, h') \<Rightarrow> (put v x, h'))"
    and "\<And>v x. p (put v x) = x" "\<And>v x. q (put v x) = q v"
  shows "deep_copyable view refs ok copy"
proof
  show "refs h v \<subseteq> {..<hp_next h}" if "ok h v" for h v
    using that deep_copyable.live [OF assms(1)] by (simp add: assms(3,4))
next
  fix h v v' h'
  assume "ok h v" "copy v h = (v', h')"
  then obtain x where "C (p v) h = (x, h')" "v' = put v x" "W h (p v)"
    by (auto simp: assms(4,5) split: prod.splits)
  then show "extends h h' \<and> ok h' v' \<and> view h' v' = view h v \<and> refs h' v' \<subseteq> {hp_next h..<hp_next h'}"
    using deep_copyable.copies [OF assms(1), of h "p v"] by (simp add: assms(2-4,6,7))
next
  show "ok h2 v \<and> view h2 v = view h v \<and> refs h2 v = refs h v"
    if "ok h v" "\<And>a. a \<in> refs h v \<Longrightarrow> hp_cells h2 a = hp_cells h a" "hp_next h \<le> hp_next h2" for h v h2
    using that deep_copyable.local_ok [OF assms(1), of h "p v" h2] by (simp add: assms(2-4))
qed

section \<open>Pointers\<close>

text \<open>
  The shape of the generated \<open>DeepCopy\<close> methods: nil for nil, otherwise a new zero value into
  which the receiver is copied.
\<close>

definition new_copy ::
  "('v \<Rightarrow> 'c) \<Rightarrow> ('c \<Rightarrow> 'v) \<Rightarrow> 'v \<Rightarrow> ('v \<Rightarrow> 'c heap \<Rightarrow> 'v \<times> 'c heap) \<Rightarrow> nat option \<Rightarrow> 'c heap \<Rightarrow> nat option \<times> 'c heap" where
  "new_copy mk un zero into p h = (case p of
     None \<Rightarrow> (None, h)
   | Some a \<Rightarrow> (case halloc (mk zero) h of (out, h1) \<Rightarrow>
       case into (un (hp_cells h1 a)) h1 of (v, h2) \<Rightarrow> (Some out, hwrite out (mk v) h2)))"

definition ptr_view :: "('c \<Rightarrow> 'v) \<Rightarrow> ('c heap \<Rightarrow> 'v \<Rightarrow> 'a) \<Rightarrow> 'c heap \<Rightarrow> nat option \<Rightarrow> 'a option" where
  "ptr_view un V h p = map_option (\<lambda>a. V h (un (hp_cells h a))) p"

definition ptr_refs :: "('c \<Rightarrow> 'v) \<Rightarrow> ('c heap \<Rightarrow> 'v \<Rightarrow> nat set) \<Rightarrow> 'c heap \<Rightarrow> nat option \<Rightarrow> nat set" where
  "ptr_refs un R h p = (case p of None \<Rightarrow> {} | Some a \<Rightarrow> {a} \<union> R h (un (hp_cells h a)))"

definition ptr_wf :: "('c \<Rightarrow> 'v) \<Rightarrow> ('c heap \<Rightarrow> 'v \<Rightarrow> bool) \<Rightarrow> 'c heap \<Rightarrow> nat option \<Rightarrow> bool" where
  "ptr_wf un W h p = (case p of None \<Rightarrow> True | Some a \<Rightarrow> a < hp_next h \<and> W h (un (hp_cells h a)))"

lemma deep_copyable_ptr:
  assumes "deep_copyable V R W C" "\<And>v. un (mk v) = v"
  shows "deep_copyable (ptr_view un V) (ptr_refs un R) (ptr_wf un W) (new_copy mk un zero C)"
proof
  show "ptr_refs un R h p \<subseteq> {..<hp_next h}" if "ptr_wf un W h p" for h p
    using that deep_copyable.live [OF assms(1)] by (auto simp: ptr_refs_def ptr_wf_def split: option.splits)
next
  fix h p p' h'
  assume wf: "ptr_wf un W h p" and run: "new_copy mk un zero C p h = (p', h')"
  show "extends h h' \<and> ptr_wf un W h' p' \<and> ptr_view un V h' p' = ptr_view un V h p \<and> ptr_refs un R h' p' \<subseteq> {hp_next h..<hp_next h'}"
  proof (cases p)
    case None
    then show ?thesis using run by (auto simp: new_copy_def ptr_wf_def ptr_view_def ptr_refs_def)
  next
    case (Some a)
    define h1 where "h1 = snd (halloc (mk zero) h)"
    have h1: "extends h h1" "hp_next h1 = Suc (hp_next h)" "hp_cells h1 a = hp_cells h a"
      using wf Some by (simp_all add: h1_def extends_alloc ptr_wf_def)
    obtain v h2 where v: "C (un (hp_cells h a)) h1 = (v, h2)" by fastforce
    have p': "p' = Some (hp_next h)" "h' = hwrite (hp_next h) (mk v) h2"
      using run Some h1(3) v unfolding new_copy_def by (auto simp: h1_def halloc_def split: prod.splits)
    have W: "W h (un (hp_cells h a))" using wf Some by (simp add: ptr_wf_def)
    note s = deep_copyable.stable [OF assms(1) W h1(1)]
    note c = deep_copyable.copies [OF assms(1) conjunct1 [OF s] v]
    have "hp_cells h' b = hp_cells h2 b" if "b \<in> R h2 v" for b
      using that c h1(2) by (fastforce simp: p')
    then have l: "W h' v \<and> V h' v = V h2 v \<and> R h' v = R h2 v"
      using c by (intro deep_copyable.local_ok [OF assms(1)]) (simp_all add: p')
    have "extends h h2" using h1(1) c extends_trans by blast
    then have "extends h h'" unfolding p' by (simp add: extends_write)
    moreover have "Suc (hp_next h) \<le> hp_next h2" using c h1(2) extends_next by fastforce
    ultimately show ?thesis
      using l c s h1(2) Some by (fastforce simp: ptr_wf_def ptr_view_def ptr_refs_def p' assms(2))
  qed
next
  fix h p and h2 :: "'a heap"
  assume a: "ptr_wf un W h p" "\<And>a. a \<in> ptr_refs un R h p \<Longrightarrow> hp_cells h2 a = hp_cells h a" "hp_next h \<le> hp_next h2"
  show "ptr_wf un W h2 p \<and> ptr_view un V h2 p = ptr_view un V h p \<and> ptr_refs un R h2 p = ptr_refs un R h p"
  proof (cases p)
    case (Some b)
    then have "hp_cells h2 b = hp_cells h b" using a(2) by (simp add: ptr_refs_def)
    then show ?thesis
      using a Some deep_copyable.local_ok [OF assms(1), of h "un (hp_cells h b)" h2]
      by (simp add: ptr_refs_def ptr_view_def ptr_wf_def)
  qed (simp add: ptr_wf_def ptr_view_def ptr_refs_def)
qed

section \<open>Copies of slices\<close>

text \<open>
  The shape of the generated loops: \<open>for i := range *in { (*in)[i].DeepCopyInto(&(*out)[i]) }\<close>,
  with \<open>*in\<close> at \<open>a\<close> and \<open>*out\<close> at \<open>b\<close>, after \<open>*out = make([]T, len(*in))\<close>.
\<close>

fun copy_items ::
  "('v list \<Rightarrow> 'c) \<Rightarrow> ('c \<Rightarrow> 'v list) \<Rightarrow> ('v \<Rightarrow> 'c heap \<Rightarrow> 'v \<times> 'c heap) \<Rightarrow> nat \<Rightarrow> nat \<Rightarrow> nat list \<Rightarrow> 'c heap \<Rightarrow> 'c heap" where
  "copy_items mk un into a b [] h = h"
| "copy_items mk un into a b (i # is) h = (case into (un (hp_cells h a) ! i) h of (x, h1) \<Rightarrow>
     copy_items mk un into a b is (hwrite b (mk ((un (hp_cells h1 b))[i := x])) h1))"

definition slice_copy ::
  "('v list \<Rightarrow> 'c) \<Rightarrow> ('c \<Rightarrow> 'v list) \<Rightarrow> 'v \<Rightarrow> ('v \<Rightarrow> 'c heap \<Rightarrow> 'v \<times> 'c heap) \<Rightarrow> slice \<Rightarrow> 'c heap \<Rightarrow> slice \<times> 'c heap" where
  "slice_copy mk un zero into s h = (case s of
     None \<Rightarrow> (None, h)
   | Some (a, n) \<Rightarrow> (case halloc (mk (replicate n zero)) h of (b, h1) \<Rightarrow>
       (Some (b, n), copy_items mk un into a b [0..<n] h1)))"

definition slice_view :: "('c \<Rightarrow> 'v list) \<Rightarrow> ('c heap \<Rightarrow> 'v \<Rightarrow> 'a) \<Rightarrow> 'c heap \<Rightarrow> slice \<Rightarrow> 'a list option" where
  "slice_view un V h s = (if s = None then None else Some (map (V h) (slice_elems un h s)))"

definition slice_refs :: "('c \<Rightarrow> 'v list) \<Rightarrow> ('c heap \<Rightarrow> 'v \<Rightarrow> nat set) \<Rightarrow> 'c heap \<Rightarrow> slice \<Rightarrow> nat set" where
  "slice_refs un R h s = (case s of None \<Rightarrow> {} | Some (a, n) \<Rightarrow> {a} \<union> (\<Union>x \<in> set (slice_elems un h s). R h x))"

definition slice_ok :: "('c \<Rightarrow> 'v list) \<Rightarrow> ('c heap \<Rightarrow> 'v \<Rightarrow> bool) \<Rightarrow> 'c heap \<Rightarrow> slice \<Rightarrow> bool" where
  "slice_ok un W h s = (case s of None \<Rightarrow> True
     | Some (a, n) \<Rightarrow> a < hp_next h \<and> n \<le> length (un (hp_cells h a)) \<and> (\<forall>x \<in> set (slice_elems un h s). W h x))"

lemma copy_items_append:
  "copy_items mk un into a b (is @ js) h = copy_items mk un into a b js (copy_items mk un into a b is h)"
  by (induction "is" arbitrary: h) (auto split: prod.splits)

text \<open>After \<open>k\<close> rounds the first \<open>k\<close> elements are copied and older memory is untouched.\<close>

definition items_inv where
  "items_inv un V R W h xs b k g \<longleftrightarrow>
     extends h g \<and> hp_next h < hp_next g \<and> length (un (hp_cells g b)) = length xs \<and>
     (\<forall>i < k. W g (un (hp_cells g b) ! i) \<and> V g (un (hp_cells g b) ! i) = V h (xs ! i)
        \<and> R g (un (hp_cells g b) ! i) \<subseteq> {hp_next h<..<hp_next g})"

lemma items_inv_step:
  assumes "deep_copyable V R W C" "\<And>xs. un (mk xs) = xs" "b = hp_next h"
    and "W h (xs ! k)" "k < length xs" "items_inv un V R W h xs b k g" "C (xs ! k) g = (x, g1)"
  shows "items_inv un V R W h xs b (Suc k) (hwrite b (mk ((un (hp_cells g1 b))[k := x])) g1)"
    (is "items_inv _ _ _ _ _ _ _ _ ?g")
proof -
  have g: "extends h g" "hp_next h < hp_next g" "length (un (hp_cells g b)) = length xs"
    and old: "\<And>i. i < k \<Longrightarrow> W g (un (hp_cells g b) ! i) \<and> V g (un (hp_cells g b) ! i) = V h (xs ! i)
        \<and> R g (un (hp_cells g b) ! i) \<subseteq> {hp_next h<..<hp_next g}"
    using assms(6) unfolding items_inv_def by blast+
  note s = deep_copyable.stable [OF assms(1,4) g(1)]
  note c = deep_copyable.copies [OF assms(1) conjunct1 [OF s] assms(7)]
  have next1: "hp_next g \<le> hp_next g1" using c extends_next by blast
  have arr: "hp_cells g1 b = hp_cells g b" using c g(2) assms(3) extendsD by blast
  have keep: "W ?g y \<and> V ?g y = V g1 y \<and> R ?g y = R g1 y" if "W g1 y" "b \<notin> R g1 y" for y
  proof (rule deep_copyable.local_ok [OF assms(1) that(1)])
    show "hp_cells ?g a = hp_cells g1 a" if "a \<in> R g1 y" for a
      using that \<open>b \<notin> R g1 y\<close> by auto
  qed simp
  have new: "W ?g x \<and> V ?g x = V h (xs ! k) \<and> R ?g x \<subseteq> {hp_next h<..<hp_next ?g}"
  proof -
    have R: "R g1 x \<subseteq> {hp_next g..<hp_next g1}" and W: "W g1 x" and V: "V g1 x = V h (xs ! k)" using c s by simp_all
    then have "b \<notin> R g1 x" using g(2) assms(3) by auto
    then show ?thesis using keep [OF W] R V g(2) by auto
  qed
  have rest: "W ?g y \<and> V ?g y = V g y \<and> R ?g y = R g y" if "W g y" "R g y \<subseteq> {hp_next h<..<hp_next g}" for y
  proof -
    have t: "W g1 y \<and> V g1 y = V g y \<and> R g1 y = R g y" using deep_copyable.stable [OF assms(1) that(1)] c by blast
    then have "b \<notin> R g1 y" using that(2) assms(3) by auto
    then show ?thesis using keep t by simp
  qed
  have "extends h ?g" using extends_trans [OF g(1) conjunct1 [OF c]] by (rule extends_write) (simp add: assms(3))
  moreover have "W ?g (un (hp_cells ?g b) ! i) \<and> V ?g (un (hp_cells ?g b) ! i) = V h (xs ! i)
      \<and> R ?g (un (hp_cells ?g b) ! i) \<subseteq> {hp_next h<..<hp_next ?g}" if "i < Suc k" for i
  proof (cases "i = k")
    case True
    then have "un (hp_cells ?g b) ! i = x" using assms(2,5) arr g(3) by simp
    then show ?thesis using new True by simp
  next
    case False
    then have eq: "un (hp_cells ?g b) ! i = un (hp_cells g b) ! i" and i: "i < k" using that assms(2) arr by simp_all
    from old [OF i] have W: "W g (un (hp_cells g b) ! i)" and R: "R g (un (hp_cells g b) ! i) \<subseteq> {hp_next h<..<hp_next g}"
      by blast+
    have "R g (un (hp_cells g b) ! i) \<subseteq> {hp_next h<..<hp_next ?g}" using R next1 by auto
    with rest [OF W R] old [OF i] show ?thesis unfolding eq by simp
  qed
  ultimately show ?thesis
    unfolding items_inv_def using g(2,3) next1 arr assms(2) by simp
qed

lemma copy_items_inv:
  assumes "deep_copyable V R W C" "\<And>xs. un (mk xs) = xs" "b = hp_next h" "a < hp_next h"
    and "k \<le> n" "n \<le> length (un (hp_cells h a))" "\<And>x. x \<in> set (take n (un (hp_cells h a))) \<Longrightarrow> W h x"
    and "items_inv un V R W h (take n (un (hp_cells h a))) b 0 g"
  shows "items_inv un V R W h (take n (un (hp_cells h a))) b k (copy_items mk un C a b [0..<k] g)"
  using assms(5)
proof (induction k)
  case 0
  then show ?case using assms(8) by simp
next
  case (Suc k)
  let ?xs = "take n (un (hp_cells h a))" and ?g = "copy_items mk un C a b [0..<k] g"
  have inv: "items_inv un V R W h ?xs b k ?g" using Suc by simp
  then have "hp_cells ?g a = hp_cells h a" using assms(4) extendsD unfolding items_inv_def by blast
  then have el: "un (hp_cells ?g a) ! k = ?xs ! k" using Suc.prems by simp
  have k: "k < length ?xs" using Suc.prems assms(6) by simp
  obtain x g1 where x: "C (?xs ! k) ?g = (x, g1)" by fastforce
  then have "copy_items mk un C a b [0..<Suc k] g = hwrite b (mk ((un (hp_cells g1 b))[k := x])) g1"
    by (simp add: copy_items_append el)
  moreover have "W h (?xs ! k)" using assms(7) k nth_mem by blast
  ultimately show ?case using items_inv_step [OF assms(1,2,3) _ k inv x] by simp
qed

lemma deep_copyable_slice:
  assumes "deep_copyable V R W C" "\<And>xs. un (mk xs) = xs"
  shows "deep_copyable (slice_view un V) (slice_refs un R) (slice_ok un W) (slice_copy mk un zero C)"
proof
  show "slice_refs un R h s \<subseteq> {..<hp_next h}" if "slice_ok un W h s" for h s
    using that deep_copyable.live [OF assms(1)] by (fastforce simp: slice_refs_def slice_ok_def split: option.splits)
next
  fix h s s' h'
  assume ok: "slice_ok un W h s" and run: "slice_copy mk un zero C s h = (s', h')"
  show "extends h h' \<and> slice_ok un W h' s' \<and> slice_view un V h' s' = slice_view un V h s \<and> slice_refs un R h' s' \<subseteq> {hp_next h..<hp_next h'}"
  proof (cases s)
    case None
    then show ?thesis using run by (auto simp: slice_copy_def slice_ok_def slice_view_def slice_refs_def)
  next
    case (Some p)
    obtain a n where s: "s = Some (a, n)" using Some by (cases p) simp
    let ?xs = "take n (un (hp_cells h a))" and ?b = "hp_next h"
    define h1 where "h1 = snd (halloc (mk (replicate n zero)) h)"
    have a: "a < hp_next h" "n \<le> length (un (hp_cells h a))" "\<And>x. x \<in> set ?xs \<Longrightarrow> W h x"
      using ok s by (simp_all add: slice_ok_def slice_elems_def)
    have "items_inv un V R W h ?xs ?b 0 h1"
      using a(2) by (simp add: items_inv_def h1_def extends_alloc assms(2))
    note inv = copy_items_inv [OF assms refl a(1) order_refl a(2,3) this]
    have s': "s' = Some (?b, n)" "h' = copy_items mk un C a ?b [0..<n] h1"
      using run s by (simp_all add: slice_copy_def h1_def halloc_def split: prod.splits)
    let ?ys = "un (hp_cells h' ?b)"
    have h': "extends h h'" "?b < hp_next h'" "length ?ys = n"
      and each: "\<And>i. i < n \<Longrightarrow> W h' (?ys ! i) \<and> V h' (?ys ! i) = V h (?xs ! i) \<and> R h' (?ys ! i) \<subseteq> {?b<..<hp_next h'}"
      using inv a(2) unfolding items_inv_def s' by simp_all
    have same: "map (V h') ?ys = map (V h) ?xs"
      using each h'(3) a(2) by (intro nth_equalityI) simp_all
    have fresh: "W h' y \<and> R h' y \<subseteq> {?b<..<hp_next h'}" if "y \<in> set ?ys" for y
      using that each h'(3) by (metis in_set_conv_nth)
    have el: "slice_elems un h' s' = ?ys" "slice_elems un h s = ?xs"
      using h'(3) s by (simp_all add: slice_elems_def s'(1))
    show ?thesis
    proof (intro conjI)
      show "slice_ok un W h' s'" using fresh h'(2,3) el(1) by (simp add: slice_ok_def s'(1))
      show "slice_view un V h' s' = slice_view un V h s" using same el s by (simp add: slice_view_def s'(1))
      have "R h' y \<subseteq> {?b..<hp_next h'}" if "y \<in> set ?ys" for y using fresh [OF that] by auto
      then have "(\<Union>y \<in> set ?ys. R h' y) \<subseteq> {?b..<hp_next h'}" by blast
      then show "slice_refs un R h' s' \<subseteq> {?b..<hp_next h'}"
        using h'(2) unfolding slice_refs_def el(1) by (simp add: s'(1))
    qed (rule h'(1))
  qed
next
  fix h s and h2 :: "'a heap"
  assume a: "slice_ok un W h s" "\<And>a. a \<in> slice_refs un R h s \<Longrightarrow> hp_cells h2 a = hp_cells h a" "hp_next h \<le> hp_next h2"
  show "slice_ok un W h2 s \<and> slice_view un V h2 s = slice_view un V h s \<and> slice_refs un R h2 s = slice_refs un R h s"
  proof (cases s)
    case (Some p)
    obtain b n where s: "s = Some (b, n)" using Some by (cases p) simp
    have b: "hp_cells h2 b = hp_cells h b" using a(2) s by (simp add: slice_refs_def)
    have "W h2 x \<and> V h2 x = V h x \<and> R h2 x = R h x" if "x \<in> set (take n (un (hp_cells h b)))" for x
    proof (rule deep_copyable.local_ok [OF assms(1) _ _ a(3)])
      show "W h x" using that a(1) s by (simp add: slice_ok_def slice_elems_def)
      show "hp_cells h2 c = hp_cells h c" if "c \<in> R h x" for c
        using that \<open>x \<in> _\<close> a(2) s by (auto simp: slice_refs_def slice_elems_def)
    qed
    then show ?thesis
      using a(1,3) s b by (auto simp: slice_ok_def slice_view_def slice_refs_def slice_elems_def)
  qed (simp add: slice_ok_def slice_view_def slice_refs_def)
qed

section \<open>Writes through slices\<close>

lemma slice_set_elems:
  assumes "\<And>xs. un (mk xs) = xs" "slice_ok un W h s" "i < length (slice_elems un h s)"
  shows "slice_elems un (slice_set mk un s i x h) s = (slice_elems un h s)[i := x]"
  using assms by (auto simp: slice_set_def slice_elems_def take_update_swap split: option.splits)

lemma slice_set_extends:
  "extends h0 h \<Longrightarrow> slice_refs un (\<lambda>h x. {}) h s \<subseteq> {hp_next h0..} \<Longrightarrow> extends h0 (slice_set mk un s i x h)"
  by (auto simp: slice_set_def slice_refs_def intro: extends_write split: option.splits)

lemma slice_append_elems:
  assumes "\<And>xs. un (mk xs) = xs" "slice_ok un W h s" "slice_append grow zero mk un s x h = (s', h')"
  shows "slice_elems un h' s' = slice_elems un h s @ [x]"
  using assms by (auto simp: slice_append_def slice_elems_def slice_ok_def halloc_def take_Suc_conv_app_nth
      split: option.splits if_splits)

lemma slice_append_extends:
  assumes "extends h0 h" "slice_refs un (\<lambda>h x. {}) h s \<subseteq> {hp_next h0..}" "slice_append grow zero mk un s x h = (s', h')"
  shows "extends h0 h'"
proof -
  have "extends h0 h2" if "halloc c h = (b, h2)" for c b h2
    using extends_trans [OF assms(1) extends_alloc, of c] that by simp
  then show ?thesis
    using assms by (auto simp: slice_append_def slice_refs_def intro: extends_write split: option.splits if_splits prod.splits)
qed

end
