(* ===== verification/Api_DeepCopy.thy ===== *)
theory Api_DeepCopy
  imports Api_Types Go_Heap
begin

text \<open>
  The generated deep copies of \<open>api/v1/zz_generated.deepcopy.go\<close>, on values that share memory.  A
  duck in memory holds an \<open>ObjectMeta\<close> of the Kubernetes libraries, which stays a type parameter,
  and a status with a slice of conditions; a list holds a slice of ducks.  The deep copies of the
  embedded library types are the parameter \<open>copy_libs\<close>; that they are deep copies in the sense of
  \<open>deep_copyable\<close>, as the libraries document, is the hypothesis \<open>copy_laws\<close>.  The out parameter of
  the \<open>DeepCopyInto\<close> methods is the returned value, which the caller stores.
\<close>

section \<open>Values in memory\<close>

record StatusR =
  sr_ObservedGeneration :: int
  sr_Conditions :: slice

record DuckStatusR =
  dsr_Status :: StatusR

record 'm DuckR =
  dr_TypeMeta :: TypeMeta
  dr_ObjectMeta :: 'm
  dr_Spec :: DuckSpec
  dr_Status :: DuckStatusR

record 'l DuckListR =
  dlr_TypeMeta :: TypeMeta
  dlr_ListMeta :: 'l
  dlr_Items :: slice

record DuckTypeStatusR =
  dtsr_Status :: StatusR

record 'm DuckTypeR =
  dtr_TypeMeta :: TypeMeta
  dtr_ObjectMeta :: 'm
  dtr_Spec :: DuckTypeSpec
  dtr_Status :: DuckTypeStatusR

record 'l DuckTypeListR =
  dtlr_TypeMeta :: TypeMeta
  dtlr_ListMeta :: 'l
  dtlr_Items :: slice

text \<open>What an address can hold: memory of the libraries, a backing array or an allocated struct.\<close>

datatype ('c, 'm, 'l) cell =
    LibCell (un_LibCell: 'c)
  | ConditionArray (un_ConditionArray: "Condition list")
  | DuckArray (un_DuckArray: "'m DuckR list")
  | DuckTypeArray (un_DuckTypeArray: "'m DuckTypeR list")
  | DuckCell (un_DuckCell: "'m DuckR")
  | DuckListCell (un_DuckListCell: "'l DuckListR")
  | DuckSpecCell (un_DuckSpecCell: DuckSpec)
  | DuckStatusCell (un_DuckStatusCell: DuckStatusR)
  | DuckTypeCell (un_DuckTypeCell: "'m DuckTypeR")
  | DuckTypeListCell (un_DuckTypeListCell: "'l DuckTypeListR")
  | DuckTypeSpecCell (un_DuckTypeSpecCell: DuckTypeSpec)
  | DuckTypeStatusCell (un_DuckTypeStatusCell: DuckTypeStatusR)

type_synonym ('c, 'm, 'l) mem = "('c, 'm, 'l) cell heap"

record ('c, 'm, 'l) copy_libs =
  ObjectMeta_DeepCopyInto :: "'m \<Rightarrow> ('c, 'm, 'l) mem \<Rightarrow> 'm \<times> ('c, 'm, 'l) mem"
  ListMeta_DeepCopyInto :: "'l \<Rightarrow> ('c, 'm, 'l) mem \<Rightarrow> 'l \<times> ('c, 'm, 'l) mem"
  Status_DeepCopyInto :: "StatusR \<Rightarrow> ('c, 'm, 'l) mem \<Rightarrow> StatusR \<times> ('c, 'm, 'l) mem"
  zero_ObjectMeta :: 'm
  zero_ListMeta :: 'l

definition zero_Status :: StatusR where
  "zero_Status = \<lparr>sr_ObservedGeneration = 0, sr_Conditions = None\<rparr>"

definition zero_Duck :: "('c, 'm, 'l) copy_libs \<Rightarrow> 'm DuckR" where
  "zero_Duck L = \<lparr>dr_TypeMeta = TypeMeta_zero, dr_ObjectMeta = zero_ObjectMeta L,
     dr_Spec = \<lparr>ds_Group = [], ds_Version = [], ds_Kind = []\<rparr>, dr_Status = \<lparr>dsr_Status = zero_Status\<rparr>\<rparr>"

definition zero_DuckType :: "('c, 'm, 'l) copy_libs \<Rightarrow> 'm DuckTypeR" where
  "zero_DuckType L = \<lparr>dtr_TypeMeta = TypeMeta_zero, dtr_ObjectMeta = zero_ObjectMeta L,
     dtr_Spec = \<lparr>dts_Group = [], dts_Plural = [], dts_Singular = [], dts_Kind = [], dts_ListKind = []\<rparr>,
     dtr_Status = \<lparr>dtsr_Status = zero_Status\<rparr>\<rparr>"

section \<open>DeepCopyInto\<close>

definition DuckSpec_DeepCopyInto :: "DuckSpec \<Rightarrow> 'h \<Rightarrow> DuckSpec \<times> 'h" where
  "DuckSpec_DeepCopyInto inp h = (let out = inp in (out, h))"

definition DuckStatus_DeepCopyInto ::
  "('c, 'm, 'l) copy_libs \<Rightarrow> DuckStatusR \<Rightarrow> ('c, 'm, 'l) mem \<Rightarrow> DuckStatusR \<times> ('c, 'm, 'l) mem" where
  "DuckStatus_DeepCopyInto L inp h = (let out = inp in
     case Status_DeepCopyInto L (dsr_Status inp) h of (s, h1) \<Rightarrow> (out\<lparr>dsr_Status := s\<rparr>, h1))"

definition Duck_DeepCopyInto ::
  "('c, 'm, 'l) copy_libs \<Rightarrow> 'm DuckR \<Rightarrow> ('c, 'm, 'l) mem \<Rightarrow> 'm DuckR \<times> ('c, 'm, 'l) mem" where
  "Duck_DeepCopyInto L inp h = (let out = inp; out = out\<lparr>dr_TypeMeta := dr_TypeMeta inp\<rparr> in
     case ObjectMeta_DeepCopyInto L (dr_ObjectMeta inp) h of (m, h1) \<Rightarrow>
       let out = out\<lparr>dr_ObjectMeta := m\<rparr>; out = out\<lparr>dr_Spec := dr_Spec inp\<rparr> in
       case DuckStatus_DeepCopyInto L (dr_Status inp) h1 of (s, h2) \<Rightarrow> (out\<lparr>dr_Status := s\<rparr>, h2))"

definition DuckList_DeepCopyInto ::
  "('c, 'm, 'l) copy_libs \<Rightarrow> 'l DuckListR \<Rightarrow> ('c, 'm, 'l) mem \<Rightarrow> 'l DuckListR \<times> ('c, 'm, 'l) mem" where
  "DuckList_DeepCopyInto L inp h = (let out = inp; out = out\<lparr>dlr_TypeMeta := dlr_TypeMeta inp\<rparr> in
     case ListMeta_DeepCopyInto L (dlr_ListMeta inp) h of (m, h1) \<Rightarrow>
       let out = out\<lparr>dlr_ListMeta := m\<rparr> in
       case slice_copy DuckArray un_DuckArray (zero_Duck L) (Duck_DeepCopyInto L) (dlr_Items inp) h1 of (xs, h2) \<Rightarrow>
         (out\<lparr>dlr_Items := xs\<rparr>, h2))"

definition DuckTypeSpec_DeepCopyInto :: "DuckTypeSpec \<Rightarrow> 'h \<Rightarrow> DuckTypeSpec \<times> 'h" where
  "DuckTypeSpec_DeepCopyInto inp h = (let out = inp in (out, h))"

definition DuckTypeStatus_DeepCopyInto ::
  "('c, 'm, 'l) copy_libs \<Rightarrow> DuckTypeStatusR \<Rightarrow> ('c, 'm, 'l) mem \<Rightarrow> DuckTypeStatusR \<times> ('c, 'm, 'l) mem" where
  "DuckTypeStatus_DeepCopyInto L inp h = (let out = inp in
     case Status_DeepCopyInto L (dtsr_Status inp) h of (s, h1) \<Rightarrow> (out\<lparr>dtsr_Status := s\<rparr>, h1))"

definition DuckType_DeepCopyInto ::
  "('c, 'm, 'l) copy_libs \<Rightarrow> 'm DuckTypeR \<Rightarrow> ('c, 'm, 'l) mem \<Rightarrow> 'm DuckTypeR \<times> ('c, 'm, 'l) mem" where
  "DuckType_DeepCopyInto L inp h = (let out = inp; out = out\<lparr>dtr_TypeMeta := dtr_TypeMeta inp\<rparr> in
     case ObjectMeta_DeepCopyInto L (dtr_ObjectMeta inp) h of (m, h1) \<Rightarrow>
       let out = out\<lparr>dtr_ObjectMeta := m\<rparr>; out = out\<lparr>dtr_Spec := dtr_Spec inp\<rparr> in
       case DuckTypeStatus_DeepCopyInto L (dtr_Status inp) h1 of (s, h2) \<Rightarrow> (out\<lparr>dtr_Status := s\<rparr>, h2))"

definition DuckTypeList_DeepCopyInto ::
  "('c, 'm, 'l) copy_libs \<Rightarrow> 'l DuckTypeListR \<Rightarrow> ('c, 'm, 'l) mem \<Rightarrow> 'l DuckTypeListR \<times> ('c, 'm, 'l) mem" where
  "DuckTypeList_DeepCopyInto L inp h = (let out = inp; out = out\<lparr>dtlr_TypeMeta := dtlr_TypeMeta inp\<rparr> in
     case ListMeta_DeepCopyInto L (dtlr_ListMeta inp) h of (m, h1) \<Rightarrow>
       let out = out\<lparr>dtlr_ListMeta := m\<rparr> in
       case slice_copy DuckTypeArray un_DuckTypeArray (zero_DuckType L) (DuckType_DeepCopyInto L) (dtlr_Items inp) h1 of (xs, h2) \<Rightarrow>
         (out\<lparr>dtlr_Items := xs\<rparr>, h2))"

section \<open>DeepCopy and DeepCopyObject\<close>

definition Duck_DeepCopy ::
  "('c, 'm, 'l) copy_libs \<Rightarrow> nat option \<Rightarrow> ('c, 'm, 'l) mem \<Rightarrow> nat option \<times> ('c, 'm, 'l) mem" where
  "Duck_DeepCopy L = new_copy DuckCell un_DuckCell (zero_Duck L) (Duck_DeepCopyInto L)"

definition DuckList_DeepCopy ::
  "('c, 'm, 'l) copy_libs \<Rightarrow> nat option \<Rightarrow> ('c, 'm, 'l) mem \<Rightarrow> nat option \<times> ('c, 'm, 'l) mem" where
  "DuckList_DeepCopy L = new_copy DuckListCell un_DuckListCell
     \<lparr>dlr_TypeMeta = TypeMeta_zero, dlr_ListMeta = zero_ListMeta L, dlr_Items = None\<rparr> (DuckList_DeepCopyInto L)"

definition DuckSpec_DeepCopy :: "nat option \<Rightarrow> ('c, 'm, 'l) mem \<Rightarrow> nat option \<times> ('c, 'm, 'l) mem" where
  "DuckSpec_DeepCopy = new_copy DuckSpecCell un_DuckSpecCell \<lparr>ds_Group = [], ds_Version = [], ds_Kind = []\<rparr> DuckSpec_DeepCopyInto"

definition DuckStatus_DeepCopy ::
  "('c, 'm, 'l) copy_libs \<Rightarrow> nat option \<Rightarrow> ('c, 'm, 'l) mem \<Rightarrow> nat option \<times> ('c, 'm, 'l) mem" where
  "DuckStatus_DeepCopy L = new_copy DuckStatusCell un_DuckStatusCell \<lparr>dsr_Status = zero_Status\<rparr> (DuckStatus_DeepCopyInto L)"

definition DuckType_DeepCopy ::
  "('c, 'm, 'l) copy_libs \<Rightarrow> nat option \<Rightarrow> ('c, 'm, 'l) mem \<Rightarrow> nat option \<times> ('c, 'm, 'l) mem" where
  "DuckType_DeepCopy L = new_copy DuckTypeCell un_DuckTypeCell (zero_DuckType L) (DuckType_DeepCopyInto L)"

definition DuckTypeList_DeepCopy ::
  "('c, 'm, 'l) copy_libs \<Rightarrow> nat option \<Rightarrow> ('c, 'm, 'l) mem \<Rightarrow> nat option \<times> ('c, 'm, 'l) mem" where
  "DuckTypeList_DeepCopy L = new_copy DuckTypeListCell un_DuckTypeListCell
     \<lparr>dtlr_TypeMeta = TypeMeta_zero, dtlr_ListMeta = zero_ListMeta L, dtlr_Items = None\<rparr> (DuckTypeList_DeepCopyInto L)"

definition DuckTypeSpec_DeepCopy :: "nat option \<Rightarrow> ('c, 'm, 'l) mem \<Rightarrow> nat option \<times> ('c, 'm, 'l) mem" where
  "DuckTypeSpec_DeepCopy = new_copy DuckTypeSpecCell un_DuckTypeSpecCell
     \<lparr>dts_Group = [], dts_Plural = [], dts_Singular = [], dts_Kind = [], dts_ListKind = []\<rparr> DuckTypeSpec_DeepCopyInto"

definition DuckTypeStatus_DeepCopy ::
  "('c, 'm, 'l) copy_libs \<Rightarrow> nat option \<Rightarrow> ('c, 'm, 'l) mem \<Rightarrow> nat option \<times> ('c, 'm, 'l) mem" where
  "DuckTypeStatus_DeepCopy L = new_copy DuckTypeStatusCell un_DuckTypeStatusCell \<lparr>dtsr_Status = zero_Status\<rparr> (DuckTypeStatus_DeepCopyInto L)"

text \<open>
  An interface value \<open>runtime.Object\<close> is nil or a pointer with its type; the pointer inside may
  itself be nil, which is not the nil interface.
\<close>

datatype runtime_Object =
  DuckObject "nat option" | DuckListObject "nat option" | DuckTypeObject "nat option" | DuckTypeListObject "nat option"

definition Duck_DeepCopyObject ::
  "('c, 'm, 'l) copy_libs \<Rightarrow> nat option \<Rightarrow> ('c, 'm, 'l) mem \<Rightarrow> runtime_Object option \<times> ('c, 'm, 'l) mem" where
  "Duck_DeepCopyObject L inp h = (case Duck_DeepCopy L inp h of (c, h') \<Rightarrow>
     (if c \<noteq> None then Some (DuckObject c) else None, h'))"

definition DuckList_DeepCopyObject ::
  "('c, 'm, 'l) copy_libs \<Rightarrow> nat option \<Rightarrow> ('c, 'm, 'l) mem \<Rightarrow> runtime_Object option \<times> ('c, 'm, 'l) mem" where
  "DuckList_DeepCopyObject L inp h = (case DuckList_DeepCopy L inp h of (c, h') \<Rightarrow>
     (if c \<noteq> None then Some (DuckListObject c) else None, h'))"

definition DuckType_DeepCopyObject ::
  "('c, 'm, 'l) copy_libs \<Rightarrow> nat option \<Rightarrow> ('c, 'm, 'l) mem \<Rightarrow> runtime_Object option \<times> ('c, 'm, 'l) mem" where
  "DuckType_DeepCopyObject L inp h = (case DuckType_DeepCopy L inp h of (c, h') \<Rightarrow>
     (if c \<noteq> None then Some (DuckTypeObject c) else None, h'))"

definition DuckTypeList_DeepCopyObject ::
  "('c, 'm, 'l) copy_libs \<Rightarrow> nat option \<Rightarrow> ('c, 'm, 'l) mem \<Rightarrow> runtime_Object option \<times> ('c, 'm, 'l) mem" where
  "DuckTypeList_DeepCopyObject L inp h = (case DuckTypeList_DeepCopy L inp h of (c, h') \<Rightarrow>
     (if c \<noteq> None then Some (DuckTypeListObject c) else None, h'))"

section \<open>What the values denote\<close>

definition Status_view :: "('c, 'm, 'l) mem \<Rightarrow> StatusR \<Rightarrow> Status" where
  "Status_view h s = \<lparr>st_ObservedGeneration = sr_ObservedGeneration s, st_Conditions = slice_elems un_ConditionArray h (sr_Conditions s)\<rparr>"

definition Status_refs :: "('c, 'm, 'l) mem \<Rightarrow> StatusR \<Rightarrow> nat set" where
  "Status_refs h s = slice_refs un_ConditionArray (\<lambda>h x. {}) h (sr_Conditions s)"

definition Status_ok :: "('c, 'm, 'l) mem \<Rightarrow> StatusR \<Rightarrow> bool" where
  "Status_ok h s = slice_ok un_ConditionArray (\<lambda>h x. True) h (sr_Conditions s)"

record ('c, 'm, 'l, 'lv) copy_views =
  om_view :: "('c, 'm, 'l) mem \<Rightarrow> 'm \<Rightarrow> ObjectMeta"
  om_refs :: "('c, 'm, 'l) mem \<Rightarrow> 'm \<Rightarrow> nat set"
  om_ok :: "('c, 'm, 'l) mem \<Rightarrow> 'm \<Rightarrow> bool"
  lm_view :: "('c, 'm, 'l) mem \<Rightarrow> 'l \<Rightarrow> 'lv"
  lm_refs :: "('c, 'm, 'l) mem \<Rightarrow> 'l \<Rightarrow> nat set"
  lm_ok :: "('c, 'm, 'l) mem \<Rightarrow> 'l \<Rightarrow> bool"

text \<open>The deep copies of the libraries are deep copies.\<close>

definition copy_laws :: "('c, 'm, 'l, 'lv) copy_views \<Rightarrow> ('c, 'm, 'l) copy_libs \<Rightarrow> bool" where
  "copy_laws S L \<longleftrightarrow> deep_copyable (om_view S) (om_refs S) (om_ok S) (ObjectMeta_DeepCopyInto L)
     \<and> deep_copyable (lm_view S) (lm_refs S) (lm_ok S) (ListMeta_DeepCopyInto L)
     \<and> deep_copyable Status_view Status_refs Status_ok (Status_DeepCopyInto L)"

definition Duck_view :: "('c, 'm, 'l, 'lv) copy_views \<Rightarrow> ('c, 'm, 'l) mem \<Rightarrow> 'm DuckR \<Rightarrow> Duck" where
  "Duck_view S h d = \<lparr>d_TypeMeta = dr_TypeMeta d, d_ObjectMeta = om_view S h (dr_ObjectMeta d), d_Spec = dr_Spec d,
     d_Status = \<lparr>dst_Status = Status_view h (dsr_Status (dr_Status d))\<rparr>\<rparr>"

definition Duck_refs :: "('c, 'm, 'l, 'lv) copy_views \<Rightarrow> ('c, 'm, 'l) mem \<Rightarrow> 'm DuckR \<Rightarrow> nat set" where
  "Duck_refs S h d = om_refs S h (dr_ObjectMeta d) \<union> Status_refs h (dsr_Status (dr_Status d))"

definition Duck_ok :: "('c, 'm, 'l, 'lv) copy_views \<Rightarrow> ('c, 'm, 'l) mem \<Rightarrow> 'm DuckR \<Rightarrow> bool" where
  "Duck_ok S h d \<longleftrightarrow> om_ok S h (dr_ObjectMeta d) \<and> Status_ok h (dsr_Status (dr_Status d))"

definition DuckType_view :: "('c, 'm, 'l, 'lv) copy_views \<Rightarrow> ('c, 'm, 'l) mem \<Rightarrow> 'm DuckTypeR \<Rightarrow> DuckType" where
  "DuckType_view S h d = \<lparr>dt_TypeMeta = dtr_TypeMeta d, dt_ObjectMeta = om_view S h (dtr_ObjectMeta d), dt_Spec = dtr_Spec d,
     dt_Status = \<lparr>dtst_Status = Status_view h (dtsr_Status (dtr_Status d))\<rparr>\<rparr>"

definition DuckType_refs :: "('c, 'm, 'l, 'lv) copy_views \<Rightarrow> ('c, 'm, 'l) mem \<Rightarrow> 'm DuckTypeR \<Rightarrow> nat set" where
  "DuckType_refs S h d = om_refs S h (dtr_ObjectMeta d) \<union> Status_refs h (dtsr_Status (dtr_Status d))"

definition DuckType_ok :: "('c, 'm, 'l, 'lv) copy_views \<Rightarrow> ('c, 'm, 'l) mem \<Rightarrow> 'm DuckTypeR \<Rightarrow> bool" where
  "DuckType_ok S h d \<longleftrightarrow> om_ok S h (dtr_ObjectMeta d) \<and> Status_ok h (dtsr_Status (dtr_Status d))"

text \<open>A list denotes its metadata and its items, with a nil slice kept apart from an empty one.\<close>

definition DuckList_view ::
  "('c, 'm, 'l, 'lv) copy_views \<Rightarrow> ('c, 'm, 'l) mem \<Rightarrow> 'l DuckListR \<Rightarrow> TypeMeta \<times> 'lv \<times> Duck list option" where
  "DuckList_view S h l = (dlr_TypeMeta l, lm_view S h (dlr_ListMeta l), slice_view un_DuckArray (Duck_view S) h (dlr_Items l))"

definition DuckList_refs :: "('c, 'm, 'l, 'lv) copy_views \<Rightarrow> ('c, 'm, 'l) mem \<Rightarrow> 'l DuckListR \<Rightarrow> nat set" where
  "DuckList_refs S h l = lm_refs S h (dlr_ListMeta l) \<union> slice_refs un_DuckArray (Duck_refs S) h (dlr_Items l)"

definition DuckList_ok :: "('c, 'm, 'l, 'lv) copy_views \<Rightarrow> ('c, 'm, 'l) mem \<Rightarrow> 'l DuckListR \<Rightarrow> bool" where
  "DuckList_ok S h l \<longleftrightarrow> lm_ok S h (dlr_ListMeta l) \<and> slice_ok un_DuckArray (Duck_ok S) h (dlr_Items l)"

definition DuckTypeList_view ::
  "('c, 'm, 'l, 'lv) copy_views \<Rightarrow> ('c, 'm, 'l) mem \<Rightarrow> 'l DuckTypeListR \<Rightarrow> TypeMeta \<times> 'lv \<times> DuckType list option" where
  "DuckTypeList_view S h l = (dtlr_TypeMeta l, lm_view S h (dtlr_ListMeta l), slice_view un_DuckTypeArray (DuckType_view S) h (dtlr_Items l))"

definition DuckTypeList_refs :: "('c, 'm, 'l, 'lv) copy_views \<Rightarrow> ('c, 'm, 'l) mem \<Rightarrow> 'l DuckTypeListR \<Rightarrow> nat set" where
  "DuckTypeList_refs S h l = lm_refs S h (dtlr_ListMeta l) \<union> slice_refs un_DuckTypeArray (DuckType_refs S) h (dtlr_Items l)"

definition DuckTypeList_ok :: "('c, 'm, 'l, 'lv) copy_views \<Rightarrow> ('c, 'm, 'l) mem \<Rightarrow> 'l DuckTypeListR \<Rightarrow> bool" where
  "DuckTypeList_ok S h l \<longleftrightarrow> lm_ok S h (dtlr_ListMeta l) \<and> slice_ok un_DuckTypeArray (DuckType_ok S) h (dtlr_Items l)"

section \<open>The generated copies are deep copies\<close>

interpretation dspec: deep_copyable "\<lambda>h v. v" "\<lambda>h v. {}" "\<lambda>h v. True" DuckSpec_DeepCopyInto
  by unfold_locales (simp_all add: DuckSpec_DeepCopyInto_def)

interpretation dtspec: deep_copyable "\<lambda>h v. v" "\<lambda>h v. {}" "\<lambda>h v. True" DuckTypeSpec_DeepCopyInto
  by unfold_locales (simp_all add: DuckTypeSpec_DeepCopyInto_def)

lemma DuckStatus_copyable:
  assumes "copy_laws S L"
  shows "deep_copyable (\<lambda>h s. \<lparr>dst_Status = Status_view h (dsr_Status s)\<rparr>) (\<lambda>h s. Status_refs h (dsr_Status s))
    (\<lambda>h s. Status_ok h (dsr_Status s)) (DuckStatus_DeepCopyInto L)"
  by (rule deep_copyable_struct [where p = dsr_Status and q = "\<lambda>_. ()" and put = "\<lambda>v x. v\<lparr>dsr_Status := x\<rparr>"
        and F = "\<lambda>_ x. \<lparr>dst_Status = x\<rparr>"])
    (use assms in \<open>auto simp: copy_laws_def DuckStatus_DeepCopyInto_def\<close>)

lemma DuckTypeStatus_copyable:
  assumes "copy_laws S L"
  shows "deep_copyable (\<lambda>h s. \<lparr>dtst_Status = Status_view h (dtsr_Status s)\<rparr>) (\<lambda>h s. Status_refs h (dtsr_Status s))
    (\<lambda>h s. Status_ok h (dtsr_Status s)) (DuckTypeStatus_DeepCopyInto L)"
  by (rule deep_copyable_struct [where p = dtsr_Status and q = "\<lambda>_. ()" and put = "\<lambda>v x. v\<lparr>dtsr_Status := x\<rparr>"
        and F = "\<lambda>_ x. \<lparr>dtst_Status = x\<rparr>"])
    (use assms in \<open>auto simp: copy_laws_def DuckTypeStatus_DeepCopyInto_def\<close>)

lemma Duck_copyable:
  assumes "copy_laws S L"
  shows "deep_copyable (Duck_view S) (Duck_refs S) (Duck_ok S) (Duck_DeepCopyInto L)"
proof (rule deep_copyable_struct [OF deep_copyable_both [OF _ DuckStatus_copyable [OF assms]],
      where p = "\<lambda>d. (dr_ObjectMeta d, dr_Status d)" and q = "\<lambda>d. (dr_TypeMeta d, dr_Spec d)"
        and put = "\<lambda>d x. d\<lparr>dr_ObjectMeta := fst x, dr_Status := snd x\<rparr>"
        and F = "\<lambda>(t, s) (m, st). \<lparr>d_TypeMeta = t, d_ObjectMeta = m, d_Spec = s, d_Status = st\<rparr>"])
  show "deep_copyable (om_view S) (om_refs S) (om_ok S) (ObjectMeta_DeepCopyInto L)"
    using assms by (simp add: copy_laws_def)
  show "Duck_DeepCopyInto L v h = (case copy_both (ObjectMeta_DeepCopyInto L) (DuckStatus_DeepCopyInto L) (dr_ObjectMeta v, dr_Status v) h
      of (x, h') \<Rightarrow> (v\<lparr>dr_ObjectMeta := fst x, dr_Status := snd x\<rparr>, h'))" for v h
    by (auto simp: Duck_DeepCopyInto_def copy_both_def split: prod.splits)
qed (simp_all add: Duck_view_def Duck_refs_def Duck_ok_def)

lemma DuckType_copyable:
  assumes "copy_laws S L"
  shows "deep_copyable (DuckType_view S) (DuckType_refs S) (DuckType_ok S) (DuckType_DeepCopyInto L)"
proof (rule deep_copyable_struct [OF deep_copyable_both [OF _ DuckTypeStatus_copyable [OF assms]],
      where p = "\<lambda>d. (dtr_ObjectMeta d, dtr_Status d)" and q = "\<lambda>d. (dtr_TypeMeta d, dtr_Spec d)"
        and put = "\<lambda>d x. d\<lparr>dtr_ObjectMeta := fst x, dtr_Status := snd x\<rparr>"
        and F = "\<lambda>(t, s) (m, st). \<lparr>dt_TypeMeta = t, dt_ObjectMeta = m, dt_Spec = s, dt_Status = st\<rparr>"])
  show "deep_copyable (om_view S) (om_refs S) (om_ok S) (ObjectMeta_DeepCopyInto L)"
    using assms by (simp add: copy_laws_def)
  show "DuckType_DeepCopyInto L v h = (case copy_both (ObjectMeta_DeepCopyInto L) (DuckTypeStatus_DeepCopyInto L) (dtr_ObjectMeta v, dtr_Status v) h
      of (x, h') \<Rightarrow> (v\<lparr>dtr_ObjectMeta := fst x, dtr_Status := snd x\<rparr>, h'))" for v h
    by (auto simp: DuckType_DeepCopyInto_def copy_both_def split: prod.splits)
qed (simp_all add: DuckType_view_def DuckType_refs_def DuckType_ok_def)

lemma DuckList_copyable:
  assumes "copy_laws S L"
  shows "deep_copyable (DuckList_view S) (DuckList_refs S) (DuckList_ok S) (DuckList_DeepCopyInto L)"
proof (rule deep_copyable_struct [OF deep_copyable_both [OF _ deep_copyable_slice
        [OF Duck_copyable [OF assms], where un = un_DuckArray and mk = DuckArray and zero = "zero_Duck L"]],
      where p = "\<lambda>l. (dlr_ListMeta l, dlr_Items l)" and q = dlr_TypeMeta
        and put = "\<lambda>l x. l\<lparr>dlr_ListMeta := fst x, dlr_Items := snd x\<rparr>" and F = "\<lambda>t x. (t, x)"])
  show "deep_copyable (lm_view S) (lm_refs S) (lm_ok S) (ListMeta_DeepCopyInto L)"
    using assms by (simp add: copy_laws_def)
  show "DuckList_DeepCopyInto L v h = (case copy_both (ListMeta_DeepCopyInto L)
      (slice_copy DuckArray un_DuckArray (zero_Duck L) (Duck_DeepCopyInto L)) (dlr_ListMeta v, dlr_Items v) h
      of (x, h') \<Rightarrow> (v\<lparr>dlr_ListMeta := fst x, dlr_Items := snd x\<rparr>, h'))" for v h
    by (auto simp: DuckList_DeepCopyInto_def copy_both_def split: prod.splits)
qed (simp_all add: DuckList_view_def DuckList_refs_def DuckList_ok_def)

lemma DuckTypeList_copyable:
  assumes "copy_laws S L"
  shows "deep_copyable (DuckTypeList_view S) (DuckTypeList_refs S) (DuckTypeList_ok S) (DuckTypeList_DeepCopyInto L)"
proof (rule deep_copyable_struct [OF deep_copyable_both [OF _ deep_copyable_slice
        [OF DuckType_copyable [OF assms], where un = un_DuckTypeArray and mk = DuckTypeArray and zero = "zero_DuckType L"]],
      where p = "\<lambda>l. (dtlr_ListMeta l, dtlr_Items l)" and q = dtlr_TypeMeta
        and put = "\<lambda>l x. l\<lparr>dtlr_ListMeta := fst x, dtlr_Items := snd x\<rparr>" and F = "\<lambda>t x. (t, x)"])
  show "deep_copyable (lm_view S) (lm_refs S) (lm_ok S) (ListMeta_DeepCopyInto L)"
    using assms by (simp add: copy_laws_def)
  show "DuckTypeList_DeepCopyInto L v h = (case copy_both (ListMeta_DeepCopyInto L)
      (slice_copy DuckTypeArray un_DuckTypeArray (zero_DuckType L) (DuckType_DeepCopyInto L)) (dtlr_ListMeta v, dtlr_Items v) h
      of (x, h') \<Rightarrow> (v\<lparr>dtlr_ListMeta := fst x, dtlr_Items := snd x\<rparr>, h'))" for v h
    by (auto simp: DuckTypeList_DeepCopyInto_def copy_both_def split: prod.splits)
qed (simp_all add: DuckTypeList_view_def DuckTypeList_refs_def DuckTypeList_ok_def)

section \<open>Reference libraries\<close>

text \<open>
  Object metadata reduced to a name and a slice of finalizers, whose array lives in library memory,
  list metadata that is a plain string, and copies that copy the slices.
\<close>

definition plain_slice_copy ::
  "('x list \<Rightarrow> 'c) \<Rightarrow> ('c \<Rightarrow> 'x list) \<Rightarrow> 'x \<Rightarrow> slice \<Rightarrow> 'c heap \<Rightarrow> slice \<times> 'c heap" where
  "plain_slice_copy mk un zero = slice_copy mk un zero (\<lambda>x h. (x, h))"

definition views_ref :: "(string list, string \<times> slice, string, string) copy_views" where
  "views_ref = \<lparr>om_view = (\<lambda>h m. (ObjectMeta_named (fst m))\<lparr>om_Finalizers := slice_elems un_LibCell h (snd m)\<rparr>),
     om_refs = (\<lambda>h m. slice_refs un_LibCell (\<lambda>h x. {}) h (snd m)),
     om_ok = (\<lambda>h m. slice_ok un_LibCell (\<lambda>h x. True) h (snd m)),
     lm_view = (\<lambda>h l. l), lm_refs = (\<lambda>h l. {}), lm_ok = (\<lambda>h l. True)\<rparr>"

definition copy_ref :: "(string list, string \<times> slice, string) copy_libs" where
  "copy_ref = \<lparr>ObjectMeta_DeepCopyInto = (\<lambda>m h. case plain_slice_copy LibCell un_LibCell [] (snd m) h of (s, h') \<Rightarrow> ((fst m, s), h')),
     ListMeta_DeepCopyInto = (\<lambda>l h. (l, h)),
     Status_DeepCopyInto = (\<lambda>s h. case plain_slice_copy ConditionArray un_ConditionArray
        \<lparr>c_Type = [], c_Status = [], c_Reason = [], c_Message = []\<rparr> (sr_Conditions s) h of (t, h') \<Rightarrow> (s\<lparr>sr_Conditions := t\<rparr>, h')),
     zero_ObjectMeta = ([], None), zero_ListMeta = []\<rparr>"

lemma slice_view_plain: "slice_elems un h s = (case slice_view un (\<lambda>h x. x) h s of None \<Rightarrow> [] | Some xs \<Rightarrow> xs)"
  by (cases s) (auto simp: slice_view_def slice_elems_def)

lemma plain_slice_copyable:
  assumes "\<And>xs. un (mk xs) = xs"
  shows "deep_copyable (slice_view un (\<lambda>h x. x)) (slice_refs un (\<lambda>h x. {})) (slice_ok un (\<lambda>h x. True)) (plain_slice_copy mk un zero)"
  unfolding plain_slice_copy_def by (rule deep_copyable_slice) (rule deep_copyable_plain, rule assms)

lemma copy_ref_laws: "copy_laws views_ref copy_ref"
proof -
  have "deep_copyable (om_view views_ref) (om_refs views_ref) (om_ok views_ref) (ObjectMeta_DeepCopyInto copy_ref)"
    by (rule deep_copyable_struct [OF plain_slice_copyable [of un_LibCell LibCell "[]", OF cell.sel(1)], where p = snd and q = fst
        and put = "\<lambda>v x. (fst v, x)"
        and F = "\<lambda>n xs. (ObjectMeta_named n)\<lparr>om_Finalizers := (case xs of None \<Rightarrow> [] | Some xs \<Rightarrow> xs)\<rparr>"])
      (simp_all add: views_ref_def copy_ref_def slice_view_plain)
  moreover have "deep_copyable Status_view Status_refs Status_ok (Status_DeepCopyInto copy_ref)"
    by (rule deep_copyable_struct [OF plain_slice_copyable [of un_ConditionArray ConditionArray
          "\<lparr>c_Type = [], c_Status = [], c_Reason = [], c_Message = []\<rparr>", OF cell.sel(2)], where p = sr_Conditions and q = sr_ObservedGeneration
        and put = "\<lambda>v x. v\<lparr>sr_Conditions := x\<rparr>"
        and F = "\<lambda>g xs. \<lparr>st_ObservedGeneration = g, st_Conditions = (case xs of None \<Rightarrow> [] | Some xs \<Rightarrow> xs)\<rparr>"])
      (simp_all add: copy_ref_def Status_view_def Status_refs_def Status_ok_def slice_view_plain)
  moreover have "deep_copyable (lm_view views_ref) (lm_refs views_ref) (lm_ok views_ref) (ListMeta_DeepCopyInto copy_ref)"
    by unfold_locales (simp_all add: views_ref_def copy_ref_def)
  ultimately show ?thesis by (simp add: copy_laws_def)
qed

text \<open>Memory with one duck of two conditions, a list of that duck and a duck type.\<close>

definition mem_duck :: "(string \<times> slice) DuckR" where
  "mem_duck = \<lparr>dr_TypeMeta = TypeMeta_zero, dr_ObjectMeta = (''deployments.apps'', Some (0, 1)),
     dr_Spec = \<lparr>ds_Group = ''apps'', ds_Version = ''v1'', ds_Kind = ''Deployment''\<rparr>,
     dr_Status = \<lparr>dsr_Status = \<lparr>sr_ObservedGeneration = 1, sr_Conditions = Some (1, 1)\<rparr>\<rparr>\<rparr>"

definition mem_ref :: "(string list, string \<times> slice, string) mem" where
  "mem_ref = \<lparr>hp_cells = (\<lambda>a. if a = 0 then LibCell [''finalizer'']
       else if a = 1 then ConditionArray [\<lparr>c_Type = ''Ready'', c_Status = ''True'', c_Reason = [], c_Message = []\<rparr>]
       else if a = 2 then DuckArray [mem_duck]
       else if a = 3 then DuckListCell \<lparr>dlr_TypeMeta = TypeMeta_zero, dlr_ListMeta = [], dlr_Items = Some (2, 1)\<rparr>
       else DuckCell mem_duck), hp_next = 5\<rparr>"

section \<open>Properties\<close>

text \<open>
  What an independent copy is: it denotes the same data as the original, the original is as it
  was, no write to memory of the copy changes the original, and no write to memory that existed
  before changes the copy.
\<close>

definition independent_copy ::
  "('c heap \<Rightarrow> 'v \<Rightarrow> 'a) \<Rightarrow> ('c heap \<Rightarrow> 'v \<Rightarrow> nat set) \<Rightarrow> 'c heap \<Rightarrow> 'v \<Rightarrow> 'v \<Rightarrow> 'c heap \<Rightarrow> bool" where
  "independent_copy V R h p q h' \<longleftrightarrow> V h' q = V h p \<and> V h' p = V h p
     \<and> (\<forall>a \<in> R h' q. \<forall>c. V (hwrite a c h') p = V h p)
     \<and> (\<forall>a < hp_next h. \<forall>c. V (hwrite a c h') q = V h p)"

lemma fst_new_copy [simp]: "fst (new_copy mk un zero C p h) = map_option (\<lambda>_. hp_next h) p"
  by (simp add: new_copy_def halloc_def split: option.splits prod.splits)

lemma new_copy_independent:
  assumes "deep_copyable V R W C" "\<And>v. un (mk v) = v" "ptr_wf un W h p" "new_copy mk un zero C p h = (q, h')"
  shows "independent_copy (ptr_view un V) (ptr_refs un R) h p q h'"
  using deep_copyable.copy_independent [OF deep_copyable_ptr [OF assms(1,2)] assms(3,4)]
  by (simp add: independent_copy_def)

text \<open>
  Property C13.  The generated deep copies are deep.  If the deep copies of the embedded library types are deep,
  so are those of ducks, duck types and their lists: the copy of a pointer denotes the same object, is nil
  for nil, and original and copy share no memory, down to the conditions and metadata of each item.
\<close>

theorem deep_copies_are_independent:
  assumes "copy_laws S L"
  shows "(\<forall>h p q h'. ptr_wf un_DuckCell (Duck_ok S) h p \<longrightarrow> Duck_DeepCopy L p h = (q, h') \<longrightarrow>
      independent_copy (ptr_view un_DuckCell (Duck_view S)) (ptr_refs un_DuckCell (Duck_refs S)) h p q h')
    \<and> (\<forall>h p q h'. ptr_wf un_DuckListCell (DuckList_ok S) h p \<longrightarrow> DuckList_DeepCopy L p h = (q, h') \<longrightarrow>
      independent_copy (ptr_view un_DuckListCell (DuckList_view S)) (ptr_refs un_DuckListCell (DuckList_refs S)) h p q h')
    \<and> (\<forall>h p q h'. ptr_wf un_DuckTypeCell (DuckType_ok S) h p \<longrightarrow> DuckType_DeepCopy L p h = (q, h') \<longrightarrow>
      independent_copy (ptr_view un_DuckTypeCell (DuckType_view S)) (ptr_refs un_DuckTypeCell (DuckType_refs S)) h p q h')
    \<and> (\<forall>h p q h'. ptr_wf un_DuckTypeListCell (DuckTypeList_ok S) h p \<longrightarrow> DuckTypeList_DeepCopy L p h = (q, h') \<longrightarrow>
      independent_copy (ptr_view un_DuckTypeListCell (DuckTypeList_view S)) (ptr_refs un_DuckTypeListCell (DuckTypeList_refs S)) h p q h')"
  unfolding Duck_DeepCopy_def DuckList_DeepCopy_def DuckType_DeepCopy_def DuckTypeList_DeepCopy_def
  using new_copy_independent [OF Duck_copyable [OF assms], of un_DuckCell DuckCell]
    new_copy_independent [OF DuckList_copyable [OF assms], of un_DuckListCell DuckListCell]
    new_copy_independent [OF DuckType_copyable [OF assms], of un_DuckTypeCell DuckTypeCell]
    new_copy_independent [OF DuckTypeList_copyable [OF assms], of un_DuckTypeListCell DuckTypeListCell]
  by simp

theorem deep_copies_are_independent_witness:
  "\<exists>q h'. DuckList_DeepCopy copy_ref (Some 3) mem_ref = (Some q, h') \<and> q \<noteq> 3
     \<and> ptr_view un_DuckListCell (DuckList_view views_ref) h' (Some q) = ptr_view un_DuckListCell (DuckList_view views_ref) mem_ref (Some 3)
     \<and> ptr_view un_DuckListCell (DuckList_view views_ref) (hwrite 1 (ConditionArray []) h') (Some q)
        = ptr_view un_DuckListCell (DuckList_view views_ref) mem_ref (Some 3)"
proof -
  define h' where "h' = snd (DuckList_DeepCopy copy_ref (Some 3) mem_ref)"
  have "fst (DuckList_DeepCopy copy_ref (Some 3) mem_ref) = Some (hp_next mem_ref)" by (simp add: DuckList_DeepCopy_def)
  then have run: "DuckList_DeepCopy copy_ref (Some 3) mem_ref = (Some 5, h')"
    by (simp add: h'_def prod_eq_iff mem_ref_def)
  have "ptr_wf un_DuckListCell (DuckList_ok views_ref) mem_ref (Some 3)"
    by (simp add: ptr_wf_def DuckList_ok_def slice_ok_def slice_elems_def Duck_ok_def Status_ok_def views_ref_def mem_ref_def mem_duck_def)
  then have "independent_copy (ptr_view un_DuckListCell (DuckList_view views_ref)) (ptr_refs un_DuckListCell (DuckList_refs views_ref))
      mem_ref (Some 3) (Some 5) h'"
    using deep_copies_are_independent [OF copy_ref_laws] run by blast
  moreover have "1 < hp_next mem_ref" by (simp add: mem_ref_def)
  ultimately show ?thesis using run unfolding independent_copy_def by (intro exI [of _ 5] exI [of _ h']) simp
qed

text \<open>
  A copy through the interface \<open>runtime.Object\<close> is the nil interface exactly for a nil receiver,
  and otherwise the pointer the typed copy returns under the type of the receiver; an interface with a nil
  pointer inside is never returned.
\<close>

theorem deep_copy_object_types:
  "Duck_DeepCopyObject L p h = (map_option (\<lambda>a. DuckObject (Some a)) (fst (Duck_DeepCopy L p h)), snd (Duck_DeepCopy L p h))
     \<and> DuckList_DeepCopyObject L p h = (map_option (\<lambda>a. DuckListObject (Some a)) (fst (DuckList_DeepCopy L p h)), snd (DuckList_DeepCopy L p h))
     \<and> DuckType_DeepCopyObject L p h = (map_option (\<lambda>a. DuckTypeObject (Some a)) (fst (DuckType_DeepCopy L p h)), snd (DuckType_DeepCopy L p h))
     \<and> DuckTypeList_DeepCopyObject L p h =
         (map_option (\<lambda>a. DuckTypeListObject (Some a)) (fst (DuckTypeList_DeepCopy L p h)), snd (DuckTypeList_DeepCopy L p h))
     \<and> (fst (Duck_DeepCopyObject L p h) = None \<longleftrightarrow> p = None) \<and> (fst (DuckList_DeepCopyObject L p h) = None \<longleftrightarrow> p = None)
     \<and> (fst (DuckType_DeepCopyObject L p h) = None \<longleftrightarrow> p = None) \<and> (fst (DuckTypeList_DeepCopyObject L p h) = None \<longleftrightarrow> p = None)"
  by (cases p) (simp_all add: Duck_DeepCopyObject_def DuckList_DeepCopyObject_def DuckType_DeepCopyObject_def
      DuckTypeList_DeepCopyObject_def Duck_DeepCopy_def DuckList_DeepCopy_def DuckType_DeepCopy_def DuckTypeList_DeepCopy_def
      case_prod_beta)

end
