(* ===== verification/Die_Core.thy ===== *)
theory Die_Core
  imports Go_Prelude
begin

text \<open>
  The dies of \<open>api/v1/zz_generated.die.go\<close>.  A die is a builder for a resource: an object in memory
  with the resource, a sealed resource to compare with and a flag that says whether the die is
  changed in place.  The file holds one copy of the same methods per resource type; they are
  modelled once here, over a \<open>die_kind\<close> that says how dies of the type are kept in a world, how
  the resource is copied and what its frozen metadata are, which only dies of objects have.  A die
  is passed by its address.  JSON, YAML, files, reflection, diffs and patches are library code and
  are parameters of the operations that use them.
\<close>

section \<open>Dies and their kinds\<close>

record ('r, 'f) Die =
  die_mutable :: bool
  die_r :: 'r
  die_seal :: 'r
  die_frozen :: 'f

record ('w, 'r, 'f) die_kind =
  dk_load :: "'w \<Rightarrow> nat \<Rightarrow> ('r, 'f) Die"
  dk_store :: "nat \<Rightarrow> ('r, 'f) Die \<Rightarrow> 'w \<Rightarrow> 'w"
  dk_new :: "('r, 'f) Die \<Rightarrow> 'w \<Rightarrow> nat \<times> 'w"
  dk_copy :: "'r \<Rightarrow> 'w \<Rightarrow> 'r \<times> 'w"
  dk_freeze :: "'r \<Rightarrow> 'f"
  dk_zero :: 'r
  dk_blank :: nat

text \<open>\<open>&Die{...}\<close>, and an error that the code passes to \<open>panic\<close>.\<close>

definition die_new :: "('w, 'r, 'f) die_kind \<Rightarrow> ('r, 'f) Die \<Rightarrow> ('w, string, nat) act" where
  "die_new K x w = (case dk_new K x w of (a, w') \<Rightarrow> (Ok a, w'))"

definition must :: "('w, string, 'a) act \<Rightarrow> ('w, string, 'a) act" where
  "must m w = (case m w of (Ok a, w') \<Rightarrow> (Ok a, w') | (Err e, w') \<Rightarrow> (Panic e, w') | (Panic p, w') \<Rightarrow> (Panic p, w'))"

definition die_copied :: "('w, 'r, 'f) die_kind \<Rightarrow> 'r \<Rightarrow> ('w, string, 'r) act" where
  "die_copied K r w = (case dk_copy K r w of (r', w') \<Rightarrow> (Ok r', w'))"

section \<open>Feeding\<close>

definition Die_DeepCopy :: "('w, 'r, 'f) die_kind \<Rightarrow> nat \<Rightarrow> ('w, string, nat) act" where
  "Die_DeepCopy K d w = (let x = dk_load K w d in
     abind (die_copied K (die_r x)) (\<lambda>r. die_new K
       \<lparr>die_mutable = die_mutable x, die_r = r, die_seal = die_seal x, die_frozen = dk_freeze K r\<rparr>) w)"

definition DieImmutable :: "('w, 'r, 'f) die_kind \<Rightarrow> bool \<Rightarrow> nat \<Rightarrow> ('w, string, nat) act" where
  "DieImmutable K immutable d w = (if die_mutable (dk_load K w d) = (\<not> immutable) then (Ok d, w)
     else abind (Die_DeepCopy K d) (\<lambda>d' w'. (Ok d', dk_store K d' ((dk_load K w' d')\<lparr>die_mutable := \<not> immutable\<rparr>) w')) w)"

definition DieFeed :: "('w, 'r, 'f) die_kind \<Rightarrow> 'r \<Rightarrow> nat \<Rightarrow> ('w, string, nat) act" where
  "DieFeed K r d w = (let x = dk_load K w d in
     if die_mutable x then (Ok d, dk_store K d (x\<lparr>die_frozen := dk_freeze K r, die_r := r\<rparr>) w)
     else die_new K \<lparr>die_mutable = die_mutable x, die_r = r, die_seal = die_seal x, die_frozen = dk_freeze K r\<rparr> w)"

definition DieFeedPtr :: "('w, 'r, 'f) die_kind \<Rightarrow> 'r option \<Rightarrow> nat \<Rightarrow> ('w, string, nat) act" where
  "DieFeedPtr K r d = DieFeed K (case r of None \<Rightarrow> dk_zero K | Some r \<Rightarrow> r) d"

definition DieFeedJSON :: "('w, 'r, 'f) die_kind \<Rightarrow> ('b \<Rightarrow> ('w, string, 'r) act) \<Rightarrow> 'b \<Rightarrow> nat \<Rightarrow> ('w, string, nat) act" where
  "DieFeedJSON K json_Unmarshal j d = abind (must (json_Unmarshal j)) (\<lambda>r. DieFeed K r d)"

definition DieFeedDuck ::
  "('w, 'r, 'f) die_kind \<Rightarrow> ('v \<Rightarrow> ('w, string, 'b) act) \<Rightarrow> ('b \<Rightarrow> ('w, string, 'r) act) \<Rightarrow> 'v \<Rightarrow> nat \<Rightarrow> ('w, string, nat) act" where
  "DieFeedDuck K json_Marshal json_Unmarshal v d = abind (must (json_Marshal v)) (\<lambda>data. DieFeedJSON K json_Unmarshal data d)"

definition DieFeedYAML :: "('w, 'r, 'f) die_kind \<Rightarrow> ('b \<Rightarrow> ('w, string, 'r) act) \<Rightarrow> 'b \<Rightarrow> nat \<Rightarrow> ('w, string, nat) act" where
  "DieFeedYAML K yaml_Unmarshal y d = abind (must (yaml_Unmarshal y)) (\<lambda>r. DieFeed K r d)"

definition DieFeedYAMLFile ::
  "('w, 'r, 'f) die_kind \<Rightarrow> (string \<Rightarrow> ('w, string, 'b) act) \<Rightarrow> ('b \<Rightarrow> ('w, string, 'r) act) \<Rightarrow> string \<Rightarrow> nat \<Rightarrow> ('w, string, nat) act" where
  "DieFeedYAMLFile K ReadFile yaml_Unmarshal name d = abind (must (ReadFile name)) (\<lambda>y. DieFeedYAML K yaml_Unmarshal y d)"

definition DieFeedRawExtension ::
  "('w, 'r, 'f) die_kind \<Rightarrow> ('x \<Rightarrow> ('w, string, 'b) act) \<Rightarrow> ('b \<Rightarrow> ('w, string, 'r) act) \<Rightarrow> 'x \<Rightarrow> nat \<Rightarrow> ('w, string, nat) act" where
  "DieFeedRawExtension K json_Marshal json_Unmarshal raw d =
     abind (must (json_Marshal raw)) (\<lambda>j. DieFeedJSON K json_Unmarshal j d)"

section \<open>Releasing\<close>

definition DieRelease :: "('w, 'r, 'f) die_kind \<Rightarrow> nat \<Rightarrow> ('w, string, 'r) act" where
  "DieRelease K d w = (let x = dk_load K w d in if die_mutable x then (Ok (die_r x), w) else die_copied K (die_r x) w)"

text \<open>The pointer it returns is to a new variable with the released resource.\<close>

definition DieReleasePtr :: "('w, 'r, 'f) die_kind \<Rightarrow> nat \<Rightarrow> ('w, string, 'r) act" where
  "DieReleasePtr K d = DieRelease K d"

definition DieReleaseJSON :: "('w, 'r, 'f) die_kind \<Rightarrow> ('r \<Rightarrow> ('w, string, 'b) act) \<Rightarrow> nat \<Rightarrow> ('w, string, 'b) act" where
  "DieReleaseJSON K json_Marshal d = abind (DieReleasePtr K d) (\<lambda>r. must (json_Marshal r))"

definition DieReleaseDuck ::
  "('w, 'r, 'f) die_kind \<Rightarrow> ('r \<Rightarrow> ('w, string, 'b) act) \<Rightarrow> ('b \<Rightarrow> ('w, string, 'v) act) \<Rightarrow> nat \<Rightarrow> ('w, string, 'v) act" where
  "DieReleaseDuck K json_Marshal json_Unmarshal d = abind (DieReleaseJSON K json_Marshal d) (\<lambda>data. must (json_Unmarshal data))"

definition DieReleaseYAML :: "('w, 'r, 'f) die_kind \<Rightarrow> ('r \<Rightarrow> ('w, string, 'b) act) \<Rightarrow> nat \<Rightarrow> ('w, string, 'b) act" where
  "DieReleaseYAML K yaml_Marshal d = abind (DieReleasePtr K d) (\<lambda>r. must (yaml_Marshal r))"

definition DieReleaseRawExtension ::
  "('w, 'r, 'f) die_kind \<Rightarrow> ('r \<Rightarrow> ('w, string, 'b) act) \<Rightarrow> ('b \<Rightarrow> ('w, string, 'x) act) \<Rightarrow> nat \<Rightarrow> ('w, string, 'x) act" where
  "DieReleaseRawExtension K json_Marshal json_Unmarshal d = abind (DieReleaseJSON K json_Marshal d) (\<lambda>j. must (json_Unmarshal j))"

definition DieReleaseUnstructured ::
  "('w, 'r, 'f) die_kind \<Rightarrow> ('r \<Rightarrow> ('w, string, 'u) act) \<Rightarrow> nat \<Rightarrow> ('w, string, 'u) act" where
  "DieReleaseUnstructured K ToUnstructured d = abind (DieReleasePtr K d) (\<lambda>r. must (ToUnstructured r))"

section \<open>Stamping\<close>

text \<open>The callback is given a pointer to the released resource and leaves its result there.\<close>

definition DieStamp :: "('w, 'r, 'f) die_kind \<Rightarrow> ('r \<Rightarrow> ('w, string, 'r) act) \<Rightarrow> nat \<Rightarrow> ('w, string, nat) act" where
  "DieStamp K fn d = abind (DieRelease K d) (\<lambda>r. abind (fn r) (\<lambda>r'. DieFeed K r' d))"

text \<open>
  What \<open>DieStampAt\<close> asks of reflection and of JSON paths: the arities of the callback, whether a
  match or its address can be passed to it, the search, and the call, which may change the resource
  through the match.
\<close>

record ('w, 'r, 'p, 'v) stamp_ops =
  NumIn :: nat
  NumOut :: nat
  jp_Parse :: "string \<Rightarrow> (string, 'p) result"
  jp_FindResults :: "'p \<Rightarrow> 'r \<Rightarrow> 'w \<Rightarrow> (string, 'v list list) result"
  AssignableTo :: "'v \<Rightarrow> bool"
  CanAddr :: "'v \<Rightarrow> bool"
  AddrAssignableTo :: "'v \<Rightarrow> bool"
  CallWith :: "'v \<Rightarrow> bool \<Rightarrow> 'r \<Rightarrow> 'w \<Rightarrow> 'r \<times> 'w"

fun stamp_matches :: "('w, 'r, 'p, 'v) stamp_ops \<Rightarrow> 'v list \<Rightarrow> 'r \<Rightarrow> ('w, string, 'r) act" where
  "stamp_matches F [] r = areturn r"
| "stamp_matches F (cv # cvs) r = (
     if AssignableTo F cv then (\<lambda>w. case CallWith F cv False r w of (r', w') \<Rightarrow> stamp_matches F cvs r' w')
     else if CanAddr F cv \<and> AddrAssignableTo F cv then (\<lambda>w. case CallWith F cv True r w of (r', w') \<Rightarrow> stamp_matches F cvs r' w')
     else apanic ''callback function must accept value of type'')"

definition DieStampAt :: "('w, 'r, 'f) die_kind \<Rightarrow> ('w, 'r, 'p, 'v) stamp_ops \<Rightarrow> string \<Rightarrow> nat \<Rightarrow> ('w, string, nat) act" where
  "DieStampAt K F jp d = DieStamp K (\<lambda>r.
     if NumIn F \<noteq> 1 then apanic ''callback function must have 1 input parameters''
     else if NumOut F \<noteq> 0 then apanic ''callback function must have 0 output parameters''
     else abind (must (\<lambda>w. (jp_Parse F (''{'' @ jp @ ''}''), w))) (\<lambda>cp w.
       case jp_FindResults F cp r w of
         Err e \<Rightarrow> (Ok r, w)
       | Panic p \<Rightarrow> (Panic p, w)
       | Ok [] \<Rightarrow> (Panic ''index out of range'', w)
       | Ok (cvs # _) \<Rightarrow> stamp_matches F cvs r w)) d"

definition DieWith :: "('w, 'r, 'f) die_kind \<Rightarrow> (nat \<Rightarrow> ('w, string, unit) act) option list \<Rightarrow> nat \<Rightarrow> ('w, string, nat) act" where
  "DieWith K fns d =
     abind (DieRelease K d) (\<lambda>r. abind (DieFeed K r (dk_blank K)) (\<lambda>n. abind (DieImmutable K False n) (\<lambda>nd.
       abind (for_each (\<lambda>fn. case fn of None \<Rightarrow> areturn () | Some f \<Rightarrow> f nd) fns) (\<lambda>_.
         abind (DieRelease K nd) (\<lambda>r'. DieFeed K r' d)))))"

text \<open>
  \<open>d := Blank.DieImmutable(false).DieFeed(x); fn(d); d.DieRelease()\<close>: a callback on a mutable die of
  another kind.
\<close>

definition die_session :: "('w, 'r, 'f) die_kind \<Rightarrow> 'r \<Rightarrow> (nat \<Rightarrow> ('w, string, unit) act) \<Rightarrow> ('w, string, 'r) act" where
  "die_session K x fn = abind (DieImmutable K False (dk_blank K)) (\<lambda>m. abind (DieFeed K x m) (\<lambda>d.
     abind (fn d) (\<lambda>_. DieRelease K d)))"

section \<open>Seals\<close>

definition DieSealFeed :: "('w, 'r, 'f) die_kind \<Rightarrow> 'r \<Rightarrow> nat \<Rightarrow> ('w, string, nat) act" where
  "DieSealFeed K r d = abind (\<lambda>w. if \<not> die_mutable (dk_load K w d) then Die_DeepCopy K d w else (Ok d, w))
     (\<lambda>d'. abind (die_copied K r) (\<lambda>s w. (Ok d', dk_store K d' ((dk_load K w d')\<lparr>die_seal := s\<rparr>) w)))"

definition DieSeal :: "('w, 'r, 'f) die_kind \<Rightarrow> nat \<Rightarrow> ('w, string, nat) act" where
  "DieSeal K d w = DieSealFeed K (die_r (dk_load K w d)) d w"

definition DieSealFeedPtr :: "('w, 'r, 'f) die_kind \<Rightarrow> 'r option \<Rightarrow> nat \<Rightarrow> ('w, string, nat) act" where
  "DieSealFeedPtr K r d = DieSealFeed K (case r of None \<Rightarrow> dk_zero K | Some r \<Rightarrow> r) d"

definition DieSealRelease :: "('w, 'r, 'f) die_kind \<Rightarrow> nat \<Rightarrow> ('w, string, 'r) act" where
  "DieSealRelease K d w = die_copied K (die_seal (dk_load K w d)) w"

definition DieSealReleasePtr :: "('w, 'r, 'f) die_kind \<Rightarrow> nat \<Rightarrow> ('w, string, 'r) act" where
  "DieSealReleasePtr K d = DieSealRelease K d"

definition DieDiff :: "('w, 'r, 'f) die_kind \<Rightarrow> ('r \<Rightarrow> 'r \<Rightarrow> 'w \<Rightarrow> string) \<Rightarrow> nat \<Rightarrow> 'w \<Rightarrow> string" where
  "DieDiff K cmp_Diff d w = cmp_Diff (die_seal (dk_load K w d)) (die_r (dk_load K w d)) w"

definition DiePatch :: "('w, 'r, 'f) die_kind \<Rightarrow> ('r \<Rightarrow> 'r \<Rightarrow> 't \<Rightarrow> 'w \<Rightarrow> (string, 'b) result) \<Rightarrow> 't \<Rightarrow> nat \<Rightarrow> 'w \<Rightarrow> (string, 'b) result" where
  "DiePatch K patch_Create patchType d w = patch_Create (die_seal (dk_load K w d)) (die_r (dk_load K w d)) patchType w"

section \<open>Dies of objects\<close>

definition Die_MarshalJSON :: "('w, 'r, 'f) die_kind \<Rightarrow> ('r \<Rightarrow> ('w, string, 'b) act) \<Rightarrow> nat \<Rightarrow> ('w, string, 'b) act" where
  "Die_MarshalJSON K json_Marshal d w = json_Marshal (die_r (dk_load K w d)) w"

text \<open>The decoder leaves what it could decode in the resource, whether it ends in an error or not.\<close>

definition Die_UnmarshalJSON ::
  "('w, 'r, 'f) die_kind \<Rightarrow> ('b \<Rightarrow> 'w \<Rightarrow> ('r \<times> string option) \<times> 'w) \<Rightarrow> 'b \<Rightarrow> nat \<Rightarrow> ('w, string, unit) act" where
  "Die_UnmarshalJSON K decode b d w =
     (if \<not> die_mutable (dk_load K w d) then (Err ''cannot unmarshal into immutable dies, create a mutable version first'', w)
      else case decode b w of ((r, err), w1) \<Rightarrow>
        abind (DieFeed K r d) (\<lambda>d' w2. (case err of None \<Rightarrow> Ok () | Some e \<Rightarrow> Err e, dk_store K d (dk_load K w2 d') w2)) w1)"

definition Die_DeepCopyObject :: "('w, 'r, 'f) die_kind \<Rightarrow> nat \<Rightarrow> ('w, string, 'r) act" where
  "Die_DeepCopyObject K d w = die_copied K (die_r (dk_load K w d)) w"

definition Die_GetObjectKind :: "('w, 'r, 'f) die_kind \<Rightarrow> ('r \<Rightarrow> 'k) \<Rightarrow> nat \<Rightarrow> ('w, string, 'k) act" where
  "Die_GetObjectKind K kind_of d = abind (DieRelease K d) (\<lambda>r. areturn (kind_of r))"

section \<open>Stores of dies\<close>

text \<open>Actions whose effect on the world stays within a relation.\<close>

definition act_within :: "('w \<Rightarrow> 'w \<Rightarrow> bool) \<Rightarrow> ('w, 'e, 'a) act \<Rightarrow> bool" where
  "act_within R m \<longleftrightarrow> (\<forall>w. R w (snd (m w)))"

named_theorems within_intros \<open>actions that stay within a relation\<close>

lemma act_withinI: "(\<And>w. R w (snd (m w))) \<Longrightarrow> act_within R m"
  and act_withinD: "act_within R m \<Longrightarrow> m w = (res, w') \<Longrightarrow> R w w'"
  by (auto simp: act_within_def dest: spec [of _ w])

lemma within_abind:
  assumes "transp R" "act_within R m" "\<And>a. act_within R (f a)"
  shows "act_within R (abind m f)"
proof (rule act_withinI)
  fix w
  obtain res w1 where m: "m w = (res, w1)" by fastforce
  note r = act_withinD [OF assms(2) m]
  show "R w (snd (abind m f w))"
  proof (cases res)
    case (Ok a)
    have "R w1 (snd (f a w1))" using assms(3) by (simp add: act_within_def)
    then show ?thesis using Ok m r assms(1) by (simp add: abind_def) (meson transpD)
  qed (use m r in \<open>simp_all add: abind_def\<close>)
qed

lemma within_must [within_intros]: "act_within R m \<Longrightarrow> act_within R (must m)"
  by (rule act_withinI) (auto simp: must_def dest: act_withinD split: prod.splits result.splits)

lemma within_for_each:
  assumes "reflp R" "transp R" "\<And>x. x \<in> set xs \<Longrightarrow> act_within R (f x)"
  shows "act_within R (for_each f xs)"
  using assms(3)
proof (induction xs)
  case Nil
  then show ?case using assms(1) by (simp add: act_within_def reflp_def)
next
  case (Cons x xs)
  then show ?case by (simp add: within_abind [OF assms(2)])
qed

text \<open>
  The interface of a store of dies: \<open>limit\<close> is the next free address, and \<open>keep\<close> relates a world to
  the worlds in which nothing that must persist has changed.  New dies get a fresh address, dies
  are stored independently of each other, copies of resources leave dies alone; only the fields of
  a mutable die or of a die that is not in the older world may be overwritten.
\<close>

locale die_store =
  fixes K :: "('w, 'r, 'f) die_kind" and limit :: "'w \<Rightarrow> nat" and keep :: "'w \<Rightarrow> 'w \<Rightarrow> bool"
  assumes new_fresh: "dk_new K x w = (a, w') \<Longrightarrow>
      a = limit w \<and> limit w' = Suc (limit w) \<and> (\<forall>b. dk_load K w' b = (if b = a then x else dk_load K w b))"
    and load_store: "dk_load K (dk_store K a x w) b = (if b = a then x else dk_load K w b)"
    and limit_store: "limit (dk_store K a x w) = limit w"
    and copy_frame: "dk_copy K r w = (r', w') \<Longrightarrow> limit w' = limit w \<and> dk_load K w' = dk_load K w"
    and keep_reflp: "reflp keep" and keep_transp: "transp keep"
    and keep_limit: "keep w w' \<Longrightarrow> limit w \<le> limit w'"
    and keep_load: "keep w w' \<Longrightarrow> a < limit w \<Longrightarrow> \<not> die_mutable (dk_load K w a) \<Longrightarrow> dk_load K w' a = dk_load K w a"
    and new_keeps: "dk_new K x w = (a, w') \<Longrightarrow> keep w w'"
    and copy_keeps: "dk_copy K r w = (r', w') \<Longrightarrow> keep w w'"
    and store_mutable_keeps: "die_mutable (dk_load K w a) \<Longrightarrow> keep w (dk_store K a x w)"
    and store_fresh_keeps: "keep w w' \<Longrightarrow> limit w \<le> a \<Longrightarrow> keep w (dk_store K a x w')"
begin

lemma keep_refl: "keep w w"
  using keep_reflp by (simp add: reflp_def)

lemma keep_trans: "keep w1 w2 \<Longrightarrow> keep w2 w3 \<Longrightarrow> keep w1 w3"
  using keep_transp by (meson transpD)

lemma within_return [within_intros]: "act_within keep (areturn a)"
  by (simp add: act_within_def keep_refl)

lemma within_panic [within_intros]: "act_within keep (apanic p)"
  by (simp add: act_within_def keep_refl)

lemmas within_bind [within_intros] = within_abind [OF keep_transp]

lemmas within_each [within_intros] = within_for_each [OF keep_reflp keep_transp]

lemma within_copied [within_intros]: "act_within keep (die_copied K r)"
  by (rule act_withinI) (auto simp: die_copied_def copy_keeps split: prod.splits)

lemma within_new [within_intros]: "act_within keep (die_new K x)"
  by (rule act_withinI) (auto simp: die_new_def new_keeps split: prod.splits)

lemma DeepCopy_run:
  obtains r w1 w2 where "dk_copy K (die_r (dk_load K w d)) w = (r, w1)" "Die_DeepCopy K d w = (Ok (limit w), w2)"
    "limit w2 = Suc (limit w)" "keep w w2"
    "\<And>b. dk_load K w2 b = (if b = limit w then \<lparr>die_mutable = die_mutable (dk_load K w d), die_r = r,
        die_seal = die_seal (dk_load K w d), die_frozen = dk_freeze K r\<rparr> else dk_load K w b)"
proof -
  let ?x = "dk_load K w d"
  obtain r w1 where r: "dk_copy K (die_r ?x) w = (r, w1)" by fastforce
  let ?y = "\<lparr>die_mutable = die_mutable ?x, die_r = r, die_seal = die_seal ?x, die_frozen = dk_freeze K r\<rparr>"
  obtain a w2 where a: "dk_new K ?y w1 = (a, w2)" by fastforce
  have "Die_DeepCopy K d w = (Ok a, w2)"
    using r a by (simp add: Die_DeepCopy_def Let_def die_copied_def die_new_def abind_def)
  then show ?thesis
    using that r copy_frame [OF r] new_fresh [OF a] keep_trans [OF copy_keeps [OF r] new_keeps [OF a]] by simp
qed

lemma within_DeepCopy [within_intros]: "act_within keep (Die_DeepCopy K d)"
proof (rule act_withinI)
  fix w show "keep w (snd (Die_DeepCopy K d w))" by (rule DeepCopy_run [of w d]) simp
qed

lemma within_DieImmutable [within_intros]: "act_within keep (DieImmutable K b d)"
proof (rule act_withinI)
  fix w
  obtain r w1 w2 where c: "Die_DeepCopy K d w = (Ok (limit w), w2)" "keep w w2" by (rule DeepCopy_run [of w d])
  show "keep w (snd (DieImmutable K b d w))"
    using keep_refl store_fresh_keeps [OF c(2)] c(1) by (simp add: DieImmutable_def abind_def)
qed

lemma within_DieFeed [within_intros]: "act_within keep (DieFeed K r d)"
proof (rule act_withinI)
  fix w show "keep w (snd (DieFeed K r d w))"
    using store_mutable_keeps within_new unfolding DieFeed_def Let_def act_within_def by simp
qed

lemma Feed_run:
  obtains w' where "DieFeed K r d w = (Ok (if die_mutable (dk_load K w d) then d else limit w), w')"
    "keep w w'" "limit w \<le> limit w'" "d < limit w \<Longrightarrow> (if die_mutable (dk_load K w d) then d else limit w) < limit w'"
    "\<And>b. dk_load K w' b = (if b = (if die_mutable (dk_load K w d) then d else limit w)
        then (dk_load K w d)\<lparr>die_r := r, die_frozen := dk_freeze K r\<rparr> else dk_load K w b)"
proof -
  let ?x = "dk_load K w d"
  have k: "keep w (snd (DieFeed K r d w))" using within_DieFeed by (simp add: act_within_def)
  show ?thesis
  proof (cases "die_mutable ?x")
    case True
    then show ?thesis
      using that [of "dk_store K d (?x\<lparr>die_frozen := dk_freeze K r, die_r := r\<rparr>) w"] k keep_limit [OF k]
      by (simp add: DieFeed_def Let_def load_store limit_store)
  next
    case False
    let ?y = "?x\<lparr>die_r := r, die_frozen := dk_freeze K r\<rparr>"
    obtain a w' where a: "dk_new K ?y w = (a, w')" by fastforce
    have y: "\<lparr>die_mutable = False, die_r = r, die_seal = die_seal ?x, die_frozen = dk_freeze K r\<rparr> = ?y"
      using False by (cases ?x) simp
    have "DieFeed K r d w = (Ok a, w')" using False a unfolding y [symmetric] by (simp add: DieFeed_def Let_def die_new_def)
    then show ?thesis using that [of w'] k keep_limit [OF k] new_fresh [OF a] False by simp
  qed
qed

lemma Feed_mutable_run:
  assumes "die_mutable (dk_load K w d)"
  obtains w' where "DieFeed K r d w = (Ok d, w')" "limit w \<le> limit w'"
    "\<And>b. dk_load K w' b = (if b = d then (dk_load K w d)\<lparr>die_r := r, die_frozen := dk_freeze K r\<rparr> else dk_load K w b)"
  by (rule Feed_run [of r d w]) (simp add: assms that)

lemma Feed_immutable_run:
  assumes "\<not> die_mutable (dk_load K w d)" "d < limit w"
  obtains w' where "DieFeed K r d w = (Ok (limit w), w')" "limit w < limit w'"
    "\<And>b. dk_load K w' b = (if b = limit w then (dk_load K w d)\<lparr>die_r := r, die_frozen := dk_freeze K r\<rparr> else dk_load K w b)"
  by (rule Feed_run [of r d w]) (simp add: assms that)

lemma within_DieRelease [within_intros]: "act_within keep (DieRelease K d)"
  using within_copied keep_refl unfolding DieRelease_def Let_def act_within_def by simp

lemma within_DieStamp [within_intros]: "(\<And>r. act_within keep (fn r)) \<Longrightarrow> act_within keep (DieStamp K fn d)"
  unfolding DieStamp_def by (intro within_intros)

lemma within_session [within_intros]: "(\<And>a. act_within keep (fn a)) \<Longrightarrow> act_within keep (die_session K x fn)"
  unfolding die_session_def by (intro within_intros)

lemma within_DieSealFeed [within_intros]: "act_within keep (DieSealFeed K r d)"
proof (rule act_withinI)
  fix w
  show "keep w (snd (DieSealFeed K r d w))"
  proof (cases "die_mutable (dk_load K w d)")
    case True
    obtain s w1 where s: "dk_copy K r w = (s, w1)" by fastforce
    have "dk_load K w1 d = dk_load K w d" using copy_frame [OF s] by simp
    then have "keep w (dk_store K d ((dk_load K w1 d)\<lparr>die_seal := s\<rparr>) w1)"
      using True keep_trans [OF copy_keeps [OF s] store_mutable_keeps] by simp
    then show ?thesis using True s by (simp add: DieSealFeed_def abind_def die_copied_def)
  next
    case False
    obtain q w1 w2 where c: "Die_DeepCopy K d w = (Ok (limit w), w2)" "keep w w2" by (rule DeepCopy_run [of w d])
    obtain s w3 where s: "dk_copy K r w2 = (s, w3)" by fastforce
    have "keep w (dk_store K (limit w) x w3)" for x
      using store_fresh_keeps [OF keep_trans [OF c(2) copy_keeps [OF s]]] by simp
    then show ?thesis using False s c(1) by (simp add: DieSealFeed_def abind_def die_copied_def)
  qed
qed

lemma within_DieSeal [within_intros]: "act_within keep (DieSeal K d)"
  using within_DieSealFeed by (simp add: DieSeal_def act_within_def)

lemma within_DieFeedJSON [within_intros]: "act_within keep (unmarshal j) \<Longrightarrow> act_within keep (DieFeedJSON K unmarshal j d)"
  unfolding DieFeedJSON_def by (intro within_intros)

lemma within_UnmarshalJSON [within_intros]:
  assumes "\<And>b w. keep w (snd (decode b w))" "\<And>b w. dk_load K (snd (decode b w)) d = dk_load K w d"
  shows "act_within keep (Die_UnmarshalJSON K decode b d)"
proof (rule act_withinI)
  fix w
  obtain r err w1 where dec: "decode b w = ((r, err), w1)" by (metis prod.collapse)
  show "keep w (snd (Die_UnmarshalJSON K decode b d w))"
  proof (cases "die_mutable (dk_load K w d)")
    case True
    have m: "die_mutable (dk_load K w1 d)" using assms(2) [of b w] dec True by simp
    obtain w2 where f: "DieFeed K r d w1 = (Ok d, w2)"
      "\<And>b. dk_load K w2 b = (if b = d then (dk_load K w1 d)\<lparr>die_r := r, die_frozen := dk_freeze K r\<rparr> else dk_load K w1 b)"
      by (rule Feed_mutable_run [OF m, of r]) (rule that)
    have "keep w1 w2" using act_withinD [OF within_DieFeed f(1)] .
    moreover have "keep w w1" using assms(1) [of w b] dec by simp
    moreover have "die_mutable (dk_load K w2 d)" using f(2) m by simp
    ultimately have "keep w (dk_store K d x w2)" for x using keep_trans store_mutable_keeps by blast
    then show ?thesis using True dec f(1) by (simp add: Die_UnmarshalJSON_def abind_def)
  qed (simp add: Die_UnmarshalJSON_def keep_refl)
qed

lemma within_DieWith [within_intros]:
  assumes "\<And>f nd. Some f \<in> set fns \<Longrightarrow> act_within keep (f nd)"
  shows "act_within keep (DieWith K fns d)"
  unfolding DieWith_def by (intro within_intros) (auto split: option.split intro: within_intros assms)

end

context die_store
begin

text \<open>What releasing and unlocking a die return and leave behind.\<close>

lemma Release_run:
  obtains r w' where "DieRelease K d w = (Ok r, w')" "limit w' = limit w" "dk_load K w' = dk_load K w" "keep w w'"
    "if die_mutable (dk_load K w d) then r = die_r (dk_load K w d) \<and> w' = w else dk_copy K (die_r (dk_load K w d)) w = (r, w')"
proof (cases "die_mutable (dk_load K w d)")
  case True
  then show ?thesis using that [of "die_r (dk_load K w d)" w] by (simp add: DieRelease_def keep_refl)
next
  case False
  obtain r w' where r: "dk_copy K (die_r (dk_load K w d)) w = (r, w')" by fastforce
  then show ?thesis using that [of r w'] False copy_frame [OF r] copy_keeps [OF r]
    by (simp add: DieRelease_def die_copied_def)
qed

lemma Unlock_run:
  assumes "\<not> die_mutable (dk_load K w d)" "dk_copy K (die_r (dk_load K w d)) w = (r, w1)"
  obtains w' where "DieImmutable K False d w = (Ok (limit w), w')" "keep w w'" "limit w < limit w'"
    "\<And>b. dk_load K w' b = (if b = limit w then \<lparr>die_mutable = True, die_r = r,
        die_seal = die_seal (dk_load K w d), die_frozen = dk_freeze K r\<rparr> else dk_load K w b)"
proof -
  obtain r' w1' w2 where c: "dk_copy K (die_r (dk_load K w d)) w = (r', w1')" "Die_DeepCopy K d w = (Ok (limit w), w2)"
    "limit w2 = Suc (limit w)" "keep w w2"
    "\<And>b. dk_load K w2 b = (if b = limit w then \<lparr>die_mutable = die_mutable (dk_load K w d), die_r = r',
        die_seal = die_seal (dk_load K w d), die_frozen = dk_freeze K r'\<rparr> else dk_load K w b)"
    by (rule DeepCopy_run [of w d]) blast
  let ?w' = "dk_store K (limit w) ((dk_load K w2 (limit w))\<lparr>die_mutable := True\<rparr>) w2"
  have "DieImmutable K False d w = (Ok (limit w), ?w')" using assms(1) c(2) by (simp add: DieImmutable_def abind_def)
  then show ?thesis
    using that [of ?w'] c(1,3,5) assms(2) store_fresh_keeps [OF c(4)] by (simp add: limit_store load_store)
qed

end

text \<open>Calls of setters one after the other, and the same setters on the die \<open>DieWith\<close> passes.\<close>

fun stamps :: "('w, 'r, 'f) die_kind \<Rightarrow> ('r \<Rightarrow> 'r) list \<Rightarrow> nat \<Rightarrow> ('w, string, nat) act" where
  "stamps K [] d = areturn d"
| "stamps K (g # gs) d = abind (DieStamp K (\<lambda>r. areturn (g r)) d) (stamps K gs)"

definition stampers :: "('w, 'r, 'f) die_kind \<Rightarrow> ('r \<Rightarrow> 'r) list \<Rightarrow> (nat \<Rightarrow> ('w, string, unit) act) option list" where
  "stampers K gs = map (\<lambda>g. Some (\<lambda>nd. abind (DieStamp K (\<lambda>r. areturn (g r)) nd) (\<lambda>_. areturn ()))) gs"

text \<open>The outcome of an operation that leaves the die \<open>d\<close> of a world with the resource \<open>r\<close>.\<close>

definition die_now ::
  "('w, 'r, 'f) die_kind \<Rightarrow> ('w \<Rightarrow> nat) \<Rightarrow> ('w \<Rightarrow> 'w \<Rightarrow> bool) \<Rightarrow> nat \<Rightarrow> 'w \<Rightarrow> 'r \<Rightarrow> (string, nat) result \<times> 'w \<Rightarrow> bool" where
  "die_now K limit keep d w r out \<longleftrightarrow> (\<exists>d' w'. out = (Ok d', w') \<and> keep w w' \<and> d' < limit w'
     \<and> die_r (dk_load K w' d') = r \<and> die_seal (dk_load K w' d') = die_seal (dk_load K w d)
     \<and> die_mutable (dk_load K w' d') = die_mutable (dk_load K w d) \<and> (die_mutable (dk_load K w d) \<longrightarrow> d' = d))"

text \<open>Kinds whose resources are plain values, which assignment copies.\<close>

locale plain_die_store = die_store +
  assumes plain_copy: "dk_copy K r w = (r, w)"
begin

lemma Release_plain: "DieRelease K d w = (Ok (die_r (dk_load K w d)), w)"
  by (simp add: DieRelease_def die_copied_def plain_copy Let_def)

lemma Stamp_plain: "DieStamp K (\<lambda>r. areturn (g r)) d w = DieFeed K (g (die_r (dk_load K w d))) d w"
  by (simp add: DieStamp_def abind_def Release_plain)

lemma Feed_now: "d < limit w \<Longrightarrow> die_now K limit keep d w r (DieFeed K r d w)"
  by (rule Feed_run [of r d w]) (auto simp: die_now_def)

lemma stamps_now:
  "d < limit w \<Longrightarrow> die_now K limit keep d w (fold (\<lambda>g. g) gs (die_r (dk_load K w d))) (stamps K gs d w)"
proof (induction gs arbitrary: d w)
  case Nil
  then show ?case by (simp add: die_now_def keep_refl)
next
  case (Cons g gs)
  obtain d1 w1 where f: "DieFeed K (g (die_r (dk_load K w d))) d w = (Ok d1, w1)" "keep w w1" "d1 < limit w1"
    "die_r (dk_load K w1 d1) = g (die_r (dk_load K w d))" "die_seal (dk_load K w1 d1) = die_seal (dk_load K w d)"
    "die_mutable (dk_load K w1 d1) = die_mutable (dk_load K w d)" "die_mutable (dk_load K w d) \<longrightarrow> d1 = d"
    using Feed_now [OF Cons.prems, of "g (die_r (dk_load K w d))"] unfolding die_now_def by blast
  have "stamps K (g # gs) d w = stamps K gs d1 w1" by (simp add: abind_def Stamp_plain f(1))
  moreover have "die_now K limit keep d1 w1 (fold (\<lambda>g. g) gs (g (die_r (dk_load K w d)))) (stamps K gs d1 w1)"
    using Cons.IH [OF f(3)] by (simp add: f(4))
  ultimately show ?case
    using keep_trans [OF f(2)] f(5-7) unfolding die_now_def by auto
qed

lemma stampers_run:
  "die_mutable (dk_load K w nd) \<Longrightarrow> nd < limit w \<Longrightarrow>
    \<exists>w'. for_each (\<lambda>fn. case fn of None \<Rightarrow> areturn () | Some f \<Rightarrow> f nd) (stampers K gs) w = (Ok (), w')
     \<and> limit w \<le> limit w' \<and> die_mutable (dk_load K w' nd) \<and> die_r (dk_load K w' nd) = fold (\<lambda>g. g) gs (die_r (dk_load K w nd))
     \<and> (\<forall>b. b \<noteq> nd \<longrightarrow> dk_load K w' b = dk_load K w b)"
proof (induction gs arbitrary: w)
  case Nil
  then show ?case by (simp add: stampers_def)
next
  case (Cons g gs)
  let ?x = "dk_load K w nd"
  obtain w1 where f: "DieFeed K (g (die_r ?x)) nd w = (Ok nd, w1)" "limit w \<le> limit w1"
    "\<And>b. dk_load K w1 b = (if b = nd then ?x\<lparr>die_r := g (die_r ?x), die_frozen := dk_freeze K (g (die_r ?x))\<rparr> else dk_load K w b)"
    by (rule Feed_mutable_run [OF Cons.prems(1), of "g (die_r ?x)"]) (rule that)
  have "for_each (\<lambda>fn. case fn of None \<Rightarrow> areturn () | Some f \<Rightarrow> f nd) (stampers K (g # gs)) w =
      for_each (\<lambda>fn. case fn of None \<Rightarrow> areturn () | Some f \<Rightarrow> f nd) (stampers K gs) w1"
    by (simp add: stampers_def abind_def Stamp_plain f(1))
  then show ?case using Cons.IH [of w1] Cons.prems f by auto
qed

lemma With_now:
  assumes "d < limit w" "dk_blank K < limit w" "\<not> die_mutable (dk_load K w (dk_blank K))"
  shows "die_now K limit keep d w (fold (\<lambda>g. g) gs (die_r (dk_load K w d))) (DieWith K (stampers K gs) d w)"
proof -
  let ?x = "dk_load K w d" and ?b = "dk_blank K"
  obtain w1 where n: "DieFeed K (die_r ?x) ?b w = (Ok (limit w), w1)" "limit w < limit w1"
    "\<And>b. dk_load K w1 b = (if b = limit w then (dk_load K w ?b)\<lparr>die_r := die_r ?x, die_frozen := dk_freeze K (die_r ?x)\<rparr> else dk_load K w b)"
    by (rule Feed_immutable_run [OF assms(3,2), of "die_r ?x"]) (rule that)
  obtain w2 where u: "DieImmutable K False (limit w) w1 = (Ok (limit w1), w2)" "limit w1 < limit w2"
    "\<And>b. dk_load K w2 b = (if b = limit w1 then \<lparr>die_mutable = True, die_r = die_r ?x,
        die_seal = die_seal (dk_load K w1 (limit w)), die_frozen = dk_freeze K (die_r ?x)\<rparr> else dk_load K w1 b)"
    by (rule Unlock_run [of w1 "limit w" "die_r ?x" w1]) (use assms(3) n plain_copy in auto)
  obtain w3 where l: "for_each (\<lambda>fn. case fn of None \<Rightarrow> areturn () | Some f \<Rightarrow> f (limit w1)) (stampers K gs) w2 = (Ok (), w3)"
    "limit w2 \<le> limit w3" "die_r (dk_load K w3 (limit w1)) = fold (\<lambda>g. g) gs (die_r ?x)"
    "\<And>b. b \<noteq> limit w1 \<Longrightarrow> dk_load K w3 b = dk_load K w2 b"
    using stampers_run [of w2 "limit w1" gs] u by auto
  have "DieWith K (stampers K gs) d w = DieFeed K (fold (\<lambda>g. g) gs (die_r ?x)) d w3"
    by (simp add: DieWith_def abind_def Release_plain n(1) u(1) l(1,3))
  moreover have "dk_load K w3 d = ?x" "d < limit w3" using l(2,4) u(2,3) n(2,3) assms(1) by auto
  moreover have "act_within keep (DieWith K (stampers K gs) d)"
    by (intro within_intros) (auto simp: stampers_def intro!: within_intros)
  ultimately show ?thesis
    using Feed_now [of d w3 "fold (\<lambda>g. g) gs (die_r ?x)"] by (auto simp: die_now_def dest: act_withinD)
qed

end

end
