(* ===== verification/Api_Dies.thy ===== *)
theory Api_Dies
  imports Api_DeepCopy Die_Core
begin

text \<open>
  The dies of the API types: the six kinds of \<open>zz_generated.die.go\<close>, their setters, and the methods
  that \<open>duck_dies.go\<close> and \<open>ducktype_dies.go\<close> add.  All dies live in one world beside the memory their
  resources share.  Dies of the library types embedded in a resource appear as what a callback
  makes of the value such a mutable die is fed with.
\<close>

section \<open>The world of dies\<close>

record ('c, 'm, 'l, 'f) dies =
  w_mem :: "('c, 'm, 'l) mem"
  w_next :: nat
  w_DuckSpec :: "nat \<Rightarrow> (DuckSpec, unit) Die"
  w_DuckStatus :: "nat \<Rightarrow> (DuckStatusR, unit) Die"
  w_Duck :: "nat \<Rightarrow> ('m DuckR, 'f) Die"
  w_DuckTypeSpec :: "nat \<Rightarrow> (DuckTypeSpec, unit) Die"
  w_DuckTypeStatus :: "nat \<Rightarrow> (DuckTypeStatusR, unit) Die"
  w_DuckType :: "nat \<Rightarrow> ('m DuckTypeR, 'f) Die"

text \<open>
  A call that reads and writes the shared memory.  The copy \<open>*r.DeepCopy()\<close> is the value that
  \<open>DeepCopyInto\<close> leaves in a new variable.
\<close>

definition in_mem :: "(('c, 'm, 'l) mem \<Rightarrow> 'a \<times> ('c, 'm, 'l) mem) \<Rightarrow> ('c, 'm, 'l, 'f) dies \<Rightarrow> 'a \<times> ('c, 'm, 'l, 'f) dies" where
  "in_mem f w = (case f (w_mem w) of (a, m) \<Rightarrow> (a, w\<lparr>w_mem := m\<rparr>))"

definition DuckSpecDie :: "(('c, 'm, 'l, 'f) dies, DuckSpec, unit) die_kind" where
  "DuckSpecDie = \<lparr>dk_load = w_DuckSpec, dk_store = (\<lambda>a x w. w\<lparr>w_DuckSpec := (w_DuckSpec w)(a := x)\<rparr>),
     dk_new = (\<lambda>x w. (w_next w, w\<lparr>w_DuckSpec := (w_DuckSpec w)(w_next w := x), w_next := Suc (w_next w)\<rparr>)),
     dk_copy = (\<lambda>r. in_mem (DuckSpec_DeepCopyInto r)), dk_freeze = (\<lambda>r. ()),
     dk_zero = \<lparr>ds_Group = [], ds_Version = [], ds_Kind = []\<rparr>, dk_blank = 0\<rparr>"

definition DuckStatusDie :: "('c, 'm, 'l) copy_libs \<Rightarrow> (('c, 'm, 'l, 'f) dies, DuckStatusR, unit) die_kind" where
  "DuckStatusDie L = \<lparr>dk_load = w_DuckStatus, dk_store = (\<lambda>a x w. w\<lparr>w_DuckStatus := (w_DuckStatus w)(a := x)\<rparr>),
     dk_new = (\<lambda>x w. (w_next w, w\<lparr>w_DuckStatus := (w_DuckStatus w)(w_next w := x), w_next := Suc (w_next w)\<rparr>)),
     dk_copy = (\<lambda>r. in_mem (DuckStatus_DeepCopyInto L r)), dk_freeze = (\<lambda>r. ()),
     dk_zero = \<lparr>dsr_Status = zero_Status\<rparr>, dk_blank = 0\<rparr>"

definition DuckDie :: "('c, 'm, 'l) copy_libs \<Rightarrow> ('m \<Rightarrow> 'f) \<Rightarrow> (('c, 'm, 'l, 'f) dies, 'm DuckR, 'f) die_kind" where
  "DuckDie L FreezeObjectMeta = \<lparr>dk_load = w_Duck, dk_store = (\<lambda>a x w. w\<lparr>w_Duck := (w_Duck w)(a := x)\<rparr>),
     dk_new = (\<lambda>x w. (w_next w, w\<lparr>w_Duck := (w_Duck w)(w_next w := x), w_next := Suc (w_next w)\<rparr>)),
     dk_copy = (\<lambda>r. in_mem (Duck_DeepCopyInto L r)), dk_freeze = (\<lambda>r. FreezeObjectMeta (dr_ObjectMeta r)),
     dk_zero = zero_Duck L, dk_blank = 0\<rparr>"

definition DuckTypeSpecDie :: "(('c, 'm, 'l, 'f) dies, DuckTypeSpec, unit) die_kind" where
  "DuckTypeSpecDie = \<lparr>dk_load = w_DuckTypeSpec, dk_store = (\<lambda>a x w. w\<lparr>w_DuckTypeSpec := (w_DuckTypeSpec w)(a := x)\<rparr>),
     dk_new = (\<lambda>x w. (w_next w, w\<lparr>w_DuckTypeSpec := (w_DuckTypeSpec w)(w_next w := x), w_next := Suc (w_next w)\<rparr>)),
     dk_copy = (\<lambda>r. in_mem (DuckTypeSpec_DeepCopyInto r)), dk_freeze = (\<lambda>r. ()),
     dk_zero = \<lparr>dts_Group = [], dts_Plural = [], dts_Singular = [], dts_Kind = [], dts_ListKind = []\<rparr>, dk_blank = 0\<rparr>"

definition DuckTypeStatusDie :: "('c, 'm, 'l) copy_libs \<Rightarrow> (('c, 'm, 'l, 'f) dies, DuckTypeStatusR, unit) die_kind" where
  "DuckTypeStatusDie L = \<lparr>dk_load = w_DuckTypeStatus, dk_store = (\<lambda>a x w. w\<lparr>w_DuckTypeStatus := (w_DuckTypeStatus w)(a := x)\<rparr>),
     dk_new = (\<lambda>x w. (w_next w, w\<lparr>w_DuckTypeStatus := (w_DuckTypeStatus w)(w_next w := x), w_next := Suc (w_next w)\<rparr>)),
     dk_copy = (\<lambda>r. in_mem (DuckTypeStatus_DeepCopyInto L r)), dk_freeze = (\<lambda>r. ()),
     dk_zero = \<lparr>dtsr_Status = zero_Status\<rparr>, dk_blank = 0\<rparr>"

definition DuckTypeDie :: "('c, 'm, 'l) copy_libs \<Rightarrow> ('m \<Rightarrow> 'f) \<Rightarrow> (('c, 'm, 'l, 'f) dies, 'm DuckTypeR, 'f) die_kind" where
  "DuckTypeDie L FreezeObjectMeta = \<lparr>dk_load = w_DuckType, dk_store = (\<lambda>a x w. w\<lparr>w_DuckType := (w_DuckType w)(a := x)\<rparr>),
     dk_new = (\<lambda>x w. (w_next w, w\<lparr>w_DuckType := (w_DuckType w)(w_next w := x), w_next := Suc (w_next w)\<rparr>)),
     dk_copy = (\<lambda>r. in_mem (DuckType_DeepCopyInto L r)), dk_freeze = (\<lambda>r. FreezeObjectMeta (dtr_ObjectMeta r)),
     dk_zero = zero_DuckType L, dk_blank = 0\<rparr>"

lemmas die_kinds = DuckSpecDie_def DuckStatusDie_def DuckDie_def DuckTypeSpecDie_def DuckTypeStatusDie_def DuckTypeDie_def

text \<open>The blanks: immutable dies with zero resources, at the first address of each kind.\<close>

definition die_blank :: "('w, 'r, 'f) die_kind \<Rightarrow> ('r, 'f) Die" where
  "die_blank K = \<lparr>die_mutable = False, die_r = dk_zero K, die_seal = dk_zero K, die_frozen = dk_freeze K (dk_zero K)\<rparr>"

definition dies_init :: "('c, 'm, 'l) copy_libs \<Rightarrow> ('m \<Rightarrow> 'f) \<Rightarrow> ('c, 'm, 'l) mem \<Rightarrow> ('c, 'm, 'l, 'f) dies" where
  "dies_init L fz m = \<lparr>w_mem = m, w_next = 1,
     w_DuckSpec = (\<lambda>_. die_blank (DuckSpecDie :: (('c, 'm, 'l, 'f) dies, _, _) die_kind)),
     w_DuckStatus = (\<lambda>_. die_blank (DuckStatusDie L :: (('c, 'm, 'l, 'f) dies, _, _) die_kind)),
     w_Duck = (\<lambda>_. die_blank (DuckDie L fz)),
     w_DuckTypeSpec = (\<lambda>_. die_blank (DuckTypeSpecDie :: (('c, 'm, 'l, 'f) dies, _, _) die_kind)),
     w_DuckTypeStatus = (\<lambda>_. die_blank (DuckTypeStatusDie L :: (('c, 'm, 'l, 'f) dies, _, _) die_kind)),
     w_DuckType = (\<lambda>_. die_blank (DuckTypeDie L fz))\<rparr>"

section \<open>Setters\<close>

definition DuckSpecDie_Group :: "string \<Rightarrow> nat \<Rightarrow> (('c, 'm, 'l, 'f) dies, string, nat) act" where
  "DuckSpecDie_Group v = DieStamp DuckSpecDie (\<lambda>r. areturn (r\<lparr>ds_Group := v\<rparr>))"

definition DuckSpecDie_Version :: "string \<Rightarrow> nat \<Rightarrow> (('c, 'm, 'l, 'f) dies, string, nat) act" where
  "DuckSpecDie_Version v = DieStamp DuckSpecDie (\<lambda>r. areturn (r\<lparr>ds_Version := v\<rparr>))"

definition DuckSpecDie_Kind :: "string \<Rightarrow> nat \<Rightarrow> (('c, 'm, 'l, 'f) dies, string, nat) act" where
  "DuckSpecDie_Kind v = DieStamp DuckSpecDie (\<lambda>r. areturn (r\<lparr>ds_Kind := v\<rparr>))"

definition DuckStatusDie_Status :: "('c, 'm, 'l) copy_libs \<Rightarrow> StatusR \<Rightarrow> nat \<Rightarrow> (('c, 'm, 'l, 'f) dies, string, nat) act" where
  "DuckStatusDie_Status L v = DieStamp (DuckStatusDie L) (\<lambda>r. areturn (r\<lparr>dsr_Status := v\<rparr>))"

definition DuckDie_APIVersion ::
  "('c, 'm, 'l) copy_libs \<Rightarrow> ('m \<Rightarrow> 'f) \<Rightarrow> string \<Rightarrow> nat \<Rightarrow> (('c, 'm, 'l, 'f) dies, string, nat) act" where
  "DuckDie_APIVersion L fz v = DieStamp (DuckDie L fz) (\<lambda>r. areturn (r\<lparr>dr_TypeMeta := (dr_TypeMeta r)\<lparr>tm_APIVersion := v\<rparr>\<rparr>))"

definition DuckDie_Kind ::
  "('c, 'm, 'l) copy_libs \<Rightarrow> ('m \<Rightarrow> 'f) \<Rightarrow> string \<Rightarrow> nat \<Rightarrow> (('c, 'm, 'l, 'f) dies, string, nat) act" where
  "DuckDie_Kind L fz v = DieStamp (DuckDie L fz) (\<lambda>r. areturn (r\<lparr>dr_TypeMeta := (dr_TypeMeta r)\<lparr>tm_Kind := v\<rparr>\<rparr>))"

definition DuckDie_TypeMetadata ::
  "('c, 'm, 'l) copy_libs \<Rightarrow> ('m \<Rightarrow> 'f) \<Rightarrow> TypeMeta \<Rightarrow> nat \<Rightarrow> (('c, 'm, 'l, 'f) dies, string, nat) act" where
  "DuckDie_TypeMetadata L fz v = DieStamp (DuckDie L fz) (\<lambda>r. areturn (r\<lparr>dr_TypeMeta := v\<rparr>))"

definition DuckDie_TypeMetadataDie ::
  "('c, 'm, 'l) copy_libs \<Rightarrow> ('m \<Rightarrow> 'f) \<Rightarrow> (TypeMeta \<Rightarrow> (('c, 'm, 'l, 'f) dies, string, TypeMeta) act) \<Rightarrow> nat
     \<Rightarrow> (('c, 'm, 'l, 'f) dies, string, nat) act" where
  "DuckDie_TypeMetadataDie L fz fn = DieStamp (DuckDie L fz) (\<lambda>r. abind (fn (dr_TypeMeta r)) (\<lambda>t. areturn (r\<lparr>dr_TypeMeta := t\<rparr>)))"

definition DuckDie_Metadata ::
  "('c, 'm, 'l) copy_libs \<Rightarrow> ('m \<Rightarrow> 'f) \<Rightarrow> 'm \<Rightarrow> nat \<Rightarrow> (('c, 'm, 'l, 'f) dies, string, nat) act" where
  "DuckDie_Metadata L fz v = DieStamp (DuckDie L fz) (\<lambda>r. areturn (r\<lparr>dr_ObjectMeta := v\<rparr>))"

definition DuckDie_MetadataDie ::
  "('c, 'm, 'l) copy_libs \<Rightarrow> ('m \<Rightarrow> 'f) \<Rightarrow> ('m \<Rightarrow> (('c, 'm, 'l, 'f) dies, string, 'm) act) \<Rightarrow> nat
     \<Rightarrow> (('c, 'm, 'l, 'f) dies, string, nat) act" where
  "DuckDie_MetadataDie L fz fn = DieStamp (DuckDie L fz) (\<lambda>r. abind (fn (dr_ObjectMeta r)) (\<lambda>m. areturn (r\<lparr>dr_ObjectMeta := m\<rparr>)))"

definition DuckDie_SpecDie ::
  "('c, 'm, 'l) copy_libs \<Rightarrow> ('m \<Rightarrow> 'f) \<Rightarrow> (nat \<Rightarrow> (('c, 'm, 'l, 'f) dies, string, unit) act) \<Rightarrow> nat
     \<Rightarrow> (('c, 'm, 'l, 'f) dies, string, nat) act" where
  "DuckDie_SpecDie L fz fn = DieStamp (DuckDie L fz) (\<lambda>r.
     abind (die_session DuckSpecDie (dr_Spec r) fn) (\<lambda>s. areturn (r\<lparr>dr_Spec := s\<rparr>)))"

definition DuckDie_StatusDie ::
  "('c, 'm, 'l) copy_libs \<Rightarrow> ('m \<Rightarrow> 'f) \<Rightarrow> (nat \<Rightarrow> (('c, 'm, 'l, 'f) dies, string, unit) act) \<Rightarrow> nat
     \<Rightarrow> (('c, 'm, 'l, 'f) dies, string, nat) act" where
  "DuckDie_StatusDie L fz fn = DieStamp (DuckDie L fz) (\<lambda>r.
     abind (die_session (DuckStatusDie L) (dr_Status r) fn) (\<lambda>s. areturn (r\<lparr>dr_Status := s\<rparr>)))"

definition DuckDie_Spec ::
  "('c, 'm, 'l) copy_libs \<Rightarrow> ('m \<Rightarrow> 'f) \<Rightarrow> DuckSpec \<Rightarrow> nat \<Rightarrow> (('c, 'm, 'l, 'f) dies, string, nat) act" where
  "DuckDie_Spec L fz v = DieStamp (DuckDie L fz) (\<lambda>r. areturn (r\<lparr>dr_Spec := v\<rparr>))"

definition DuckDie_Status ::
  "('c, 'm, 'l) copy_libs \<Rightarrow> ('m \<Rightarrow> 'f) \<Rightarrow> DuckStatusR \<Rightarrow> nat \<Rightarrow> (('c, 'm, 'l, 'f) dies, string, nat) act" where
  "DuckDie_Status L fz v = DieStamp (DuckDie L fz) (\<lambda>r. areturn (r\<lparr>dr_Status := v\<rparr>))"

definition DuckTypeSpecDie_Group :: "string \<Rightarrow> nat \<Rightarrow> (('c, 'm, 'l, 'f) dies, string, nat) act" where
  "DuckTypeSpecDie_Group v = DieStamp DuckTypeSpecDie (\<lambda>r. areturn (r\<lparr>dts_Group := v\<rparr>))"

definition DuckTypeSpecDie_Plural :: "string \<Rightarrow> nat \<Rightarrow> (('c, 'm, 'l, 'f) dies, string, nat) act" where
  "DuckTypeSpecDie_Plural v = DieStamp DuckTypeSpecDie (\<lambda>r. areturn (r\<lparr>dts_Plural := v\<rparr>))"

definition DuckTypeSpecDie_Singular :: "string \<Rightarrow> nat \<Rightarrow> (('c, 'm, 'l, 'f) dies, string, nat) act" where
  "DuckTypeSpecDie_Singular v = DieStamp DuckTypeSpecDie (\<lambda>r. areturn (r\<lparr>dts_Singular := v\<rparr>))"

definition DuckTypeSpecDie_Kind :: "string \<Rightarrow> nat \<Rightarrow> (('c, 'm, 'l, 'f) dies, string, nat) act" where
  "DuckTypeSpecDie_Kind v = DieStamp DuckTypeSpecDie (\<lambda>r. areturn (r\<lparr>dts_Kind := v\<rparr>))"

definition DuckTypeSpecDie_ListKind :: "string \<Rightarrow> nat \<Rightarrow> (('c, 'm, 'l, 'f) dies, string, nat) act" where
  "DuckTypeSpecDie_ListKind v = DieStamp DuckTypeSpecDie (\<lambda>r. areturn (r\<lparr>dts_ListKind := v\<rparr>))"

definition DuckTypeStatusDie_Status :: "('c, 'm, 'l) copy_libs \<Rightarrow> StatusR \<Rightarrow> nat \<Rightarrow> (('c, 'm, 'l, 'f) dies, string, nat) act" where
  "DuckTypeStatusDie_Status L v = DieStamp (DuckTypeStatusDie L) (\<lambda>r. areturn (r\<lparr>dtsr_Status := v\<rparr>))"

definition DuckTypeDie_DieDefaultTypeMetadata ::
  "('c, 'm, 'l) copy_libs \<Rightarrow> ('m \<Rightarrow> 'f) \<Rightarrow> nat \<Rightarrow> (('c, 'm, 'l, 'f) dies, string, nat) act" where
  "DuckTypeDie_DieDefaultTypeMetadata L fz = DieStamp (DuckTypeDie L fz)
     (\<lambda>r. areturn (r\<lparr>dtr_TypeMeta := (dtr_TypeMeta r)\<lparr>tm_APIVersion := ''duck.reconciler.io/v1'', tm_Kind := ''DuckType''\<rparr>\<rparr>))"

definition DuckTypeDie_APIVersion ::
  "('c, 'm, 'l) copy_libs \<Rightarrow> ('m \<Rightarrow> 'f) \<Rightarrow> string \<Rightarrow> nat \<Rightarrow> (('c, 'm, 'l, 'f) dies, string, nat) act" where
  "DuckTypeDie_APIVersion L fz v = DieStamp (DuckTypeDie L fz) (\<lambda>r. areturn (r\<lparr>dtr_TypeMeta := (dtr_TypeMeta r)\<lparr>tm_APIVersion := v\<rparr>\<rparr>))"

definition DuckTypeDie_Kind ::
  "('c, 'm, 'l) copy_libs \<Rightarrow> ('m \<Rightarrow> 'f) \<Rightarrow> string \<Rightarrow> nat \<Rightarrow> (('c, 'm, 'l, 'f) dies, string, nat) act" where
  "DuckTypeDie_Kind L fz v = DieStamp (DuckTypeDie L fz) (\<lambda>r. areturn (r\<lparr>dtr_TypeMeta := (dtr_TypeMeta r)\<lparr>tm_Kind := v\<rparr>\<rparr>))"

definition DuckTypeDie_TypeMetadata ::
  "('c, 'm, 'l) copy_libs \<Rightarrow> ('m \<Rightarrow> 'f) \<Rightarrow> TypeMeta \<Rightarrow> nat \<Rightarrow> (('c, 'm, 'l, 'f) dies, string, nat) act" where
  "DuckTypeDie_TypeMetadata L fz v = DieStamp (DuckTypeDie L fz) (\<lambda>r. areturn (r\<lparr>dtr_TypeMeta := v\<rparr>))"

definition DuckTypeDie_TypeMetadataDie ::
  "('c, 'm, 'l) copy_libs \<Rightarrow> ('m \<Rightarrow> 'f) \<Rightarrow> (TypeMeta \<Rightarrow> (('c, 'm, 'l, 'f) dies, string, TypeMeta) act) \<Rightarrow> nat
     \<Rightarrow> (('c, 'm, 'l, 'f) dies, string, nat) act" where
  "DuckTypeDie_TypeMetadataDie L fz fn = DieStamp (DuckTypeDie L fz) (\<lambda>r.
     abind (fn (dtr_TypeMeta r)) (\<lambda>t. areturn (r\<lparr>dtr_TypeMeta := t\<rparr>)))"

definition DuckTypeDie_Metadata ::
  "('c, 'm, 'l) copy_libs \<Rightarrow> ('m \<Rightarrow> 'f) \<Rightarrow> 'm \<Rightarrow> nat \<Rightarrow> (('c, 'm, 'l, 'f) dies, string, nat) act" where
  "DuckTypeDie_Metadata L fz v = DieStamp (DuckTypeDie L fz) (\<lambda>r. areturn (r\<lparr>dtr_ObjectMeta := v\<rparr>))"

definition DuckTypeDie_MetadataDie ::
  "('c, 'm, 'l) copy_libs \<Rightarrow> ('m \<Rightarrow> 'f) \<Rightarrow> ('m \<Rightarrow> (('c, 'm, 'l, 'f) dies, string, 'm) act) \<Rightarrow> nat
     \<Rightarrow> (('c, 'm, 'l, 'f) dies, string, nat) act" where
  "DuckTypeDie_MetadataDie L fz fn = DieStamp (DuckTypeDie L fz) (\<lambda>r.
     abind (fn (dtr_ObjectMeta r)) (\<lambda>m. areturn (r\<lparr>dtr_ObjectMeta := m\<rparr>)))"

definition DuckTypeDie_SpecDie ::
  "('c, 'm, 'l) copy_libs \<Rightarrow> ('m \<Rightarrow> 'f) \<Rightarrow> (nat \<Rightarrow> (('c, 'm, 'l, 'f) dies, string, unit) act) \<Rightarrow> nat
     \<Rightarrow> (('c, 'm, 'l, 'f) dies, string, nat) act" where
  "DuckTypeDie_SpecDie L fz fn = DieStamp (DuckTypeDie L fz) (\<lambda>r.
     abind (die_session DuckTypeSpecDie (dtr_Spec r) fn) (\<lambda>s. areturn (r\<lparr>dtr_Spec := s\<rparr>)))"

definition DuckTypeDie_StatusDie ::
  "('c, 'm, 'l) copy_libs \<Rightarrow> ('m \<Rightarrow> 'f) \<Rightarrow> (nat \<Rightarrow> (('c, 'm, 'l, 'f) dies, string, unit) act) \<Rightarrow> nat
     \<Rightarrow> (('c, 'm, 'l, 'f) dies, string, nat) act" where
  "DuckTypeDie_StatusDie L fz fn = DieStamp (DuckTypeDie L fz) (\<lambda>r.
     abind (die_session (DuckTypeStatusDie L) (dtr_Status r) fn) (\<lambda>s. areturn (r\<lparr>dtr_Status := s\<rparr>)))"

definition DuckTypeDie_Spec ::
  "('c, 'm, 'l) copy_libs \<Rightarrow> ('m \<Rightarrow> 'f) \<Rightarrow> DuckTypeSpec \<Rightarrow> nat \<Rightarrow> (('c, 'm, 'l, 'f) dies, string, nat) act" where
  "DuckTypeDie_Spec L fz v = DieStamp (DuckTypeDie L fz) (\<lambda>r. areturn (r\<lparr>dtr_Spec := v\<rparr>))"

definition DuckTypeDie_Status ::
  "('c, 'm, 'l) copy_libs \<Rightarrow> ('m \<Rightarrow> 'f) \<Rightarrow> DuckTypeStatusR \<Rightarrow> nat \<Rightarrow> (('c, 'm, 'l, 'f) dies, string, nat) act" where
  "DuckTypeDie_Status L fz v = DieStamp (DuckTypeDie L fz) (\<lambda>r. areturn (r\<lparr>dtr_Status := v\<rparr>))"

section \<open>Conditions\<close>

text \<open>
  The body of \<open>ConditionDie\<close>, which is the same for both statuses: the first condition of type \<open>v\<close> is
  replaced in the backing array, and a new one is appended if there is none.
\<close>

definition Condition_of_type :: "string \<Rightarrow> Condition" where
  "Condition_of_type v = \<lparr>c_Type = v, c_Status = [], c_Reason = [], c_Message = []\<rparr>"

definition stamp_condition ::
  "(nat \<Rightarrow> nat) \<Rightarrow> string \<Rightarrow> (Condition \<Rightarrow> (('c, 'm, 'l, 'f) dies, string, Condition) act) \<Rightarrow> slice
     \<Rightarrow> (('c, 'm, 'l, 'f) dies, string, slice) act" where
  "stamp_condition grow v fn s w = (let cs = slice_elems un_ConditionArray (w_mem w) s in
     case find (\<lambda>i. v = c_Type (cs ! i)) [0..<length cs] of
       Some i \<Rightarrow> abind (fn (cs ! i)) (\<lambda>c w'. (Ok s, w'\<lparr>w_mem := slice_set ConditionArray un_ConditionArray s i c (w_mem w')\<rparr>)) w
     | None \<Rightarrow> abind (fn (Condition_of_type v)) (\<lambda>c w'.
         case in_mem (slice_append grow (Condition_of_type []) ConditionArray un_ConditionArray s c) w' of (s', w'') \<Rightarrow> (Ok s', w'')) w)"

definition DuckStatusDie_InitializeConditions ::
  "('c, 'm, 'l) copy_libs \<Rightarrow> ('t \<Rightarrow> DuckStatusR \<Rightarrow> ('c, 'm, 'l) mem \<Rightarrow> DuckStatusR \<times> ('c, 'm, 'l) mem) \<Rightarrow> 't \<Rightarrow> nat
     \<Rightarrow> (('c, 'm, 'l, 'f) dies, string, nat) act" where
  "DuckStatusDie_InitializeConditions L init now = DieStamp (DuckStatusDie L) (\<lambda>r w. case in_mem (init now r) w of (r', w') \<Rightarrow> (Ok r', w'))"

definition DuckStatusDie_ObservedGeneration :: "('c, 'm, 'l) copy_libs \<Rightarrow> int \<Rightarrow> nat \<Rightarrow> (('c, 'm, 'l, 'f) dies, string, nat) act" where
  "DuckStatusDie_ObservedGeneration L v = DieStamp (DuckStatusDie L)
     (\<lambda>r. areturn (r\<lparr>dsr_Status := (dsr_Status r)\<lparr>sr_ObservedGeneration := v\<rparr>\<rparr>))"

definition DuckStatusDie_Conditions :: "('c, 'm, 'l) copy_libs \<Rightarrow> slice \<Rightarrow> nat \<Rightarrow> (('c, 'm, 'l, 'f) dies, string, nat) act" where
  "DuckStatusDie_Conditions L v = DieStamp (DuckStatusDie L) (\<lambda>r. areturn (r\<lparr>dsr_Status := (dsr_Status r)\<lparr>sr_Conditions := v\<rparr>\<rparr>))"

definition DuckStatusDie_ConditionDie ::
  "(nat \<Rightarrow> nat) \<Rightarrow> ('c, 'm, 'l) copy_libs \<Rightarrow> string \<Rightarrow> (Condition \<Rightarrow> (('c, 'm, 'l, 'f) dies, string, Condition) act) \<Rightarrow> nat
     \<Rightarrow> (('c, 'm, 'l, 'f) dies, string, nat) act" where
  "DuckStatusDie_ConditionDie grow L v fn = DieStamp (DuckStatusDie L) (\<lambda>r.
     abind (stamp_condition grow v fn (sr_Conditions (dsr_Status r)))
       (\<lambda>s. areturn (r\<lparr>dsr_Status := (dsr_Status r)\<lparr>sr_Conditions := s\<rparr>\<rparr>)))"

definition DuckTypeStatusDie_InitializeConditions ::
  "('c, 'm, 'l) copy_libs \<Rightarrow> ('t \<Rightarrow> DuckTypeStatusR \<Rightarrow> ('c, 'm, 'l) mem \<Rightarrow> DuckTypeStatusR \<times> ('c, 'm, 'l) mem) \<Rightarrow> 't \<Rightarrow> nat
     \<Rightarrow> (('c, 'm, 'l, 'f) dies, string, nat) act" where
  "DuckTypeStatusDie_InitializeConditions L init now = DieStamp (DuckTypeStatusDie L)
     (\<lambda>r w. case in_mem (init now r) w of (r', w') \<Rightarrow> (Ok r', w'))"

definition DuckTypeStatusDie_ObservedGeneration :: "('c, 'm, 'l) copy_libs \<Rightarrow> int \<Rightarrow> nat \<Rightarrow> (('c, 'm, 'l, 'f) dies, string, nat) act" where
  "DuckTypeStatusDie_ObservedGeneration L v = DieStamp (DuckTypeStatusDie L)
     (\<lambda>r. areturn (r\<lparr>dtsr_Status := (dtsr_Status r)\<lparr>sr_ObservedGeneration := v\<rparr>\<rparr>))"

definition DuckTypeStatusDie_Conditions :: "('c, 'm, 'l) copy_libs \<Rightarrow> slice \<Rightarrow> nat \<Rightarrow> (('c, 'm, 'l, 'f) dies, string, nat) act" where
  "DuckTypeStatusDie_Conditions L v = DieStamp (DuckTypeStatusDie L) (\<lambda>r. areturn (r\<lparr>dtsr_Status := (dtsr_Status r)\<lparr>sr_Conditions := v\<rparr>\<rparr>))"

definition DuckTypeStatusDie_ConditionDie ::
  "(nat \<Rightarrow> nat) \<Rightarrow> ('c, 'm, 'l) copy_libs \<Rightarrow> string \<Rightarrow> (Condition \<Rightarrow> (('c, 'm, 'l, 'f) dies, string, Condition) act) \<Rightarrow> nat
     \<Rightarrow> (('c, 'm, 'l, 'f) dies, string, nat) act" where
  "DuckTypeStatusDie_ConditionDie grow L v fn = DieStamp (DuckTypeStatusDie L) (\<lambda>r.
     abind (stamp_condition grow v fn (sr_Conditions (dtsr_Status r)))
       (\<lambda>s. areturn (r\<lparr>dtsr_Status := (dtsr_Status r)\<lparr>sr_Conditions := s\<rparr>\<rparr>)))"

text \<open>\<open>AsDuck\<close> makes a duck of the kind a duck type defines.\<close>

definition DuckTypeDie_AsDuck ::
  "schema_ops \<Rightarrow> ('c, 'm, 'l) copy_libs \<Rightarrow> ('m \<Rightarrow> 'f) \<Rightarrow> (string \<Rightarrow> 'm \<Rightarrow> (('c, 'm, 'l, 'f) dies, string, 'm) act) \<Rightarrow> string \<Rightarrow> nat
     \<Rightarrow> (('c, 'm, 'l, 'f) dies, string, nat) act" where
  "DuckTypeDie_AsDuck G L fz ObjectMetaDie_Name name d = abind (DieRelease (DuckTypeDie L fz) d) (\<lambda>r.
     abind (DuckDie_APIVersion L fz (GroupVersion_String G \<lparr>gv_Group = dts_Group (dtr_Spec r), gv_Version = ''v1''\<rparr>)
         (dk_blank (DuckDie L fz :: (('c, 'm, 'l, 'f) dies, _, _) die_kind))) (\<lambda>a.
     abind (DuckDie_Kind L fz (dts_Kind (dtr_Spec r)) a) (\<lambda>b.
     DuckDie_MetadataDie L fz (ObjectMetaDie_Name name) b)))"

section \<open>The kinds are stores of dies\<close>

text \<open>The worlds in which every die of an older world that was immutable is as it was.\<close>

definition kept :: "nat \<Rightarrow> (nat \<Rightarrow> ('r, 'f) Die) \<Rightarrow> (nat \<Rightarrow> ('r, 'f) Die) \<Rightarrow> bool" where
  "kept n s s' \<longleftrightarrow> (\<forall>a < n. \<not> die_mutable (s a) \<longrightarrow> s' a = s a)"

definition dies_keep :: "('c, 'm, 'l, 'f) dies \<Rightarrow> ('c, 'm, 'l, 'f) dies \<Rightarrow> bool" where
  "dies_keep w w' \<longleftrightarrow> w_next w \<le> w_next w'
     \<and> kept (w_next w) (w_DuckSpec w) (w_DuckSpec w') \<and> kept (w_next w) (w_DuckStatus w) (w_DuckStatus w')
     \<and> kept (w_next w) (w_Duck w) (w_Duck w') \<and> kept (w_next w) (w_DuckTypeSpec w) (w_DuckTypeSpec w')
     \<and> kept (w_next w) (w_DuckTypeStatus w) (w_DuckTypeStatus w') \<and> kept (w_next w) (w_DuckType w) (w_DuckType w')"

lemma kept_refl [simp]: "kept n s s"
  by (simp add: kept_def)

lemma kept_trans: "kept n s1 s2 \<Longrightarrow> kept n' s2 s3 \<Longrightarrow> n \<le> n' \<Longrightarrow> kept n s1 s3"
  by (auto simp: kept_def)

lemma kept_fresh: "kept n s s' \<Longrightarrow> n \<le> a \<Longrightarrow> kept n s (s'(a := x))"
  by (simp add: kept_def)

lemma kept_mutable: "die_mutable (s a) \<Longrightarrow> kept n s (s(a := x))"
  by (simp add: kept_def)

lemma dies_keep_reflp: "reflp dies_keep"
  by (simp add: reflp_def dies_keep_def)

lemma dies_keep_transp: "transp dies_keep"
  by (rule transpI) (auto simp: dies_keep_def elim!: kept_trans)

lemma in_mem_frame:
  assumes "in_mem f w = (a, w')"
  shows "w_next w' = w_next w" "w_DuckSpec w' = w_DuckSpec w" "w_DuckStatus w' = w_DuckStatus w" "w_Duck w' = w_Duck w"
    "w_DuckTypeSpec w' = w_DuckTypeSpec w" "w_DuckTypeStatus w' = w_DuckTypeStatus w" "w_DuckType w' = w_DuckType w"
  using assms by (auto simp: in_mem_def split: prod.splits)

lemmas kind_laws = die_kinds dies_keep_reflp dies_keep_transp in_mem_frame kept_fresh kept_mutable

interpretation dsd: plain_die_store DuckSpecDie w_next dies_keep
  by unfold_locales (auto simp: kind_laws dies_keep_def kept_def in_mem_def DuckSpec_DeepCopyInto_def)

interpretation dtsd: plain_die_store DuckTypeSpecDie w_next dies_keep
  by unfold_locales (auto simp: kind_laws dies_keep_def kept_def in_mem_def DuckTypeSpec_DeepCopyInto_def)

interpretation dstd: die_store "DuckStatusDie L" w_next dies_keep for L
  by unfold_locales (auto simp: kind_laws dies_keep_def kept_def)

interpretation dd: die_store "DuckDie L fz" w_next dies_keep for L fz
  by unfold_locales (auto simp: kind_laws dies_keep_def kept_def)

interpretation dtstd: die_store "DuckTypeStatusDie L" w_next dies_keep for L
  by unfold_locales (auto simp: kind_laws dies_keep_def kept_def)

interpretation dtd: die_store "DuckTypeDie L fz" w_next dies_keep for L fz
  by unfold_locales (auto simp: kind_laws dies_keep_def kept_def)

section \<open>Facts about conditions\<close>

text \<open>The reference for \<open>ConditionDie\<close>: the first condition of the type is changed, or one is added.\<close>

fun upsert :: "(Condition \<Rightarrow> Condition) \<Rightarrow> string \<Rightarrow> Condition list \<Rightarrow> Condition list" where
  "upsert f v [] = [f (Condition_of_type v)]"
| "upsert f v (c # cs) = (if c_Type c = v then f c # cs else c # upsert f v cs)"

lemma upsert_at:
  "i < length cs \<Longrightarrow> c_Type (cs ! i) = v \<Longrightarrow> \<forall>j < i. c_Type (cs ! j) \<noteq> v \<Longrightarrow> upsert f v cs = cs[i := f (cs ! i)]"
proof (induction cs arbitrary: i)
  case (Cons c cs)
  show ?case
  proof (cases i)
    case (Suc k)
    then have "c_Type c \<noteq> v" "\<forall>j < k. c_Type (cs ! j) \<noteq> v" using Cons.prems(3) by auto
    then show ?thesis using Cons Suc by simp
  qed (use Cons.prems in simp)
qed simp

lemma upsert_none: "\<forall>c \<in> set cs. c_Type c \<noteq> v \<Longrightarrow> upsert f v cs = cs @ [f (Condition_of_type v)]"
  by (induction cs) auto

lemma upsert_find:
  "upsert f v cs = (case find (\<lambda>i. v = c_Type (cs ! i)) [0..<length cs] of
     Some i \<Rightarrow> cs[i := f (cs ! i)] | None \<Rightarrow> cs @ [f (Condition_of_type v)])"
proof (cases "find (\<lambda>i. v = c_Type (cs ! i)) [0..<length cs]")
  case None
  then have "\<forall>i < length cs. c_Type (cs ! i) \<noteq> v" by (auto simp: find_None_iff)
  then have "\<forall>c \<in> set cs. c_Type c \<noteq> v" by (simp add: all_set_conv_all_nth)
  then show ?thesis using None by (simp add: upsert_none)
next
  case (Some i)
  then have i: "i < length cs" "c_Type (cs ! i) = v" "\<forall>j < i. c_Type (cs ! j) \<noteq> v" by (auto simp: find_Some_iff)
  show ?thesis using upsert_at [OF i] Some by simp
qed

lemma upsert_types:
  assumes "\<And>c. c_Type (f c) = c_Type c"
  shows "map c_Type (upsert f v cs) = (if v \<in> c_Type ` set cs then map c_Type cs else map c_Type cs @ [v])"
  by (induction cs) (auto simp: assms Condition_of_type_def)

abbreviation conditions :: "('c, 'm, 'l, 'f) dies \<Rightarrow> slice \<Rightarrow> Condition list" where
  "conditions w s \<equiv> slice_elems un_ConditionArray (w_mem w) s"

lemma stamp_condition_run:
  assumes "slice_ok un_ConditionArray (\<lambda>h x. True) (w_mem w) s"
  obtains s' m' where "stamp_condition grow v (\<lambda>c. areturn (f c)) s w = (Ok s', w\<lparr>w_mem := m'\<rparr>)"
    "slice_elems un_ConditionArray m' s' = upsert f v (conditions w s)"
    "\<And>h0. extends h0 (w_mem w) \<Longrightarrow> slice_refs un_ConditionArray (\<lambda>h x. {}) (w_mem w) s \<subseteq> {hp_next h0..} \<Longrightarrow> extends h0 m'"
proof (cases "find (\<lambda>i. v = c_Type (conditions w s ! i)) [0..<length (conditions w s)]")
  case None
  obtain s' m' where app: "slice_append grow (Condition_of_type []) ConditionArray un_ConditionArray s (f (Condition_of_type v)) (w_mem w) = (s', m')"
    by fastforce
  have "stamp_condition grow v (\<lambda>c. areturn (f c)) s w = (Ok s', w\<lparr>w_mem := m'\<rparr>)"
    using None app by (simp add: stamp_condition_def in_mem_def Let_def)
  then show ?thesis
    using that [of s' m'] slice_append_elems [OF cell.sel(2) assms app] slice_append_extends [OF _ _ app] None
    by (simp add: upsert_find)
next
  case (Some i)
  let ?m' = "slice_set ConditionArray un_ConditionArray s i (f (conditions w s ! i)) (w_mem w)"
  have "i < length (conditions w s)" using Some by (auto simp: find_Some_iff)
  note el = slice_set_elems [OF cell.sel(2) assms this]
  have "stamp_condition grow v (\<lambda>c. areturn (f c)) s w = (Ok s, w\<lparr>w_mem := ?m'\<rparr>)"
    using Some by (simp add: stamp_condition_def Let_def)
  then show ?thesis
  proof (rule that)
    show "slice_elems un_ConditionArray ?m' s = upsert f v (conditions w s)" using el Some by (simp add: upsert_find)
  qed (rule slice_set_extends)
qed

lemma Feed_mem [simp]:
  "w_mem (snd (DieFeed (DuckStatusDie L) r d w)) = w_mem w" "w_mem (snd (DieFeed (DuckDie L fz) r' d w)) = w_mem w"
  by (simp_all add: DieFeed_def die_new_def die_kinds Let_def)

text \<open>A status released from a die is well formed and equal; from an immutable die it is all new memory.\<close>

lemma Status_release:
  fixes w :: "('c, 'm, 'l, 'f) dies"
  assumes "copy_laws S L" "Status_ok (w_mem w) (dsr_Status (die_r (w_DuckStatus w d)))"
  obtains r and u :: "('c, 'm, 'l, 'f) dies" where "DieRelease (DuckStatusDie L) d w = (Ok r, u)"
    "w_next u = w_next w" "w_DuckStatus u = w_DuckStatus w" "Status_ok (w_mem u) (dsr_Status r)"
    "Status_view (w_mem u) (dsr_Status r) = Status_view (w_mem w) (dsr_Status (die_r (w_DuckStatus w d)))"
    "\<not> die_mutable (w_DuckStatus w d) \<longrightarrow>
       extends (w_mem w) (w_mem u) \<and> Status_refs (w_mem u) (dsr_Status r) \<subseteq> {hp_next (w_mem w)..}"
proof -
  let ?K = "DuckStatusDie L :: (('c, 'm, 'l, 'f) dies, _, _) die_kind" and ?x = "w_DuckStatus w d"
  have load: "dk_load ?K = w_DuckStatus" by (simp add: DuckStatusDie_def)
  obtain r u where rel: "DieRelease ?K d w = (Ok r, u)" "w_next u = w_next w" "w_DuckStatus u = w_DuckStatus w"
    and cp: "if die_mutable ?x then r = die_r ?x \<and> u = w else dk_copy ?K (die_r ?x) w = (r, u)"
    by (rule dstd.Release_run [of L d w]) (simp add: load cong: if_cong)
  show ?thesis
  proof (cases "die_mutable ?x")
    case False
    then obtain m where m: "DuckStatus_DeepCopyInto L (die_r ?x) (w_mem w) = (r, m)" "u = w\<lparr>w_mem := m\<rparr>"
      using cp by (auto simp: DuckStatusDie_def in_mem_def split: prod.splits)
    note c = deep_copyable.copies [OF DuckStatus_copyable [OF assms(1)] assms(2) m(1)]
    have "Status_refs m (dsr_Status r) \<subseteq> {hp_next (w_mem w)..}" using c by auto
    then show ?thesis using that [OF rel] c m(2) by simp
  qed (use that [OF rel] cp assms(2) in simp)
qed

lemma within_in_mem [within_intros]: "act_within dies_keep (\<lambda>w. case in_mem f w of (a, w') \<Rightarrow> (Ok a, w'))"
  by (rule act_withinI) (auto simp: in_mem_def dies_keep_def split: prod.splits)

lemma within_stamp_condition [within_intros]:
  assumes "\<And>c. act_within dies_keep (fn c)"
  shows "act_within dies_keep (stamp_condition grow v fn s)"
proof (rule act_withinI)
  fix w :: "('a, 'b, 'c, 'd) dies"
  have "act_within dies_keep (abind (fn c0) (\<lambda>c w'. (Ok s, w'\<lparr>w_mem := slice_set ConditionArray un_ConditionArray s i c (w_mem w')\<rparr>)))"
    for c0 i
    by (rule within_abind [OF dies_keep_transp assms], rule act_withinI) (simp add: dies_keep_def)
  moreover have "act_within dies_keep (abind (fn c0) (\<lambda>c w'.
      case in_mem (slice_append grow (Condition_of_type []) ConditionArray un_ConditionArray s c) w' of (s', w'') \<Rightarrow> (Ok s', w'')))" for c0
    by (rule within_abind [OF dies_keep_transp assms], rule within_in_mem)
  ultimately show "dies_keep w (snd (stamp_condition grow v fn s w))"
    unfolding stamp_condition_def Let_def act_within_def by (auto split: option.split)
qed

section \<open>Properties\<close>







text \<open>
  Unmarshalling into an immutable die is refused and changes nothing.  Into a mutable die the
  decoder's error is returned, but the die already holds what was decoded before the error.
\<close>

theorem unmarshal_branches:
  "Die_UnmarshalJSON (DuckDie L fz) decode b d w =
     (if \<not> die_mutable (w_Duck w d) then (Err ''cannot unmarshal into immutable dies, create a mutable version first'', w)
      else let r = fst (fst (decode b w)); err = snd (fst (decode b w)); w1 = snd (decode b w);
        x = (w_Duck w1 d)\<lparr>die_r := r, die_frozen := fz (dr_ObjectMeta r)\<rparr> in
        if die_mutable (w_Duck w1 d) then (case err of None \<Rightarrow> Ok () | Some e \<Rightarrow> Err e, w1\<lparr>w_Duck := (w_Duck w1)(d := x)\<rparr>)
        else (case err of None \<Rightarrow> Ok () | Some e \<Rightarrow> Err e, w1\<lparr>w_Duck := (w_Duck w1)(w_next w1 := x, d := x), w_next := Suc (w_next w1)\<rparr>))"
  by (cases "w_Duck (snd (decode b w)) d")
    (simp add: Die_UnmarshalJSON_def DieFeed_def die_new_def DuckDie_def abind_def Let_def case_prod_beta)

text \<open>
  Property C21.  Stamping a condition of a status die changes the first condition of that type, or appends a
  new one, and nothing else of the status.  On an immutable die the older memory is untouched, so every other
  status denotes what it did; on a mutable die the change is made in place.  If the callback keeps the type
  of the condition, types that were distinct stay distinct.
\<close>

theorem condition_die_upserts:
  fixes w :: "('c, 'm, 'l, 'f) dies"
  assumes "copy_laws S L" "d < w_next w" "Status_ok (w_mem w) (dsr_Status (die_r (w_DuckStatus w d)))"
  defines "st \<equiv> Status_view (w_mem w) (dsr_Status (die_r (w_DuckStatus w d)))"
  shows "(\<exists>d' w'. DuckStatusDie_ConditionDie grow L v (\<lambda>c. areturn (f c)) d w = (Ok d', w') \<and> dies_keep w w'
      \<and> Status_view (w_mem w') (dsr_Status (die_r (w_DuckStatus w' d'))) = st\<lparr>st_Conditions := upsert f v (st_Conditions st)\<rparr>
      \<and> (if die_mutable (w_DuckStatus w d) then d' = d else d' \<noteq> d \<and> extends (w_mem w) (w_mem w')))
    \<and> ((\<forall>c. c_Type (f c) = c_Type c) \<and> distinct (map c_Type (st_Conditions st))
        \<longrightarrow> distinct (map c_Type (upsert f v (st_Conditions st))))"
proof
  let ?K = "DuckStatusDie L :: (('c, 'm, 'l, 'f) dies, _, _) die_kind" and ?x = "w_DuckStatus w d"
  have load: "dk_load ?K = w_DuckStatus" by (simp add: DuckStatusDie_def)
  obtain r u where rel: "DieRelease ?K d w = (Ok r, u)" "w_next u = w_next w" "w_DuckStatus u = w_DuckStatus w"
    and r: "Status_ok (w_mem u) (dsr_Status r)" "Status_view (w_mem u) (dsr_Status r) = st"
      "\<not> die_mutable ?x \<longrightarrow> extends (w_mem w) (w_mem u) \<and> Status_refs (w_mem u) (dsr_Status r) \<subseteq> {hp_next (w_mem w)..}"
    unfolding st_def by (rule Status_release [OF assms(1,3)])
  have ok: "slice_ok un_ConditionArray (\<lambda>h x. True) (w_mem u) (sr_Conditions (dsr_Status r))"
    using r(1) by (simp add: Status_ok_def)
  obtain s m where s: "stamp_condition grow v (\<lambda>c. areturn (f c)) (sr_Conditions (dsr_Status r)) u = (Ok s, u\<lparr>w_mem := m\<rparr>)"
    "slice_elems un_ConditionArray m s = upsert f v (conditions u (sr_Conditions (dsr_Status r)))"
    "\<And>h0. extends h0 (w_mem u) \<Longrightarrow> slice_refs un_ConditionArray (\<lambda>h x. {}) (w_mem u) (sr_Conditions (dsr_Status r)) \<subseteq> {hp_next h0..}
      \<Longrightarrow> extends h0 m"
    by (rule stamp_condition_run [OF ok, of grow v f]) (rule that)
  let ?r = "r\<lparr>dsr_Status := (dsr_Status r)\<lparr>sr_Conditions := s\<rparr>\<rparr>" and ?u = "u\<lparr>w_mem := m\<rparr>"
  obtain w' where fd: "DieFeed ?K ?r d ?u = (Ok (if die_mutable ?x then d else w_next w), w')"
    "die_r (w_DuckStatus w' (if die_mutable ?x then d else w_next w)) = ?r"
    by (rule dstd.Feed_run [of L ?r d ?u]) (simp add: load rel)
  have mem: "w_mem w' = m" using Feed_mem(1) [of L ?r d ?u] fd(1) by simp
  have run: "DuckStatusDie_ConditionDie grow L v (\<lambda>c. areturn (f c)) d w = (Ok (if die_mutable ?x then d else w_next w), w')"
    using rel(1) s(1) fd(1) by (simp add: DuckStatusDie_ConditionDie_def DieStamp_def abind_def)
  have "act_within dies_keep (DuckStatusDie_ConditionDie grow L v (\<lambda>c. areturn (f c)) d)"
    unfolding DuckStatusDie_ConditionDie_def by (intro within_intros)
  note kept = act_withinD [OF this run]
  have "Status_view m (dsr_Status ?r) = st\<lparr>st_Conditions := upsert f v (st_Conditions st)\<rparr>"
    using r s(2) by (auto simp: Status_view_def)
  moreover have "\<not> die_mutable ?x \<longrightarrow> extends (w_mem w) m" using r s(3) by (simp add: Status_refs_def)
  ultimately show "\<exists>d' w'. DuckStatusDie_ConditionDie grow L v (\<lambda>c. areturn (f c)) d w = (Ok d', w') \<and> dies_keep w w'
      \<and> Status_view (w_mem w') (dsr_Status (die_r (w_DuckStatus w' d'))) = st\<lparr>st_Conditions := upsert f v (st_Conditions st)\<rparr>
      \<and> (if die_mutable ?x then d' = d else d' \<noteq> d \<and> extends (w_mem w) (w_mem w'))"
    using run kept fd(2) mem assms(2) by (intro exI [of _ "if die_mutable ?x then d else w_next w"] exI [of _ w']) simp
next
  show "(\<forall>c. c_Type (f c) = c_Type c) \<and> distinct (map c_Type (st_Conditions st))
      \<longrightarrow> distinct (map c_Type (upsert f v (st_Conditions st)))"
    by (auto simp: upsert_types simp del: distinct_map)
qed

theorem condition_die_upserts_witness:
  "\<exists>d' w'. DuckStatusDie_ConditionDie (\<lambda>n. n) copy_ref ''Ready'' (\<lambda>c. areturn (c\<lparr>c_Status := ''True''\<rparr>)) 0
      (dies_init copy_ref fst mem_ref) = (Ok d', w')
    \<and> st_Conditions (Status_view (w_mem w') (dsr_Status (die_r (w_DuckStatus w' d')))) =
        [\<lparr>c_Type = ''Ready'', c_Status = ''True'', c_Reason = [], c_Message = []\<rparr>]
    \<and> extends mem_ref (w_mem w')"
proof -
  let ?w = "dies_init copy_ref fst mem_ref"
  have z: "die_r (w_DuckStatus ?w 0) = \<lparr>dsr_Status = zero_Status\<rparr>" "w_mem ?w = mem_ref" "\<not> die_mutable (w_DuckStatus ?w 0)"
    by (simp_all add: dies_init_def die_blank_def DuckStatusDie_def)
  have "0 < w_next ?w" "Status_ok (w_mem ?w) (dsr_Status (die_r (w_DuckStatus ?w 0)))"
    by (simp add: dies_init_def) (simp add: z Status_ok_def zero_Status_def slice_ok_def)
  from conjunct1 [OF condition_die_upserts [OF copy_ref_laws this, of "\<lambda>n. n" "''Ready''" "\<lambda>c. c\<lparr>c_Status := ''True''\<rparr>"]]
  show ?thesis
    unfolding z by (auto simp: z Status_view_def zero_Status_def slice_elems_def Condition_of_type_def)
qed

text \<open>
  An immutable die does not own a slice that a caller passed to it: here an immutable and a mutable die
  get the same slice of conditions, and stamping a condition of the mutable die changes what the
  immutable die denotes.
\<close>

definition shared_slice_run :: "(string list, string \<times> slice, string, string) dies \<Rightarrow> (string list, string \<times> slice, string, string) dies" where
  "shared_slice_run w = snd (abind (DieImmutable (DuckStatusDie copy_ref) False 0) (\<lambda>m.
     abind (DuckStatusDie_Conditions copy_ref (Some (1, 1)) m) (\<lambda>m'.
       DuckStatusDie_ConditionDie (\<lambda>n. n) copy_ref ''Ready'' (\<lambda>c. areturn (c\<lparr>c_Status := ''False''\<rparr>)) m')) w)"

lemma shared_slice_changes_immutable_die:
  defines "w \<equiv> (dies_init copy_ref fst mem_ref)\<lparr>w_next := 2, w_DuckStatus := (\<lambda>a. if a = 1
     then \<lparr>die_mutable = False, die_r = \<lparr>dsr_Status = \<lparr>sr_ObservedGeneration = 0, sr_Conditions = Some (1, 1)\<rparr>\<rparr>,
       die_seal = \<lparr>dsr_Status = zero_Status\<rparr>, die_frozen = ()\<rparr> else die_blank (DuckStatusDie copy_ref))\<rparr>"
  shows "map c_Status (conditions w (Some (1, 1))) = [''True'']"
    and "w_DuckStatus (shared_slice_run w) 1 = w_DuckStatus w 1"
    and "map c_Status (conditions (shared_slice_run w) (Some (1, 1))) = [''False'']"
proof -
  show "map c_Status (conditions w (Some (1, 1))) = [''True'']"
    by (simp add: w_def dies_init_def mem_ref_def slice_elems_def)
  have run: "shared_slice_run w = w\<lparr>w_next := 3, w_DuckStatus := (w_DuckStatus w)(2 := w_DuckStatus (shared_slice_run w) 2),
      w_mem := hwrite 1 (ConditionArray [\<lparr>c_Type = ''Ready'', c_Status = ''False'', c_Reason = [], c_Message = []\<rparr>]) mem_ref\<rparr>"
    unfolding shared_slice_run_def w_def
    by (simp add: DieImmutable_def Die_DeepCopy_def die_copied_def die_new_def DuckStatusDie_def in_mem_def dies_init_def
      DuckStatus_DeepCopyInto_def copy_ref_def plain_slice_copy_def slice_copy_def die_blank_def zero_Status_def
      DuckStatusDie_Conditions_def DuckStatusDie_ConditionDie_def DieStamp_def DieRelease_def DieFeed_def stamp_condition_def
      slice_elems_def slice_set_def mem_ref_def abind_def Let_def)
  show "w_DuckStatus (shared_slice_run w) 1 = w_DuckStatus w 1" by (subst run) simp
  show "map c_Status (conditions (shared_slice_run w) (Some (1, 1))) = [''False'']" by (subst run) (simp add: slice_elems_def)
qed

end
