(* ===== verification/Cmd_Main.thy ===== *)
theory Cmd_Main
  imports Go_Heap
begin

text \<open>
  The program of \<open>cmd/main.go\<close>: the flags, the TLS options of the two servers, the options of the
  manager and the order of the setup.  The flags are the input, as the flag library parsed them;
  everything called in other packages is a parameter.  A call of \<open>os.Exit(1)\<close> is the error \<open>1\<close>, after
  which nothing runs.  The slices of TLS options are modelled with their backing arrays, because
  two of them are appended to from the same slice.
\<close>

section \<open>Flags and options\<close>

record flags =
  metricsAddr :: string
  metricsCertPath :: string
  metricsCertName :: string
  metricsCertKey :: string
  webhookCertPath :: string
  webhookCertName :: string
  webhookCertKey :: string
  enableLeaderElection :: bool
  probeAddr :: string
  secureMetrics :: bool
  enableHTTP2 :: bool

definition flags_default :: flags where
  "flags_default = \<lparr>metricsAddr = ''0'', metricsCertPath = [], metricsCertName = ''tls.crt'', metricsCertKey = ''tls.key'',
     webhookCertPath = [], webhookCertName = ''tls.crt'', webhookCertKey = ''tls.key'', enableLeaderElection = False,
     probeAddr = '':8081'', secureMetrics = True, enableHTTP2 = False\<rparr>"

text \<open>The functions on TLS configurations that the program passes on, and what they set.\<close>

datatype tls_opt = DisableHTTP2 | WebhookCertificate | MetricsCertificate

record tls_config =
  NextProtos :: "string list"
  GetCertificate :: "tls_opt option"

fun apply_tls_opt :: "tls_opt \<Rightarrow> tls_config \<Rightarrow> tls_config" where
  "apply_tls_opt DisableHTTP2 c = c\<lparr>NextProtos := [''http/1.1'']\<rparr>"
| "apply_tls_opt WebhookCertificate c = c\<lparr>GetCertificate := Some WebhookCertificate\<rparr>"
| "apply_tls_opt MetricsCertificate c = c\<lparr>GetCertificate := Some MetricsCertificate\<rparr>"

type_synonym tls_mem = "tls_opt list heap"

definition tls_append :: "(nat \<Rightarrow> nat) \<Rightarrow> slice \<Rightarrow> tls_opt \<Rightarrow> tls_mem \<Rightarrow> slice \<times> tls_mem" where
  "tls_append grow = slice_append grow DisableHTTP2 (\<lambda>xs. xs) (\<lambda>xs. xs)"

text \<open>The TLS options of the webhook server and of the metrics server, with the memory they live in.\<close>

definition main_tlsOpts :: "(nat \<Rightarrow> nat) \<Rightarrow> flags \<Rightarrow> tls_mem \<Rightarrow> slice \<times> tls_mem" where
  "main_tlsOpts grow fl h = (if \<not> enableHTTP2 fl then tls_append grow None DisableHTTP2 h else (None, h))"

definition main_webhookTLSOpts :: "(nat \<Rightarrow> nat) \<Rightarrow> flags \<Rightarrow> slice \<Rightarrow> tls_mem \<Rightarrow> slice \<times> tls_mem" where
  "main_webhookTLSOpts grow fl tlsOpts h =
     (if length (webhookCertPath fl) > 0 then tls_append grow tlsOpts WebhookCertificate h else (tlsOpts, h))"

definition main_metricsTLSOpts :: "(nat \<Rightarrow> nat) \<Rightarrow> flags \<Rightarrow> slice \<Rightarrow> tls_mem \<Rightarrow> slice \<times> tls_mem" where
  "main_metricsTLSOpts grow fl tlsOpts h =
     (if length (metricsCertPath fl) > 0 then tls_append grow tlsOpts MetricsCertificate h else (tlsOpts, h))"

record metrics_options =
  BindAddress :: string
  SecureServing :: bool
  Metrics_TLSOpts :: slice
  AuthFilter :: bool

definition main_metricsServerOptions :: "flags \<Rightarrow> slice \<Rightarrow> metrics_options" where
  "main_metricsServerOptions fl tlsOpts =
     \<lparr>BindAddress = metricsAddr fl, SecureServing = secureMetrics fl, Metrics_TLSOpts = tlsOpts, AuthFilter = secureMetrics fl\<rparr>"

text \<open>Options of the manager; durations are in nanoseconds.\<close>

record manager_options =
  mo_SyncPeriod :: nat
  mo_Metrics :: metrics_options
  mo_Webhook_TLSOpts :: slice
  mo_HealthProbeBindAddress :: string
  mo_LeaderElection :: bool
  mo_LeaderElectionID :: string
  mo_mem :: tls_mem

definition syncPeriod :: nat where
  "syncPeriod = 10 * 60 * 60 * 1000000000"

section \<open>The program\<close>

record ('w, 'e, 'cw, 'cfg, 'mgr) main_ops =
  filepath_Join :: "string \<Rightarrow> string \<Rightarrow> string"
  certwatcher_New :: "string \<Rightarrow> string \<Rightarrow> ('w, 'e, 'cw) act"
  GetConfigOrDie :: "('w, 'e, 'cfg) act"
  NewManager :: "'cfg \<Rightarrow> manager_options \<Rightarrow> ('w, 'e, 'mgr) act"
  DuckTypeReconciler_SetupWithManager :: "'mgr \<Rightarrow> ('w, 'e, unit) act"
  DuckType_SetupWebhookWithManager :: "'mgr \<Rightarrow> ('w, 'e, unit) act"
  mgr_Add :: "'mgr \<Rightarrow> 'cw \<Rightarrow> ('w, 'e, unit) act"
  mgr_AddHealthzCheck :: "'mgr \<Rightarrow> string \<Rightarrow> ('w, 'e, unit) act"
  mgr_AddReadyzCheck :: "'mgr \<Rightarrow> string \<Rightarrow> ('w, 'e, unit) act"
  mgr_Start :: "'mgr \<Rightarrow> ('w, 'e, unit) act"

text \<open>\<open>if err != nil { setupLog.Error(...); os.Exit(1) }\<close>\<close>

definition or_exit :: "('w, 'e, 'a) act \<Rightarrow> ('w, nat, 'a) act" where
  "or_exit = amap_err (\<lambda>_. 1)"

definition main_watcher ::
  "('w, 'e, 'cw, 'cfg, 'mgr) main_ops \<Rightarrow> string \<Rightarrow> string \<Rightarrow> string \<Rightarrow> ('w, nat, 'cw option) act" where
  "main_watcher Op path name key = (if length path > 0
     then abind (or_exit (certwatcher_New Op (filepath_Join Op path name) (filepath_Join Op path key))) (\<lambda>cw. areturn (Some cw))
     else areturn None)"

definition main_add :: "('w, 'e, 'cw, 'cfg, 'mgr) main_ops \<Rightarrow> 'mgr \<Rightarrow> 'cw option \<Rightarrow> ('w, nat, unit) act" where
  "main_add Op mgr watcher = (case watcher of None \<Rightarrow> areturn () | Some cw \<Rightarrow> or_exit (mgr_Add Op mgr cw))"

definition main_options :: "flags \<Rightarrow> metrics_options \<Rightarrow> slice \<Rightarrow> tls_mem \<Rightarrow> manager_options" where
  "main_options fl metrics webhookTLSOpts h = \<lparr>mo_SyncPeriod = syncPeriod, mo_Metrics = metrics, mo_Webhook_TLSOpts = webhookTLSOpts,
     mo_HealthProbeBindAddress = probeAddr fl, mo_LeaderElection = enableLeaderElection fl,
     mo_LeaderElectionID = ''356b570a.duck.reconciler.io'', mo_mem = h\<rparr>"

definition main_setup ::
  "('w, 'e, 'cw, 'cfg, 'mgr) main_ops \<Rightarrow> 'mgr \<Rightarrow> 'cw option \<Rightarrow> 'cw option \<Rightarrow> ('w, nat, unit) act" where
  "main_setup Op mgr metricsCertWatcher webhookCertWatcher =
     abind (or_exit (DuckTypeReconciler_SetupWithManager Op mgr)) (\<lambda>_.
     abind (or_exit (DuckType_SetupWebhookWithManager Op mgr)) (\<lambda>_.
     abind (main_add Op mgr metricsCertWatcher) (\<lambda>_.
     abind (main_add Op mgr webhookCertWatcher) (\<lambda>_.
     abind (or_exit (mgr_AddHealthzCheck Op mgr ''healthz'')) (\<lambda>_.
     abind (or_exit (mgr_AddReadyzCheck Op mgr ''readyz'')) (\<lambda>_.
     or_exit (mgr_Start Op mgr)))))))"

definition main :: "('w, 'e, 'cw, 'cfg, 'mgr) main_ops \<Rightarrow> (nat \<Rightarrow> nat) \<Rightarrow> tls_mem \<Rightarrow> flags \<Rightarrow> ('w, nat, unit) act" where
  "main Op grow h fl = (case main_tlsOpts grow fl h of (tlsOpts, h0) \<Rightarrow>
     abind (main_watcher Op (webhookCertPath fl) (webhookCertName fl) (webhookCertKey fl)) (\<lambda>webhookCertWatcher.
     case main_webhookTLSOpts grow fl tlsOpts h0 of (webhookTLSOpts, h1) \<Rightarrow>
     let metricsServerOptions = main_metricsServerOptions fl tlsOpts in
     abind (main_watcher Op (metricsCertPath fl) (metricsCertName fl) (metricsCertKey fl)) (\<lambda>metricsCertWatcher.
     case main_metricsTLSOpts grow fl (Metrics_TLSOpts metricsServerOptions) h1 of (metricsTLSOpts, h2) \<Rightarrow>
     abind (or_exit (GetConfigOrDie Op)) (\<lambda>cfg.
     abind (or_exit (NewManager Op cfg (main_options fl (metricsServerOptions\<lparr>Metrics_TLSOpts := metricsTLSOpts\<rparr>) webhookTLSOpts h2))) (\<lambda>mgr.
     main_setup Op mgr metricsCertWatcher webhookCertWatcher)))))"

text \<open>The package initialiser registers the types of four packages, and panics if one cannot be registered.\<close>

definition main_init ::
  "('s \<Rightarrow> (string, 's) result) \<Rightarrow> ('s \<Rightarrow> (string, 's) result) \<Rightarrow> ('s \<Rightarrow> (string, 's) result) \<Rightarrow> ('s \<Rightarrow> (string, 's) result)
     \<Rightarrow> ('s, unit, unit) act" where
  "main_init clientgoscheme apiextensionsv1 apiregistrationv1 ducksv1 =
     for_each (\<lambda>AddToScheme s. case AddToScheme s of Ok s' \<Rightarrow> (Ok (), s') | Err e \<Rightarrow> (Panic e, s) | Panic p \<Rightarrow> (Panic p, s))
       [clientgoscheme, apiextensionsv1, apiregistrationv1, ducksv1]"

section \<open>What a run calls\<close>

datatype event =
  CallNewWatcher string string | CallGetConfig | CallNewManager manager_options | CallSetupReconciler | CallSetupWebhook
  | CallAdd | CallAddHealthz string | CallAddReadyz string | CallStart

text \<open>Library calls that do not panic and are recorded in the order they are made.\<close>

definition recorded :: "('w \<Rightarrow> event list) \<Rightarrow> event \<Rightarrow> ('w, 'e, 'a) act \<Rightarrow> bool" where
  "recorded log ev m \<longleftrightarrow> (\<forall>w. log (snd (m w)) = log w @ [ev] \<and> (\<forall>p. fst (m w) \<noteq> Panic p))"

definition main_recorded :: "('w \<Rightarrow> event list) \<Rightarrow> ('w, 'e, 'cw, 'cfg, 'mgr) main_ops \<Rightarrow> bool" where
  "main_recorded log Op \<longleftrightarrow> (\<forall>c k. recorded log (CallNewWatcher c k) (certwatcher_New Op c k)) \<and> recorded log CallGetConfig (GetConfigOrDie Op)
     \<and> (\<forall>cfg opts. recorded log (CallNewManager opts) (NewManager Op cfg opts))
     \<and> (\<forall>mgr. recorded log CallSetupReconciler (DuckTypeReconciler_SetupWithManager Op mgr))
     \<and> (\<forall>mgr. recorded log CallSetupWebhook (DuckType_SetupWebhookWithManager Op mgr))
     \<and> (\<forall>mgr cw. recorded log CallAdd (mgr_Add Op mgr cw))
     \<and> (\<forall>mgr n. recorded log (CallAddHealthz n) (mgr_AddHealthzCheck Op mgr n))
     \<and> (\<forall>mgr n. recorded log (CallAddReadyz n) (mgr_AddReadyzCheck Op mgr n))
     \<and> (\<forall>mgr. recorded log CallStart (mgr_Start Op mgr))"

text \<open>
  A run that goes through a list of calls until one fails: it ends normally after all of them, and
  with exit code 1 after the call that failed.
\<close>

definition runs_through :: "('w \<Rightarrow> event list) \<Rightarrow> event list \<Rightarrow> ('a \<Rightarrow> bool) \<Rightarrow> ('w, nat, 'a) act \<Rightarrow> bool" where
  "runs_through log evs Q m \<longleftrightarrow> (\<forall>w. \<exists>k \<le> length evs. log (snd (m w)) = log w @ take k evs \<and>
     (case fst (m w) of Ok a \<Rightarrow> k = length evs \<and> Q a | Err c \<Rightarrow> c = 1 \<and> 0 < k | Panic p \<Rightarrow> False))"

lemma through_return: "Q a \<Longrightarrow> runs_through log [] Q (areturn a)"
  by (simp add: runs_through_def)

lemma through_call:
  assumes "recorded log ev m"
  shows "runs_through log [ev] (\<lambda>_. True) (or_exit m)"
  unfolding runs_through_def
proof
  fix w
  obtain r w' where m: "m w = (r, w')" by fastforce
  then have "log w' = log w @ [ev]" "\<And>p. r \<noteq> Panic p" using assms by (auto simp: recorded_def dest: spec [of _ w])
  then show "\<exists>k \<le> length [ev]. log (snd (or_exit m w)) = log w @ take k [ev] \<and>
      (case fst (or_exit m w) of Ok a \<Rightarrow> k = length [ev] \<and> True | Err c \<Rightarrow> c = 1 \<and> 0 < k | Panic p \<Rightarrow> False)"
    using m by (intro exI [of _ 1]) (auto simp: or_exit_def amap_err_def split: result.splits)
qed

lemma through_bind:
  assumes "runs_through log evs Q m" "\<And>a. Q a \<Longrightarrow> runs_through log evs' Q' (f a)"
  shows "runs_through log (evs @ evs') Q' (abind m f)"
  unfolding runs_through_def
proof
  fix w
  obtain r w1 where m: "m w = (r, w1)" by fastforce
  obtain k where k: "k \<le> length evs" "log w1 = log w @ take k evs"
      "case r of Ok a \<Rightarrow> k = length evs \<and> Q a | Err c \<Rightarrow> c = 1 \<and> 0 < k | Panic p \<Rightarrow> False"
    using assms(1) m unfolding runs_through_def by (metis fst_conv snd_conv)
  show "\<exists>k \<le> length (evs @ evs'). log (snd (abind m f w)) = log w @ take k (evs @ evs') \<and>
      (case fst (abind m f w) of Ok a \<Rightarrow> k = length (evs @ evs') \<and> Q' a | Err c \<Rightarrow> c = 1 \<and> 0 < k | Panic p \<Rightarrow> False)"
  proof (cases r)
    case (Ok a)
    then have "Q a" using k(3) by simp
    then obtain j where j: "j \<le> length evs'" "log (snd (f a w1)) = log w1 @ take j evs'"
        "case fst (f a w1) of Ok a \<Rightarrow> j = length evs' \<and> Q' a | Err c \<Rightarrow> c = 1 \<and> 0 < j | Panic p \<Rightarrow> False"
      using assms(2) unfolding runs_through_def by blast
    then show ?thesis
      using k m Ok by (intro exI [of _ "length evs + j"]) (auto simp: abind_def split: result.splits)
  next
    case (Err c)
    then show ?thesis using k m by (intro exI [of _ k]) (simp add: abind_def)
  qed (use k in simp)
qed

lemma through_next:
  "recorded log ev m \<Longrightarrow> (\<And>a. runs_through log evs Q (f a)) \<Longrightarrow> runs_through log (ev # evs) Q (abind (or_exit m) f)"
  using through_bind [OF through_call, of log ev m evs Q f] by simp

definition watcher_events :: "('w, 'e, 'cw, 'cfg, 'mgr) main_ops \<Rightarrow> string \<Rightarrow> string \<Rightarrow> string \<Rightarrow> event list" where
  "watcher_events Op path name key =
     (if path = [] then [] else [CallNewWatcher (filepath_Join Op path name) (filepath_Join Op path key)])"

definition final_options :: "(nat \<Rightarrow> nat) \<Rightarrow> tls_mem \<Rightarrow> flags \<Rightarrow> manager_options" where
  "final_options grow h fl = (case main_tlsOpts grow fl h of (t, h0) \<Rightarrow> case main_webhookTLSOpts grow fl t h0 of (wt, h1) \<Rightarrow>
     case main_metricsTLSOpts grow fl t h1 of (mt, h2) \<Rightarrow> main_options fl (main_metricsServerOptions fl mt) wt h2)"

definition main_events :: "('w, 'e, 'cw, 'cfg, 'mgr) main_ops \<Rightarrow> (nat \<Rightarrow> nat) \<Rightarrow> tls_mem \<Rightarrow> flags \<Rightarrow> event list" where
  "main_events Op grow h fl = watcher_events Op (webhookCertPath fl) (webhookCertName fl) (webhookCertKey fl)
     @ watcher_events Op (metricsCertPath fl) (metricsCertName fl) (metricsCertKey fl)
     @ [CallGetConfig, CallNewManager (final_options grow h fl), CallSetupReconciler, CallSetupWebhook]
     @ (if metricsCertPath fl = [] then [] else [CallAdd]) @ (if webhookCertPath fl = [] then [] else [CallAdd])
     @ [CallAddHealthz ''healthz'', CallAddReadyz ''readyz'', CallStart]"

lemma through_watcher:
  assumes "main_recorded log Op"
  shows "runs_through log (watcher_events Op path name key) (\<lambda>cw. (cw = None) = (path = [])) (main_watcher Op path name key)"
proof (cases "path = []")
  case False
  have "runs_through log ([CallNewWatcher (filepath_Join Op path name) (filepath_Join Op path key)] @ []) (\<lambda>cw. (cw = None) = (path = []))
      (abind (or_exit (certwatcher_New Op (filepath_Join Op path name) (filepath_Join Op path key))) (\<lambda>cw. areturn (Some cw)))"
    using assms False by (intro through_bind [OF through_call] through_return) (simp_all add: main_recorded_def)
  then show ?thesis using False by (simp add: watcher_events_def main_watcher_def)
qed (simp add: watcher_events_def main_watcher_def through_return)

lemma through_add:
  "main_recorded log Op \<Longrightarrow> (cw = None) = (path = []) \<Longrightarrow>
    runs_through log (if path = [] then [] else [CallAdd]) (\<lambda>_. True) (main_add Op mgr cw)"
  by (cases cw) (auto simp: main_add_def main_recorded_def intro: through_return through_call)

lemma through_setup:
  assumes "main_recorded log Op" "(mcw = None) = (mp = [])" "(wcw = None) = (wp = [])"
  shows "runs_through log (CallSetupReconciler # CallSetupWebhook # (if mp = [] then [] else [CallAdd]) @ (if wp = [] then [] else [CallAdd])
     @ [CallAddHealthz ''healthz'', CallAddReadyz ''readyz'', CallStart]) (\<lambda>_. True) (main_setup Op mgr mcw wcw)"
  unfolding main_setup_def
  by (intro through_next through_bind [OF through_add [OF assms(1,2)]] through_bind [OF through_add [OF assms(1,3)]] through_call)
    (use assms(1) in \<open>simp_all add: main_recorded_def\<close>)

lemma through_main:
  assumes "main_recorded log Op"
  shows "runs_through log (main_events Op grow h fl) (\<lambda>_. True) (main Op grow h fl)"
proof -
  obtain t h0 where t: "main_tlsOpts grow fl h = (t, h0)" by fastforce
  obtain wt h1 where w: "main_webhookTLSOpts grow fl t h0 = (wt, h1)" by fastforce
  obtain mt h2 where m: "main_metricsTLSOpts grow fl t h1 = (mt, h2)" by fastforce
  have opts: "final_options grow h fl = main_options fl ((main_metricsServerOptions fl t)\<lparr>Metrics_TLSOpts := mt\<rparr>) wt h2"
    by (simp add: final_options_def t w m main_metricsServerOptions_def)
  have rec: "recorded log CallGetConfig (GetConfigOrDie Op)" "\<And>cfg o'. recorded log (CallNewManager o') (NewManager Op cfg o')"
    using assms by (simp_all add: main_recorded_def)
  have tail: "runs_through log ([CallGetConfig, CallNewManager (final_options grow h fl), CallSetupReconciler, CallSetupWebhook]
      @ (if metricsCertPath fl = [] then [] else [CallAdd]) @ (if webhookCertPath fl = [] then [] else [CallAdd])
      @ [CallAddHealthz ''healthz'', CallAddReadyz ''readyz'', CallStart]) (\<lambda>_. True)
      (abind (or_exit (GetConfigOrDie Op)) (\<lambda>cfg. abind (or_exit (NewManager Op cfg
        (main_options fl ((main_metricsServerOptions fl t)\<lparr>Metrics_TLSOpts := mt\<rparr>) wt h2))) (\<lambda>mgr. main_setup Op mgr mcw wcw)))"
    if "(mcw = None) = (metricsCertPath fl = [])" "(wcw = None) = (webhookCertPath fl = [])" for mcw wcw
    using through_next [OF rec(1) through_next [OF rec(2) through_setup [OF assms that]]] by (simp add: opts)
  have same: "Metrics_TLSOpts (main_metricsServerOptions fl t) = t" by (simp add: main_metricsServerOptions_def)
  show ?thesis
    unfolding main_events_def main_def Let_def same t w m prod.case
    by (intro through_bind [OF through_watcher [OF assms]] tail)
qed

lemmas main_tls_defs = final_options_def main_tlsOpts_def main_webhookTLSOpts_def main_metricsTLSOpts_def tls_append_def
  slice_append_def halloc_def main_options_def main_metricsServerOptions_def slice_elems_def

section \<open>Properties\<close>


text \<open>Libraries over a world that is the list of calls, in which registering the webhook fails if asked to.\<close>

definition main_ref :: "bool \<Rightarrow> (event list, unit, unit, unit, unit) main_ops" where
  "main_ref webhook_fails = \<lparr>filepath_Join = (\<lambda>p n. p @ ''/'' @ n), certwatcher_New = (\<lambda>c k w. (Ok (), w @ [CallNewWatcher c k])),
     GetConfigOrDie = (\<lambda>w. (Ok (), w @ [CallGetConfig])), NewManager = (\<lambda>_ opts w. (Ok (), w @ [CallNewManager opts])),
     DuckTypeReconciler_SetupWithManager = (\<lambda>_ w. (Ok (), w @ [CallSetupReconciler])),
     DuckType_SetupWebhookWithManager = (\<lambda>_ w. (if webhook_fails then Err () else Ok (), w @ [CallSetupWebhook])),
     mgr_Add = (\<lambda>_ _ w. (Ok (), w @ [CallAdd])), mgr_AddHealthzCheck = (\<lambda>_ n w. (Ok (), w @ [CallAddHealthz n])),
     mgr_AddReadyzCheck = (\<lambda>_ n w. (Ok (), w @ [CallAddReadyz n])), mgr_Start = (\<lambda>_ w. (Ok (), w @ [CallStart]))\<rparr>"

lemma main_ref_recorded: "main_recorded (\<lambda>w. w) (main_ref b)"
  by (simp add: main_recorded_def recorded_def main_ref_def)

definition tls_mem_empty :: tls_mem where
  "tls_mem_empty = \<lparr>hp_cells = (\<lambda>_. []), hp_next = 0\<rparr>"


text \<open>
  Property C40.  TLS options of the servers.  Unless HTTP/2 is enabled both servers are limited to HTTP/1.1, whatever
  their configuration was.  The metrics server uses its own certificate exactly when a path is given.  So does the
  webhook server, provided that \<open>append\<close> leaves no spare capacity in a slice of one element: if it did, and
  both paths were given with HTTP/2 disabled, the webhook server would serve the certificate of the metrics
  server.
\<close>

theorem tls_options_of_servers:
  "slice_elems (\<lambda>xs. xs) (mo_mem (final_options grow h fl)) (Metrics_TLSOpts (mo_Metrics (final_options grow h fl))) =
      (if enableHTTP2 fl then [] else [DisableHTTP2]) @ (if metricsCertPath fl = [] then [] else [MetricsCertificate])
    \<and> slice_elems (\<lambda>xs. xs) (mo_mem (final_options grow h fl)) (mo_Webhook_TLSOpts (final_options grow h fl)) =
      (if enableHTTP2 fl then [] else [DisableHTTP2]) @ (if webhookCertPath fl = [] then []
        else if \<not> enableHTTP2 fl \<and> metricsCertPath fl \<noteq> [] \<and> 0 < grow 0 then [MetricsCertificate] else [WebhookCertificate])
    \<and> (let c1 = fold apply_tls_opt (slice_elems (\<lambda>xs. xs) (mo_mem (final_options grow h fl)) (mo_Webhook_TLSOpts (final_options grow h fl))) c;
          c2 = fold apply_tls_opt (slice_elems (\<lambda>xs. xs) (mo_mem (final_options grow h fl)) (Metrics_TLSOpts (mo_Metrics (final_options grow h fl)))) c
        in (NextProtos c1 = (if enableHTTP2 fl then NextProtos c else [''http/1.1'']))
         \<and> (NextProtos c2 = (if enableHTTP2 fl then NextProtos c else [''http/1.1''])))
    \<and> AuthFilter (mo_Metrics (final_options grow h fl)) = secureMetrics fl"
proof -
  have m: "slice_elems (\<lambda>xs. xs) (mo_mem (final_options grow h fl)) (Metrics_TLSOpts (mo_Metrics (final_options grow h fl))) =
      (if enableHTTP2 fl then [] else [DisableHTTP2]) @ (if metricsCertPath fl = [] then [] else [MetricsCertificate])"
    by (cases "grow 0") (simp_all add: main_tls_defs)
  have wh: "slice_elems (\<lambda>xs. xs) (mo_mem (final_options grow h fl)) (mo_Webhook_TLSOpts (final_options grow h fl)) =
      (if enableHTTP2 fl then [] else [DisableHTTP2]) @ (if webhookCertPath fl = [] then []
        else if \<not> enableHTTP2 fl \<and> metricsCertPath fl \<noteq> [] \<and> 0 < grow 0 then [MetricsCertificate] else [WebhookCertificate])"
    by (cases "grow 0") (simp_all add: main_tls_defs)
  have "AuthFilter (mo_Metrics (final_options grow h fl)) = secureMetrics fl"
    by (simp add: final_options_def main_options_def main_metricsServerOptions_def split: prod.splits)
  then show ?thesis unfolding m wh Let_def by simp
qed

end
