(* ===== verification/Spec2Isabelle.thy ===== *)
theory Spec2Isabelle
  imports Api_Webhooks Duck_Client Broker_Loop Broker_Informers Controller_DuckType Api_Dies Cmd_Main
begin

text \<open>
  Verification of \<open>reconciler.io/ducks\<close>: duck types for Kubernetes.

  \<^bold>\<open>The program.\<close>  A duck type (\<open>DuckType\<close>) describes a family of resources that share a shape; a duck
  (\<open>Duck\<close>) says that one resource kind of the cluster belongs to the family.  The API server stores both,
  after the admission webhooks of \<open>api/v1\<close> have defaulted and validated them.  The controller of
  \<open>internal/controller\<close> gives every duck type its roles, a custom resource definition for its ducks, and a
  sub-manager (\<open>reconcilers\<close>, \<open>internal/submanager\<close>), in which a second controller checks that each duck
  is served and marks it ready.  Other programs use the package \<open>client\<close>: a client that resolves a duck
  type to its ready ducks and operates on all of them, and a broker that publishes the events of all ducks
  of a type to its subscribers.  \<open>cmd/main.go\<close> puts the controller and the webhooks into a process.

  \<^bold>\<open>How Go is modelled.\<close>  \<open>Go_Prelude\<close>: a call ends in a value, an error or a panic (\<open>result\<close>), and an action
  (\<open>act\<close>) threads the state of the world; \<open>abind\<close> is the early return on an error, \<open>for_each\<close> a range loop
  that may return, \<open>alogged\<close> an error that is only logged.  Channels are bounded queues.  Structs are
  records with the fields of the source.  Goroutines are steps of an inductive relation, so that a
  statement about reachable states covers every interleaving.  \<open>Go_Heap\<close> adds memory where sharing matters:
  cells with addresses, slices as windows on backing arrays, pointers.

  Code of other modules is a parameter: a record of its operations.  What is relied on is a
  predicate on that record (\<open>schema_laws\<close>, \<open>condition_laws\<close>, \<open>lib_laws\<close>, \<open>aggregate_laws\<close>, \<open>tracking_laws\<close>,
  \<open>informer_laws\<close>, \<open>copy_laws\<close>, \<open>runtime_laws\<close>, \<open>dt_runtime_laws\<close>, \<open>tracker_returns\<close>, \<open>main_recorded\<close>), and
  for each there is an instance that satisfies it (\<open>schema_ref\<close>, \<open>cond_ref\<close>, \<open>libs_ref\<close>, \<open>agg_ref\<close>, \<open>demo_ops\<close>,
  \<open>informers_ref\<close>, \<open>copy_ref\<close>, \<open>runtime_ref\<close>, \<open>dt_runtime_ref\<close>, \<open>ctl_ref\<close>, \<open>main_ref\<close>), on which the
  witnesses evaluate the model.

  \<^bold>\<open>The theories.\<close>

  \<^item> \<open>Api_Types\<close>, \<open>Api_Lifecycle\<close> (\<open>duck_types.go\<close>, \<open>ducktype_types.go\<close>, \<open>groupversion_info.go\<close>,
    \<open>duck_lifecycle.go\<close>, \<open>ducktype_lifecycle.go\<close>): the API types and their conditions.  The lemmas say how
    marking a condition changes the conditions and the readiness of a status.

  \<^item> \<open>Api_Webhooks\<close> (\<open>duck_webhook.go\<close>, \<open>ducktype_webhook.go\<close>): defaulting and validation.  What is admitted,
    which errors are reported, and that admission is stable under the defaults.  The contract of a
    handler is the locale \<open>admission_handler\<close>, interpreted for both resources.

  \<^item> \<open>Go_Heap\<close>, \<open>Api_DeepCopy\<close> (\<open>zz_generated.deepcopy.go\<close>): the locale \<open>deep_copyable\<close> says what a deep copy
    promises; structs, slices and pointers inherit it, so the generated copies of ducks, duck types and
    their lists share no memory with their originals.

  \<^item> \<open>Die_Core\<close>, \<open>Api_Dies\<close> (\<open>zz_generated.die.go\<close>, \<open>duck_dies.go\<close>, \<open>ducktype_dies.go\<close>): builders for test
    resources.  The generated methods are written once over a \<open>die_kind\<close> and instantiated for the six
    types, by interpretations of \<open>die_store\<close> and \<open>plain_die_store\<close>.  Immutable dies persist, setters and
    \<open>DieWith\<close> agree, JSON goes round, condition dies update or append.  A die can still be changed through a
    slice its caller kept: \<open>shared_slice_changes_immutable_die\<close>.

  \<^item> \<open>Duck_Client\<close> (\<open>client/client.go\<close>): resolution and every operation of the client.  It selects exactly the
    ready matching ducks, normalises the version of an object, lists and deletes over all ducks, and
    tracks without changing what is read.  The locale \<open>duck_resolver\<close> is what the loops rely on.

  \<^item> \<open>Broker_Loop\<close> (\<open>client/broker.go\<close>, the type \<open>broker\<close>): the loop, its channels and its callers as a
    transition system.  Order, capacity and delivery are invariants (\<open>invariant_system\<close>), the broker refines
    an abstract lossy publish/subscribe service, and slow subscribers do not block it.

  \<^item> \<open>Broker_Informers\<close> (\<open>client/broker.go\<close>, the runnable of \<open>NewBroker\<close>): the informers of the ducks.  Handlers
    and tracked ducks correspond one to one, tracked ducks are those seen ready since their deletion, and
    a shutdown that succeeds releases every handler.

  \<^item> \<open>Sub_Cache\<close> (\<open>internal/submanager/submanager.go\<close>): the routing between a local and an upstream cache
    refines two separate caches (\<open>split_service\<close>).  \<open>Sub_Reconciler\<close> (\<open>reconcilers/submanager.go\<close>): the
    sub-managers of the resources as a transition system; one per resource, and a shutdown completes.

  \<^item> \<open>Controller_Roles\<close>, \<open>Controller_Crd\<close>, \<open>Controller_Ready\<close>, \<open>Controller_DuckType\<close>
    (\<open>internal/controller/ducktype_controller.go\<close>): the roles and what they grant, the definition and its
    schema, the availability check, and the two reconcilers composed from them.  \<open>child_manager\<close> is the
    contract of bringing a child in line, interpreted for both kinds of role and for the definition.

  \<^item> \<open>Cmd_Main\<close> (\<open>cmd/main.go\<close>): flags, options and the order of the setup, up to the exit code.

  \<^item> This theory composes the client with the controller: what the client resolves is served.

  \<^bold>\<open>Bounds and termination.\<close>  No definition uses fuel.  Every loop of the source that is not an event loop
  ranges over a list and is a structural recursion, so every operation is total.  The event loops of the
  broker and of the sub-managers are step relations; that they make progress is stated as the existence
  of steps.  The channels of the broker have the capacities of the source, 1 and 5.  Addresses are natural
  numbers, without a limit on memory.  The capacity that \<open>append\<close> leaves free is a parameter (\<open>grow\<close>).

  \<^bold>\<open>Not modelled.\<close>  Logging; registration of webhooks, watches and names with the builders of
  \<open>controller-runtime\<close>, which are single calls with constant arguments; parsing of flags and signals; the blank
  condition dies, constants of a library type; \<open>Scheme\<close>, \<open>RESTMapper\<close> and \<open>TrackedSource\<close>, which only forward.
  The deletion branch of a duck type under its finalizer is modelled from the sub-reconciler on, because the
  order in which finalizers are removed is decided by the runtime.  \<open>internal/testresources\<close> is a
  resource for tests with generated code of the kind modelled for \<open>api/v1\<close>.  The files under \<open>hack\<close> are blank
  imports.  Times of conditions and fields of library types that the sources never read are left out.
\<close>

section \<open>Properties that span components\<close>



end
